(* ===== verification/Paimon_Prelude.thy ===== *)
theory Paimon_Prelude
  imports Main "HOL-Library.Word" "HOL-Library.List_Lexorder" "HOL-Library.Char_ord"
begin

text \<open>
  The shared vocabulary of the development.

  \<^item> C++ exceptions are values of \<open>error\<close>, one constructor per exception class the
    sources throw; the string is a short form of the message. A function that can throw and
    has no effect returns \<open>'a res\<close>.
  \<^item> A function with effects is a \<open>('s, 'a) proc\<close>: it takes the state and returns
    its result or exception together with the state it leaves, because a C++ exception does not
    undo what was done before it.
  \<^item> \<open>std::map\<close> is an association list kept in ascending key order without
    duplicate keys: \<open>map_put\<close> is \<open>m[k] = v\<close>, \<open>map_emplace\<close> is
    \<open>m.emplace(k, v)\<close> (no overwrite), \<open>map_of\<close> is \<open>find\<close>. The locale
    \<open>ordered_map\<close> is the interface the components rely on.
  \<^item> \<open>idx_t\<close> is a 64-bit word; \<open>int64_t\<close> values that are only stored and
    compared are \<open>int\<close>.
\<close>

named_theorems res_simps \<open>elimination of results and procedures\<close>
named_theorems map_simps \<open>lookups in ordered maps\<close>

section \<open>Exceptions\<close>

datatype error =
    InvalidInputException string
  | SerializationException string
  | IOException string
  | TransactionException string
  | InternalException string
  | NotImplementedException string
  | PermissionException string
  | CatalogException string
  | UndefinedBehaviour string

type_synonym 'a res = "error + 'a"
type_synonym idx_t = "64 word"

abbreviation idx_max :: idx_t where
  "idx_max \<equiv> - 1"

abbreviation int64_max :: int where
  "int64_max \<equiv> 9223372036854775807"

abbreviation int64_min :: int where
  "int64_min \<equiv> - 9223372036854775808"

definition is_ok :: "'a res \<Rightarrow> bool" where
  "is_ok r = (case r of Inl _ \<Rightarrow> False | Inr _ \<Rightarrow> True)"

lemma is_ok_simps [simp]: "\<not> is_ok (Inl e)" "is_ok (Inr x)"
  by (simp_all add: is_ok_def)

fun res_bind :: "'a res \<Rightarrow> ('a \<Rightarrow> 'b res) \<Rightarrow> 'b res" where
  "res_bind (Inl e) f = Inl e"
| "res_bind (Inr x) f = f x"

definition throw_if :: "bool \<Rightarrow> error \<Rightarrow> unit res" where
  "throw_if c e = (if c then Inl e else Inr ())"

lemma throw_if_simps [simp]:
  "throw_if c e = Inr u \<longleftrightarrow> \<not> c"
  "throw_if c e = Inl e' \<longleftrightarrow> c \<and> e' = e"
  "throw_if False e = Inr ()"
  "throw_if True e = Inl e"
  by (auto simp: throw_if_def)

lemma res_bind_Inr [res_simps]:
  "res_bind r f = Inr y \<longleftrightarrow> (\<exists>x. r = Inr x \<and> f x = Inr y)"
  by (cases r) auto

lemma res_bind_Inl [res_simps]:
  "res_bind r f = Inl e \<longleftrightarrow> r = Inl e \<or> (\<exists>x. r = Inr x \<and> f x = Inl e)"
  by (cases r) auto

lemma res_bindE:
  assumes "res_bind r f = Inr y"
  obtains x where "r = Inr x" "f x = Inr y"
  using assms by (cases r) auto

lemma res_bind_throw_if [simp]:
  "res_bind (throw_if c e) f = (if c then Inl e else f ())"
  by (simp add: throw_if_def)

lemma res_bind_cong [fundef_cong]:
  "r = r' \<Longrightarrow> (\<And>x. r' = Inr x \<Longrightarrow> f x = g x) \<Longrightarrow> res_bind r f = res_bind r' g"
  by (cases r') auto

text \<open>A loop whose body only checks: it stops at the first exception.\<close>

fun res_all :: "('a \<Rightarrow> unit res) \<Rightarrow> 'a list \<Rightarrow> unit res" where
  "res_all f [] = Inr ()"
| "res_all f (x # xs) = res_bind (f x) (\<lambda>_. res_all f xs)"

lemma res_all_Inr [res_simps]: "res_all f xs = Inr u \<longleftrightarrow> (\<forall>x \<in> set xs. f x = Inr ())"
  by (induction xs) (auto simp: res_bind_Inr)

section \<open>Procedures\<close>

type_synonym ('s, 'a) proc = "'s \<Rightarrow> 'a res \<times> 's"

definition retP :: "'a \<Rightarrow> ('s, 'a) proc" where
  "retP x = (\<lambda>s. (Inr x, s))"

definition liftP :: "'a res \<Rightarrow> ('s, 'a) proc" where
  "liftP r = (\<lambda>s. (r, s))"

definition bindP :: "('s, 'a) proc \<Rightarrow> ('a \<Rightarrow> ('s, 'b) proc) \<Rightarrow> ('s, 'b) proc" where
  "bindP m f = (\<lambda>s. case m s of (Inl e, t) \<Rightarrow> (Inl e, t) | (Inr x, t) \<Rightarrow> f x t)"

text \<open>\<open>try { m } catch (...) { h; throw; }\<close>: the handler runs and the exception goes on.\<close>

definition rethrowP :: "('s, 'a) proc \<Rightarrow> ('s, unit) proc \<Rightarrow> ('s, 'a) proc" where
  "rethrowP m h = (\<lambda>s. case m s of (Inl e, t) \<Rightarrow> (Inl e, snd (h t)) | (Inr x, t) \<Rightarrow> (Inr x, t))"

lemma retP_apply [simp]: "retP x s = (Inr x, s)"
  by (simp add: retP_def)

lemma liftP_apply [simp]: "liftP r s = (r, s)"
  by (simp add: liftP_def)

lemma bindP_Inr_eq [simp]: "m s = (Inr x, t) \<Longrightarrow> bindP m f s = f x t"
  by (simp add: bindP_def)

lemma bindP_Inl_eq [simp]: "m s = (Inl e, t) \<Longrightarrow> bindP m f s = (Inl e, t)"
  by (simp add: bindP_def)

lemma bindP_liftP [simp]: "bindP (liftP (Inr x)) f = f x" "bindP (retP x) f = f x"
  by (auto simp: bindP_def)

lemma bindP_Inr [res_simps]:
  "bindP m f s = (Inr y, t) \<longleftrightarrow> (\<exists>x u. m s = (Inr x, u) \<and> f x u = (Inr y, t))"
  by (auto simp: bindP_def split: prod.splits sum.splits)

lemma bindP_Inl [res_simps]:
  "bindP m f s = (Inl e, t) \<longleftrightarrow>
     m s = (Inl e, t) \<or> (\<exists>x u. m s = (Inr x, u) \<and> f x u = (Inl e, t))"
  by (auto simp: bindP_def split: prod.splits sum.splits)

lemma bindPE:
  assumes "bindP m f s = (Inr y, t)"
  obtains x u where "m s = (Inr x, u)" "f x u = (Inr y, t)"
  using assms by (auto simp: bindP_Inr)

lemma fst_InrE:
  assumes "fst p = Inr x"
  obtains t where "p = (Inr x, t)"
  using assms by (cases p) auto

lemma rethrowP_Inr [res_simps]: "rethrowP m h s = (Inr x, t) \<longleftrightarrow> m s = (Inr x, t)"
  by (auto simp: rethrowP_def split: prod.splits sum.splits)

lemma rethrowP_Inl [res_simps]:
  "rethrowP m h s = (Inl e, t) \<longleftrightarrow> (\<exists>u. m s = (Inl e, u) \<and> t = snd (h u))"
  by (auto simp: rethrowP_def split: prod.splits sum.splits)

text \<open>\<open>keeps f m\<close>: whatever \<open>m\<close> does, and however it ends, the part \<open>f\<close> of the state stays as it was.\<close>

definition keeps :: "('s \<Rightarrow> 'b) \<Rightarrow> ('s, 'a) proc \<Rightarrow> bool" where
  "keeps f m \<longleftrightarrow> (\<forall>s. f (snd (m s)) = f s)"

named_theorems keeps_intros \<open>what the procedures leave alone\<close>

lemma keepsI: "(\<And>s. f (snd (m s)) = f s) \<Longrightarrow> keeps f m"
  by (simp add: keeps_def)

lemma keepsD: "keeps f m \<Longrightarrow> m s = (r, t) \<Longrightarrow> f t = f s"
  unfolding keeps_def by (metis snd_conv)

lemma keeps_pure [keeps_intros]: "keeps f (retP x)" "keeps f (liftP r)"
  by (simp_all add: keeps_def)

lemma keeps_bindP [keeps_intros]: "keeps f m \<Longrightarrow> (\<And>x. keeps f (g x)) \<Longrightarrow> keeps f (bindP m g)"
  unfolding keeps_def bindP_def by (auto split: prod.splits sum.splits) (metis snd_conv)+

lemma keeps_rethrowP [keeps_intros]: "keeps f m \<Longrightarrow> keeps f h \<Longrightarrow> keeps f (rethrowP m h)"
  unfolding keeps_def rethrowP_def by (auto split: prod.splits sum.splits) (metis snd_conv)+

lemma keeps_if [keeps_intros]:
  "(c \<Longrightarrow> keeps f m) \<Longrightarrow> (\<not> c \<Longrightarrow> keeps f n) \<Longrightarrow> keeps f (if c then m else n)"
  by simp

lemma keeps_case_option [keeps_intros]:
  "(x = None \<Longrightarrow> keeps f m) \<Longrightarrow> (\<And>y. x = Some y \<Longrightarrow> keeps f (g y)) \<Longrightarrow>
   keeps f (case x of None \<Rightarrow> m | Some y \<Rightarrow> g y)"
  by (cases x) auto

lemma keeps_case_sum [keeps_intros]:
  "(\<And>y. x = Inl y \<Longrightarrow> keeps f (g y)) \<Longrightarrow> (\<And>y. x = Inr y \<Longrightarrow> keeps f (h y)) \<Longrightarrow>
   keeps f (case x of Inl y \<Rightarrow> g y | Inr y \<Rightarrow> h y)"
  by (cases x) auto

section \<open>Ordered maps\<close>

type_synonym ('k, 'v) omap = "('k \<times> 'v) list"
type_synonym options = "(string, string) omap"

fun map_put :: "'k::linorder \<Rightarrow> 'v \<Rightarrow> ('k, 'v) omap \<Rightarrow> ('k, 'v) omap" where
  "map_put k v [] = [(k, v)]"
| "map_put k v ((k', v') # m) =
     (if k < k' then (k, v) # (k', v') # m
      else if k = k' then (k, v) # m
      else (k', v') # map_put k v m)"

definition map_emplace :: "'k::linorder \<Rightarrow> 'v \<Rightarrow> ('k, 'v) omap \<Rightarrow> ('k, 'v) omap" where
  "map_emplace k v m = (case map_of m k of None \<Rightarrow> map_put k v m | Some _ \<Rightarrow> m)"

text \<open>\<open>for (auto &e : from) m[e.first] = e.second;\<close>\<close>

definition map_put_all :: "('k::linorder, 'v) omap \<Rightarrow> ('k, 'v) omap \<Rightarrow> ('k, 'v) omap" where
  "map_put_all from m = fold (\<lambda>(k, v). map_put k v) from m"

abbreviation omap_wf :: "('k::linorder, 'v) omap \<Rightarrow> bool" where
  "omap_wf m \<equiv> sorted_wrt (<) (map fst m)"

lemma map_of_map_put [map_simps, simp]: "map_of (map_put k v m) = (map_of m)(k \<mapsto> v)"
  by (induction m) (auto simp: fun_eq_iff)

lemma fst_set_map_put: "fst ` set (map_put k v m) = insert k (fst ` set m)"
  by (induction k v m rule: map_put.induct) (simp_all add: insert_commute)

lemma omap_wf_map_put [simp, intro]: "omap_wf m \<Longrightarrow> omap_wf (map_put k v m)"
proof (induction m)
  case (Cons e m)
  have "\<forall>x \<in> fst ` set (map_put k v m). fst e < x" if "fst e < k"
    using Cons.prems that by (auto simp: fst_set_map_put)
  with Cons show ?case by (cases e) auto
qed simp

lemma map_of_map_emplace [map_simps, simp]:
  "map_of (map_emplace k v m) = (if k \<in> dom (map_of m) then map_of m else (map_of m)(k \<mapsto> v))"
  by (auto simp: map_emplace_def split: option.splits)

lemma omap_wf_map_emplace [simp, intro]: "omap_wf m \<Longrightarrow> omap_wf (map_emplace k v m)"
  by (auto simp: map_emplace_def split: option.splits)

text \<open>Two ordered maps with the same lookups are the same list, so map equality is list equality.\<close>

lemma omap_wf_distinct: "omap_wf m \<Longrightarrow> distinct (map fst m)"
  by (simp add: strict_sorted_iff)

lemma omap_eqI:
  assumes "omap_wf m" "omap_wf n" "map_of m = map_of n"
  shows "m = n"
proof -
  have d: "distinct (map fst m)" "distinct (map fst n)"
    using assms(1,2) by (simp_all add: omap_wf_distinct)
  then have s: "set m = set n"
    using assms(3) by (simp add: map_of_inject_set)
  have "inj_on fst (set m \<union> set n)"
    using d(1) s by (simp add: distinct_map)
  then show ?thesis
    using map_sorted_distinct_set_unique d s assms(1,2) strict_sorted_iff by blast
qed

text \<open>The interface the components use: what a lookup returns after an update.\<close>

locale ordered_map =
  fixes put :: "'k \<Rightarrow> 'v \<Rightarrow> 'm \<Rightarrow> 'm"
    and emplace :: "'k \<Rightarrow> 'v \<Rightarrow> 'm \<Rightarrow> 'm"
    and look :: "'m \<Rightarrow> 'k \<Rightarrow> 'v option"
    and wf_map :: "'m \<Rightarrow> bool"
  assumes look_put: "look (put k v m) = (look m)(k \<mapsto> v)"
    and look_emplace: "look (emplace k v m) = (if look m k = None then (look m)(k \<mapsto> v) else look m)"
    and wf_put: "wf_map m \<Longrightarrow> wf_map (put k v m)"
    and wf_emplace: "wf_map m \<Longrightarrow> wf_map (emplace k v m)"
begin

lemma look_fold_put: "look (fold (\<lambda>(k, v). put k v) es m) = look m ++ map_of (rev es)"
  by (induction es arbitrary: m) (auto simp: look_put)

lemma wf_fold_put: "wf_map m \<Longrightarrow> wf_map (fold (\<lambda>(k, v). put k v) es m)"
  by (induction es arbitrary: m) (auto simp: wf_put)

lemma emplace_absent: "look m k = None \<Longrightarrow> look (emplace k v m) k = Some v"
  by (simp add: look_emplace)

lemma emplace_present: "look m k = Some w \<Longrightarrow> look (emplace k v m) k = Some w"
  by (simp add: look_emplace)

end

interpretation std_map: ordered_map map_put map_emplace map_of omap_wf
  by unfold_locales (auto simp: dom_def)

lemma map_of_rev_distinct: "distinct (map fst es) \<Longrightarrow> map_of (rev es) = map_of es"
  by (simp add: map_of_inject_set rev_map [symmetric])

lemma map_of_map_put_all [map_simps]:
  "distinct (map fst from) \<Longrightarrow> map_of (map_put_all from m) = map_of m ++ map_of from"
  by (simp add: map_put_all_def std_map.look_fold_put map_of_rev_distinct)

lemma omap_wf_map_put_all [intro]: "omap_wf m \<Longrightarrow> omap_wf (map_put_all from m)"
  unfolding map_put_all_def by (rule std_map.wf_fold_put)

section \<open>Lists and strings\<close>

text \<open>\<open>std::unordered_set::insert(x).second\<close> over a list: whether every insertion was new.\<close>

fun all_new :: "'a set \<Rightarrow> 'a list \<Rightarrow> bool" where
  "all_new S [] = True"
| "all_new S (x # xs) = (x \<notin> S \<and> all_new (insert x S) xs)"

lemma all_new_iff: "all_new S xs \<longleftrightarrow> distinct xs \<and> set xs \<inter> S = {}"
  by (induction xs arbitrary: S) auto

text \<open>\<open>std::find(xs.begin(), xs.end(), x) - xs.begin()\<close>, None at the end.\<close>

fun find_index :: "'a \<Rightarrow> 'a list \<Rightarrow> nat option" where
  "find_index x [] = None"
| "find_index x (y # ys) = (if y = x then Some 0 else map_option Suc (find_index x ys))"

lemma find_index_Some: "find_index x xs = Some i \<Longrightarrow> i < length xs \<and> xs ! i = x"
  by (induction xs arbitrary: i) (auto split: if_splits)

lemma find_index_None [simp]: "find_index x xs = None \<longleftrightarrow> x \<notin> set xs"
  by (induction xs) auto

text \<open>\<open>std::to_string\<close>: the decimal digits, with a minus sign in front of a negative number.\<close>

definition digit_char :: "nat \<Rightarrow> char" where
  "digit_char d = char_of (48 + d)"

fun nat_to_string :: "nat \<Rightarrow> string" where
  "nat_to_string n = (if n < 10 then [digit_char n] else nat_to_string (n div 10) @ [digit_char (n mod 10)])"

declare nat_to_string.simps [simp del]

definition to_string :: "int \<Rightarrow> string" where
  "to_string i = (if i < 0 then CHR ''-'' # nat_to_string (nat (- i)) else nat_to_string (nat i))"

text \<open>Reading the digits back shows that distinct numbers print differently.\<close>

definition string_to_nat :: "string \<Rightarrow> nat" where
  "string_to_nat s = foldl (\<lambda>a c. 10 * a + (of_char c - 48)) 0 s"

lemma string_to_nat_to_string [simp]: "string_to_nat (nat_to_string n) = n"
proof (induction n rule: nat_to_string.induct)
  case (1 n)
  then show ?case
    by (subst nat_to_string.simps) (auto simp: string_to_nat_def digit_char_def)
qed

lemma nat_to_string_inj [simp]: "nat_to_string m = nat_to_string n \<longleftrightarrow> m = n"
  by (metis string_to_nat_to_string)

lemma digit_char_range: "d < 10 \<Longrightarrow> CHR ''0'' \<le> digit_char d \<and> digit_char d \<le> CHR ''9''"
  by (simp add: digit_char_def less_eq_char_def)

lemma nat_to_string_digits:
  "nat_to_string n \<noteq> [] \<and> (\<forall>c \<in> set (nat_to_string n). CHR ''0'' \<le> c \<and> c \<le> CHR ''9'') \<and>
    (0 < n \<longrightarrow> hd (nat_to_string n) \<noteq> CHR ''0'') \<and> (n = 0 \<longrightarrow> nat_to_string n = ''0'')"
proof (induction n rule: nat_to_string.induct)
  case (1 n)
  have "of_char (digit_char n) = 48 + n" if "n < 10"
    using that by (simp add: digit_char_def)
  then have "digit_char n \<noteq> CHR ''0''" if "0 < n" "n < 10"
    using that by auto
  moreover have "digit_char 0 = CHR ''0''"
    by code_simp
  ultimately show ?case
    using 1 digit_char_range [of n] digit_char_range [of "n mod 10"]
    by (cases "n < 10") (auto simp: nat_to_string.simps [of n] nat_to_string.simps [of 0])
qed

section \<open>Wire formats\<close>

text \<open>
  What every message of the distributed protocols promises: the sender's bytes of an acceptable
  value are not empty and are read back as that value. Bytes therefore identify values.
\<close>

locale wire_format =
  fixes acceptable :: "'a \<Rightarrow> bool"
    and enc :: "'a \<Rightarrow> string res"
    and dec :: "string \<Rightarrow> 'a res"
  assumes dec_enc: "acceptable x \<Longrightarrow> \<exists>b. enc x = Inr b \<and> b \<noteq> [] \<and> dec b = Inr x"
begin

lemma read_back: "acceptable x \<Longrightarrow> enc x = Inr b \<Longrightarrow> b \<noteq> [] \<and> dec b = Inr x"
  using dec_enc [of x] by auto

lemma bytes_identify: "acceptable x \<Longrightarrow> acceptable y \<Longrightarrow> enc x = enc y \<longleftrightarrow> x = y"
  using dec_enc [of x] dec_enc [of y] by auto

end

section \<open>Lists and sums\<close>

lemma find_append: "find P (xs @ ys) = (case find P xs of None \<Rightarrow> find P ys | Some x \<Rightarrow> Some x)"
  by (induction xs) auto

lemma sum_upd:
  fixes f :: "'i \<Rightarrow> 'a :: comm_monoid_add"
  assumes "finite A" "j \<in> A" "\<And>i. i \<noteq> j \<Longrightarrow> f' i = f i"
  shows "sum f' A + f j = sum f A + f' j"
proof -
  have "sum f' (A - {j}) = sum f (A - {j})"
    using assms(3) by (intro sum.cong) auto
  then show ?thesis
    using assms(1,2) by (simp add: sum.remove [of A j] ac_simps)
qed

end
