(* ===== verification/Paimon_Types.thy ===== *)
theory Paimon_Types
  imports Paimon_Prelude "HOL-Library.Signed_Division"
begin

unbundle bit_operations_syntax

text \<open>
  Component \<^verbatim>\<open>src/src/paimon_storage/paimon_type_utils.cpp\<close>: the conversion of
  DuckDB types and constants to Paimon field types and literals.

  DuckDB's \<open>LogicalType\<close> and \<open>Value\<close> are code outside the repository. They are
  records of what the sources observe of them: one field per accessor that is called
  (\<open>val_timestamp v\<close> is \<open>v.GetValue<timestamp_t>().value\<close>, \<open>val_raw64 v\<close> is
  \<open>v.GetValueUnsafe<int64_t>()\<close>, and so on). \<open>Hugeint::Convert\<close> is the parameter
  \<open>hconv\<close>. Signed 64-bit arithmetic is done on \<open>int\<close> with every overflow, which is
  undefined in C++, an \<open>UndefinedBehaviour\<close> result.
\<close>

section \<open>Types and values\<close>

datatype LogicalTypeId =
    LT_INVALID | LT_BOOLEAN | LT_TINYINT | LT_SMALLINT | LT_INTEGER | LT_BIGINT | LT_FLOAT
  | LT_DOUBLE | LT_VARCHAR | LT_BLOB | LT_TIMESTAMP | LT_TIMESTAMP_TZ | LT_TIMESTAMP_MS
  | LT_TIMESTAMP_SEC | LT_TIMESTAMP_NS | LT_DECIMAL | LT_DATE | LT_OTHER nat

datatype PhysicalType = PT_INT16 | PT_INT32 | PT_INT64 | PT_INT128 | PT_OTHER nat

record LogicalType =
  lt_id :: LogicalTypeId
  lt_width :: nat
  lt_scale :: nat
  lt_internal :: PhysicalType

record hugeint =
  hi_upper :: "64 word"
  hi_lower :: "64 word"

record Value =
  val_type :: LogicalType
  val_null :: bool
  val_to_string :: string
  val_bool :: bool
  val_i8 :: int
  val_i16 :: int
  val_i32 :: int
  val_i64 :: int
  val_float :: "32 word"
  val_double :: "64 word"
  val_get_string :: string
  val_timestamp :: int
  val_raw16 :: int
  val_raw32 :: int
  val_raw64 :: int
  val_rawhuge :: hugeint

datatype FieldType =
    FT_BOOLEAN | FT_TINYINT | FT_SMALLINT | FT_INT | FT_BIGINT | FT_FLOAT | FT_DOUBLE
  | FT_STRING | FT_BINARY | FT_TIMESTAMP | FT_DECIMAL | FT_DATE | FT_UNKNOWN

datatype Literal =
    LitBool bool | LitTinyint int | LitSmallint int | LitInt int | LitBigint int
  | LitFloat "32 word" | LitDouble "64 word" | LitString string | LitDate int
  | LitTimestamp int int \<comment> \<open>\<open>Timestamp::FromEpochMillis(millis, nano_of_millis)\<close>\<close>
  | LitDecimal nat nat int \<comment> \<open>width, scale, unscaled value\<close>

section \<open>Conversion\<close>

definition ConvertFieldType :: "LogicalType \<Rightarrow> FieldType" where
  "ConvertFieldType type = (case lt_id type of
       LT_BOOLEAN \<Rightarrow> FT_BOOLEAN
     | LT_TINYINT \<Rightarrow> FT_TINYINT
     | LT_SMALLINT \<Rightarrow> FT_SMALLINT
     | LT_INTEGER \<Rightarrow> FT_INT
     | LT_BIGINT \<Rightarrow> FT_BIGINT
     | LT_FLOAT \<Rightarrow> FT_FLOAT
     | LT_DOUBLE \<Rightarrow> FT_DOUBLE
     | LT_VARCHAR \<Rightarrow> FT_STRING
     | LT_BLOB \<Rightarrow> FT_BINARY
     | LT_TIMESTAMP \<Rightarrow> FT_TIMESTAMP
     | LT_TIMESTAMP_TZ \<Rightarrow> FT_TIMESTAMP
     | LT_TIMESTAMP_MS \<Rightarrow> FT_TIMESTAMP
     | LT_TIMESTAMP_SEC \<Rightarrow> FT_TIMESTAMP
     | LT_TIMESTAMP_NS \<Rightarrow> FT_TIMESTAMP
     | LT_DECIMAL \<Rightarrow> FT_DECIMAL
     | LT_DATE \<Rightarrow> FT_DATE
     | _ \<Rightarrow> FT_UNKNOWN)"

text \<open>The value of a signed 64-bit expression, undefined when it overflows.\<close>

definition i64 :: "int \<Rightarrow> int res" where
  "i64 x = (if int64_min \<le> x \<and> x \<le> int64_max then Inr x
            else Inl (UndefinedBehaviour ''signed overflow''))"

text \<open>
  \<open>q / d - (q % d < 0 ? 1 : 0)\<close> and the remainder \<open>q - millis * d\<close>, with C++'s
  division, which truncates towards zero.
\<close>

definition floor_millis :: "int \<Rightarrow> int \<Rightarrow> int" where
  "floor_millis q d = q sdiv d - (if q smod d < 0 then 1 else 0)"

definition timestamp_parts :: "Value \<Rightarrow> (int \<times> int) res" where
  "timestamp_parts value = (case lt_id (val_type value) of
       LT_TIMESTAMP_MS \<Rightarrow> Inr (val_timestamp value, 0)
     | LT_TIMESTAMP_SEC \<Rightarrow> res_bind (i64 (val_timestamp value * 1000)) (\<lambda>millis. Inr (millis, 0))
     | LT_TIMESTAMP_NS \<Rightarrow>
         (let nanos = val_timestamp value; millis = floor_millis nanos 1000000
          in res_bind (i64 (millis * 1000000)) (\<lambda>base. Inr (millis, nanos - base)))
     | _ \<Rightarrow>
         (let micros = val_timestamp value; millis = floor_millis micros 1000
          in res_bind (i64 (millis * 1000)) (\<lambda>base. Inr (millis, (micros - base) * 1000))))"

definition decimal_raw :: "hugeint \<Rightarrow> int" where
  "decimal_raw h = sint (push_bit 64 (scast (hi_upper h)) OR ucast (hi_lower h) :: 128 word)"

definition decimal_hugeint :: "(int \<Rightarrow> hugeint) \<Rightarrow> Value \<Rightarrow> hugeint option" where
  "decimal_hugeint hconv value = (case lt_internal (val_type value) of
       PT_INT16 \<Rightarrow> Some (hconv (val_raw16 value))
     | PT_INT32 \<Rightarrow> Some (hconv (val_raw32 value))
     | PT_INT64 \<Rightarrow> Some (hconv (val_raw64 value))
     | PT_INT128 \<Rightarrow> Some (val_rawhuge value)
     | _ \<Rightarrow> None)"

definition ConvertLiteral :: "(int \<Rightarrow> hugeint) \<Rightarrow> Value \<Rightarrow> FieldType \<Rightarrow> Literal option res" where
  "ConvertLiteral hconv value field_type =
     (if val_null value then Inl (IOException ''literal cannot be NULL'')
      else case field_type of
        FT_BOOLEAN \<Rightarrow> Inr (Some (LitBool (val_bool value)))
      | FT_TINYINT \<Rightarrow> Inr (Some (LitTinyint (val_i8 value)))
      | FT_SMALLINT \<Rightarrow> Inr (Some (LitSmallint (val_i16 value)))
      | FT_INT \<Rightarrow> Inr (Some (LitInt (val_i32 value)))
      | FT_BIGINT \<Rightarrow> Inr (Some (LitBigint (val_i64 value)))
      | FT_FLOAT \<Rightarrow> Inr (Some (LitFloat (val_float value)))
      | FT_DOUBLE \<Rightarrow> Inr (Some (LitDouble (val_double value)))
      | FT_STRING \<Rightarrow> Inr (Some (LitString (val_get_string value)))
      | FT_DATE \<Rightarrow> Inr (Some (LitDate (val_i32 value)))
      | FT_TIMESTAMP \<Rightarrow>
          res_bind (timestamp_parts value) (\<lambda>(millis, nano). Inr (Some (LitTimestamp millis nano)))
      | FT_DECIMAL \<Rightarrow> Inr (map_option
            (\<lambda>h. LitDecimal (lt_width (val_type value)) (lt_scale (val_type value)) (decimal_raw h))
            (decimal_hugeint hconv value))
      | _ \<Rightarrow> Inr None)"

section \<open>Timestamps\<close>

text \<open>The instant a DuckDB timestamp denotes, in nanoseconds since the epoch, by its unit.\<close>

definition instant_nanos :: "Value \<Rightarrow> int" where
  "instant_nanos v = (case lt_id (val_type v) of
       LT_TIMESTAMP_MS \<Rightarrow> val_timestamp v * 1000000
     | LT_TIMESTAMP_SEC \<Rightarrow> val_timestamp v * 1000000000
     | LT_TIMESTAMP_NS \<Rightarrow> val_timestamp v
     | _ \<Rightarrow> val_timestamp v * 1000)"

lemma floor_millis_div:
  assumes "0 < d"
  shows "floor_millis q d = q div d"
proof (cases "sgn q \<noteq> sgn d \<and> \<not> d dvd q")
  case True
  moreover have "q mod d < d" using assms by simp
  ultimately show ?thesis
    using assms
    by (simp add: floor_millis_def signed_divide_int_eq_divide_int signed_modulo_int_eq_modulo_int)
next
  case False
  moreover have "0 \<le> q mod d" using assms by simp
  ultimately show ?thesis
    by (simp add: floor_millis_def signed_divide_int_eq_divide_int signed_modulo_int_eq_modulo_int
        flip: dvd_eq_mod_eq_0) (auto simp: not_less)
qed

lemma i64_Inr [res_simps]: "i64 x = Inr y \<longleftrightarrow> y = x \<and> int64_min \<le> x \<and> x \<le> int64_max"
  by (auto simp: i64_def)

lemma timestamp_parts_exact:
  assumes "timestamp_parts v = Inr (ms, ns)"
  shows "ms * 1000000 + ns = instant_nanos v \<and> 0 \<le> ns \<and> ns < 1000000"
proof -
  have m: "q - q div d * d = q mod d" for q d :: int by (simp add: minus_div_mult_eq_mod)
  show ?thesis
    using assms
    by (auto simp: timestamp_parts_def instant_nanos_def Let_def res_simps floor_millis_div m
        split: LogicalTypeId.splits)
qed

text \<open>
  The values on which no intermediate product leaves the 64-bit range. It leaves out less than a
  millisecond at the bottom of the range, and seconds whose milliseconds do not fit.
\<close>

definition timestamp_in_range :: "Value \<Rightarrow> bool" where
  "timestamp_in_range v \<longleftrightarrow>
     int64_min + 999999 \<le> val_timestamp v \<and> val_timestamp v \<le> int64_max \<and>
     (lt_id (val_type v) = LT_TIMESTAMP_SEC \<longrightarrow> \<bar>val_timestamp v\<bar> \<le> 9223372036854775)"

lemma div_mult_bounds:
  fixes q d :: int
  assumes "0 < d"
  shows "q - d < q div d * d" "q div d * d \<le> q"
  using assms pos_mod_bound [of d q] pos_mod_sign [of d q] minus_div_mult_eq_mod [of q d] by linarith+

lemma timestamp_parts_ok:
  assumes "timestamp_in_range v"
  shows "\<exists>ms ns. timestamp_parts v = Inr (ms, ns)"
proof -
  let ?t = "val_timestamp v"
  have b: "?t - 1000000 < ?t div 1000000 * 1000000" "?t div 1000000 * 1000000 \<le> ?t"
    "?t - 1000 < ?t div 1000 * 1000" "?t div 1000 * 1000 \<le> ?t"
    by (rule div_mult_bounds; simp)+
  then have "i64 (?t div 1000000 * 1000000) = Inr (?t div 1000000 * 1000000)"
    "i64 (?t div 1000 * 1000) = Inr (?t div 1000 * 1000)"
    "lt_id (val_type v) = LT_TIMESTAMP_SEC \<Longrightarrow> i64 (?t * 1000) = Inr (?t * 1000)"
    using assms unfolding timestamp_in_range_def i64_Inr by linarith+
  then show ?thesis
    by (auto simp: timestamp_parts_def Let_def floor_millis_div split: LogicalTypeId.splits)
qed

section \<open>Decimals\<close>

definition hugeint_value :: "hugeint \<Rightarrow> int" where
  "hugeint_value h = sint (hi_upper h) * 2 ^ 64 + uint (hi_lower h)"

text \<open>What \<open>Hugeint::Convert\<close> promises: it keeps the value of a 64-bit integer.\<close>

definition hugeint_convert_ok :: "(int \<Rightarrow> hugeint) \<Rightarrow> bool" where
  "hugeint_convert_ok hconv \<longleftrightarrow>
     (\<forall>x. int64_min \<le> x \<longrightarrow> x \<le> int64_max \<longrightarrow> hugeint_value (hconv x) = x)"

lemma shift_or_eq_plus:
  "push_bit 64 (scast (u :: 64 word)) OR ucast (l :: 64 word) =
     (of_int (sint u * 2 ^ 64 + uint l) :: 128 word)"
proof -
  have "push_bit 64 (scast u :: 128 word) AND ucast l = 0"
    by (rule bit_word_eqI) (auto simp: bit_simps dest: bit_imp_le_length)
  then have "push_bit 64 (scast u :: 128 word) OR ucast l = push_bit 64 (scast u) + ucast l"
    by (simp add: disjunctive_add_eq_or)
  also have "\<dots> = of_int (sint u * 2 ^ 64 + uint l)"
    by (simp only: push_bit_eq_mult scast_eq ucast_eq of_int_add of_int_mult of_int_power
        of_int_numeral)
  finally show ?thesis .
qed

lemma hugeint_bounds:
  fixes x y :: int
  assumes "- (2 ^ 63) \<le> x" "x < 2 ^ 63" "0 \<le> y" "y < 2 ^ 64"
  shows "- (2 ^ 127) \<le> x * 2 ^ 64 + y" "x * 2 ^ 64 + y < 2 ^ 127"
  using assms by simp_all

lemma decimal_raw_value: "decimal_raw h = hugeint_value h"
proof -
  have "- (2 ^ 63) \<le> sint (hi_upper h)" "sint (hi_upper h) < 2 ^ 63"
    "0 \<le> uint (hi_lower h)" "uint (hi_lower h) < 2 ^ 64"
    using sint_range_size [of "hi_upper h"] uint_range_size [of "hi_lower h"]
    by (simp_all add: word_size)
  then have "- (2 ^ 127) \<le> hugeint_value h" "hugeint_value h < 2 ^ 127"
    unfolding hugeint_value_def by (rule hugeint_bounds)+
  then show ?thesis
    unfolding decimal_raw_def shift_or_eq_plus hugeint_value_def [symmetric]
    by (simp add: signed_of_int signed_take_bit_int_eq_self)
qed

text \<open>The unscaled integer a non-null DECIMAL value stores, by its physical type.\<close>

definition decimal_unscaled :: "Value \<Rightarrow> int option" where
  "decimal_unscaled v = (case lt_internal (val_type v) of
       PT_INT16 \<Rightarrow> Some (val_raw16 v)
     | PT_INT32 \<Rightarrow> Some (val_raw32 v)
     | PT_INT64 \<Rightarrow> Some (val_raw64 v)
     | PT_INT128 \<Rightarrow> Some (hugeint_value (val_rawhuge v))
     | _ \<Rightarrow> None)"

definition raw_in_range :: "Value \<Rightarrow> bool" where
  "raw_in_range v \<longleftrightarrow>
     - 32768 \<le> val_raw16 v \<and> val_raw16 v \<le> 32767 \<and>
     - 2147483648 \<le> val_raw32 v \<and> val_raw32 v \<le> 2147483647 \<and>
     int64_min \<le> val_raw64 v \<and> val_raw64 v \<le> int64_max"

section \<open>Properties\<close>

text \<open>
  C37. On every non-null timestamp constant in range the conversion succeeds, whatever the unit
  of the DuckDB type; the Paimon literal denotes exactly the same instant and its nanosecond part
  is within a millisecond, also before the epoch.
\<close>

theorem ConvertLiteral_timestamp_exact:
  assumes "\<not> val_null v" and "timestamp_in_range v"
  shows "\<exists>ms ns. ConvertLiteral hconv v FT_TIMESTAMP = Inr (Some (LitTimestamp ms ns)) \<and>
    ms * 1000000 + ns = instant_nanos v \<and> 0 \<le> ns \<and> ns < 1000000"
proof -
  obtain ms ns where p: "timestamp_parts v = Inr (ms, ns)"
    using timestamp_parts_ok [OF assms(2)] by blast
  then show ?thesis
    using assms(1) timestamp_parts_exact [OF p] by (simp add: ConvertLiteral_def)
qed

theorem ConvertLiteral_timestamp_exact_witness:
  "\<exists>ms ns. ConvertLiteral (\<lambda>_. \<lparr>hi_upper = 0, hi_lower = 0\<rparr>)
      \<lparr>val_type = \<lparr>lt_id = LT_TIMESTAMP, lt_width = 0, lt_scale = 0, lt_internal = PT_INT64\<rparr>,
       val_null = False, val_to_string = [], val_bool = False, val_i8 = 0, val_i16 = 0, val_i32 = 0,
       val_i64 = 0, val_float = 0, val_double = 0, val_get_string = [], val_timestamp = - 1,
       val_raw16 = 0, val_raw32 = 0, val_raw64 = 0, val_rawhuge = \<lparr>hi_upper = 0, hi_lower = 0\<rparr>\<rparr>
      FT_TIMESTAMP = Inr (Some (LitTimestamp ms ns)) \<and>
    ms * 1000000 + ns = - 1000 \<and> 0 \<le> ns \<and> ns < 1000000"
  using ConvertLiteral_timestamp_exact [of
      "\<lparr>val_type = \<lparr>lt_id = LT_TIMESTAMP, lt_width = 0, lt_scale = 0, lt_internal = PT_INT64\<rparr>,
       val_null = False, val_to_string = [], val_bool = False, val_i8 = 0, val_i16 = 0, val_i32 = 0,
       val_i64 = 0, val_float = 0, val_double = 0, val_get_string = [], val_timestamp = - 1,
       val_raw16 = 0, val_raw32 = 0, val_raw64 = 0, val_rawhuge = \<lparr>hi_upper = 0, hi_lower = 0\<rparr>\<rparr>"
      "\<lambda>_. \<lparr>hi_upper = 0, hi_lower = 0\<rparr>"]
  by (simp add: timestamp_in_range_def instant_nanos_def)

end
