(* ===== verification/Paimon_Bind.thy ===== *)
theory Paimon_Bind
  imports Paimon_Types "HOL-Library.Sublist"
begin

text \<open>
  The data shared by the scan components: \<open>PaimonTablePath\<close> with its parser
  (\<^verbatim>\<open>src/src/paimon_functions.cpp\<close>), and the bind data of a scan with its
  distributed state (\<^verbatim>\<open>src/src/include/paimon_scan.hpp\<close>).

  \<open>'p\<close> is the type of Paimon predicates and \<open>'s\<close> that of Paimon splits. DuckDB's
  \<open>StringUtil::EndsWith\<close> and Paimon's \<open>Catalog::DB_SUFFIX\<close> are parameters.
\<close>

section \<open>Table paths\<close>

record PaimonTablePath =
  warehouse :: string
  dbname :: string
  tablename :: string

text \<open>\<open>std::string::find_last_of\<close>, \<open>None\<close> for \<open>npos\<close>.\<close>

fun find_last_of :: "char \<Rightarrow> string \<Rightarrow> nat option" where
  "find_last_of c [] = None"
| "find_last_of c (x # xs) =
     (case find_last_of c xs of Some i \<Rightarrow> Some (Suc i) | None \<Rightarrow> if x = c then Some 0 else None)"

definition Parse :: "(string \<Rightarrow> string \<Rightarrow> bool) \<Rightarrow> string \<Rightarrow> Value list \<Rightarrow> PaimonTablePath res" where
  "Parse ends_with db_suffix inputs =
     (case inputs of
        [] \<Rightarrow> Inl (InvalidInputException ''warehouse path'')
      | [whole] \<Rightarrow>
          (let whole_path = val_to_string whole in
           case find_last_of CHR ''/'' whole_path of
             None \<Rightarrow> Inl (InvalidInputException ''missing slash'')
           | Some last_slash \<Rightarrow>
               (let table = drop (last_slash + 1) whole_path;
                    whole_path = take last_slash whole_path;
                    (dbname_raw, house) = (case find_last_of CHR ''/'' whole_path of
                        None \<Rightarrow> (whole_path, whole_path)
                      | Some i \<Rightarrow> (drop (i + 1) whole_path, take i whole_path))
                in if \<not> ends_with dbname_raw db_suffix
                   then Inl (InvalidInputException ''database path'')
                   else Inr \<lparr>warehouse = house,
                     dbname = take (length dbname_raw - length db_suffix) dbname_raw,
                     tablename = table\<rparr>))
      | [_, _] \<Rightarrow> Inl (InternalException ''vector index'')
      | w # d # t # _ \<Rightarrow> Inr \<lparr>warehouse = val_to_string w, dbname = val_to_string d,
          tablename = val_to_string t\<rparr>)"

lemma find_last_of_None: "find_last_of c s = None \<longleftrightarrow> c \<notin> set s"
  by (induction s) (auto split: option.splits)

lemma find_last_of_append:
  "c \<notin> set t \<Longrightarrow> find_last_of c (s @ c # t) = Some (length s)"
  by (induction s) (auto simp: find_last_of_None split: option.splits)

section \<open>Bind data of a scan\<close>

datatype PaimonDistributedScanPhase =
  COORDINATOR | DISTRIBUTED_COORDINATOR | WORKER_TEMPLATE | WORKER_ASSIGNED

record 's PaimonDistributedScanState =
  ds_phase :: PaimonDistributedScanPhase
  ds_split_set_id :: string
  ds_has_snapshot :: bool
  ds_snapshot_id :: int
  ds_schema_id :: int
  ds_append_only :: bool
  ds_return_types :: "LogicalType list"
  ds_return_names :: "string list"
  ds_portable_options :: options
  ds_assigned_splits :: "'s list"

record ArrowTableSchema =
  arrow_names :: "string list"
  arrow_types :: "LogicalType list"

record ('p, 's) PaimonScanBindData =
  bd_path :: PaimonTablePath
  bd_table_data_path :: string
  bd_paimon_options :: options
  bd_arrow_table :: ArrowTableSchema
  bd_predicates :: "'p option"
  bd_part_keys :: "string list"
  bd_part_filters :: "options list"
  bd_debug_expected_splits :: "idx_t option"
  bd_table_schema_json :: string
  bd_distributed :: "'s PaimonDistributedScanState"

definition empty_path :: PaimonTablePath where
  "empty_path = \<lparr>warehouse = [], dbname = [], tablename = []\<rparr>"

definition initial_scan_state :: "'s PaimonDistributedScanState" where
  "initial_scan_state = \<lparr>ds_phase = COORDINATOR, ds_split_set_id = [], ds_has_snapshot = False,
     ds_snapshot_id = 0, ds_schema_id = - 1, ds_append_only = False, ds_return_types = [],
     ds_return_names = [], ds_portable_options = [], ds_assigned_splits = []\<rparr>"

text \<open>\<open>make_uniq<PaimonScanBindData>()\<close>: the member initialisers.\<close>

definition empty_bind :: "('p, 's) PaimonScanBindData" where
  "empty_bind = \<lparr>bd_path = empty_path, bd_table_data_path = [], bd_paimon_options = [],
     bd_arrow_table = \<lparr>arrow_names = [], arrow_types = []\<rparr>, bd_predicates = None,
     bd_part_keys = [], bd_part_filters = [], bd_debug_expected_splits = None,
     bd_table_schema_json = [], bd_distributed = initial_scan_state\<rparr>"

section \<open>Properties\<close>

definition blank_value :: Value where
  "blank_value = \<lparr>val_type = \<lparr>lt_id = LT_VARCHAR, lt_width = 0, lt_scale = 0, lt_internal = PT_INT64\<rparr>,
     val_null = False, val_to_string = [], val_bool = False, val_i8 = 0, val_i16 = 0, val_i32 = 0,
     val_i64 = 0, val_float = 0, val_double = 0, val_get_string = [], val_timestamp = 0,
     val_raw16 = 0, val_raw32 = 0, val_raw64 = 0, val_rawhuge = \<lparr>hi_upper = 0, hi_lower = 0\<rparr>\<rparr>"

text \<open>
  Parsing a full path gives back the warehouse, database and table it was made of, whatever
  slashes the warehouse itself contains, when \<open>EndsWith\<close> is the suffix test and neither name
  has a slash.
\<close>

theorem Parse_full_path:
  assumes "\<And>s t. ends_with s t \<longleftrightarrow> suffix t s"
    and "CHR ''/'' \<notin> set db" and "CHR ''/'' \<notin> set db_suffix" and "CHR ''/'' \<notin> set t"
    and "val_to_string v = w @ CHR ''/'' # (db @ db_suffix) @ CHR ''/'' # t"
  shows "Parse ends_with db_suffix [v] = Inr \<lparr>warehouse = w, dbname = db, tablename = t\<rparr>"
proof -
  let ?head = "w @ CHR ''/'' # db @ db_suffix"
  have "find_last_of CHR ''/'' (val_to_string v) = Some (length ?head)"
    using find_last_of_append [OF assms(4), of ?head] assms(5) by simp
  moreover have "find_last_of CHR ''/'' ?head = Some (length w)"
    using find_last_of_append [of "CHR ''/''" "db @ db_suffix" w] assms(2,3) by simp
  moreover have "take (length ?head) (val_to_string v) = ?head"
    "drop (length ?head + 1) (val_to_string v) = t"
    using assms(5) by simp_all
  ultimately show ?thesis
    by (simp add: Parse_def assms(1) Let_def suffixI)
qed

theorem Parse_full_path_witness:
  "Parse (\<lambda>s t. suffix t s) ''.db'' [blank_value\<lparr>val_to_string := ''/data/testdb.db/testtbl''\<rparr>] =
     Inr \<lparr>warehouse = ''/data'', dbname = ''testdb'', tablename = ''testtbl''\<rparr>"
  by (rule Parse_full_path) (simp_all add: blank_value_def)

text \<open>
  A path without a directory in front of the database loses its warehouse: the database
  directory itself is taken for the warehouse, so the database is looked up inside itself.
\<close>

theorem Parse_relative_database:
  assumes "ends_with (db @ db_suffix) db_suffix"
    and "CHR ''/'' \<notin> set db" and "CHR ''/'' \<notin> set db_suffix" and "CHR ''/'' \<notin> set t"
    and "val_to_string v = (db @ db_suffix) @ CHR ''/'' # t"
  shows "Parse ends_with db_suffix [v] =
    Inr \<lparr>warehouse = db @ db_suffix, dbname = db, tablename = t\<rparr>"
proof -
  have "find_last_of CHR ''/'' (val_to_string v) = Some (length (db @ db_suffix))"
    using find_last_of_append [OF assms(4)] assms(5) by metis
  moreover have "find_last_of CHR ''/'' (db @ db_suffix) = None"
    using assms(2,3) by (simp add: find_last_of_None)
  moreover have "take (length (db @ db_suffix)) (val_to_string v) = db @ db_suffix"
    "drop (length (db @ db_suffix) + 1) (val_to_string v) = t"
    using assms(5) by simp_all
  ultimately show ?thesis
    using assms(1) by (simp add: Parse_def Let_def)
qed

theorem Parse_relative_database_witness:
  "Parse (\<lambda>s t. suffix t s) ''.db'' [blank_value\<lparr>val_to_string := ''testdb.db/testtbl''\<rparr>] =
     Inr \<lparr>warehouse = ''testdb.db'', dbname = ''testdb'', tablename = ''testtbl''\<rparr>"
  using Parse_relative_database [of "\<lambda>s t. suffix t s" "''testdb''" "''.db''" "''testtbl''"
      "blank_value\<lparr>val_to_string := ''testdb.db/testtbl''\<rparr>"]
  by (simp add: suffix_def)

end
