(* ===== verification/Paimon_Pushdown.thy ===== *)
theory Paimon_Pushdown
  imports Paimon_Bind
begin

text \<open>
  Component \<^verbatim>\<open>src/src/paimon_storage/paimon_scan.cpp\<close>, filter pushdown: the
  translation of DuckDB's bound filter expressions into Paimon predicates
  (\<open>TryConvert...\<close>) and into partition filters (\<open>TryExtract...\<close>), and the
  callback \<open>PaimonPushdownFilter\<close> that stores both in the bind data.

  Code outside the repository appears as parameters: the predicates are a type variable
  \<open>'p\<close> built by the record \<open>'p predicate_builder\<close> of \<open>paimon::PredicateBuilder\<close>'s
  functions, a failing builder call is \<open>Inl status\<close>; \<open>flip\<close> is
  \<open>FlipComparisonExpression\<close>; \<open>get\<close> is the part of \<open>LogicalGet\<close> that is
  read. A null \<open>shared_ptr<Predicate>\<close> is \<open>None\<close>. Reading a DuckDB vector out of
  range throws an \<open>InternalException\<close>.

  The theory \<open>Pushdown_Correct\<close> compares both translations with the SQL meaning of the
  filters.
\<close>

section \<open>Bound expressions and predicate builder\<close>

datatype ExpressionType =
    COMPARE_EQUAL | COMPARE_NOTEQUAL | COMPARE_LESSTHAN | COMPARE_LESSTHANOREQUALTO
  | COMPARE_GREATERTHAN | COMPARE_GREATERTHANOREQUALTO | COMPARE_IN | COMPARE_NOT_IN
  | OPERATOR_IS_NULL | OPERATOR_IS_NOT_NULL | OPERATOR_NOT | CONJUNCTION_AND | CONJUNCTION_OR
  | ET_OTHER nat

datatype Expression =
    BOUND_COLUMN_REF nat
  | BOUND_CONSTANT Value
  | BOUND_COMPARISON ExpressionType Expression Expression
  | BOUND_CONJUNCTION ExpressionType "Expression list"
  | BOUND_BETWEEN Expression Expression Expression bool bool
  | BOUND_OPERATOR ExpressionType "Expression list"
  | BOUND_FUNCTION string "Expression list"
  | OTHER_EXPRESSION nat

record LogicalGet =
  get_column_ids :: "nat list"
  get_column_type :: "nat \<Rightarrow> LogicalType"
  get_column_name :: "nat \<Rightarrow> string"

type_synonym 'p leaf_builder = "nat \<Rightarrow> string \<Rightarrow> FieldType \<Rightarrow> Literal \<Rightarrow> 'p"

record 'p predicate_builder =
  pb_Equal :: "'p leaf_builder"
  pb_NotEqual :: "'p leaf_builder"
  pb_LessThan :: "'p leaf_builder"
  pb_LessOrEqual :: "'p leaf_builder"
  pb_GreaterThan :: "'p leaf_builder"
  pb_GreaterOrEqual :: "'p leaf_builder"
  pb_IsNull :: "nat \<Rightarrow> string \<Rightarrow> FieldType \<Rightarrow> 'p"
  pb_IsNotNull :: "nat \<Rightarrow> string \<Rightarrow> FieldType \<Rightarrow> 'p"
  pb_In :: "nat \<Rightarrow> string \<Rightarrow> FieldType \<Rightarrow> Literal list \<Rightarrow> 'p"
  pb_NotIn :: "nat \<Rightarrow> string \<Rightarrow> FieldType \<Rightarrow> Literal list \<Rightarrow> 'p"
  pb_StartsWith :: "(string + 'p) leaf_builder"
  pb_EndsWith :: "(string + 'p) leaf_builder"
  pb_Contains :: "(string + 'p) leaf_builder"
  pb_Like :: "(string + 'p) leaf_builder"
  pb_And :: "'p list \<Rightarrow> string + 'p"
  pb_Or :: "'p list \<Rightarrow> string + 'p"
  pb_Not :: "'p \<Rightarrow> string + 'p"

text \<open>\<open>result.ok() ? result.value() : nullptr\<close>\<close>

definition ok_or_null :: "string + 'p \<Rightarrow> 'p option" where
  "ok_or_null r = (case r of Inl _ \<Rightarrow> None | Inr p \<Rightarrow> Some p)"

lemma ok_or_null_Some [simp]: "ok_or_null r = Some p \<longleftrightarrow> r = Inr p"
  by (auto simp: ok_or_null_def split: sum.splits)

text \<open>\<open>get.GetColumnIds()[binding.column_index]\<close>\<close>

definition column_id :: "LogicalGet \<Rightarrow> nat \<Rightarrow> nat res" where
  "column_id get c =
     (if c < length (get_column_ids get) then Inr (get_column_ids get ! c)
      else Inl (InternalException ''vector index''))"

section \<open>Conversion to predicates\<close>

definition is_supported_comparison :: "ExpressionType \<Rightarrow> bool" where
  "is_supported_comparison t \<longleftrightarrow> t \<in> {COMPARE_EQUAL, COMPARE_NOTEQUAL, COMPARE_LESSTHAN,
     COMPARE_LESSTHANOREQUALTO, COMPARE_GREATERTHAN, COMPARE_GREATERTHANOREQUALTO}"

definition comparison_predicate :: "'p predicate_builder \<Rightarrow> ExpressionType \<Rightarrow>
    nat \<Rightarrow> string \<Rightarrow> FieldType \<Rightarrow> Literal \<Rightarrow> 'p option" where
  "comparison_predicate pb t i n ft l = (case t of
       COMPARE_EQUAL \<Rightarrow> Some (pb_Equal pb i n ft l)
     | COMPARE_NOTEQUAL \<Rightarrow> Some (pb_NotEqual pb i n ft l)
     | COMPARE_LESSTHAN \<Rightarrow> Some (pb_LessThan pb i n ft l)
     | COMPARE_LESSTHANOREQUALTO \<Rightarrow> Some (pb_LessOrEqual pb i n ft l)
     | COMPARE_GREATERTHAN \<Rightarrow> Some (pb_GreaterThan pb i n ft l)
     | COMPARE_GREATERTHANOREQUALTO \<Rightarrow> Some (pb_GreaterOrEqual pb i n ft l)
     | _ \<Rightarrow> None)"

definition convert_column_constant :: "(int \<Rightarrow> hugeint) \<Rightarrow> 'p predicate_builder \<Rightarrow> LogicalGet \<Rightarrow>
    ExpressionType \<Rightarrow> nat \<Rightarrow> Value \<Rightarrow> 'p option res" where
  "convert_column_constant hconv pb get t c val =
     res_bind (column_id get c) (\<lambda>col_idx.
       let paimon_type = ConvertFieldType (get_column_type get col_idx)
       in res_bind (ConvertLiteral hconv val paimon_type) (\<lambda>literal. case literal of
            None \<Rightarrow> Inr None
          | Some l \<Rightarrow> Inr (comparison_predicate pb t col_idx (get_column_name get col_idx)
              paimon_type l)))"

definition TryConvertComparison :: "(int \<Rightarrow> hugeint) \<Rightarrow> (ExpressionType \<Rightarrow> ExpressionType) \<Rightarrow>
    'p predicate_builder \<Rightarrow> LogicalGet \<Rightarrow> ExpressionType \<Rightarrow> Expression \<Rightarrow> Expression \<Rightarrow> 'p option res" where
  "TryConvertComparison hconv flip pb get t left right =
     (if \<not> is_supported_comparison t then Inr None
      else case (left, right) of
        (BOUND_COLUMN_REF c, BOUND_CONSTANT v) \<Rightarrow> convert_column_constant hconv pb get t c v
      | (BOUND_CONSTANT v, BOUND_COLUMN_REF c) \<Rightarrow> convert_column_constant hconv pb get (flip t) c v
      | _ \<Rightarrow> Inr None)"

definition TryConvertBetween :: "(int \<Rightarrow> hugeint) \<Rightarrow> 'p predicate_builder \<Rightarrow> LogicalGet \<Rightarrow>
    Expression \<Rightarrow> Expression \<Rightarrow> Expression \<Rightarrow> bool \<Rightarrow> bool \<Rightarrow> 'p option res" where
  "TryConvertBetween hconv pb get input lower upper lower_inclusive upper_inclusive =
     (case (input, lower, upper) of
        (BOUND_COLUMN_REF c, BOUND_CONSTANT lo, BOUND_CONSTANT hi) \<Rightarrow>
          res_bind (column_id get c) (\<lambda>col_idx.
            let paimon_type = ConvertFieldType (get_column_type get col_idx);
                n = get_column_name get col_idx
            in res_bind (ConvertLiteral hconv lo paimon_type) (\<lambda>lower_literal.
               res_bind (ConvertLiteral hconv hi paimon_type) (\<lambda>upper_literal.
                 case (lower_literal, upper_literal) of
                   (Some l, Some u) \<Rightarrow>
                     Inr (ok_or_null (pb_And pb
                       [if lower_inclusive then pb_GreaterOrEqual pb col_idx n paimon_type l
                        else pb_GreaterThan pb col_idx n paimon_type l,
                        if upper_inclusive then pb_LessOrEqual pb col_idx n paimon_type u
                        else pb_LessThan pb col_idx n paimon_type u]))
                 | _ \<Rightarrow> Inr None)))
      | _ \<Rightarrow> Inr None)"

text \<open>
  The loop over the IN list: \<open>None\<close> is the early \<open>return nullptr\<close> of IN; NOT IN skips
  what it cannot convert.
\<close>

fun in_list_literals :: "(int \<Rightarrow> hugeint) \<Rightarrow> FieldType \<Rightarrow> ExpressionType \<Rightarrow> Expression list \<Rightarrow>
    Literal list option res" where
  "in_list_literals hconv ft t [] = Inr (Some [])"
| "in_list_literals hconv ft t (e # es) =
     (case e of
        BOUND_CONSTANT v \<Rightarrow>
          res_bind (ConvertLiteral hconv v ft) (\<lambda>literal. case literal of
            None \<Rightarrow> (if t = COMPARE_NOT_IN then in_list_literals hconv ft t es else Inr None)
          | Some l \<Rightarrow> res_bind (in_list_literals hconv ft t es) (\<lambda>ls. Inr (map_option ((#) l) ls)))
      | _ \<Rightarrow> (if t = COMPARE_NOT_IN then in_list_literals hconv ft t es else Inr None))"

definition convert_column_operator :: "(int \<Rightarrow> hugeint) \<Rightarrow> 'p predicate_builder \<Rightarrow> LogicalGet \<Rightarrow>
    ExpressionType \<Rightarrow> nat \<Rightarrow> Expression list \<Rightarrow> 'p option res" where
  "convert_column_operator hconv pb get t c rest =
     res_bind (column_id get c) (\<lambda>col_idx.
       let paimon_type = ConvertFieldType (get_column_type get col_idx);
           n = get_column_name get col_idx
       in case t of
            OPERATOR_IS_NULL \<Rightarrow> Inr (Some (pb_IsNull pb col_idx n paimon_type))
          | OPERATOR_IS_NOT_NULL \<Rightarrow> Inr (Some (pb_IsNotNull pb col_idx n paimon_type))
          | _ \<Rightarrow>
              res_bind (in_list_literals hconv paimon_type t rest) (\<lambda>literals. case literals of
                None \<Rightarrow> Inr None
              | Some ls \<Rightarrow>
                  if ls = [] then Inr None
                  else if t = COMPARE_IN then Inr (Some (pb_In pb col_idx n paimon_type ls))
                  else Inr (Some (pb_NotIn pb col_idx n paimon_type ls))))"

datatype PushdownFunction = PF_PREFIX | PF_SUFFIX | PF_CONTAINS | PF_LIKE | PF_UNSUPPORTED

definition ClassifyFunction :: "string \<Rightarrow> PushdownFunction" where
  "ClassifyFunction n =
     (if n = ''prefix'' then PF_PREFIX
      else if n = ''suffix'' then PF_SUFFIX
      else if n = ''contains'' then PF_CONTAINS
      else if n = ''~~'' then PF_LIKE
      else PF_UNSUPPORTED)"

definition function_predicate :: "'p predicate_builder \<Rightarrow> PushdownFunction \<Rightarrow>
    nat \<Rightarrow> string \<Rightarrow> FieldType \<Rightarrow> Literal \<Rightarrow> 'p option" where
  "function_predicate pb f i n ft l = (case f of
       PF_PREFIX \<Rightarrow> ok_or_null (pb_StartsWith pb i n ft l)
     | PF_SUFFIX \<Rightarrow> ok_or_null (pb_EndsWith pb i n ft l)
     | PF_CONTAINS \<Rightarrow> ok_or_null (pb_Contains pb i n ft l)
     | PF_LIKE \<Rightarrow> ok_or_null (pb_Like pb i n ft l)
     | PF_UNSUPPORTED \<Rightarrow> None)"

definition TryConvertFunction :: "(int \<Rightarrow> hugeint) \<Rightarrow> 'p predicate_builder \<Rightarrow> LogicalGet \<Rightarrow>
    string \<Rightarrow> Expression list \<Rightarrow> 'p option res" where
  "TryConvertFunction hconv pb get name children =
     (if ClassifyFunction name = PF_UNSUPPORTED then Inr None
      else case children of
        [] \<Rightarrow> Inl (InternalException ''vector index'')
      | BOUND_COLUMN_REF c # args \<Rightarrow>
          res_bind (column_id get c) (\<lambda>col_idx.
            let paimon_type = ConvertFieldType (get_column_type get col_idx)
            in if paimon_type \<noteq> FT_STRING then Inr None
               else case args of
                 [] \<Rightarrow> Inl (InternalException ''vector index'')
               | BOUND_CONSTANT v # _ \<Rightarrow>
                   res_bind (ConvertLiteral hconv v paimon_type) (\<lambda>literal. case literal of
                     None \<Rightarrow> Inr None
                   | Some l \<Rightarrow> Inr (function_predicate pb (ClassifyFunction name) col_idx
                       (get_column_name get col_idx) paimon_type l))
               | _ \<Rightarrow> Inr None)
      | _ \<Rightarrow> Inr None)"

text \<open>
  The recursion. \<open>TryConvertChildren\<close> is the loop of \<open>TryConvertConjunction\<close>: its
  \<open>None\<close> is the early \<open>return nullptr\<close> of a disjunction.
\<close>

fun TryConvertExpression :: "(int \<Rightarrow> hugeint) \<Rightarrow> (ExpressionType \<Rightarrow> ExpressionType) \<Rightarrow>
    'p predicate_builder \<Rightarrow> LogicalGet \<Rightarrow> Expression \<Rightarrow> 'p option res"
  and TryConvertChildren :: "(int \<Rightarrow> hugeint) \<Rightarrow> (ExpressionType \<Rightarrow> ExpressionType) \<Rightarrow>
    'p predicate_builder \<Rightarrow> LogicalGet \<Rightarrow> ExpressionType \<Rightarrow> Expression list \<Rightarrow> 'p list option res" where
  "TryConvertExpression hconv flip pb get (BOUND_COMPARISON t l r) =
     TryConvertComparison hconv flip pb get t l r"
| "TryConvertExpression hconv flip pb get (BOUND_CONJUNCTION t children) =
     res_bind (TryConvertChildren hconv flip pb get t children) (\<lambda>predicates. case predicates of
         None \<Rightarrow> Inr None
       | Some [] \<Rightarrow> Inr None
       | Some ps \<Rightarrow>
           if t = CONJUNCTION_AND then Inr (ok_or_null (pb_And pb ps))
           else if t = CONJUNCTION_OR then Inr (ok_or_null (pb_Or pb ps))
           else Inr None)"
| "TryConvertExpression hconv flip pb get (BOUND_BETWEEN input lower upper li ui) =
     TryConvertBetween hconv pb get input lower upper li ui"
| "TryConvertExpression hconv flip pb get (BOUND_OPERATOR t children) =
     (if t \<notin> {COMPARE_IN, COMPARE_NOT_IN, OPERATOR_IS_NULL, OPERATOR_IS_NOT_NULL, OPERATOR_NOT}
      then Inr None
      else case children of
        [] \<Rightarrow> Inl (InternalException ''vector index'')
      | child # rest \<Rightarrow>
          if t = OPERATOR_NOT then
            res_bind (TryConvertExpression hconv flip pb get child) (\<lambda>child_pred. case child_pred of
              None \<Rightarrow> Inr None
            | Some p \<Rightarrow> Inr (ok_or_null (pb_Not pb p)))
          else case child of
            BOUND_COLUMN_REF c \<Rightarrow> convert_column_operator hconv pb get t c rest
          | _ \<Rightarrow> Inr None)"
| "TryConvertExpression hconv flip pb get (BOUND_FUNCTION name children) =
     TryConvertFunction hconv pb get name children"
| "TryConvertExpression hconv flip pb get (BOUND_COLUMN_REF c) = Inr None"
| "TryConvertExpression hconv flip pb get (BOUND_CONSTANT v) = Inr None"
| "TryConvertExpression hconv flip pb get (OTHER_EXPRESSION k) = Inr None"
| "TryConvertChildren hconv flip pb get t [] = Inr (Some [])"
| "TryConvertChildren hconv flip pb get t (child # children) =
     res_bind (TryConvertExpression hconv flip pb get child) (\<lambda>pred. case pred of
         Some p \<Rightarrow> res_bind (TryConvertChildren hconv flip pb get t children)
           (\<lambda>ps. Inr (map_option ((#) p) ps))
       | None \<Rightarrow>
           if t = CONJUNCTION_OR then Inr None
           else TryConvertChildren hconv flip pb get t children)"

text \<open>
  \<open>TryConvertOperator\<close> and \<open>TryConvertConjunction\<close> are mutually recursive with \<open>TryConvertExpression\<close>, whose equations above have
  their bodies in place; as functions of their own they are:
\<close>

definition TryConvertOperator :: "(int \<Rightarrow> hugeint) \<Rightarrow> (ExpressionType \<Rightarrow> ExpressionType) \<Rightarrow> 'p predicate_builder \<Rightarrow> LogicalGet \<Rightarrow>
    ExpressionType \<Rightarrow> Expression list \<Rightarrow> 'p option res" where
  "TryConvertOperator hconv flip pb get t children =
     (if t \<notin> {COMPARE_IN, COMPARE_NOT_IN, OPERATOR_IS_NULL, OPERATOR_IS_NOT_NULL, OPERATOR_NOT}
      then Inr None
      else case children of
        [] \<Rightarrow> Inl (InternalException ''vector index'')
      | child # rest \<Rightarrow>
          if t = OPERATOR_NOT then
            res_bind (TryConvertExpression hconv flip pb get child) (\<lambda>child_pred. case child_pred of
              None \<Rightarrow> Inr None
            | Some p \<Rightarrow> Inr (ok_or_null (pb_Not pb p)))
          else case child of
            BOUND_COLUMN_REF c \<Rightarrow> convert_column_operator hconv pb get t c rest
          | _ \<Rightarrow> Inr None)"

definition TryConvertConjunction :: "(int \<Rightarrow> hugeint) \<Rightarrow> (ExpressionType \<Rightarrow> ExpressionType) \<Rightarrow> 'p predicate_builder \<Rightarrow> LogicalGet \<Rightarrow>
    ExpressionType \<Rightarrow> Expression list \<Rightarrow> 'p option res" where
  "TryConvertConjunction hconv flip pb get t children =
     res_bind (TryConvertChildren hconv flip pb get t children) (\<lambda>predicates. case predicates of
         None \<Rightarrow> Inr None
       | Some [] \<Rightarrow> Inr None
       | Some ps \<Rightarrow>
           if t = CONJUNCTION_AND then Inr (ok_or_null (pb_And pb ps))
           else if t = CONJUNCTION_OR then Inr (ok_or_null (pb_Or pb ps))
           else Inr None)"

lemma TryConvertExpression_dispatch:
  "TryConvertExpression hconv flip pb get (BOUND_OPERATOR t children) = TryConvertOperator hconv flip pb get t children"
  "TryConvertExpression hconv flip pb get (BOUND_CONJUNCTION t children) = TryConvertConjunction hconv flip pb get t children"
  by (simp_all only: TryConvertExpression.simps TryConvertOperator_def TryConvertConjunction_def)

section \<open>Partition filters\<close>

text \<open>
  The result is whether something was extracted, with the filter map as it was left.
  \<open>TryExtractConjuncts\<close> is the loop over the children of an AND.
\<close>

definition extract_equality :: "LogicalGet \<Rightarrow> string set \<Rightarrow> nat \<Rightarrow> Value \<Rightarrow> options \<Rightarrow>
    (bool \<times> options) res" where
  "extract_equality get part_keys c val part_filter =
     res_bind (column_id get c) (\<lambda>col_idx.
       let col_name = get_column_name get col_idx
       in if col_name \<notin> part_keys then Inr (False, part_filter)
          else if val_null val then Inr (False, part_filter)
          else Inr (True, map_put col_name (val_to_string val) part_filter))"

fun TryExtractPartitionFilter :: "LogicalGet \<Rightarrow> string set \<Rightarrow> Expression \<Rightarrow> options \<Rightarrow>
    (bool \<times> options) res"
  and TryExtractConjuncts :: "LogicalGet \<Rightarrow> string set \<Rightarrow> Expression list \<Rightarrow> bool \<Rightarrow> options \<Rightarrow>
    (bool \<times> options) res" where
  "TryExtractPartitionFilter get part_keys (BOUND_COMPARISON t l r) part_filter =
     (if t \<noteq> COMPARE_EQUAL then Inr (False, part_filter)
      else case (l, r) of
        (BOUND_COLUMN_REF c, BOUND_CONSTANT v) \<Rightarrow> extract_equality get part_keys c v part_filter
      | (BOUND_CONSTANT v, BOUND_COLUMN_REF c) \<Rightarrow> extract_equality get part_keys c v part_filter
      | _ \<Rightarrow> Inr (False, part_filter))"
| "TryExtractPartitionFilter get part_keys (BOUND_CONJUNCTION t children) part_filter =
     (if t \<noteq> CONJUNCTION_AND then Inr (False, part_filter)
      else TryExtractConjuncts get part_keys children False part_filter)"
| "TryExtractPartitionFilter get part_keys (BOUND_COLUMN_REF c) part_filter = Inr (False, part_filter)"
| "TryExtractPartitionFilter get part_keys (BOUND_CONSTANT v) part_filter = Inr (False, part_filter)"
| "TryExtractPartitionFilter get part_keys (BOUND_BETWEEN a b c d e) part_filter = Inr (False, part_filter)"
| "TryExtractPartitionFilter get part_keys (BOUND_OPERATOR t cs) part_filter = Inr (False, part_filter)"
| "TryExtractPartitionFilter get part_keys (BOUND_FUNCTION n cs) part_filter = Inr (False, part_filter)"
| "TryExtractPartitionFilter get part_keys (OTHER_EXPRESSION k) part_filter = Inr (False, part_filter)"
| "TryExtractConjuncts get part_keys [] matched part_filter = Inr (matched, part_filter)"
| "TryExtractConjuncts get part_keys (child # children) matched part_filter =
     res_bind (TryExtractPartitionFilter get part_keys child part_filter) (\<lambda>(m, pf).
       TryExtractConjuncts get part_keys children (matched \<or> m) pf)"

text \<open>The loop over the disjuncts: \<open>None\<close> is the early \<open>return {}\<close>.\<close>

fun extract_disjuncts :: "LogicalGet \<Rightarrow> string set \<Rightarrow> Expression list \<Rightarrow> options list option res" where
  "extract_disjuncts get part_keys [] = Inr (Some [])"
| "extract_disjuncts get part_keys (child # children) =
     res_bind (TryExtractPartitionFilter get part_keys child []) (\<lambda>(m, pf).
       if \<not> m then Inr None
       else res_bind (extract_disjuncts get part_keys children) (\<lambda>fs. Inr (map_option ((#) pf) fs)))"

definition TryExtractPartitionFilters :: "LogicalGet \<Rightarrow> string set \<Rightarrow> Expression \<Rightarrow> options list res" where
  "TryExtractPartitionFilters get part_keys flt =
     (case flt of
        BOUND_COMPARISON _ _ _ \<Rightarrow>
          res_bind (TryExtractPartitionFilter get part_keys flt []) (\<lambda>(m, pf).
            Inr (if m then [pf] else []))
      | BOUND_CONJUNCTION t children \<Rightarrow>
          if t = CONJUNCTION_AND then
            res_bind (TryExtractPartitionFilter get part_keys flt []) (\<lambda>(m, pf).
              Inr (if m then [pf] else []))
          else if t = CONJUNCTION_OR then
            res_bind (extract_disjuncts get part_keys children) (\<lambda>fs. Inr (case fs of
              None \<Rightarrow> [] | Some filters \<Rightarrow> filters))
          else Inr []
      | _ \<Rightarrow> Inr [])"

text \<open>
  The lambda \<open>merge_part_filter\<close>: \<open>merged.insert(entry)\<close> keeps a present key, and a
  different present value makes the branch contradictory.
\<close>

fun merge_part_filter :: "options \<Rightarrow> options \<Rightarrow> options option" where
  "merge_part_filter merged [] = Some merged"
| "merge_part_filter merged ((k, v) # incoming) =
     (case map_of merged k of
        None \<Rightarrow> merge_part_filter (map_put k v merged) incoming
      | Some w \<Rightarrow> if w \<noteq> v then None else merge_part_filter merged incoming)"

definition cross_merge :: "options list \<Rightarrow> options list \<Rightarrow> options list" where
  "cross_merge combined incoming =
     concat (map (\<lambda>existing. List.map_filter (merge_part_filter existing) incoming) combined)"

definition combine_part_filters :: "options list list \<Rightarrow> options list" where
  "combine_part_filters per_expr =
     (case per_expr of [] \<Rightarrow> [] | first # rest \<Rightarrow> foldl cross_merge first rest)"

section \<open>The pushdown callback\<close>

fun convert_filters :: "(int \<Rightarrow> hugeint) \<Rightarrow> (ExpressionType \<Rightarrow> ExpressionType) \<Rightarrow>
    'p predicate_builder \<Rightarrow> LogicalGet \<Rightarrow> Expression list \<Rightarrow> 'p list res" where
  "convert_filters hconv flip pb get [] = Inr []"
| "convert_filters hconv flip pb get (f # fs) =
     res_bind (TryConvertExpression hconv flip pb get f) (\<lambda>pred.
     res_bind (convert_filters hconv flip pb get fs) (\<lambda>ps.
       Inr (case pred of None \<Rightarrow> ps | Some p \<Rightarrow> p # ps)))"

fun extract_filters :: "LogicalGet \<Rightarrow> string set \<Rightarrow> Expression list \<Rightarrow> options list list res" where
  "extract_filters get part_keys [] = Inr []"
| "extract_filters get part_keys (f # fs) =
     res_bind (TryExtractPartitionFilters get part_keys f) (\<lambda>pf.
     res_bind (extract_filters get part_keys fs) (\<lambda>rest.
       Inr (if pf = [] then rest else pf # rest)))"

text \<open>
  A throw ends the planning of the query and the bind data with it, so what was assigned to it before the throw
  (the predicates, when reading the partition filters throws) is not part of the result.
\<close>

definition PaimonPushdownFilter :: "(int \<Rightarrow> hugeint) \<Rightarrow> (ExpressionType \<Rightarrow> ExpressionType) \<Rightarrow>
    'p predicate_builder \<Rightarrow> LogicalGet \<Rightarrow> Expression list \<Rightarrow> ('p, 's) PaimonScanBindData \<Rightarrow>
    ('p, 's) PaimonScanBindData res" where
  "PaimonPushdownFilter hconv flip pb get filters bind =
     res_bind (convert_filters hconv flip pb get filters) (\<lambda>predicates.
     res_bind (if predicates = [] then Inr None
               else case pb_And pb predicates of
                 Inl st \<Rightarrow> Inl (IOException st) | Inr p \<Rightarrow> Inr (Some p)) (\<lambda>top_predicate.
     res_bind (if bd_part_keys bind = [] then Inr []
               else res_bind (extract_filters get (set (bd_part_keys bind)) filters) (\<lambda>per_expr.
                 Inr (combine_part_filters per_expr))) (\<lambda>part_filters.
       Inr (bind\<lparr>bd_predicates := top_predicate, bd_part_filters := part_filters\<rparr>))))"

end
