(* ===== verification/Paimon_Values.thy ===== *)
theory Paimon_Values
  imports Paimon_Types
begin

text \<open>
  What constants and literals denote, against which the conversion of \<open>Paimon_Types\<close> is proved exact.
\<close>

section \<open>The value of a constant and of a literal\<close>

text \<open>
  The SQL value a non-null constant of a supported type holds, and the one a Paimon literal holds. Integers of every width
  are numbers, timestamps of every unit are instants; a constant of another type is itself.
\<close>

datatype sql_value =
    SqlBool bool | SqlInt int | SqlFloat "32 word" | SqlDouble "64 word" | SqlText string | SqlDate int
  | SqlInstant int | SqlDecimal nat int | SqlOther Value

definition value_of :: "Value \<Rightarrow> sql_value" where
  "value_of v = (case lt_id (val_type v) of
       LT_BOOLEAN \<Rightarrow> SqlBool (val_bool v)
     | LT_TINYINT \<Rightarrow> SqlInt (val_i8 v)
     | LT_SMALLINT \<Rightarrow> SqlInt (val_i16 v)
     | LT_INTEGER \<Rightarrow> SqlInt (val_i32 v)
     | LT_BIGINT \<Rightarrow> SqlInt (val_i64 v)
     | LT_FLOAT \<Rightarrow> SqlFloat (val_float v)
     | LT_DOUBLE \<Rightarrow> SqlDouble (val_double v)
     | LT_VARCHAR \<Rightarrow> SqlText (val_get_string v)
     | LT_DATE \<Rightarrow> SqlDate (val_i32 v)
     | LT_DECIMAL \<Rightarrow> (case decimal_unscaled v of
           Some n \<Rightarrow> SqlDecimal (lt_scale (val_type v)) n | None \<Rightarrow> SqlOther v)
     | _ \<Rightarrow> if ConvertFieldType (val_type v) = FT_TIMESTAMP then SqlInstant (instant_nanos v) else SqlOther v)"

fun literal_value :: "Literal \<Rightarrow> sql_value" where
  "literal_value (LitBool b) = SqlBool b"
| "literal_value (LitTinyint n) = SqlInt n"
| "literal_value (LitSmallint n) = SqlInt n"
| "literal_value (LitInt n) = SqlInt n"
| "literal_value (LitBigint n) = SqlInt n"
| "literal_value (LitFloat f) = SqlFloat f"
| "literal_value (LitDouble d) = SqlDouble d"
| "literal_value (LitString s) = SqlText s"
| "literal_value (LitDate n) = SqlDate n"
| "literal_value (LitTimestamp ms ns) = SqlInstant (ms * 1000000 + ns)"
| "literal_value (LitDecimal width scale n) = SqlDecimal scale n"

lemma decimal_hugeint_value:
  assumes "hugeint_convert_ok hconv" "raw_in_range v" "decimal_hugeint hconv v = Some h"
  shows "decimal_unscaled v = Some (decimal_raw h)"
  using assms
  by (auto simp: decimal_hugeint_def decimal_unscaled_def decimal_raw_value hugeint_convert_ok_def raw_in_range_def
      split: PhysicalType.splits)

text \<open>A constant converted for a column of its own type keeps its value.\<close>

lemma ConvertLiteral_exact:
  assumes "ConvertLiteral hconv v (ConvertFieldType (val_type v)) = Inr (Some l)"
    and "hugeint_convert_ok hconv" "raw_in_range v"
  shows "literal_value l = value_of v"
proof (cases "ConvertFieldType (val_type v) = FT_TIMESTAMP")
  case True
  then obtain ms ns where "timestamp_parts v = Inr (ms, ns)" "l = LitTimestamp ms ns"
    using assms(1) by (auto simp: ConvertLiteral_def elim!: res_bindE split: if_split_asm)
  then show ?thesis
    using True timestamp_parts_exact
    by (auto simp: value_of_def ConvertFieldType_def split: LogicalTypeId.splits)
next
  case False
  then show ?thesis
    using assms decimal_hugeint_value [OF assms(2,3)]
    by (cases "lt_id (val_type v)") (auto simp: ConvertLiteral_def ConvertFieldType_def value_of_def split: if_split_asm)
qed

end
