(* ===== verification/Pushdown_Correct.thy ===== *)
theory Pushdown_Correct
  imports Paimon_Pushdown Paimon_Values
begin

text \<open>
  The correctness of the filter pushdown of \<open>Paimon_Pushdown\<close>. DuckDB keeps every filter
  and evaluates it again, so the pushed predicate and the partition filters have to keep every
  row that satisfies the filters; they may keep more.

  \<open>esem\<close> is the SQL meaning of a filter on a row. What is assumed of the code outside the
  repository is stated in \<open>predicate_laws\<close> (a Paimon predicate has the SQL meaning of the
  builder call that made it), \<open>flip_laws\<close> (\<open>FlipComparisonExpression\<close>),
  \<open>hugeint_convert_ok\<close> (\<open>Hugeint::Convert\<close>) and \<open>partition_laws\<close> (rows lie in the partition
  named by the text of their key values). That a converted literal denotes the constant is proved
  (\<open>ConvertLiteral_exact\<close>), for filters that are \<open>well_typed\<close>: DuckDB's binder compares a column
  directly only with constants of its type, a cast in between is an expression that is not pushed.
\<close>

section \<open>The SQL meaning of filters\<close>

text \<open>
  Three-valued truth is \<open>bool option\<close> with \<open>None\<close> for NULL. A row gives each table
  column (by primary index) its value, \<open>None\<close> for NULL, in a linearly ordered domain
  \<open>'d\<close>; \<open>cval\<close> is the value of a non-null constant.
\<close>

type_synonym 'd row = "nat \<Rightarrow> 'd option"

definition sql_not :: "bool option \<Rightarrow> bool option" where
  "sql_not = map_option Not"

definition sql_and :: "bool option list \<Rightarrow> bool option" where
  "sql_and bs = (if Some False \<in> set bs then Some False else if None \<in> set bs then None else Some True)"

definition sql_or :: "bool option list \<Rightarrow> bool option" where
  "sql_or bs = (if Some True \<in> set bs then Some True else if None \<in> set bs then None else Some False)"

fun cmp_holds :: "ExpressionType \<Rightarrow> 'd::linorder \<Rightarrow> 'd \<Rightarrow> bool" where
  "cmp_holds COMPARE_EQUAL a b = (a = b)"
| "cmp_holds COMPARE_NOTEQUAL a b = (a \<noteq> b)"
| "cmp_holds COMPARE_LESSTHAN a b = (a < b)"
| "cmp_holds COMPARE_LESSTHANOREQUALTO a b = (a \<le> b)"
| "cmp_holds COMPARE_GREATERTHAN a b = (a > b)"
| "cmp_holds COMPARE_GREATERTHANOREQUALTO a b = (a \<ge> b)"
| "cmp_holds _ a b = False"

definition sql_lift :: "('d \<Rightarrow> 'd \<Rightarrow> bool) \<Rightarrow> 'd option \<Rightarrow> 'd option \<Rightarrow> bool option" where
  "sql_lift f a b = (case (a, b) of (Some x, Some y) \<Rightarrow> Some (f x y) | _ \<Rightarrow> None)"

abbreviation sql_cmp :: "ExpressionType \<Rightarrow> 'd::linorder option \<Rightarrow> 'd option \<Rightarrow> bool option" where
  "sql_cmp t \<equiv> sql_lift (cmp_holds t)"

text \<open>What a column reference, a constant, or anything else means as a value.\<close>

fun vsem :: "(Value \<Rightarrow> 'd) \<Rightarrow> (Expression \<Rightarrow> 'd row \<Rightarrow> 'd option) \<Rightarrow> LogicalGet \<Rightarrow> Expression \<Rightarrow>
    'd row \<Rightarrow> 'd option" where
  "vsem cval ov get (BOUND_COLUMN_REF c) row = row (get_column_ids get ! c)"
| "vsem cval ov get (BOUND_CONSTANT v) row = (if val_null v then None else Some (cval v))"
| "vsem cval ov get e row = ov e row"

text \<open>
  The meaning of a filter. \<open>fsem\<close> interprets the string functions, \<open>ov\<close> and
  \<open>ob\<close> interpret every expression the pushdown does not look into.
\<close>

fun esem :: "(Value \<Rightarrow> 'd::linorder) \<Rightarrow> (PushdownFunction \<Rightarrow> 'd \<Rightarrow> 'd \<Rightarrow> bool) \<Rightarrow>
    (Expression \<Rightarrow> 'd row \<Rightarrow> 'd option) \<Rightarrow> (Expression \<Rightarrow> 'd row \<Rightarrow> bool option) \<Rightarrow> LogicalGet \<Rightarrow>
    Expression \<Rightarrow> 'd row \<Rightarrow> bool option" where
  "esem cval fsem ov ob get (BOUND_COMPARISON t l r) row =
     (if is_supported_comparison t then sql_cmp t (vsem cval ov get l row) (vsem cval ov get r row)
      else ob (BOUND_COMPARISON t l r) row)"
| "esem cval fsem ov ob get (BOUND_CONJUNCTION t cs) row =
     (if t = CONJUNCTION_AND then sql_and (map (\<lambda>c. esem cval fsem ov ob get c row) cs)
      else if t = CONJUNCTION_OR then sql_or (map (\<lambda>c. esem cval fsem ov ob get c row) cs)
      else ob (BOUND_CONJUNCTION t cs) row)"
| "esem cval fsem ov ob get (BOUND_BETWEEN i lo hi li ui) row =
     (let x = vsem cval ov get i row in sql_and
        [sql_cmp (if li then COMPARE_GREATERTHANOREQUALTO else COMPARE_GREATERTHAN) x
           (vsem cval ov get lo row),
         sql_cmp (if ui then COMPARE_LESSTHANOREQUALTO else COMPARE_LESSTHAN) x
           (vsem cval ov get hi row)])"
| "esem cval fsem ov ob get (BOUND_OPERATOR t cs) row =
     (case (t, cs) of
        (OPERATOR_NOT, c # _) \<Rightarrow> sql_not (esem cval fsem ov ob get c row)
      | (OPERATOR_IS_NULL, c # _) \<Rightarrow> Some (vsem cval ov get c row = None)
      | (OPERATOR_IS_NOT_NULL, c # _) \<Rightarrow> Some (vsem cval ov get c row \<noteq> None)
      | (COMPARE_IN, c # es) \<Rightarrow>
          sql_or (map (\<lambda>e. sql_cmp COMPARE_EQUAL (vsem cval ov get c row) (vsem cval ov get e row)) es)
      | (COMPARE_NOT_IN, c # es) \<Rightarrow>
          sql_and (map (\<lambda>e. sql_cmp COMPARE_NOTEQUAL (vsem cval ov get c row) (vsem cval ov get e row)) es)
      | _ \<Rightarrow> ob (BOUND_OPERATOR t cs) row)"
| "esem cval fsem ov ob get (BOUND_FUNCTION n cs) row =
     (case cs of
        a # b # _ \<Rightarrow>
          if ClassifyFunction n = PF_UNSUPPORTED then ob (BOUND_FUNCTION n cs) row
          else sql_lift (fsem (ClassifyFunction n)) (vsem cval ov get a row) (vsem cval ov get b row)
      | _ \<Rightarrow> ob (BOUND_FUNCTION n cs) row)"
| "esem cval fsem ov ob get e row = ob e row"

section \<open>What is assumed of Paimon and DuckDB\<close>

definition predicate_laws :: "'p predicate_builder \<Rightarrow> (Literal \<Rightarrow> 'd::linorder) \<Rightarrow>
    (PushdownFunction \<Rightarrow> 'd \<Rightarrow> 'd \<Rightarrow> bool) \<Rightarrow> ('p \<Rightarrow> 'd row \<Rightarrow> bool option) \<Rightarrow> bool" where
  "predicate_laws pb lval fsem psem \<longleftrightarrow>
     (\<forall>t i n ft l p row. comparison_predicate pb t i n ft l = Some p \<longrightarrow>
        psem p row = sql_cmp t (row i) (Some (lval l))) \<and>
     (\<forall>f i n ft l p row. function_predicate pb f i n ft l = Some p \<longrightarrow>
        psem p row = sql_lift (fsem f) (row i) (Some (lval l))) \<and>
     (\<forall>i n ft row. psem (pb_IsNull pb i n ft) row = Some (row i = None)) \<and>
     (\<forall>i n ft row. psem (pb_IsNotNull pb i n ft) row = Some (row i \<noteq> None)) \<and>
     (\<forall>i n ft ls row. psem (pb_In pb i n ft ls) row =
        sql_or (map (\<lambda>l. sql_cmp COMPARE_EQUAL (row i) (Some (lval l))) ls)) \<and>
     (\<forall>i n ft ls row. psem (pb_NotIn pb i n ft ls) row =
        sql_and (map (\<lambda>l. sql_cmp COMPARE_NOTEQUAL (row i) (Some (lval l))) ls)) \<and>
     (\<forall>ps p row. pb_And pb ps = Inr p \<longrightarrow> psem p row = sql_and (map (\<lambda>q. psem q row) ps)) \<and>
     (\<forall>ps p row. pb_Or pb ps = Inr p \<longrightarrow> psem p row = sql_or (map (\<lambda>q. psem q row) ps)) \<and>
     (\<forall>q p row. pb_Not pb q = Inr p \<longrightarrow> psem p row = sql_not (psem q row))"

definition flip_laws :: "(ExpressionType \<Rightarrow> ExpressionType) \<Rightarrow> bool" where
  "flip_laws flip \<longleftrightarrow>
     flip COMPARE_EQUAL = COMPARE_EQUAL \<and> flip COMPARE_NOTEQUAL = COMPARE_NOTEQUAL \<and>
     flip COMPARE_LESSTHAN = COMPARE_GREATERTHAN \<and>
     flip COMPARE_GREATERTHAN = COMPARE_LESSTHAN \<and>
     flip COMPARE_LESSTHANOREQUALTO = COMPARE_GREATERTHANOREQUALTO \<and>
     flip COMPARE_GREATERTHANOREQUALTO = COMPARE_LESSTHANOREQUALTO"

section \<open>Typed filters\<close>

text \<open>
  The domain \<open>'d\<close> of the columns is arbitrary: \<open>place\<close> gives the place of a typed SQL value in it, and a
  constant and a literal mean the place of the value they hold.
\<close>

abbreviation cval :: "(sql_value \<Rightarrow> 'd) \<Rightarrow> Value \<Rightarrow> 'd" where
  "cval place \<equiv> \<lambda>v. place (value_of v)"

abbreviation lval :: "(sql_value \<Rightarrow> 'd) \<Rightarrow> Literal \<Rightarrow> 'd" where
  "lval place \<equiv> \<lambda>l. place (literal_value l)"

text \<open>An operand compared with table column \<open>i\<close> is NULL, of the column's type and in its range, or no constant.\<close>

definition typed_operand :: "LogicalGet \<Rightarrow> nat \<Rightarrow> Expression \<Rightarrow> bool" where
  "typed_operand get i e = (case e of
       BOUND_CONSTANT v \<Rightarrow> val_null v \<or> val_type v = get_column_type get i \<and> raw_in_range v
     | _ \<Rightarrow> True)"

definition typed_operands :: "LogicalGet \<Rightarrow> Expression \<Rightarrow> Expression list \<Rightarrow> bool" where
  "typed_operands get e es = (case e of
       BOUND_COLUMN_REF c \<Rightarrow> list_all (typed_operand get (get_column_ids get ! c)) es
     | _ \<Rightarrow> True)"

fun well_typed :: "LogicalGet \<Rightarrow> Expression \<Rightarrow> bool" where
  "well_typed get (BOUND_COMPARISON t l r) = (typed_operands get l [r] \<and> typed_operands get r [l])"
| "well_typed get (BOUND_CONJUNCTION t cs) = list_all (well_typed get) cs"
| "well_typed get (BOUND_BETWEEN i lo hi li ui) = typed_operands get i [lo, hi]"
| "well_typed get (BOUND_OPERATOR t cs) =
     (case cs of [] \<Rightarrow> True
      | c # es \<Rightarrow> (if t = OPERATOR_NOT then well_typed get c else typed_operands get c es))"
| "well_typed get (BOUND_FUNCTION n cs) = (case cs of [] \<Rightarrow> True | c # es \<Rightarrow> typed_operands get c es)"
| "well_typed get e = True"

section \<open>Three-valued logic\<close>

lemma sql_and_True [simp]: "sql_and bs = Some True \<longleftrightarrow> (\<forall>b \<in> set bs. b = Some True)"
  unfolding sql_and_def by (auto, metis (full_types) not_None_eq)+

lemma sql_or_True [simp]: "sql_or bs = Some True \<longleftrightarrow> Some True \<in> set bs"
  by (auto simp: sql_or_def)

lemma sql_not_True [simp]: "sql_not b = Some True \<longleftrightarrow> b = Some False"
  by (auto simp: sql_not_def)

lemma sql_flip:
  "flip_laws flip \<Longrightarrow> is_supported_comparison t \<Longrightarrow> sql_cmp (flip t) a b = sql_cmp t b a"
  by (cases a; cases b) (auto simp: flip_laws_def is_supported_comparison_def sql_lift_def)

section \<open>Leaves convert exactly\<close>

lemma ConvertLiteral_not_null: "ConvertLiteral hconv v ft = Inr l \<Longrightarrow> \<not> val_null v"
  by (auto simp: ConvertLiteral_def)

lemma column_id_Inr [res_simps]:
  "column_id get c = Inr i \<longleftrightarrow> c < length (get_column_ids get) \<and> i = get_column_ids get ! c"
  by (auto simp: column_id_def)

text \<open>The assumptions bundled, and one fact per law.\<close>

definition pushdown_laws :: "(int \<Rightarrow> hugeint) \<Rightarrow> (ExpressionType \<Rightarrow> ExpressionType) \<Rightarrow>
    'p predicate_builder \<Rightarrow> (sql_value \<Rightarrow> 'd::linorder) \<Rightarrow>
    (PushdownFunction \<Rightarrow> 'd \<Rightarrow> 'd \<Rightarrow> bool) \<Rightarrow> ('p \<Rightarrow> 'd row \<Rightarrow> bool option) \<Rightarrow> bool" where
  "pushdown_laws hconv flip pb place fsem psem \<longleftrightarrow>
     predicate_laws pb (lval place) fsem psem \<and> flip_laws flip \<and> hugeint_convert_ok hconv"

lemma law_compare:
  "pushdown_laws hconv flip pb place fsem psem \<Longrightarrow>
   comparison_predicate pb t i n ft l = Some p \<Longrightarrow> psem p row = sql_cmp t (row i) (Some (lval place l))"
  unfolding pushdown_laws_def predicate_laws_def by metis

lemma law_function:
  "pushdown_laws hconv flip pb place fsem psem \<Longrightarrow>
   function_predicate pb f i n ft l = Some p \<Longrightarrow>
   psem p row = sql_lift (fsem f) (row i) (Some (lval place l))"
  unfolding pushdown_laws_def predicate_laws_def by metis

lemma law_operators:
  assumes "pushdown_laws hconv flip pb place fsem psem"
  shows "psem (pb_IsNull pb i n ft) row = Some (row i = None)"
    "psem (pb_IsNotNull pb i n ft) row = Some (row i \<noteq> None)"
    "psem (pb_In pb i n ft ls) row =
       sql_or (map (\<lambda>l. sql_cmp COMPARE_EQUAL (row i) (Some (lval place l))) ls)"
    "psem (pb_NotIn pb i n ft ls) row =
       sql_and (map (\<lambda>l. sql_cmp COMPARE_NOTEQUAL (row i) (Some (lval place l))) ls)"
  using assms by (simp_all add: pushdown_laws_def predicate_laws_def)

lemma law_connectives:
  assumes "pushdown_laws hconv flip pb place fsem psem"
  shows "pb_And pb ps = Inr p \<Longrightarrow> psem p row = sql_and (map (\<lambda>q. psem q row) ps)"
    "pb_Or pb ps = Inr p \<Longrightarrow> psem p row = sql_or (map (\<lambda>q. psem q row) ps)"
    "pb_Not pb q = Inr p \<Longrightarrow> psem p row = sql_not (psem q row)"
  using assms unfolding pushdown_laws_def predicate_laws_def by metis+

lemma law_literal:
  assumes "pushdown_laws hconv flip pb place fsem psem" and "typed_operand get k (BOUND_CONSTANT v)"
    and "ConvertLiteral hconv v (ConvertFieldType (get_column_type get k)) = Inr (Some l)"
  shows "vsem (cval place) ov get (BOUND_CONSTANT v) row = Some (lval place l)"
proof -
  have "\<not> val_null v" by (rule ConvertLiteral_not_null [OF assms(3)])
  then show ?thesis
    using assms ConvertLiteral_exact [of hconv v l] by (auto simp: pushdown_laws_def typed_operand_def)
qed

lemma convert_column_constant_exact:
  assumes "pushdown_laws hconv flip pb place fsem psem"
    and "convert_column_constant hconv pb get t c v = Inr (Some p)"
    and "typed_operand get (get_column_ids get ! c) (BOUND_CONSTANT v)"
  shows "psem p row = sql_cmp t (vsem (cval place) ov get (BOUND_COLUMN_REF c) row)
    (vsem (cval place) ov get (BOUND_CONSTANT v) row)"
  using assms(2)
  by (auto simp: convert_column_constant_def res_simps Let_def law_literal [OF assms(1,3)]
      law_compare [OF assms(1)] simp del: vsem.simps(2) split: option.splits)

lemma TryConvertComparison_exact:
  assumes "pushdown_laws hconv flip pb place fsem psem"
    and "TryConvertComparison hconv flip pb get t l r = Inr (Some p)"
    and "well_typed get (BOUND_COMPARISON t l r)"
  shows "psem p row = esem (cval place) fsem ov ob get (BOUND_COMPARISON t l r) row"
proof -
  have fl: "flip_laws flip" using assms(1) by (simp add: pushdown_laws_def)
  from assms(2) have t: "is_supported_comparison t"
    by (auto simp: TryConvertComparison_def split: if_splits)
  consider (lr) c v where "l = BOUND_COLUMN_REF c" "r = BOUND_CONSTANT v"
      "convert_column_constant hconv pb get t c v = Inr (Some p)"
    | (rl) c v where "l = BOUND_CONSTANT v" "r = BOUND_COLUMN_REF c"
      "convert_column_constant hconv pb get (flip t) c v = Inr (Some p)"
    using assms(2) t by (auto simp: TryConvertComparison_def split: Expression.splits)
  then show ?thesis
  proof cases
    case lr
    with convert_column_constant_exact [OF assms(1) lr(3), of row ov] t assms(3) show ?thesis
      by (simp add: typed_operands_def)
  next
    case rl
    with convert_column_constant_exact [OF assms(1) rl(3), of row ov] t assms(3) show ?thesis
      by (simp add: sql_flip [OF fl t] typed_operands_def)
  qed
qed

lemma TryConvertBetween_exact:
  assumes laws: "pushdown_laws hconv flip pb place fsem psem"
    and conv: "TryConvertBetween hconv pb get i lo hi li ui = Inr (Some p)"
    and typed: "well_typed get (BOUND_BETWEEN i lo hi li ui)"
  shows "psem p row = esem (cval place) fsem ov ob get (BOUND_BETWEEN i lo hi li ui) row"
proof -
  obtain c v w where e: "i = BOUND_COLUMN_REF c" "lo = BOUND_CONSTANT v" "hi = BOUND_CONSTANT w"
    using conv by (auto simp: TryConvertBetween_def split: Expression.splits)
  define k where "k = get_column_ids get ! c"
  define ft where "ft = ConvertFieldType (get_column_type get k)"
  define n where "n = get_column_name get k"
  obtain l u where l: "ConvertLiteral hconv v ft = Inr (Some l)"
    and u: "ConvertLiteral hconv w ft = Inr (Some u)"
    and a: "pb_And pb
        [if li then pb_GreaterOrEqual pb k n ft l else pb_GreaterThan pb k n ft l,
         if ui then pb_LessOrEqual pb k n ft u else pb_LessThan pb k n ft u] = Inr p"
    using conv unfolding e k_def ft_def n_def
    by (auto simp: TryConvertBetween_def res_simps Let_def split: option.splits)
  have "psem (if li then pb_GreaterOrEqual pb k n ft l else pb_GreaterThan pb k n ft l) row =
      sql_cmp (if li then COMPARE_GREATERTHANOREQUALTO else COMPARE_GREATERTHAN) (row k) (Some (lval place l))"
    by (rule law_compare [OF laws, where n = n and ft = ft]) (simp add: comparison_predicate_def)
  moreover have "psem (if ui then pb_LessOrEqual pb k n ft u else pb_LessThan pb k n ft u) row =
      sql_cmp (if ui then COMPARE_LESSTHANOREQUALTO else COMPARE_LESSTHAN) (row k) (Some (lval place u))"
    by (rule law_compare [OF laws, where n = n and ft = ft]) (simp add: comparison_predicate_def)
  moreover have "typed_operand get k (BOUND_CONSTANT v)" "typed_operand get k (BOUND_CONSTANT w)"
    using typed e by (simp_all add: typed_operands_def k_def)
  ultimately show ?thesis
    using law_connectives(1) [OF laws a, of row] law_literal [OF laws _ l [unfolded ft_def], of ov row]
      law_literal [OF laws _ u [unfolded ft_def], of ov row] e
    by (simp add: Let_def k_def del: vsem.simps(2))
qed

lemma TryConvertFunction_exact:
  assumes laws: "pushdown_laws hconv flip pb place fsem psem"
    and conv: "TryConvertFunction hconv pb get name cs = Inr (Some p)"
    and typed: "well_typed get (BOUND_FUNCTION name cs)"
  shows "psem p row = esem (cval place) fsem ov ob get (BOUND_FUNCTION name cs) row"
proof -
  have f: "ClassifyFunction name \<noteq> PF_UNSUPPORTED"
    using conv by (auto simp: TryConvertFunction_def split: if_splits)
  then obtain c v rest l where cs: "cs = BOUND_COLUMN_REF c # BOUND_CONSTANT v # rest"
    and ft: "ConvertFieldType (get_column_type get (get_column_ids get ! c)) = FT_STRING"
    and l: "ConvertLiteral hconv v FT_STRING = Inr (Some l)"
    and p: "function_predicate pb (ClassifyFunction name) (get_column_ids get ! c)
      (get_column_name get (get_column_ids get ! c)) FT_STRING l = Some p"
    using conv
    by (auto simp: TryConvertFunction_def res_simps Let_def
        split: if_splits list.splits Expression.splits option.splits)
  show ?thesis
    using law_function [OF laws p, of row] f cs typed
      law_literal [OF laws, of get "get_column_ids get ! c" v l ov row] ft l
    by (simp add: typed_operands_def del: vsem.simps(2))
qed

text \<open>The IN list: the literals denote the constants they were made from, in order.\<close>

lemma in_list_literals_length:
  "in_list_literals hconv ft t es = Inr (Some ls) \<Longrightarrow> length ls \<le> length es"
  by (induction es arbitrary: ls)
     (fastforce simp: res_simps split: Expression.splits option.splits if_splits)+

lemma in_list_literals_IN:
  assumes laws: "pushdown_laws hconv flip pb place fsem psem"
    and "in_list_literals hconv (ConvertFieldType (get_column_type get c)) t es = Inr (Some ls)"
    and "t \<noteq> COMPARE_NOT_IN \<or> length ls = length es" and "list_all (typed_operand get c) es"
  shows "map (\<lambda>l. Some (lval place l)) ls = map (\<lambda>e. vsem (cval place) ov get e row) es"
  using assms(2,3,4)
proof (induction es arbitrary: ls)
  case (Cons e es)
  have IH: "map (\<lambda>l. Some (lval place l)) ls' = map (\<lambda>e. vsem (cval place) ov get e row) es"
    if "in_list_literals hconv (ConvertFieldType (get_column_type get c)) t es = Inr (Some ls')"
      "t \<noteq> COMPARE_NOT_IN \<or> length ls' = length es" for ls'
    using that Cons.prems(3) by (intro Cons.IH) simp_all
  obtain v l ls' where e: "e = BOUND_CONSTANT v" "ls = l # ls'"
    "ConvertLiteral hconv v (ConvertFieldType (get_column_type get c)) = Inr (Some l)"
    "in_list_literals hconv (ConvertFieldType (get_column_type get c)) t es = Inr (Some ls')"
    using Cons.prems in_list_literals_length
    by (fastforce simp: res_simps split: Expression.splits option.splits if_splits)
  with Cons.prems(2,3) IH [of ls'] show ?case
    by (simp add: law_literal [OF laws _ e(3)] del: vsem.simps(2))
qed simp

section \<open>Exact and safe conversions\<close>

text \<open>
  A conversion is exact when nothing of the expression was dropped: every conjunct was
  converted, and every element of a NOT IN list. A filter is safe when each NOT in it is over
  an exact conversion (or over one that is not pushed at all).
\<close>

definition converts :: "(int \<Rightarrow> hugeint) \<Rightarrow> (ExpressionType \<Rightarrow> ExpressionType) \<Rightarrow>
    'p predicate_builder \<Rightarrow> LogicalGet \<Rightarrow> Expression \<Rightarrow> bool" where
  "converts hconv flip pb get e =
     (case TryConvertExpression hconv flip pb get e of Inr (Some _) \<Rightarrow> True | _ \<Rightarrow> False)"

definition in_list_complete :: "(int \<Rightarrow> hugeint) \<Rightarrow> LogicalGet \<Rightarrow> Expression list \<Rightarrow> bool" where
  "in_list_complete hconv get cs =
     (case cs of BOUND_COLUMN_REF c # es \<Rightarrow>
        (case in_list_literals hconv
            (ConvertFieldType (get_column_type get (get_column_ids get ! c))) COMPARE_NOT_IN es of
          Inr (Some ls) \<Rightarrow> length ls = length es | _ \<Rightarrow> False)
      | _ \<Rightarrow> True)"

fun lossless :: "(int \<Rightarrow> hugeint) \<Rightarrow> (ExpressionType \<Rightarrow> ExpressionType) \<Rightarrow>
    'p predicate_builder \<Rightarrow> LogicalGet \<Rightarrow> Expression \<Rightarrow> bool" where
  "lossless hconv flip pb get (BOUND_CONJUNCTION t cs) =
     list_all (\<lambda>c. lossless hconv flip pb get c \<and> converts hconv flip pb get c) cs"
| "lossless hconv flip pb get (BOUND_OPERATOR t cs) =
     (if t = OPERATOR_NOT then (case cs of c # _ \<Rightarrow> lossless hconv flip pb get c | [] \<Rightarrow> True)
      else if t = COMPARE_NOT_IN then in_list_complete hconv get cs
      else True)"
| "lossless hconv flip pb get e = True"

fun not_safe :: "(int \<Rightarrow> hugeint) \<Rightarrow> (ExpressionType \<Rightarrow> ExpressionType) \<Rightarrow>
    'p predicate_builder \<Rightarrow> LogicalGet \<Rightarrow> Expression \<Rightarrow> bool" where
  "not_safe hconv flip pb get (BOUND_CONJUNCTION t cs) = list_all (not_safe hconv flip pb get) cs"
| "not_safe hconv flip pb get (BOUND_OPERATOR t cs) =
     (if t = OPERATOR_NOT
      then (case cs of c # _ \<Rightarrow> lossless hconv flip pb get c \<or> \<not> converts hconv flip pb get c | [] \<Rightarrow> True)
      else True)"
| "not_safe hconv flip pb get e = True"

lemma in_list_literals_subset:
  assumes laws: "pushdown_laws hconv flip pb place fsem psem"
  shows "in_list_literals hconv (ConvertFieldType (get_column_type get c)) t es = Inr (Some ls) \<Longrightarrow>
    list_all (typed_operand get c) es \<Longrightarrow> l \<in> set ls \<Longrightarrow> \<exists>e \<in> set es. vsem (cval place) ov get e row = Some (lval place l)"
proof (induction es arbitrary: ls)
  case (Cons e es)
  then show ?case
    by (fastforce simp: res_simps law_literal [OF laws] simp del: vsem.simps(2)
        split: Expression.splits option.splits if_splits)
qed simp

lemma convert_column_operator_Some:
  assumes "convert_column_operator hconv pb get t c es = Inr (Some p)"
    and "t = COMPARE_IN \<or> t = COMPARE_NOT_IN"
  obtains ls where "in_list_literals hconv
      (ConvertFieldType (get_column_type get (get_column_ids get ! c))) t es = Inr (Some ls)"
    "p = (if t = COMPARE_IN then pb_In else pb_NotIn) pb (get_column_ids get ! c)
      (get_column_name get (get_column_ids get ! c))
      (ConvertFieldType (get_column_type get (get_column_ids get ! c))) ls"
  using assms
  by (cases "in_list_literals hconv
      (ConvertFieldType (get_column_type get (get_column_ids get ! c))) t es")
     (auto simp: convert_column_operator_def column_id_def Let_def
       split: option.split_asm if_split_asm)

lemma convert_column_operator_exact:
  assumes laws: "pushdown_laws hconv flip pb place fsem psem"
    and conv: "convert_column_operator hconv pb get t c es = Inr (Some p)"
    and t: "t \<in> {COMPARE_IN, COMPARE_NOT_IN, OPERATOR_IS_NULL, OPERATOR_IS_NOT_NULL}"
    and full: "t = COMPARE_NOT_IN \<longrightarrow> in_list_complete hconv get (BOUND_COLUMN_REF c # es)"
    and typed: "well_typed get (BOUND_OPERATOR t (BOUND_COLUMN_REF c # es))"
  shows "psem p row = esem (cval place) fsem ov ob get (BOUND_OPERATOR t (BOUND_COLUMN_REF c # es)) row"
proof (cases "t = COMPARE_IN \<or> t = COMPARE_NOT_IN")
  case True
  let ?x = "row (get_column_ids get ! c)"
  obtain ls where ls: "in_list_literals hconv
      (ConvertFieldType (get_column_type get (get_column_ids get ! c))) t es = Inr (Some ls)"
    and p: "p = (if t = COMPARE_IN then pb_In else pb_NotIn) pb (get_column_ids get ! c)
      (get_column_name get (get_column_ids get ! c))
      (ConvertFieldType (get_column_type get (get_column_ids get ! c))) ls"
    using convert_column_operator_Some [OF conv True] by blast
  have "t \<noteq> COMPARE_NOT_IN \<or> length ls = length es"
    using full ls by (auto simp: in_list_complete_def)
  then have "map (\<lambda>l. Some (lval place l)) ls = map (\<lambda>e. vsem (cval place) ov get e row) es"
    using typed t by (intro in_list_literals_IN [OF laws ls]) (auto simp: typed_operands_def)
  then have "map (f \<circ> (\<lambda>l. Some (lval place l))) ls = map (f \<circ> (\<lambda>e. vsem (cval place) ov get e row)) es" for f :: "'b option \<Rightarrow> bool option"
    by (metis map_map)
  from this [of "sql_cmp COMPARE_EQUAL ?x"] this [of "sql_cmp COMPARE_NOTEQUAL ?x"] True p show ?thesis
    by (auto simp: law_operators [OF laws] o_def)
next
  case False
  with conv t show ?thesis
    by (auto simp: convert_column_operator_def res_simps Let_def law_operators [OF laws])
qed

lemma convert_column_operator_sound:
  assumes laws: "pushdown_laws hconv flip pb place fsem psem"
    and conv: "convert_column_operator hconv pb get t c es = Inr (Some p)"
    and t: "t \<in> {COMPARE_IN, COMPARE_NOT_IN, OPERATOR_IS_NULL, OPERATOR_IS_NOT_NULL}"
    and typed: "well_typed get (BOUND_OPERATOR t (BOUND_COLUMN_REF c # es))"
    and sem: "esem (cval place) fsem ov ob get (BOUND_OPERATOR t (BOUND_COLUMN_REF c # es)) row = Some True"
  shows "psem p row = Some True"
proof (cases "t = COMPARE_NOT_IN")
  case True
  then obtain ls where ls: "in_list_literals hconv
      (ConvertFieldType (get_column_type get (get_column_ids get ! c))) t es = Inr (Some ls)"
    and p: "p = pb_NotIn pb (get_column_ids get ! c) (get_column_name get (get_column_ids get ! c))
      (ConvertFieldType (get_column_type get (get_column_ids get ! c))) ls"
    using convert_column_operator_Some [OF conv] by auto
  have "sql_cmp COMPARE_NOTEQUAL (row (get_column_ids get ! c)) (Some (lval place l)) = Some True"
    if "l \<in> set ls" for l
    using in_list_literals_subset [OF laws ls _ that, of ov row] sem typed True
    by (auto simp: typed_operands_def)
  then show ?thesis
    unfolding p law_operators(4) [OF laws] by simp
next
  case False
  with convert_column_operator_exact [OF laws conv t _ typed] sem show ?thesis by simp
qed

section \<open>The recursion\<close>

lemma TryConvertConjunction_Some:
  assumes "TryConvertExpression hconv flip pb get (BOUND_CONJUNCTION t cs) = Inr (Some p)"
  obtains ps where "TryConvertChildren hconv flip pb get t cs = Inr (Some ps)"
    "t = CONJUNCTION_AND \<and> pb_And pb ps = Inr p \<or> t = CONJUNCTION_OR \<and> pb_Or pb ps = Inr p"
  using assms
  by (auto elim!: res_bindE split: option.split_asm list.split_asm if_split_asm)

lemma TryConvertOperator_Some:
  assumes "TryConvertExpression hconv flip pb get (BOUND_OPERATOR t cs) = Inr (Some p)"
  obtains (NOT) c rest q where "t = OPERATOR_NOT" "cs = c # rest"
      "TryConvertExpression hconv flip pb get c = Inr (Some q)" "pb_Not pb q = Inr p"
    | (column) k rest where
      "t \<in> {COMPARE_IN, COMPARE_NOT_IN, OPERATOR_IS_NULL, OPERATOR_IS_NOT_NULL}"
      "cs = BOUND_COLUMN_REF k # rest" "convert_column_operator hconv pb get t k rest = Inr (Some p)"
  using assms
  by (auto elim!: res_bindE split: option.split_asm list.split_asm if_split_asm
      Expression.split_asm)

lemma TryConvert_exact:
  "TryConvertExpression hconv flip pb get e = Inr (Some p) \<Longrightarrow>
     pushdown_laws hconv flip pb place fsem psem \<Longrightarrow>
     well_typed get e \<Longrightarrow> lossless hconv flip pb get e \<Longrightarrow> psem p row = esem (cval place) fsem ov ob get e row"
  "TryConvertChildren hconv flip pb get t cs = Inr (Some ps) \<Longrightarrow>
     pushdown_laws hconv flip pb place fsem psem \<Longrightarrow>
     list_all (well_typed get) cs \<Longrightarrow> list_all (\<lambda>c. lossless hconv flip pb get c \<and> converts hconv flip pb get c) cs \<Longrightarrow>
     map (\<lambda>q. psem q row) ps = map (\<lambda>c. esem (cval place) fsem ov ob get c row) cs"
proof (induction hconv flip pb get e and hconv flip pb get t cs arbitrary: p and ps
    rule: TryConvertExpression_TryConvertChildren.induct)
  case (1 hconv flip pb get t l r)
  then show ?case using TryConvertComparison_exact by (metis TryConvertExpression.simps(1))
next
  case (2 hconv flip pb get t cs)
  from "2.prems"(1) obtain ps where "TryConvertChildren hconv flip pb get t cs = Inr (Some ps)"
    "t = CONJUNCTION_AND \<and> pb_And pb ps = Inr p \<or> t = CONJUNCTION_OR \<and> pb_Or pb ps = Inr p"
    by (rule TryConvertConjunction_Some)
  with "2.IH" "2.prems" law_connectives [OF "2.prems"(2)] show ?case by auto
next
  case (3 hconv flip pb get i lo hi li ui)
  then show ?case using TryConvertBetween_exact by (metis TryConvertExpression.simps(3))
next
  case (4 hconv flip pb get t cs)
  from "4.prems"(1) show ?case
  proof (cases rule: TryConvertOperator_Some)
    case (NOT c rest q)
    with 4 law_connectives(3) [OF "4.prems"(2)] show ?thesis by auto
  next
    case (column k rest)
    with convert_column_operator_exact [OF "4.prems"(2)] "4.prems"(3,4) show ?thesis by auto
  qed
next
  case (5 hconv flip pb get n cs)
  then show ?case using TryConvertFunction_exact by (metis TryConvertExpression.simps(5))
next
  case (10 hconv flip pb get t c cs)
  then show ?case
    by (auto simp: res_simps converts_def split: option.splits sum.splits)
qed auto

lemma TryConvert_sound:
  "TryConvertExpression hconv flip pb get e = Inr (Some p) \<Longrightarrow>
     pushdown_laws hconv flip pb place fsem psem \<Longrightarrow>
     well_typed get e \<Longrightarrow> not_safe hconv flip pb get e \<Longrightarrow> esem (cval place) fsem ov ob get e row = Some True \<Longrightarrow>
     psem p row = Some True"
  "TryConvertChildren hconv flip pb get t cs = Inr (Some ps) \<Longrightarrow>
     pushdown_laws hconv flip pb place fsem psem \<Longrightarrow>
     list_all (well_typed get) cs \<Longrightarrow> list_all (not_safe hconv flip pb get) cs \<Longrightarrow>
     (if t = CONJUNCTION_OR
      then (\<exists>c \<in> set cs. esem (cval place) fsem ov ob get c row = Some True) \<longrightarrow>
        (\<exists>q \<in> set ps. psem q row = Some True)
      else (\<forall>c \<in> set cs. esem (cval place) fsem ov ob get c row = Some True) \<longrightarrow>
        (\<forall>q \<in> set ps. psem q row = Some True))"
proof (induction hconv flip pb get e and hconv flip pb get t cs arbitrary: p and ps
    rule: TryConvertExpression_TryConvertChildren.induct)
  case (1 hconv flip pb get t l r)
  then show ?case using TryConvertComparison_exact by (metis TryConvertExpression.simps(1))
next
  case (2 hconv flip pb get t cs)
  from "2.prems"(1) obtain ps where "TryConvertChildren hconv flip pb get t cs = Inr (Some ps)"
    "t = CONJUNCTION_AND \<and> pb_And pb ps = Inr p \<or> t = CONJUNCTION_OR \<and> pb_Or pb ps = Inr p"
    by (rule TryConvertConjunction_Some)
  then show ?case
  proof (elim disjE conjE)
    assume ps: "TryConvertChildren hconv flip pb get t cs = Inr (Some ps)"
      and t: "t = CONJUNCTION_AND" and p: "pb_And pb ps = Inr p"
    have "\<forall>c \<in> set cs. esem (cval place) fsem ov ob get c row = Some True"
      using "2.prems"(5) t by simp
    with "2.IH" [OF ps "2.prems"(2)] "2.prems"(3,4) t have "\<forall>q \<in> set ps. psem q row = Some True"
      by simp
    then show ?thesis by (simp add: law_connectives(1) [OF "2.prems"(2) p])
  next
    assume ps: "TryConvertChildren hconv flip pb get t cs = Inr (Some ps)"
      and t: "t = CONJUNCTION_OR" and p: "pb_Or pb ps = Inr p"
    have "\<exists>c \<in> set cs. esem (cval place) fsem ov ob get c row = Some True"
      using "2.prems"(5) t by auto
    with "2.IH" [OF ps "2.prems"(2)] "2.prems"(3,4) t have "\<exists>q \<in> set ps. psem q row = Some True"
      by simp
    then show ?thesis
      by (auto simp: law_connectives(2) [OF "2.prems"(2) p] intro: rev_image_eqI)
  qed
next
  case (3 hconv flip pb get i lo hi li ui)
  then show ?case using TryConvertBetween_exact by (metis TryConvertExpression.simps(3))
next
  case (4 hconv flip pb get t cs)
  from "4.prems"(1) show ?case
  proof (cases rule: TryConvertOperator_Some)
    case (NOT c rest q)
    with "4.prems"(4) have "lossless hconv flip pb get c" by (simp add: converts_def)
    with NOT TryConvert_exact(1) [OF NOT(3) "4.prems"(2)] law_connectives(3) [OF "4.prems"(2)] "4.prems"
    show ?thesis by simp
  next
    case (column k rest)
    with convert_column_operator_sound [OF "4.prems"(2)] "4.prems"(3,5) show ?thesis by auto
  qed
next
  case (5 hconv flip pb get n cs)
  then show ?case using TryConvertFunction_exact by (metis TryConvertExpression.simps(5))
next
  case (10 hconv flip pb get t c cs)
  then show ?case
    by (cases "t = CONJUNCTION_OR") (auto elim!: res_bindE split: option.split_asm if_split_asm)
qed auto

lemma convert_filters_sound:
  assumes laws: "pushdown_laws hconv flip pb place fsem psem"
  shows "convert_filters hconv flip pb get fs = Inr ps \<Longrightarrow>
    \<forall>f \<in> set fs. well_typed get f \<and> not_safe hconv flip pb get f \<and> esem (cval place) fsem ov ob get f row = Some True \<Longrightarrow>
    \<forall>q \<in> set ps. psem q row = Some True"
proof (induction fs arbitrary: ps)
  case (Cons f fs)
  then show ?case
    using TryConvert_sound(1) [OF _ laws, of get f _ ov ob row]
    by (auto elim!: res_bindE split: option.split_asm)
qed simp

section \<open>Partition filters\<close>

text \<open>
  A partition gives each partition key the text its directory is named by; a partition filter
  keeps the partitions that have all its values.
\<close>

definition matches :: "(string \<Rightarrow> string) \<Rightarrow> options \<Rightarrow> bool" where
  "matches part m \<longleftrightarrow> (\<forall>(k, v) \<in> set m. part k = v)"

text \<open>The table columns a filter compares with constants, outside of NOT and functions.\<close>

fun compared_constants :: "LogicalGet \<Rightarrow> Expression \<Rightarrow> (nat \<times> Value) list" where
  "compared_constants get (BOUND_COMPARISON t l r) =
     (case (l, r) of
        (BOUND_COLUMN_REF c, BOUND_CONSTANT v) \<Rightarrow> [(get_column_ids get ! c, v)]
      | (BOUND_CONSTANT v, BOUND_COLUMN_REF c) \<Rightarrow> [(get_column_ids get ! c, v)]
      | _ \<Rightarrow> [])"
| "compared_constants get (BOUND_CONJUNCTION t cs) = concat (map (compared_constants get) cs)"
| "compared_constants get e = []"

text \<open>
  What is assumed of the writer and DuckDB: of the columns and constants \<open>V\<close>, a row in which a partition
  key equals the constant lies in the partition that carries the text of the constant for that key.
\<close>

definition partition_laws :: "LogicalGet \<Rightarrow> string set \<Rightarrow> (sql_value \<Rightarrow> 'd::linorder) \<Rightarrow> (string \<Rightarrow> string) \<Rightarrow> 'd row \<Rightarrow>
    (nat \<times> Value) set \<Rightarrow> bool" where
  "partition_laws get keys place part row V \<longleftrightarrow>
     (\<forall>(i, v) \<in> V. get_column_name get i \<in> keys \<longrightarrow> \<not> val_null v \<longrightarrow> row i = Some (cval place v) \<longrightarrow>
        part (get_column_name get i) = val_to_string v)"

lemma set_map_put: "set (map_put k v m) \<subseteq> insert (k, v) (set m)"
  by (induction k v m rule: map_put.induct) auto

lemma set_map_put_new: "k \<notin> fst ` set m \<Longrightarrow> set (map_put k v m) = insert (k, v) (set m)"
  by (induction k v m rule: map_put.induct) auto

lemma matches_map_put: "matches part m \<Longrightarrow> part k = v \<Longrightarrow> matches part (map_put k v m)"
  using set_map_put [of k v m] by (auto simp: matches_def)

lemma extract_equality_sound:
  assumes "extract_equality get keys c v pf = Inr (b, pf')"
    and "partition_laws get keys place part row V" and "(get_column_ids get ! c, v) \<in> V"
    and "sql_cmp COMPARE_EQUAL (row (get_column_ids get ! c))
      (vsem (cval place) ov get (BOUND_CONSTANT v) row) = Some True"
    and "matches part pf"
  shows "matches part pf'"
  using assms
  by (auto simp: extract_equality_def column_id_Inr Let_def partition_laws_def sql_lift_def
      elim!: res_bindE intro!: matches_map_put split: if_split_asm option.split_asm)

lemma sql_equal_commute: "sql_cmp COMPARE_EQUAL a b = sql_cmp COMPARE_EQUAL b a"
  by (cases a; cases b) (auto simp: sql_lift_def)

lemma TryExtract_sound:
  "TryExtractPartitionFilter get keys e pf = Inr (b, pf') \<Longrightarrow>
     partition_laws get keys place part row V \<Longrightarrow> set (compared_constants get e) \<subseteq> V \<Longrightarrow>
     esem (cval place) fsem ov ob get e row = Some True \<Longrightarrow>
     matches part pf \<Longrightarrow> matches part pf'"
  "TryExtractConjuncts get keys cs b0 pf = Inr (b, pf') \<Longrightarrow>
     partition_laws get keys place part row V \<Longrightarrow> (\<Union>c \<in> set cs. set (compared_constants get c)) \<subseteq> V \<Longrightarrow>
     \<forall>c \<in> set cs. esem (cval place) fsem ov ob get c row = Some True \<Longrightarrow>
     matches part pf \<Longrightarrow> matches part pf'"
proof (induction get keys e pf and get keys cs b0 pf arbitrary: b pf' and b pf'
    rule: TryExtractPartitionFilter_TryExtractConjuncts.induct)
  case (1 get keys t l r pf)
  from "1.prems"(1) consider "b = False" "pf' = pf"
    | c v where "t = COMPARE_EQUAL" "extract_equality get keys c v pf = Inr (b, pf')"
      "(l, r) = (BOUND_COLUMN_REF c, BOUND_CONSTANT v) \<or> (l, r) = (BOUND_CONSTANT v, BOUND_COLUMN_REF c)"
    by (cases "t = COMPARE_EQUAL"; cases l; cases r) auto
  then show ?case
  proof cases
    case 2
    have "sql_cmp COMPARE_EQUAL (vsem (cval place) ov get l row) (vsem (cval place) ov get r row) = Some True"
      using "1.prems"(4) 2(1) by (simp add: is_supported_comparison_def)
    with 2(3) have "sql_cmp COMPARE_EQUAL (row (get_column_ids get ! c))
        (vsem (cval place) ov get (BOUND_CONSTANT v) row) = Some True"
      by (metis prod.inject sql_equal_commute vsem.simps(1))
    moreover have "(get_column_ids get ! c, v) \<in> V" using 2(3) "1.prems"(3) by auto
    ultimately show ?thesis using 2(2) "1.prems" by (metis extract_equality_sound)
  qed (use "1.prems" in simp)
next
  case (10 get keys c cs m pf)
  then show ?case by (auto elim!: res_bindE split: prod.split_asm)
qed (auto split: if_split_asm)

lemma matches_Nil [simp]: "matches part []"
  by (simp add: matches_def)

lemma extract_disjuncts_sound:
  assumes "partition_laws get keys place part row V"
  shows "extract_disjuncts get keys cs = Inr (Some fs) \<Longrightarrow>
    (\<Union>c \<in> set cs. set (compared_constants get c)) \<subseteq> V \<Longrightarrow>
    \<exists>c \<in> set cs. esem (cval place) fsem ov ob get c row = Some True \<Longrightarrow> \<exists>m \<in> set fs. matches part m"
proof (induction cs arbitrary: fs)
  case (Cons c cs)
  then show ?case
    using TryExtract_sound(1) [OF _ assms, of c "[]" _ _ fsem ov ob]
    by (auto elim!: res_bindE split: prod.split_asm if_split_asm) blast
qed simp

lemma TryExtractPartitionFilters_sound:
  assumes "TryExtractPartitionFilters get keys e = Inr fs"
    and "partition_laws get keys place part row V" and "set (compared_constants get e) \<subseteq> V"
    and "esem (cval place) fsem ov ob get e row = Some True"
  shows "fs = [] \<or> (\<exists>m \<in> set fs. matches part m)"
proof -
  have single: ?thesis
    if "res_bind (TryExtractPartitionFilter get keys e []) (\<lambda>(m, pf). Inr (if m then [pf] else [])) = Inr fs"
    using that TryExtract_sound(1) [OF _ assms(2,3,4), of "[]"]
    by (auto elim!: res_bindE split: if_split_asm)
  show ?thesis
  proof (cases e)
    case (BOUND_CONJUNCTION t cs)
    then have "t = CONJUNCTION_OR \<Longrightarrow> \<exists>c \<in> set cs. esem (cval place) fsem ov ob get c row = Some True"
      using assms(4) by auto
    then show ?thesis
      using BOUND_CONJUNCTION assms(1,3) single extract_disjuncts_sound [OF assms(2), of cs _ fsem ov ob]
      by (auto simp: TryExtractPartitionFilters_def elim!: res_bindE split: option.split_asm if_split_asm)
  qed (use assms(1) single in \<open>auto simp: TryExtractPartitionFilters_def\<close>)
qed

text \<open>Merging is conjunction, and fails only on filters no partition can both match.\<close>

lemma merge_part_filter_matches:
  "(case merge_part_filter a b of None \<Rightarrow> False | Some m \<Rightarrow> matches part m) \<longleftrightarrow>
     matches part a \<and> matches part b"
proof (induction a b rule: merge_part_filter.induct)
  case (2 merged k v incoming)
  show ?case
  proof (cases "map_of merged k")
    case None
    then have "set (map_put k v merged) = insert (k, v) (set merged)"
      by (simp add: set_map_put_new map_of_eq_None_iff)
    with 2 None show ?thesis by (auto simp: matches_def split: option.splits)
  next
    case (Some w)
    with map_of_SomeD [OF Some] 2 show ?thesis
      by (auto simp: matches_def split: option.splits)
  qed
qed (simp add: matches_def)

lemma cross_merge_matches:
  "(\<exists>m \<in> set (cross_merge A B). matches part m) \<longleftrightarrow>
     (\<exists>a \<in> set A. matches part a) \<and> (\<exists>b \<in> set B. matches part b)"
proof -
  have "(\<exists>m \<in> set (cross_merge A B). matches part m) \<longleftrightarrow>
      (\<exists>a \<in> set A. \<exists>b \<in> set B. case merge_part_filter a b of None \<Rightarrow> False | Some m \<Rightarrow> matches part m)"
    by (fastforce simp: cross_merge_def List.map_filter_def split: option.splits)
  then show ?thesis by (auto simp: merge_part_filter_matches)
qed

lemma foldl_cross_merge_matches:
  "(\<exists>m \<in> set (foldl cross_merge A Bs). matches part m) \<longleftrightarrow>
     (\<forall>fs \<in> set (A # Bs). \<exists>m \<in> set fs. matches part m)"
  by (induction Bs arbitrary: A) (auto simp: cross_merge_matches)

lemma extract_filters_sound:
  assumes "partition_laws get keys place part row V"
  shows "extract_filters get keys fs = Inr per_expr \<Longrightarrow>
    (\<Union>f \<in> set fs. set (compared_constants get f)) \<subseteq> V \<Longrightarrow>
    \<forall>f \<in> set fs. esem (cval place) fsem ov ob get f row = Some True \<Longrightarrow>
    pf \<in> set per_expr \<Longrightarrow> \<exists>m \<in> set pf. matches part m"
proof (induction fs arbitrary: per_expr)
  case (Cons f fs)
  then show ?case
    using TryExtractPartitionFilters_sound [OF _ assms, of f _ fsem ov ob]
    by (auto elim!: res_bindE split: if_split_asm)
qed simp

section \<open>Properties\<close>

lemma pushdown_fields:
  "PaimonPushdownFilter hconv flip pb get filters bind = Inr bind' \<Longrightarrow>
    bind' = bind\<lparr>bd_predicates := bd_predicates bind', bd_part_filters := bd_part_filters bind'\<rparr>"
  unfolding PaimonPushdownFilter_def by (elim res_bindE) auto

text \<open>The stored predicate is the conjunction of the converted filters, or none when no filter was converted.\<close>

lemma pushdown_predicate:
  assumes "PaimonPushdownFilter hconv flip pb get filters bind = Inr bind'"
  obtains ps where "convert_filters hconv flip pb get filters = Inr ps"
    "ps = [] \<and> bd_predicates bind' = None \<or> (\<exists>p. pb_And pb ps = Inr p \<and> bd_predicates bind' = Some p)"
  using assms unfolding PaimonPushdownFilter_def by (elim res_bindE) (auto split: if_split_asm sum.split_asm)

lemma pushdown_admits:
  assumes "PaimonPushdownFilter hconv flip pb get filters bind = Inr bind'"
    and "pushdown_laws hconv flip pb place fsem psem"
    and "partition_laws get (set (bd_part_keys bind)) place part row (\<Union>f \<in> set filters. set (compared_constants get f))"
    and "\<And>f. f \<in> set filters \<Longrightarrow> well_typed get f \<and> not_safe hconv flip pb get f"
    and "\<And>f. f \<in> set filters \<Longrightarrow> esem (cval place) fsem ov ob get f row = Some True"
  shows "(case bd_predicates bind' of None \<Rightarrow> True | Some p \<Rightarrow> psem p row = Some True) \<and>
    (bd_part_filters bind' = [] \<or> (\<exists>m \<in> set (bd_part_filters bind'). matches part m))"
proof -
  obtain ps where ps: "convert_filters hconv flip pb get filters = Inr ps"
    and top: "ps = [] \<and> bd_predicates bind' = None \<or> (\<exists>p. pb_And pb ps = Inr p \<and> bd_predicates bind' = Some p)"
    using assms(1) by (rule pushdown_predicate)
  obtain pfs where pfs: "(if bd_part_keys bind = [] then Inr []
        else res_bind (extract_filters get (set (bd_part_keys bind)) filters) (\<lambda>per_expr.
          Inr (combine_part_filters per_expr))) = Inr pfs"
    and b: "bd_part_filters bind' = pfs"
    using assms(1) unfolding PaimonPushdownFilter_def by (elim res_bindE) auto
  have "\<forall>q \<in> set ps. psem q row = Some True"
    using convert_filters_sound [OF assms(2) ps] assms(4,5) by blast
  then have "case bd_predicates bind' of None \<Rightarrow> True | Some p \<Rightarrow> psem p row = Some True"
    using top law_connectives(1) [OF assms(2)] by auto
  moreover have "pfs = [] \<or> (\<exists>m \<in> set pfs. matches part m)"
  proof (cases "bd_part_keys bind = []")
    case False
    then obtain per_expr where pe: "extract_filters get (set (bd_part_keys bind)) filters = Inr per_expr"
      and c: "pfs = combine_part_filters per_expr"
      using pfs by (auto elim: res_bindE)
    have "\<forall>pf \<in> set per_expr. \<exists>m \<in> set pf. matches part m"
      using extract_filters_sound [OF assms(3) pe] assms(5) by blast
    then show ?thesis
      using c foldl_cross_merge_matches [of "hd per_expr" "tl per_expr" part]
      by (cases per_expr) (simp_all add: combine_part_filters_def)
  qed (use pfs in simp)
  ultimately show ?thesis using b by simp
qed

text \<open>
  C7. Pushdown loses no row: when every filter is true on a row and each NOT in them is over
  an exact conversion, the predicate stored in the bind data is true on that row, and either no
  partition filter is stored or one of them keeps the row's partition.
\<close>

theorem PaimonPushdownFilter_keeps_rows:
  assumes "PaimonPushdownFilter hconv flip pb get filters bind = Inr bind'"
    and "pushdown_laws hconv flip pb place fsem psem"
    and "partition_laws get (set (bd_part_keys bind)) place part row (\<Union>f \<in> set filters. set (compared_constants get f))"
    and "\<And>f. f \<in> set filters \<Longrightarrow> well_typed get f \<and> not_safe hconv flip pb get f"
    and "\<And>f. f \<in> set filters \<Longrightarrow> esem (cval place) fsem ov ob get f row = Some True"
  shows "(case bd_predicates bind' of None \<Rightarrow> True | Some p \<Rightarrow> psem p row = Some True) \<and>
    (bd_part_filters bind' = [] \<or> (\<exists>m \<in> set (bd_part_filters bind'). matches part m))"
  using assms by (rule pushdown_admits)

text \<open>
  The cross product over the top-level filters is exactly their conjunction: a partition
  passes one of the combined filters if and only if it passes one filter of every list.
\<close>

theorem combine_part_filters_conjunction:
  assumes "per_expr \<noteq> []"
  shows "(\<exists>m \<in> set (combine_part_filters per_expr). matches part m) \<longleftrightarrow>
    (\<forall>fs \<in> set per_expr. \<exists>m \<in> set fs. matches part m)"
  using assms foldl_cross_merge_matches [of "hd per_expr" "tl per_expr" part]
  by (cases per_expr) (simp_all add: combine_part_filters_def)

theorem combine_part_filters_conjunction_witness:
  "(\<exists>m \<in> set (combine_part_filters [[[(''p'', ''1'')], [(''p'', ''2'')]], [[(''p'', ''2''), (''q'', ''x'')]]]).
      matches (\<lambda>k. if k = ''p'' then ''2'' else ''x'') m) \<longleftrightarrow>
    (\<forall>fs \<in> set [[[(''p'', ''1'')], [(''p'', ''2'')]], [[(''p'', ''2''), (''q'', ''x'')]]].
      \<exists>m \<in> set fs. matches (\<lambda>k. if k = ''p'' then ''2'' else ''x'') m)"
  by (rule combine_part_filters_conjunction) simp

lemma TryConvertChildren_member:
  "TryConvertChildren hconv flip pb get t cs = Inr (Some ps) \<Longrightarrow> q \<in> set ps \<Longrightarrow>
    \<exists>c \<in> set cs. TryConvertExpression hconv flip pb get c = Inr (Some q)"
  by (induction cs arbitrary: ps) (fastforce elim!: res_bindE split: option.split_asm if_split_asm)+

lemma convert_filters_member:
  "convert_filters hconv flip pb get fs = Inr ps \<Longrightarrow> f \<in> set fs \<Longrightarrow>
    TryConvertExpression hconv flip pb get f = Inr (Some p) \<Longrightarrow> p \<in> set ps"
  by (induction fs arbitrary: ps) (auto elim!: res_bindE split: option.splits)

lemma partial_conjunction_true:
  assumes "pushdown_laws hconv flip pb place fsem psem"
    and "TryConvertExpression hconv flip pb get (BOUND_CONJUNCTION CONJUNCTION_AND cs) = Inr (Some q)"
    and "\<And>c. c \<in> set cs \<Longrightarrow> converts hconv flip pb get c \<Longrightarrow>
      well_typed get c \<and> lossless hconv flip pb get c \<and> esem (cval place) fsem ov ob get c row = Some True"
  shows "psem q row = Some True"
proof -
  from assms(2) obtain ps where ps: "TryConvertChildren hconv flip pb get CONJUNCTION_AND cs = Inr (Some ps)"
    and q: "pb_And pb ps = Inr q"
    by (rule TryConvertConjunction_Some) auto
  have "psem x row = Some True" if x: "x \<in> set ps" for x
  proof -
    obtain c where c: "c \<in> set cs" "TryConvertExpression hconv flip pb get c = Inr (Some x)"
      using TryConvertChildren_member [OF ps x] by blast
    then show ?thesis
      using assms(3) [OF c(1)] TryConvert_exact(1) [OF c(2) assms(1), where ov = ov and ob = ob and row = row] by (simp add: converts_def)
  qed
  then show ?thesis
    by (simp add: law_connectives(1) [OF assms(1) q])
qed

text \<open>
  C39. NOT over a conjunction that was converted only in part loses rows. Whenever the scan's filters contain such a
  NOT and it is pushed, a row on which the converted conjuncts (converted exactly) are true and another one
  is false satisfies the NOT, but the predicate stored in the bind data is false on it.
\<close>

theorem pushdown_not_partial_conjunction:
  assumes "PaimonPushdownFilter hconv flip pb get filters bind = Inr bind'"
    and "BOUND_OPERATOR OPERATOR_NOT [BOUND_CONJUNCTION CONJUNCTION_AND cs] \<in> set filters"
    and "converts hconv flip pb get (BOUND_OPERATOR OPERATOR_NOT [BOUND_CONJUNCTION CONJUNCTION_AND cs])"
    and "pushdown_laws hconv flip pb place fsem psem"
    and "\<And>c. c \<in> set cs \<Longrightarrow> converts hconv flip pb get c \<Longrightarrow>
      well_typed get c \<and> lossless hconv flip pb get c \<and> esem (cval place) fsem ov ob get c row = Some True"
    and "e \<in> set cs" "esem (cval place) fsem ov ob get e row = Some False"
  shows "esem (cval place) fsem ov ob get (BOUND_OPERATOR OPERATOR_NOT [BOUND_CONJUNCTION CONJUNCTION_AND cs]) row = Some True \<and>
    (\<exists>r. bd_predicates bind' = Some r \<and> psem r row = Some False)"
proof -
  obtain p where p: "TryConvertExpression hconv flip pb get
      (BOUND_OPERATOR OPERATOR_NOT [BOUND_CONJUNCTION CONJUNCTION_AND cs]) = Inr (Some p)"
    using assms(3) by (auto simp: converts_def split: sum.splits option.splits)
  from p have "psem p row = Some False"
  proof (cases rule: TryConvertOperator_Some)
    case (NOT c rest q)
    then have "TryConvertExpression hconv flip pb get (BOUND_CONJUNCTION CONJUNCTION_AND cs) = Inr (Some q)"
      by (simp only: list.inject)
    then have "psem q row = Some True"
      by (rule partial_conjunction_true [OF assms(4) _ assms(5)])
    then show ?thesis
      by (simp add: law_connectives(3) [OF assms(4) NOT(4)] sql_not_def)
  qed simp
  moreover obtain ps where ps: "convert_filters hconv flip pb get filters = Inr ps"
    and top: "ps = [] \<and> bd_predicates bind' = None \<or> (\<exists>p. pb_And pb ps = Inr p \<and> bd_predicates bind' = Some p)"
    using assms(1) by (rule pushdown_predicate)
  moreover have "p \<in> set ps" by (rule convert_filters_member [OF ps assms(2) p])
  ultimately have "\<exists>r. bd_predicates bind' = Some r \<and> psem r row = Some False"
    using law_connectives(1) [OF assms(4)] by (force simp: sql_and_def)
  moreover have "Some False \<in> (\<lambda>c. esem (cval place) fsem ov ob get c row) ` set cs"
    using assms(6,7) by force
  ultimately show ?thesis by (simp add: sql_and_def sql_not_def)
qed




end
