(* ===== verification/Paimon_Options.thy ===== *)
theory Paimon_Options
  imports Paimon_Types
begin

text \<open>
  Component \<^verbatim>\<open>src/src/paimon_storage/paimon_catalog.cpp\<close>, option resolution:
  \<open>PaimonCatalog::GetPaimonOptions\<close> turns the options of a scan or an attached catalog,
  the path and the matching secret into the option map handed to Paimon.

  Parameters: DuckDB's \<open>StringUtil\<close> (record \<open>string_util\<close>), Paimon's option names
  (record \<open>option_keys\<close>), and the client context (record \<open>client_ctx\<close>: the secret
  that matches a path, \<open>Timestamp::FromString\<close> followed by \<open>GetEpochMs\<close>,
  the vector size). An \<open>unordered_map\<close> of input options is the list of its
  entries in iteration order.
\<close>

record string_util =
  su_ci_equals :: "string \<Rightarrow> string \<Rightarrow> bool"
  su_lower :: "string \<Rightarrow> string"
  su_trim :: "string \<Rightarrow> string"
  su_starts_with :: "string \<Rightarrow> string \<Rightarrow> bool"

record option_keys =
  key_METASTORE :: string
  key_URI :: string
  key_TOKEN_PROVIDER :: string
  key_TOKEN :: string
  key_MANIFEST_FORMAT :: string
  key_FILE_FORMAT :: string
  key_FILE_SYSTEM :: string
  key_READ_BATCH_SIZE :: string
  key_SCAN_SNAPSHOT_ID :: string
  key_SCAN_TIMESTAMP_MILLIS :: string
  key_PARTITION_DEFAULT_NAME :: string
  key_DATA_FILE_PREFIX :: string

record KeyValueSecret =
  sec_provider :: string
  sec_try_get :: "string \<Rightarrow> Value option"

record client_ctx =
  ctx_secret :: "string \<Rightarrow> KeyValueSecret option"
  ctx_epoch_ms :: "string \<Rightarrow> int res"
  ctx_vector_size :: int

section \<open>Reading single options\<close>

fun TryGetPaimonOptionValue :: "string_util \<Rightarrow> (string \<times> Value) list \<Rightarrow> string \<Rightarrow> string option" where
  "TryGetPaimonOptionValue su [] key = None"
| "TryGetPaimonOptionValue su ((k, v) # es) key =
     (if su_ci_equals su k key then Some (val_to_string v) else TryGetPaimonOptionValue su es key)"

definition GetValidatedFormatOption :: "string_util \<Rightarrow> (string \<times> Value) list \<Rightarrow> string \<Rightarrow> string \<Rightarrow>
    string list \<Rightarrow> string res" where
  "GetValidatedFormatOption su input_options key default_value supported_values =
     (case TryGetPaimonOptionValue su input_options key of
        None \<Rightarrow> Inr default_value
      | Some raw_value \<Rightarrow>
          (let normalized_value = su_trim su (su_lower su raw_value)
           in if normalized_value = [] then Inl (InvalidInputException ''option empty'')
              else if normalized_value \<notin> set supported_values
              then Inl (InvalidInputException ''invalid format'')
              else Inr normalized_value))"

definition AddOptionalSecretOption :: "KeyValueSecret \<Rightarrow> string \<Rightarrow> string \<Rightarrow> options \<Rightarrow> options" where
  "AddOptionalSecretOption secret secret_key option_key paimon_options =
     (case sec_try_get secret secret_key of
        None \<Rightarrow> paimon_options
      | Some value \<Rightarrow> map_put option_key (val_to_string value) paimon_options)"

definition AddRequiredSecretOption :: "KeyValueSecret \<Rightarrow> string \<Rightarrow> string \<Rightarrow> options \<Rightarrow> options res" where
  "AddRequiredSecretOption secret secret_key option_key paimon_options =
     (case sec_try_get secret secret_key of
        None \<Rightarrow> Inl (InvalidInputException ''missing secret option'')
      | Some value \<Rightarrow>
          if val_to_string value = [] then Inl (InvalidInputException ''missing secret option'')
          else Inr (map_put option_key (val_to_string value) paimon_options))"

section \<open>The option map\<close>

definition present :: "string option \<Rightarrow> bool" where
  "present v = (case v of None \<Rightarrow> False | Some s \<Rightarrow> s \<noteq> [])"

definition metastore_options :: "string_util \<Rightarrow> option_keys \<Rightarrow> (string \<times> Value) list \<Rightarrow> options res" where
  "metastore_options su ks input_options =
     (case TryGetPaimonOptionValue su input_options ''metastore'' of
        None \<Rightarrow> Inr []
      | Some metastore \<Rightarrow>
          (let m = map_put (key_METASTORE ks) metastore []
           in if \<not> su_ci_equals su metastore ''rest'' then Inr m
              else let uri = TryGetPaimonOptionValue su input_options ''uri'';
                       token_provider = TryGetPaimonOptionValue su input_options ''token_provider'';
                       token = TryGetPaimonOptionValue su input_options ''token''
                   in if \<not> present uri then Inl (InvalidInputException ''URI is required'')
                      else if \<not> present token_provider
                      then Inl (InvalidInputException ''TOKEN_PROVIDER is required'')
                      else if su_ci_equals su (the token_provider) ''bear'' \<and> \<not> present token
                      then Inl (InvalidInputException ''TOKEN is required'')
                      else let m = map_put (key_TOKEN_PROVIDER ks) (the token_provider)
                             (map_put (key_URI ks) (the uri) m)
                           in Inr (case token of None \<Rightarrow> m | Some t \<Rightarrow> map_put (key_TOKEN ks) t m)))"

definition supported_manifest_formats :: "string list" where
  "supported_manifest_formats = [''avro'', ''orc'', ''parquet'']"

definition supported_file_formats :: "string list" where
  "supported_file_formats = [''avro'', ''blob'', ''orc'', ''parquet'']"

definition format_option :: "string_util \<Rightarrow> (string \<times> Value) list \<Rightarrow> string \<Rightarrow> string list \<Rightarrow> string \<Rightarrow>
    options \<Rightarrow> options res" where
  "format_option su input_options name supported option_key m =
     (case TryGetPaimonOptionValue su input_options name of
        None \<Rightarrow> Inr m
      | Some _ \<Rightarrow> res_bind (GetValidatedFormatOption su input_options name [] supported) (\<lambda>f.
          Inr (map_put option_key f m)))"

definition is_oss_path :: "string_util \<Rightarrow> string \<Rightarrow> bool" where
  "is_oss_path su path = su_starts_with su (su_lower su path) ''oss://''"

definition is_s3_path :: "string_util \<Rightarrow> string \<Rightarrow> bool" where
  "is_s3_path su path = su_starts_with su (su_lower su path) ''s3://''"

definition file_system_option :: "string_util \<Rightarrow> string \<Rightarrow> string" where
  "file_system_option su path =
     (if is_oss_path su path then ''jindo'' else if is_s3_path su path then ''s3'' else ''local'')"

text \<open>\<open>path.substr(bucket_start, path.find('/', bucket_start) - bucket_start)\<close>\<close>

definition oss_bucket :: "string \<Rightarrow> string" where
  "oss_bucket path = takeWhile (\<lambda>c. c \<noteq> CHR ''/'') (drop (length ''oss://'') path)"

definition secret_options :: "string_util \<Rightarrow> client_ctx \<Rightarrow> string \<Rightarrow> options \<Rightarrow> options res" where
  "secret_options su ctx path m =
     (case ctx_secret ctx path of
        None \<Rightarrow> Inr m
      | Some kv_secret \<Rightarrow>
          if sec_provider kv_secret = ''credential_chain'' \<and> \<not> is_s3_path su path
          then Inl (InvalidInputException ''provider only for S3'')
          else if is_oss_path su path then
            (let bucket = oss_bucket path; prefix = ''fs.oss.bucket.'' @ bucket @ ''.''
             in if bucket = [] then Inl (IOException ''invalid OSS path'')
                else res_bind (AddRequiredSecretOption kv_secret ''key_id'' (prefix @ ''accessKeyId'')
                       (map_put ''fs.oss.user'' ''paimon'' m)) (\<lambda>m.
                     res_bind (AddRequiredSecretOption kv_secret ''secret''
                       (prefix @ ''accessKeySecret'') m) (\<lambda>m.
                     AddRequiredSecretOption kv_secret ''endpoint'' (prefix @ ''endpoint'') m)))
          else if is_s3_path su path then
            Inr (fold (\<lambda>(sk, k). AddOptionalSecretOption kv_secret sk k)
              [(''key_id'', ''s3.access-key''), (''secret'', ''s3.secret-key''),
               (''endpoint'', ''s3.endpoint''), (''session_token'', ''s3.session.token''),
               (''profile'', ''s3.profile''), (''region'', ''s3.region''),
               (''path_style_access'', ''s3.path-style-access'')] m)
          else Inr m)"

definition snapshot_options :: "string_util \<Rightarrow> option_keys \<Rightarrow> client_ctx \<Rightarrow> (string \<times> Value) list \<Rightarrow>
    options \<Rightarrow> options res" where
  "snapshot_options su ks ctx input_options m =
     (let snap_id = TryGetPaimonOptionValue su input_options ''snapshot_from_id'';
          snap_ts = TryGetPaimonOptionValue su input_options ''snapshot_from_timestamp''
      in if snap_id \<noteq> None \<and> snap_ts \<noteq> None
         then Inl (InvalidInputException ''both snapshot options'')
         else let m = (case snap_id of None \<Rightarrow> m | Some i \<Rightarrow> map_put (key_SCAN_SNAPSHOT_ID ks) i m)
              in case snap_ts of
                   None \<Rightarrow> Inr m
                 | Some t \<Rightarrow> res_bind (ctx_epoch_ms ctx t) (\<lambda>ms.
                     Inr (map_put (key_SCAN_TIMESTAMP_MILLIS ks) (to_string ms) m)))"

definition GetPaimonOptions :: "string_util \<Rightarrow> option_keys \<Rightarrow> client_ctx \<Rightarrow> string \<Rightarrow>
    (string \<times> Value) list \<Rightarrow> options res" where
  "GetPaimonOptions su ks ctx path input_options =
     res_bind (metastore_options su ks input_options) (\<lambda>m.
     res_bind (format_option su input_options ''manifest_format'' supported_manifest_formats
       (key_MANIFEST_FORMAT ks) m) (\<lambda>m.
     res_bind (format_option su input_options ''file_format'' supported_file_formats
       (key_FILE_FORMAT ks) m) (\<lambda>m.
     res_bind (secret_options su ctx path
       (map_put (key_FILE_SYSTEM ks) (file_system_option su path) m)) (\<lambda>m.
     snapshot_options su ks ctx input_options
       (map_emplace (key_READ_BATCH_SIZE ks) (to_string (ctx_vector_size ctx)) m)))))"

end
