(* ===== verification/Paimon_Api.thy ===== *)
theory Paimon_Api
  imports Paimon_Bind Paimon_Options
begin

text \<open>
  The code the components call and that is not part of the repository, as parameters: Paimon's
  C++ API, DuckDB's serializers and string utilities, and the types of Vane's distributed-write
  interface. Nothing here says how any of it works; what a property needs of it is one of the
  predicates \<open>serde_laws\<close>, \<open>vane_laws\<close>, \<open>codec_laws\<close>, \<open>split_laws\<close>, and is a
  hypothesis of that property.

  \<^item> \<open>env\<close> bundles the parameters. Paimon's catalog, writers and committers are functions on a
    world \<open>'w\<close> (everything outside the process) returning a status or a value; \<open>'m\<close> is the type
    of commit messages; writers and committers are pointers, here numbers.
  \<^item> \<open>sys\<close> is the part of the state every component shares: the world, and the trace of what the
    process did, newest event first. Components extend this record with their own fields.
  \<^item> \<open>call\<close> performs one API call and records it; \<open>with_mutex\<close> is a \<open>std::lock_guard\<close> on the
    catalog mutation mutex, released on every exit.
\<close>

section \<open>Data of the Paimon API\<close>

record paimon_status =
  st_text :: string
  st_exist :: bool
  st_not_exist :: bool

type_synonym 'a presult = "paimon_status + 'a"
type_synonym ('w, 'a) papi = "'w \<Rightarrow> 'a presult \<times> 'w"

record Identifier =
  id_database :: string
  id_table :: string

record ArrowSchema =
  as_children :: "(string \<times> string) list"

record DataSchema =
  dsc_Id :: int
  dsc_PrimaryKeys :: "string list"
  dsc_PartitionKeys :: "string list"
  dsc_Options :: options

record TableSchema =
  ts_data :: "DataSchema option"
  ts_FieldNames :: "string list"
  ts_GetArrowSchema :: "ArrowSchema option presult"
  ts_GetJsonSchema :: "string presult"

record SnapshotInfo =
  sn_snapshot_id :: int
  sn_schema_id :: int
  sn_commit_user :: string
  sn_commit_kind :: nat
  sn_time_millis :: int
  sn_total_record_count :: "int option"
  sn_delta_record_count :: "int option"
  sn_watermark :: "int option"

record WriteContext =
  wc_table_path :: string
  wc_commit_user :: string
  wc_write_id :: int
  wc_streaming :: bool
  wc_options :: options

record CommitContext =
  cc_table_path :: string
  cc_commit_user :: string
  cc_options :: options
  cc_check_conflict :: "bool option"

record DataChunk =
  dc_types :: "LogicalType list"
  dc_rows :: "Value list list"

text \<open>The Arrow properties of the client that the writer overrides; \<open>None\<close> when it takes them as they are.\<close>

record ArrowProps =
  ap_offset_size_regular :: bool
  ap_use_list_view :: bool
  ap_string_view :: bool
  ap_output_version_1_0 :: bool

record RecordBatch =
  rb_props :: "ArrowProps option"
  rb_chunk :: DataChunk
  rb_partition :: options
  rb_bucket :: "int option"

record CreateTableRequest =
  ct_schema :: ArrowSchema
  ct_partition_keys :: "string list"
  ct_primary_keys :: "string list"
  ct_options :: options
  ct_ignore_if_exists :: bool

section \<open>Properties written by DuckDB's serializers\<close>

datatype pval = PU8 "8 word" | PU32 "32 word" | PI32 int | PI64 int | PIdx idx_t | PBool bool
  | PStr string | PStrs "string list" | PTypes "LogicalType list" | PMap options

datatype ptype = TU8 | TU32 | TI32 | TI64 | TIdx | TBool | TStr | TStrs | TTypes | TMap

fun ptype_of :: "pval \<Rightarrow> ptype" where
  "ptype_of (PU8 _) = TU8" | "ptype_of (PU32 _) = TU32" | "ptype_of (PI32 _) = TI32"
| "ptype_of (PI64 _) = TI64" | "ptype_of (PIdx _) = TIdx" | "ptype_of (PBool _) = TBool"
| "ptype_of (PStr _) = TStr" | "ptype_of (PStrs _) = TStrs" | "ptype_of (PTypes _) = TTypes"
| "ptype_of (PMap _) = TMap"

text \<open>What C++ can hold in the property's type, and the 32-bit string lengths of the format.\<close>

abbreviation int64_range :: "int \<Rightarrow> bool" where
  "int64_range i \<equiv> int64_min \<le> i \<and> i \<le> int64_max"

definition str_ok :: "string \<Rightarrow> bool" where
  "str_ok s \<longleftrightarrow> length s < 2 ^ 32"

fun pval_ok :: "pval \<Rightarrow> bool" where
  "pval_ok (PI32 i) \<longleftrightarrow> - (2 ^ 31) \<le> i \<and> i < 2 ^ 31"
| "pval_ok (PI64 i) \<longleftrightarrow> int64_range i"
| "pval_ok (PStr s) \<longleftrightarrow> str_ok s"
| "pval_ok (PStrs ss) \<longleftrightarrow> list_all str_ok ss"
| "pval_ok (PMap m) \<longleftrightarrow> omap_wf m \<and> list_all (\<lambda>(k, v). str_ok k \<and> str_ok v) m"
| "pval_ok _ \<longleftrightarrow> True"

text \<open>\<open>WriteProperty(id, tag, value)\<close>, and \<open>WriteObject(id, tag, ...)\<close> around its contents.\<close>

datatype witem = WProp nat string pval | WObjBegin nat string | WObjEnd

fun witem_ok :: "witem \<Rightarrow> bool" where
  "witem_ok (WProp i t v) = pval_ok v"
| "witem_ok _ = True"

section \<open>Vane's distributed-write types\<close>

datatype DistributedWriteMode = CALLBACK_SINK | OTHER_MODE

record CodecId =
  codec_name :: string
  codec_version :: "32 word"

record Capability =
  cap_extension_name :: string
  cap_name :: string
  cap_protocol_version :: "32 word"

record DistributedExtensionWriteInfo =
  wi_mode :: DistributedWriteMode
  wi_capability :: Capability
  wi_fragment_codec :: CodecId
  wi_worker_bind_data :: string

record DistributedWriteTaskContext =
  tk_query_id :: string
  tk_task_attempt_id :: string

record DistributedWriteFragment =
  fr_fragment_id :: string
  fr_payload :: string
  fr_row_count :: idx_t
  fr_byte_count :: idx_t
  fr_artifacts :: "string list"

record DistributedWriteTaskResult =
  tr_capability :: Capability
  tr_fragment_codec :: CodecId
  tr_query_id :: string
  tr_task_attempt_id :: string
  tr_fragments :: "DistributedWriteFragment list"

record DistributedExtensionWritePlan =
  wp_extension_name :: string
  wp_operator_name :: string
  wp_worker_bind_data :: string

section \<open>The parameters\<close>

record ('w, 'm, 'd) env =
  TableExists :: "Identifier \<Rightarrow> ('w, bool) papi"
  GetTable :: "Identifier \<Rightarrow> ('w, string option) papi"
  GetTableLocation :: "Identifier \<Rightarrow> ('w, string) papi"
  LoadTableSchema :: "Identifier \<Rightarrow> ('w, TableSchema option) papi"
  ListSnapshots :: "Identifier \<Rightarrow> ('w, SnapshotInfo list) papi"
  CatalogCreateTable :: "Identifier \<Rightarrow> CreateTableRequest \<Rightarrow> ('w, unit) papi"
  CatalogDropTable :: "Identifier \<Rightarrow> bool \<Rightarrow> ('w, unit) papi"
  CreateDatabase :: "string \<Rightarrow> bool \<Rightarrow> ('w, unit) papi"
  DropDatabase :: "string \<Rightarrow> bool \<Rightarrow> bool \<Rightarrow> ('w, unit) papi"
  ListDatabases :: "('w, string list) papi"
  ListTables :: "string \<Rightarrow> ('w, string list) papi"
  FinishWriteContext :: "WriteContext \<Rightarrow> ('w, unit) papi"
  FileStoreWrite_Create :: "WriteContext \<Rightarrow> ('w, nat) papi"
  FinishRecordBatch :: "RecordBatch \<Rightarrow> ('w, unit) papi"
  Writer_Write :: "nat \<Rightarrow> RecordBatch \<Rightarrow> ('w, unit) papi"
  Writer_PrepareCommit :: "nat \<Rightarrow> (bool \<times> int) option \<Rightarrow> ('w, 'm option list) papi"
  Writer_Close :: "nat \<Rightarrow> ('w, unit) papi"
  FinishCommitContext :: "CommitContext \<Rightarrow> ('w, unit) papi"
  FileStoreCommit_Create :: "CommitContext \<Rightarrow> ('w, nat) papi"
  Committer_Abort :: "nat \<Rightarrow> 'm option list \<Rightarrow> ('w, unit) papi"
  Committer_FilterAndCommit :: "nat \<Rightarrow> (int, 'm option list) omap \<Rightarrow> ('w, int) papi"
  Committer_Commit :: "nat \<Rightarrow> 'm option list \<Rightarrow> ('w, unit) papi"
  SerializeList :: "'m option list \<Rightarrow> string presult"
  DeserializeList :: "int \<Rightarrow> string \<Rightarrow> 'm option list presult"
  SerializeMessage :: "'m \<Rightarrow> string presult"
  CurrentVersion :: int
  sd_bytes :: "witem list \<Rightarrow> string"
  sd_begin :: "string \<Rightarrow> 'd res"
  sd_read :: "nat \<Rightarrow> string \<Rightarrow> ptype \<Rightarrow> ('d, pval) proc"
  sd_obj_begin :: "nat \<Rightarrow> string \<Rightarrow> ('d, unit) proc"
  sd_obj_end :: "('d, unit) proc"
  sd_end :: "('d, unit) proc"
  PopulateArrowTableSchema :: "ArrowSchema \<Rightarrow> ArrowTableSchema res"
  ToArrowSchema :: "LogicalType list \<Rightarrow> string list \<Rightarrow> ArrowSchema res"
  MD5Hex :: "string \<Rightarrow> string"
  HashBytes :: "string \<Rightarrow> 64 word"
  UUIDParses :: "string \<Rightarrow> bool"
  UUID_STRING_SIZE :: nat
  GenerateUUID :: "'w \<Rightarrow> string \<times> 'w"
  StringSplit :: "string \<Rightarrow> char \<Rightarrow> string list"
  CharacterIsDigit :: "char \<Rightarrow> bool"
  StringUtil :: string_util
  OptionKeys :: option_keys
  Context :: client_ctx
  TaskValidate :: "DistributedWriteTaskContext \<Rightarrow> unit res"
  TaskResultValidate :: "DistributedWriteTaskResult \<Rightarrow> unit res"
  TaskResultRowCount :: "DistributedWriteTaskResult \<Rightarrow> idx_t"
  TaskResultByteCount :: "DistributedWriteTaskResult \<Rightarrow> idx_t"
  WriteInfoName :: "DistributedExtensionWriteInfo \<Rightarrow> string"
  ResolveWriteInfo :: "DistributedExtensionWritePlan \<Rightarrow> DistributedExtensionWriteInfo res"
  FullName :: "Identifier \<Rightarrow> string"

section \<open>Laws of the parameters\<close>

text \<open>What was written is read back when the same identifiers, tags and types are asked for in order.\<close>

fun reads_back :: "('w, 'm, 'd) env \<Rightarrow> witem list \<Rightarrow> 'd \<Rightarrow> 'd \<Rightarrow> bool" where
  "reads_back E [] d d' \<longleftrightarrow> d' = d"
| "reads_back E (WProp i t v # is) d d' \<longleftrightarrow>
     (\<exists>e. sd_read E i t (ptype_of v) d = (Inr v, e) \<and> reads_back E is e d')"
| "reads_back E (WObjBegin i t # is) d d' \<longleftrightarrow>
     (\<exists>e. sd_obj_begin E i t d = (Inr (), e) \<and> reads_back E is e d')"
| "reads_back E (WObjEnd # is) d d' \<longleftrightarrow>
     (\<exists>e. sd_obj_end E d = (Inr (), e) \<and> reads_back E is e d')"

definition serde_laws :: "('w, 'm, 'd) env \<Rightarrow> bool" where
  "serde_laws E \<longleftrightarrow> (\<forall>items. list_all witem_ok items \<longrightarrow> sd_bytes E items \<noteq> [] \<and>
     (\<exists>d d'. sd_begin E (sd_bytes E items) = Inr d \<and> reads_back E items d d' \<and>
       fst (sd_end E d') = Inr ()))"

lemma serde_lawsE:
  assumes "serde_laws E" and "list_all witem_ok items"
  obtains d d' where "sd_bytes E items \<noteq> []" "sd_begin E (sd_bytes E items) = Inr d"
    "reads_back E items d d'" "fst (sd_end E d') = Inr ()"
  using assms unfolding serde_laws_def by blast

text \<open>The message codec reads its own output, whatever null messages the list contains.\<close>

definition codec_laws :: "('w, 'm, 'd) env \<Rightarrow> bool" where
  "codec_laws E \<longleftrightarrow> (\<forall>ms bytes. SerializeList E ms = Inr bytes \<longrightarrow>
     DeserializeList E (CurrentVersion E) bytes = Inr ms)"

text \<open>Splitting a dotted identity whose parts are not empty and contain no dot.\<close>

definition split_laws :: "('w, 'm, 'd) env \<Rightarrow> bool" where
  "split_laws E \<longleftrightarrow> (\<forall>a b c. a \<noteq> [] \<and> b \<noteq> [] \<and> c \<noteq> [] \<and> CHR ''.'' \<notin> set (a @ b @ c) \<longrightarrow>
       StringSplit E (a @ ''.'' @ b @ ''.'' @ c) CHR ''.'' = [a, b, c]) \<and>
     (\<forall>c. CharacterIsDigit E c \<longleftrightarrow> c \<in> set ''0123456789'')"

text \<open>A task result counts the rows of its fragments; a write operator is named by its capability.\<close>

definition vane_laws :: "('w, 'm, 'd) env \<Rightarrow> bool" where
  "vane_laws E \<longleftrightarrow> (\<forall>r. TaskResultRowCount E r = sum_list (map fr_row_count (tr_fragments r))) \<and>
     (\<forall>r. TaskResultByteCount E r = sum_list (map fr_byte_count (tr_fragments r))) \<and>
     (\<forall>i. WriteInfoName E i = cap_name (wi_capability i))"

section \<open>The shared state and its trace\<close>

text \<open>
  Most events are API calls. Three are annotations with no counterpart in the code:
  \<open>EvPrepared\<close> (the messages a successful \<open>PrepareCommit\<close> returned), \<open>EvAbortRequest\<close> (the code
  asks for the abort of these messages; opening the committer may still fail), \<open>EvPublish\<close> (a
  worker handed these messages out in a fragment).
\<close>

datatype 'm event =
    EvLock
  | EvUnlock
  | EvRead string
  | EvCreateTable Identifier CreateTableRequest
  | EvDropTable Identifier
  | EvCreateDatabase string
  | EvDropDatabase string
  | EvOpenWriter WriteContext
  | EvWrite nat RecordBatch
  | EvPrepare nat
  | EvPrepared nat "'m option list"
  | EvClose nat
  | EvAbortRequest "'m option list"
  | EvPublish "'m option list"
  | EvOpenCommitter CommitContext
  | EvAbort nat "'m option list"
  | EvCommit nat "(int, 'm option list) omap"
  | EvNativeCommit nat "'m option list"

record ('w, 'm) sys =
  sys_world :: 'w
  sys_trace :: "'m event list"

type_synonym ('w, 'm, 'z, 'a) sysP = "(('w, 'm, 'z) sys_scheme, 'a) proc"

definition record_event :: "'m event \<Rightarrow> ('w, 'm, 'z, unit) sysP" where
  "record_event ev = (\<lambda>s. (Inr (), s\<lparr>sys_trace := ev # sys_trace s\<rparr>))"

text \<open>One call of the API: the status is a value, so the caller decides what to throw.\<close>

definition call :: "'m event \<Rightarrow> ('w, 'a) papi \<Rightarrow> ('w, 'm, 'z, 'a presult) sysP" where
  "call ev f = (\<lambda>s. case f (sys_world s) of (r, w) \<Rightarrow>
     (Inr r, s\<lparr>sys_world := w, sys_trace := ev # sys_trace s\<rparr>))"

text \<open>\<open>if (!result.ok()) throw IOException(result.status().ToString());\<close>\<close>

definition value_or_io :: "'a presult \<Rightarrow> ('s, 'a) proc" where
  "value_or_io r = liftP (case r of Inl st \<Rightarrow> Inl (IOException (st_text st)) | Inr x \<Rightarrow> Inr x)"

definition call_io :: "'m event \<Rightarrow> ('w, 'a) papi \<Rightarrow> ('w, 'm, 'z, 'a) sysP" where
  "call_io ev f = bindP (call ev f) value_or_io"

definition with_mutex :: "('w, 'm, 'z, 'a) sysP \<Rightarrow> ('w, 'm, 'z, 'a) sysP" where
  "with_mutex m = (\<lambda>s. case m (snd (record_event EvLock s)) of
     (r, t) \<Rightarrow> (r, snd (record_event EvUnlock t)))"

definition throwP :: "error \<Rightarrow> ('s, 'a) proc" where
  "throwP e = liftP (Inl e)"

text \<open>\<open>try { m } catch (...) { }\<close>\<close>

definition swallowP :: "('s, 'a) proc \<Rightarrow> ('s, unit) proc" where
  "swallowP m = (\<lambda>s. (Inr (), snd (m s)))"

definition getP :: "('s \<Rightarrow> 'a) \<Rightarrow> ('s, 'a) proc" where
  "getP f = (\<lambda>s. (Inr (f s), s))"

definition modifyP :: "('s \<Rightarrow> 's) \<Rightarrow> ('s, unit) proc" where
  "modifyP f = (\<lambda>s. (Inr (), f s))"

definition voidP :: "('s, 'a) proc \<Rightarrow> ('s, unit) proc" where
  "voidP m = bindP m (\<lambda>_. retP ())"

definition checkP :: "bool \<Rightarrow> error \<Rightarrow> ('s, unit) proc" where
  "checkP c e = liftP (throw_if c e)"

lemma procs_apply [simp]:
  "throwP e s = (Inl e, s)" "getP f s = (Inr (f s), s)" "modifyP g s = (Inr (), g s)"
  "checkP c e s = (if c then Inl e else Inr (), s)"
  "record_event ev t = (Inr (), t\<lparr>sys_trace := ev # sys_trace t\<rparr>)"
  by (simp_all add: throwP_def getP_def modifyP_def checkP_def record_event_def throw_if_def)

lemma with_mutex_run:
  "with_mutex m s = (r, t) \<Longrightarrow> \<exists>u. m (s\<lparr>sys_trace := EvLock # sys_trace s\<rparr>) = (r, u) \<and> t = u\<lparr>sys_trace := EvUnlock # sys_trace u\<rparr>"
  by (auto simp: with_mutex_def split: prod.splits)

lemma keeps_simple [keeps_intros]:
  "keeps f (throwP e)" "keeps f (getP g)" "keeps f (checkP c e)" "keeps f (value_or_io q)"
  by (simp_all add: keeps_def value_or_io_def)

lemma keeps_modifyP [keeps_intros]: "(\<And>s. f (g s) = f s) \<Longrightarrow> keeps f (modifyP g)"
  by (simp add: keeps_def)

lemma keeps_swallowP [keeps_intros]: "keeps f m \<Longrightarrow> keeps f (swallowP m)"
  by (simp add: keeps_def swallowP_def)

lemma keeps_call [keeps_intros]:
  assumes "\<And>s w tr. f (s\<lparr>sys_world := w, sys_trace := tr\<rparr>) = f s"
  shows "keeps f (call ev g)" "keeps f (call_io ev g)"
proof -
  show "keeps f (call ev g)"
    using assms by (simp add: keeps_def call_def split: prod.splits)
  then show "keeps f (call_io ev g)"
    unfolding call_io_def by (intro keeps_intros)
qed

lemma keeps_record_event [keeps_intros]:
  assumes "\<And>s tr. f (s\<lparr>sys_trace := tr\<rparr>) = f s"
  shows "keeps f (record_event ev)"
  using assms by (simp add: keeps_def)

section \<open>Typed reads\<close>

text \<open>\<open>ReadProperty<T>\<close>: the reader returns a value of the type asked for.\<close>

definition read_as :: "(pval \<Rightarrow> 'a option) \<Rightarrow> ptype \<Rightarrow> ('w, 'm, 'd) env \<Rightarrow> nat \<Rightarrow> string \<Rightarrow> ('d, 'a) proc" where
  "read_as get ty E i t = bindP (sd_read E i t ty) (\<lambda>v. case get v of
     None \<Rightarrow> throwP (UndefinedBehaviour ''property type'') | Some x \<Rightarrow> retP x)"

definition "read_u8 = read_as (\<lambda>v. case v of PU8 x \<Rightarrow> Some x | _ \<Rightarrow> None) TU8"
definition "read_u32 = read_as (\<lambda>v. case v of PU32 x \<Rightarrow> Some x | _ \<Rightarrow> None) TU32"
definition "read_i32 = read_as (\<lambda>v. case v of PI32 x \<Rightarrow> Some x | _ \<Rightarrow> None) TI32"
definition "read_i64 = read_as (\<lambda>v. case v of PI64 x \<Rightarrow> Some x | _ \<Rightarrow> None) TI64"
definition "read_idx = read_as (\<lambda>v. case v of PIdx x \<Rightarrow> Some x | _ \<Rightarrow> None) TIdx"
definition "read_bool = read_as (\<lambda>v. case v of PBool x \<Rightarrow> Some x | _ \<Rightarrow> None) TBool"
definition "read_str = read_as (\<lambda>v. case v of PStr x \<Rightarrow> Some x | _ \<Rightarrow> None) TStr"
definition "read_strs = read_as (\<lambda>v. case v of PStrs x \<Rightarrow> Some x | _ \<Rightarrow> None) TStrs"
definition "read_types = read_as (\<lambda>v. case v of PTypes x \<Rightarrow> Some x | _ \<Rightarrow> None) TTypes"
definition "read_map = read_as (\<lambda>v. case v of PMap x \<Rightarrow> Some x | _ \<Rightarrow> None) TMap"

lemma read_typed [simp]:
  "sd_read E i t TU8 d = (Inr (PU8 a), e) \<Longrightarrow> read_u8 E i t d = (Inr a, e)"
  "sd_read E i t TU32 d = (Inr (PU32 b), e) \<Longrightarrow> read_u32 E i t d = (Inr b, e)"
  "sd_read E i t TI32 d = (Inr (PI32 c), e) \<Longrightarrow> read_i32 E i t d = (Inr c, e)"
  "sd_read E i t TI64 d = (Inr (PI64 f), e) \<Longrightarrow> read_i64 E i t d = (Inr f, e)"
  "sd_read E i t TIdx d = (Inr (PIdx g), e) \<Longrightarrow> read_idx E i t d = (Inr g, e)"
  "sd_read E i t TBool d = (Inr (PBool h), e) \<Longrightarrow> read_bool E i t d = (Inr h, e)"
  "sd_read E i t TStr d = (Inr (PStr j), e) \<Longrightarrow> read_str E i t d = (Inr j, e)"
  "sd_read E i t TStrs d = (Inr (PStrs k), e) \<Longrightarrow> read_strs E i t d = (Inr k, e)"
  "sd_read E i t TTypes d = (Inr (PTypes l), e) \<Longrightarrow> read_types E i t d = (Inr l, e)"
  "sd_read E i t TMap d = (Inr (PMap n), e) \<Longrightarrow> read_map E i t d = (Inr n, e)"
  by (simp_all add: read_as_def read_u8_def read_u32_def read_i32_def read_i64_def read_idx_def
    read_bool_def read_str_def read_strs_def read_types_def read_map_def)

section \<open>What a procedure may add to the trace\<close>

text \<open>
  \<open>emits P m\<close>: from every state, \<open>m\<close> extends the trace, and only by events satisfying \<open>P\<close>.
\<close>

definition emits :: "('m event \<Rightarrow> bool) \<Rightarrow> ('w, 'm, 'z, 'a) sysP \<Rightarrow> bool" where
  "emits P m \<longleftrightarrow> (\<forall>s. \<exists>evs. sys_trace (snd (m s)) = evs @ sys_trace s \<and> list_all P evs)"

named_theorems emits_intros \<open>what the procedures emit\<close>

lemma emitsI_same:
  assumes "\<And>s. sys_trace (snd (m s)) = sys_trace s"
  shows "emits P m"
  unfolding emits_def
proof
  fix s
  show "\<exists>evs. sys_trace (snd (m s)) = evs @ sys_trace s \<and> list_all P evs"
    by (rule exI [of _ "[]"]) (simp add: assms)
qed

lemma emitsI_one:
  assumes "\<And>s. sys_trace (snd (m s)) = ev # sys_trace s" "P ev"
  shows "emits P m"
  unfolding emits_def
proof
  fix s
  show "\<exists>evs. sys_trace (snd (m s)) = evs @ sys_trace s \<and> list_all P evs"
    by (rule exI [of _ "[ev]"]) (simp add: assms)
qed

lemma emits_pure [emits_intros, intro]:
  "emits P (retP x)" "emits P (liftP r)" "emits P (throwP e)" "emits P (getP f)" "emits P (checkP c e)"
  "emits P (value_or_io q)"
  by (auto intro!: emitsI_same simp: value_or_io_def)

lemma emits_modifyP [emits_intros]:
  "(\<And>s. sys_trace (f s) = sys_trace s) \<Longrightarrow> emits P (modifyP f)"
  by (rule emitsI_same) simp

lemma emits_record_event [emits_intros]: "P ev \<Longrightarrow> emits P (record_event ev)"
  by (rule emitsI_one [of _ ev]) simp_all

lemma emits_call [emits_intros]: "P ev \<Longrightarrow> emits P (call ev f)"
  by (rule emitsI_one [of _ ev]) (simp_all add: call_def split: prod.splits)

lemma emits_bindP [emits_intros]:
  assumes "emits P m" "\<And>x. emits P (f x)"
  shows "emits P (bindP m f)"
  unfolding emits_def
proof
  fix s
  obtain r t where m: "m s = (r, t)" by fastforce
  obtain evs where evs: "sys_trace t = evs @ sys_trace s" "list_all P evs"
    using assms(1) m unfolding emits_def by (metis snd_conv)
  show "\<exists>evs. sys_trace (snd (bindP m f s)) = evs @ sys_trace s \<and> list_all P evs"
  proof (cases r)
    case (Inl e)
    then show ?thesis using m evs by auto
  next
    case (Inr x)
    obtain evs' where "sys_trace (snd (f x t)) = evs' @ sys_trace t" "list_all P evs'"
      using assms(2) unfolding emits_def by metis
    then have "sys_trace (snd (bindP m f s)) = (evs' @ evs) @ sys_trace s \<and> list_all P (evs' @ evs)"
      using m Inr evs by simp
    then show ?thesis ..
  qed
qed

lemma emits_call_io [emits_intros]: "P ev \<Longrightarrow> emits P (call_io ev f)"
  unfolding call_io_def by (intro emits_intros)

lemma emits_with_mutex [emits_intros]:
  assumes "P EvLock" "P EvUnlock" "emits P m"
  shows "emits P (with_mutex m)"
  unfolding emits_def
proof
  fix s
  obtain evs where "sys_trace (snd (m (snd (record_event EvLock s)))) = evs @ EvLock # sys_trace s"
    "list_all P evs"
    using assms(3) unfolding emits_def
    by (metis procs_apply(5) select_convs(2) snd_conv surjective update_convs(2))
  then have "sys_trace (snd (with_mutex m s)) = (EvUnlock # evs @ [EvLock]) @ sys_trace s
      \<and> list_all P (EvUnlock # evs @ [EvLock])"
    using assms by (auto simp: with_mutex_def split: prod.splits)
  then show "\<exists>evs. sys_trace (snd (with_mutex m s)) = evs @ sys_trace s \<and> list_all P evs" ..
qed

lemma emits_if [emits_intros]:
  "(c \<Longrightarrow> emits P m) \<Longrightarrow> (\<not> c \<Longrightarrow> emits P n) \<Longrightarrow> emits P (if c then m else n)"
  by simp

lemma emits_case_option [emits_intros]:
  "(x = None \<Longrightarrow> emits P m) \<Longrightarrow> (\<And>y. x = Some y \<Longrightarrow> emits P (f y)) \<Longrightarrow>
   emits P (case x of None \<Rightarrow> m | Some y \<Rightarrow> f y)"
  by (cases x) auto

lemma emits_case_sum [emits_intros]:
  "(\<And>y. x = Inl y \<Longrightarrow> emits P (f y)) \<Longrightarrow> (\<And>y. x = Inr y \<Longrightarrow> emits P (g y)) \<Longrightarrow>
   emits P (case x of Inl y \<Rightarrow> f y | Inr y \<Rightarrow> g y)"
  by (cases x) auto

lemma emits_rethrowP [emits_intros]:
  assumes "emits P m" "emits P h"
  shows "emits P (rethrowP m h)"
  unfolding emits_def
proof
  fix s
  obtain r t where m: "m s = (r, t)" by fastforce
  obtain evs where evs: "sys_trace t = evs @ sys_trace s" "list_all P evs"
    using assms(1) m unfolding emits_def by (metis snd_conv)
  obtain evs' where "sys_trace (snd (h t)) = evs' @ sys_trace t" "list_all P evs'"
    using assms(2) unfolding emits_def by metis
  then show "\<exists>evs. sys_trace (snd (rethrowP m h s)) = evs @ sys_trace s \<and> list_all P evs"
    using m evs by (cases r) (auto simp: rethrowP_def)
qed

lemma emits_swallowP [emits_intros]: "emits P m \<Longrightarrow> emits P (swallowP m)"
  by (simp add: emits_def swallowP_def)

lemma emits_mono: "emits P m \<Longrightarrow> (\<And>ev. P ev \<Longrightarrow> Q ev) \<Longrightarrow> emits Q m"
  unfolding emits_def by (metis list.pred_mono_strong)

lemma emitsE:
  assumes "emits P m" "m s = (r, t)"
  obtains evs where "sys_trace t = evs @ sys_trace s" "list_all P evs"
  using assms unfolding emits_def by (metis snd_conv)

end
