(* ===== verification/Paimon_Scan.thy ===== *)
theory Paimon_Scan
  imports Paimon_Api
begin

text \<open>
  Component \<^verbatim>\<open>src/src/paimon_storage/paimon_scan.cpp\<close>, execution: the bind of \<open>paimon_scan\<close>, its global and
  local states, the loop over splits and batches, and the statistics function. (The filter pushdown of
  the same file is \<open>Paimon_Pushdown\<close>.)

  Paimon's scan and read API, Arrow conversion and DuckDB's constants are the record \<open>scan_api\<close>: a
  parameter beside \<open>env\<close>. \<open>'p\<close> is the type of predicates, \<open>'s\<close> that of splits; a \<open>shared_ptr\<close> that may be
  null is an option. The catalog calls of \<open>env\<close> are those of the catalog the bind has just created.
  \<open>#ifdef PAIMON_VANE_DISTRIBUTED\<close> is on, as in the builds that have the distributed components.

  The global state is shared by the threads; a thread is a number and has its own local state. The
  releases of Arrow schemas and arrays are events, so that leaks are visible in the trace.
\<close>

section \<open>Parameters\<close>

record 'p ScanContext =
  sx_path :: string
  sx_options :: options
  sx_predicate :: "'p option"
  sx_partition_filter :: "options list option"

record 'p ReadContext =
  rx_path :: string
  rx_options :: options
  rx_table_schema :: string
  rx_field_ids :: "nat list option"
  rx_predicate :: "'p option option"
  rx_predicate_filter :: "bool option"

record 's Plan =
  pl_SnapshotId :: "int option"
  pl_Splits :: "'s option list"

text \<open>
  A batch: the Arrow schema and array, \<open>None\<close> when null or already released. The array has a length,
  \<open>n_children\<close>, and the values of its children.
\<close>

record ArrowArray =
  aa_length :: int
  aa_n_children :: int
  aa_children :: "Value list list"

record ArrowBatch =
  ab_schema :: "ArrowSchema option"
  ab_array :: "ArrowArray option"

record ('w, 'p, 's) scan_api =
  EndsWith :: "string \<Rightarrow> string \<Rightarrow> bool"
  DB_SUFFIX :: string
  CatalogCreate :: "string \<Rightarrow> options \<Rightarrow> ('w, unit) papi"
  ScanContext_Finish :: "'p ScanContext \<Rightarrow> ('w, unit) papi"
  TableScan_Create :: "'p ScanContext \<Rightarrow> ('w, unit) papi"
  CreatePlan :: "'p ScanContext \<Rightarrow> ('w, 's Plan option) papi"
  ReadContext_Finish :: "'p ReadContext \<Rightarrow> ('w, unit) papi"
  TableRead_Create :: "'p ReadContext \<Rightarrow> ('w, unit) papi"
  CreateReader :: "'p ReadContext \<Rightarrow> 's option \<Rightarrow> ('w, nat) papi"
  Reader_NextBatch :: "nat \<Rightarrow> ('w, ArrowBatch option) papi"
  CreateCountReader :: "'p ReadContext \<Rightarrow> 's option list \<Rightarrow> ('w, nat) papi"
  CountRows :: "nat \<Rightarrow> ('w, int) papi"
  CreatePickedFieldFilter :: "'p \<Rightarrow> (string, nat) omap \<Rightarrow> 'p option presult"
  IsRowIdColumnId :: "idx_t \<Rightarrow> bool"
  STANDARD_VECTOR_SIZE :: nat
  ColumnArrowToDuckDB :: "LogicalType \<Rightarrow> Value list \<Rightarrow> nat \<Rightarrow> Value list res"
  Split_Serialize :: "'s \<Rightarrow> string presult"
  Split_Deserialize :: "string \<Rightarrow> 's option presult"
  Split_FileList :: "'s \<Rightarrow> (int \<times> int) list option"
  Split_IsIndexed :: "'s \<Rightarrow> bool"

section \<open>Bind\<close>

definition CreatePaimonCatalog :: "('w, 'm, 'd) env \<Rightarrow> ('w, 'p, 's) scan_api \<Rightarrow> string \<Rightarrow>
    (string \<times> Value) list \<Rightarrow> ('w, 'm, 'z, unit) sysP" where
  "CreatePaimonCatalog E S path input_options =
     bindP (liftP (GetPaimonOptions (StringUtil E) (OptionKeys E) (Context E) path input_options)) (\<lambda>paimon_options.
     call_io (EvRead ''Catalog::Create'') (CatalogCreate S path paimon_options))"

definition expected_splits_option :: "(string \<times> Value) list \<Rightarrow> idx_t option res" where
  "expected_splits_option scan_options =
     (case map_of scan_options ''debug_expected_splits'' of
        None \<Rightarrow> Inr None
      | Some v \<Rightarrow> if val_i64 v < 0 then Inl (InvalidInputException ''debug_expected_splits must be non-negative'')
                  else Inr (Some (word_of_int (val_i64 v))))"

definition InitializePaimonDistributedScanBind :: "('w, 'm, 'd) env \<Rightarrow> ('p, 's) PaimonScanBindData \<Rightarrow>
    ('w, 'm, 'z, ('p, 's) PaimonScanBindData) sysP" where
  "InitializePaimonDistributedScanBind E bind =
     (if ds_split_set_id (bd_distributed bind) \<noteq> [] then throwP (InternalException ''already has a split-set identity'')
      else (\<lambda>s. case GenerateUUID E (sys_world s) of (u, w) \<Rightarrow>
        (Inr (bind\<lparr>bd_distributed := (bd_distributed bind)\<lparr>ds_split_set_id := u\<rparr>\<rparr>), s\<lparr>sys_world := w\<rparr>)))"

definition schema_bind :: "TableSchema \<Rightarrow> ('p, 's) PaimonScanBindData \<Rightarrow> ('p, 's) PaimonScanBindData" where
  "schema_bind table_schema bind =
     (case ts_data table_schema of
        None \<Rightarrow> bind
      | Some data_schema \<Rightarrow> bind\<lparr>bd_part_keys := dsc_PartitionKeys data_schema,
          bd_distributed := (bd_distributed bind)\<lparr>ds_schema_id := dsc_Id data_schema,
            ds_append_only := (dsc_PrimaryKeys data_schema = [])\<rparr>\<rparr>)"

definition PaimonScanBind :: "('w, 'm, 'd) env \<Rightarrow> ('w, 'p, 's) scan_api \<Rightarrow> Value list \<Rightarrow>
    (string \<times> Value) list \<Rightarrow> ('w, 'm, 'z, ('p, 's) PaimonScanBindData \<times> LogicalType list \<times> string list) sysP" where
  "PaimonScanBind E S inputs scan_options =
     bindP (liftP (Parse (EndsWith S) (DB_SUFFIX S) inputs)) (\<lambda>path.
     bindP (liftP (expected_splits_option scan_options)) (\<lambda>expected.
     bindP (liftP (GetPaimonOptions (StringUtil E) (OptionKeys E) (Context E) (warehouse path) scan_options)) (\<lambda>opts.
     bindP (CreatePaimonCatalog E S (warehouse path) scan_options) (\<lambda>_.
     let ident = \<lparr>id_database = dbname path, id_table = tablename path\<rparr> in
     bindP (call_io (EvRead ''GetTableLocation'') (GetTableLocation E ident)) (\<lambda>location.
     bindP (call_io (EvRead ''LoadTableSchema'') (LoadTableSchema E ident)) (\<lambda>table_schema.
     case table_schema of
       None \<Rightarrow> throwP (IOException ''Paimon table schema is empty'')
     | Some ts \<Rightarrow>
     bindP (value_or_io (ts_GetJsonSchema ts)) (\<lambda>json.
     bindP (value_or_io (ts_GetArrowSchema ts)) (\<lambda>arrow_schema.
     case arrow_schema of
       None \<Rightarrow> throwP (IOException ''Paimon Arrow schema is empty'')
     | Some arrow \<Rightarrow>
     bindP (liftP (PopulateArrowTableSchema E arrow)) (\<lambda>arrow_table.
     let bind = schema_bind ts (empty_bind\<lparr>bd_path := path, bd_table_data_path := location, bd_paimon_options := opts,
           bd_debug_expected_splits := expected\<rparr>);
         bind = bind\<lparr>bd_table_schema_json := json, bd_arrow_table := arrow_table,
           bd_distributed := (bd_distributed bind)\<lparr>ds_return_types := arrow_types arrow_table,
             ds_return_names := arrow_names arrow_table\<rparr>\<rparr>
     in bindP (InitializePaimonDistributedScanBind E bind) (\<lambda>bind.
        bindP (record_event (EvRead ''schema release'')) (\<lambda>_.
        retP (bind, arrow_types arrow_table, arrow_names arrow_table))))))))))))"

section \<open>Planning\<close>

definition scan_context :: "('p, 's) PaimonScanBindData \<Rightarrow> 'p ScanContext" where
  "scan_context bind = \<lparr>sx_path = bd_table_data_path bind, sx_options = bd_paimon_options bind,
     sx_predicate = bd_predicates bind,
     sx_partition_filter = (if bd_part_filters bind = [] then None else Some (bd_part_filters bind))\<rparr>"

definition CreatePaimonScanPlan :: "('w, 'p, 's) scan_api \<Rightarrow> ('p, 's) PaimonScanBindData \<Rightarrow>
    ('w, 'm, 'z, 's Plan option) sysP" where
  "CreatePaimonScanPlan S bind =
     bindP (call_io (EvRead ''scan context'') (ScanContext_Finish S (scan_context bind))) (\<lambda>_.
     bindP (call_io (EvRead ''TableScan::Create'') (TableScan_Create S (scan_context bind))) (\<lambda>_.
     call_io (EvRead ''CreatePlan'') (CreatePlan S (scan_context bind))))"

definition CreatePaimonScanSplits :: "('w, 'p, 's) scan_api \<Rightarrow> ('p, 's) PaimonScanBindData \<Rightarrow>
    ('w, 'm, 'z, 's option list) sysP" where
  "CreatePaimonScanSplits S bind =
     bindP (CreatePaimonScanPlan S bind) (\<lambda>plan.
     case plan of None \<Rightarrow> throwP (UndefinedBehaviour ''null plan'') | Some p \<Rightarrow> retP (pl_Splits p))"

definition PaimonCreateDistributedScanPlan :: "('w, 'p, 's) scan_api \<Rightarrow> ('p, 's) PaimonScanBindData \<Rightarrow>
    ('w, 'm, 'z, 's Plan option) sysP" where
  "PaimonCreateDistributedScanPlan S bind = CreatePaimonScanPlan S bind"

section \<open>Global state\<close>

record ('p, 's) PaimonScanGlobalState =
  gs_splits :: "'s option list"
  gs_split_index :: idx_t
  gs_path :: string
  gs_arrow_table :: ArrowTableSchema
  gs_predicates :: "'p option"
  gs_distributed_worker :: bool

record PaimonScanLocalState =
  ls_read_column_ids :: "nat list"
  ls_reader :: "nat option"
  ls_exhausted :: bool
  ls_chunk :: bool

record ('w, 'm, 'p, 's) scan = "('w, 'm) sys" +
  sn_global :: "('p, 's) PaimonScanGlobalState"
  sn_locals :: "nat \<Rightarrow> PaimonScanLocalState"

type_synonym ('w, 'm, 'p, 's, 'a) scanP = "(('w, 'm, 'p, 's) scan, 'a) proc"

abbreviation set_scan_local :: "nat \<Rightarrow> (PaimonScanLocalState \<Rightarrow> PaimonScanLocalState) \<Rightarrow> ('w, 'm, 'p, 's, unit) scanP" where
  "set_scan_local i f \<equiv> modifyP (sn_locals_update (\<lambda>L. L(i := f (L i))))"

text \<open>\<open>column_ids_mapping.emplace(col_names[input.column_ids[i]], i)\<close>: the first position of a name is kept.\<close>

fun column_ids_mapping :: "string list \<Rightarrow> idx_t list \<Rightarrow> nat \<Rightarrow> (string, nat) omap \<Rightarrow> (string, nat) omap res" where
  "column_ids_mapping col_names [] i m = Inr m"
| "column_ids_mapping col_names (c # cs) i m =
     (if unat c < length col_names then column_ids_mapping col_names cs (Suc i) (map_emplace (col_names ! unat c) i m)
      else Inl (InternalException ''vector index''))"

definition picked_predicate :: "('w, 'p, 's) scan_api \<Rightarrow> ('p, 's) PaimonScanBindData \<Rightarrow> idx_t list \<Rightarrow> 'p option res" where
  "picked_predicate S bind column_ids =
     (case bd_predicates bind of
        None \<Rightarrow> Inr None
      | Some p \<Rightarrow> res_bind (column_ids_mapping (arrow_names (bd_arrow_table bind)) column_ids 0 []) (\<lambda>mapping.
          case CreatePickedFieldFilter S p mapping of
            Inl st \<Rightarrow> Inl (IOException (st_text st)) | Inr q \<Rightarrow> Inr q))"

definition PaimonScanInitGlobal :: "('w, 'p, 's) scan_api \<Rightarrow> ('p, 's) PaimonScanBindData \<Rightarrow> idx_t list \<Rightarrow>
    ('w, 'm, 'z, ('p, 's) PaimonScanGlobalState) sysP" where
  "PaimonScanInitGlobal S bind column_ids =
     (case ds_phase (bd_distributed bind) of
        DISTRIBUTED_COORDINATOR \<Rightarrow> throwP (InvalidInputException ''coordinator scan cannot execute on a worker'')
      | WORKER_TEMPLATE \<Rightarrow> throwP (InvalidInputException ''explicit split assignment required'')
      | phase \<Rightarrow>
          bindP (liftP (picked_predicate S bind column_ids)) (\<lambda>predicate.
          bindP (if phase = WORKER_ASSIGNED then retP (map Some (ds_assigned_splits (bd_distributed bind)))
                 else CreatePaimonScanSplits S bind) (\<lambda>splits.
          bindP (checkP (case bd_debug_expected_splits bind of
                None \<Rightarrow> False | Some n \<Rightarrow> length splits \<noteq> unat n) (InvalidInputException ''split count'')) (\<lambda>_.
          retP \<lparr>gs_splits = splits, gs_split_index = 0, gs_path = bd_table_data_path bind,
            gs_arrow_table = (if phase = WORKER_ASSIGNED then \<lparr>arrow_names = [], arrow_types = []\<rparr> else bd_arrow_table bind),
            gs_predicates = predicate, gs_distributed_worker = (phase = WORKER_ASSIGNED)\<rparr>))))"

section \<open>Local state\<close>

definition column_count :: "('p, 's) PaimonScanBindData \<Rightarrow> nat" where
  "column_count bind = (if ds_phase (bd_distributed bind) = WORKER_ASSIGNED
     then length (ds_return_types (bd_distributed bind)) else length (arrow_types (bd_arrow_table bind)))"

fun read_columns :: "('w, 'p, 's) scan_api \<Rightarrow> nat \<Rightarrow> idx_t list \<Rightarrow> nat list res" where
  "read_columns S n [] = Inr []"
| "read_columns S n (c # cs) =
     (if IsRowIdColumnId S c then Inl (InvalidInputException ''rowid'')
      else if unat c \<ge> n then Inl (InvalidInputException ''Invalid projected column id'')
      else if unat c \<ge> 2 ^ 31 then Inl (InternalException ''NumericCast'')
      else res_bind (read_columns S n cs) (\<lambda>r. Inr (unat c # r)))"

definition read_context :: "('p, 's) PaimonScanBindData \<Rightarrow> ('p, 's) PaimonScanGlobalState \<Rightarrow>
    PaimonScanLocalState \<Rightarrow> 'p ReadContext" where
  "read_context bind g l = \<lparr>rx_path = gs_path g, rx_options = bd_paimon_options bind,
     rx_table_schema = bd_table_schema_json bind, rx_field_ids = Some (ls_read_column_ids l),
     rx_predicate = Some (gs_predicates g), rx_predicate_filter = Some False\<rparr>"

text \<open>\<open>fetch_add\<close> is atomic and wraps at \<open>2 ^ 64\<close>; the index is taken also when opening the split fails.\<close>

definition NextSplit :: "('w, 'p, 's) scan_api \<Rightarrow> ('p, 's) PaimonScanBindData \<Rightarrow> nat \<Rightarrow> ('w, 'm, 'p, 's, bool) scanP" where
  "NextSplit S bind i =
     bindP (getP (\<lambda>s. (sn_global s, sn_locals s i))) (\<lambda>(g, l).
     bindP (modifyP (sn_global_update (\<lambda>g. g\<lparr>gs_split_index := gs_split_index g + 1\<rparr>))) (\<lambda>_.
     if unat (gs_split_index g) \<ge> length (gs_splits g)
     then bindP (set_scan_local i (\<lambda>l. l\<lparr>ls_exhausted := True\<rparr>)) (\<lambda>_. retP False)
     else bindP (call_io (EvRead ''read context'') (ReadContext_Finish S (read_context bind g l))) (\<lambda>_.
       bindP (call_io (EvRead ''TableRead::Create'') (TableRead_Create S (read_context bind g l))) (\<lambda>_.
       bindP (call_io (EvRead ''CreateReader'')
         (CreateReader S (read_context bind g l) (gs_splits g ! unat (gs_split_index g)))) (\<lambda>h.
       bindP (set_scan_local i (\<lambda>l. l\<lparr>ls_reader := Some h\<rparr>)) (\<lambda>_. retP True))))))"

definition new_local :: "nat list \<Rightarrow> PaimonScanLocalState" where
  "new_local cols = \<lparr>ls_read_column_ids = cols, ls_reader = None, ls_exhausted = False, ls_chunk = False\<rparr>"

definition PaimonScanInitLocal :: "('w, 'p, 's) scan_api \<Rightarrow> ('p, 's) PaimonScanBindData \<Rightarrow> idx_t list \<Rightarrow> nat \<Rightarrow>
    ('w, 'm, 'p, 's, unit) scanP" where
  "PaimonScanInitLocal S bind column_ids i =
     bindP (liftP (read_columns S (column_count bind) column_ids)) (\<lambda>cols.
     bindP (set_scan_local i (\<lambda>_. new_local cols)) (\<lambda>_.
     bindP (NextSplit S bind i) (\<lambda>_. retP ())))"

definition ReleaseCurrentBatch :: "nat \<Rightarrow> ('w, 'm, 'p, 's, unit) scanP" where
  "ReleaseCurrentBatch i =
     bindP (getP (\<lambda>s. ls_chunk (sn_locals s i))) (\<lambda>live.
     if live then bindP (record_event (EvRead ''array release'')) (\<lambda>_. set_scan_local i (\<lambda>l. l\<lparr>ls_chunk := False\<rparr>))
     else retP ())"

text \<open>
  The loop over splits, with the number of iterations as fuel; \<open>None\<close> is the end-of-file batch.
\<close>

fun NextBatch :: "('w, 'p, 's) scan_api \<Rightarrow> ('p, 's) PaimonScanBindData \<Rightarrow> nat \<Rightarrow> nat \<Rightarrow>
    ('w, 'm, 'p, 's, ArrowBatch option) scanP" where
  "NextBatch S bind i 0 = throwP (UndefinedBehaviour ''fuel'')"
| "NextBatch S bind i (Suc fuel) =
     bindP (getP (\<lambda>s. sn_locals s i)) (\<lambda>l.
     if ls_exhausted l then retP None
     else case ls_reader l of
       None \<Rightarrow> throwP (UndefinedBehaviour ''null batch_reader'')
     | Some h \<Rightarrow>
         bindP (call_io (EvRead ''NextBatch'') (Reader_NextBatch S h)) (\<lambda>batch.
         bindP (ReleaseCurrentBatch i) (\<lambda>_.
         case batch of
           Some b \<Rightarrow> retP (Some b)
         | None \<Rightarrow> bindP (NextSplit S bind i) (\<lambda>more.
             if \<not> more then retP None else NextBatch S bind i fuel))))"

section \<open>Scan\<close>

record OutputChunk =
  oc_cardinality :: nat
  oc_columns :: "Value list list"

definition check_worker_batch :: "('w, 'm, 'd) env \<Rightarrow> nat \<Rightarrow> ArrowBatch \<Rightarrow> ('w, 'm, 'p, 's, ArrowTableSchema) scanP" where
  "check_worker_batch E columns b =
     (case ab_schema b of
        None \<Rightarrow> bindP (if ab_array b = None then retP () else record_event (EvRead ''array release'')) (\<lambda>_.
          throwP (IOException ''invalid Arrow schema''))
      | Some schema \<Rightarrow>
          (let valid = (case ab_array b of None \<Rightarrow> False | Some a \<Rightarrow> aa_n_children a = int (columns + 1))
           in if \<not> valid
              then bindP (record_event (EvRead ''schema release'')) (\<lambda>_.
                   bindP (if ab_array b = None then retP () else record_event (EvRead ''array release'')) (\<lambda>_.
                   throwP (IOException ''invalid Arrow batch'')))
              else rethrowP (liftP (PopulateArrowTableSchema E schema))
                   (bindP (record_event (EvRead ''schema release'')) (\<lambda>_. record_event (EvRead ''array release'')))))"

text \<open>Child \<open>k + 1\<close> of the array is column \<open>k\<close>; its type is found by position on a worker, else by column id.\<close>

fun convert_columns :: "('w, 'p, 's) scan_api \<Rightarrow> ArrowArray \<Rightarrow> LogicalType list \<Rightarrow> (nat \<Rightarrow> nat option) \<Rightarrow> nat \<Rightarrow> nat list \<Rightarrow>
    Value list list res" where
  "convert_columns S a types type_index rows [] = Inr []"
| "convert_columns S a types type_index rows (k # ks) =
     (if k + 1 \<ge> length (aa_children a) then Inl (UndefinedBehaviour ''Arrow child'')
      else case type_index k of
          None \<Rightarrow> Inl (UndefinedBehaviour ''read_column_ids'')
        | Some t \<Rightarrow> if t \<ge> length types then Inl (InternalException ''out_of_range'')
            else res_bind (ColumnArrowToDuckDB S (types ! t) (aa_children a ! (k + 1)) rows) (\<lambda>col.
                 res_bind (convert_columns S a types type_index rows ks) (\<lambda>cols. Inr (col # cols))))"

definition emit_batch :: "('w, 'm, 'd) env \<Rightarrow> ('w, 'p, 's) scan_api \<Rightarrow> nat \<Rightarrow> nat \<Rightarrow> ArrowBatch \<Rightarrow>
    ('w, 'm, 'p, 's, OutputChunk) scanP" where
  "emit_batch E S i columns b =
     bindP (getP (\<lambda>s. (sn_global s, sn_locals s i))) (\<lambda>(g, l).
     bindP (if gs_distributed_worker g then check_worker_batch E columns b else retP (gs_arrow_table g)) (\<lambda>table.
     bindP (if ab_schema b = None then retP () else record_event (EvRead ''schema release'')) (\<lambda>_.
     case ab_array b of
       None \<Rightarrow> throwP (UndefinedBehaviour ''null Arrow array'')
     | Some a \<Rightarrow>
         bindP (set_scan_local i (\<lambda>l. l\<lparr>ls_chunk := True\<rparr>)) (\<lambda>_.
         if aa_length a < 0 then throwP (InternalException ''NumericCast'')
         else let rows = min (STANDARD_VECTOR_SIZE S) (nat (aa_length a)) in
           bindP (liftP (convert_columns S a (arrow_types table)
             (if gs_distributed_worker g then Some \<circ> Suc
              else (\<lambda>k. if k < length (ls_read_column_ids l) then Some (ls_read_column_ids l ! k) else None)) rows [0..<columns])) (\<lambda>cols.
           retP \<lparr>oc_cardinality = rows, oc_columns = cols\<rparr>)))))"

definition PaimonScan :: "('w, 'm, 'd) env \<Rightarrow> ('w, 'p, 's) scan_api \<Rightarrow> ('p, 's) PaimonScanBindData \<Rightarrow> nat \<Rightarrow> nat \<Rightarrow>
    ('w, 'm, 'p, 's, OutputChunk) scanP" where
  "PaimonScan E S bind columns i =
     bindP (getP (\<lambda>s. length (gs_splits (sn_global s)))) (\<lambda>n.
     bindP (NextBatch S bind i (n + 2)) (\<lambda>batch.
     case batch of
       None \<Rightarrow> retP \<lparr>oc_cardinality = 0, oc_columns = []\<rparr>
     | Some b \<Rightarrow> emit_batch E S i columns b))"

text \<open>\<open>~PaimonScanLocalState\<close>\<close>

definition destroy_local :: "nat \<Rightarrow> ('w, 'm, 'p, 's, unit) scanP" where
  "destroy_local i = ReleaseCurrentBatch i"

section \<open>Statistics\<close>

definition count_context :: "('p, 's) PaimonScanBindData \<Rightarrow> 'p ReadContext" where
  "count_context bind = \<lparr>rx_path = bd_table_data_path bind, rx_options = bd_paimon_options bind,
     rx_table_schema = bd_table_schema_json bind, rx_field_ids = None, rx_predicate = None, rx_predicate_filter = None\<rparr>"

text \<open>The exact count, or no statistics: every exception of the planning is caught.\<close>

definition PaimonGetPartitionStats :: "('w, 'p, 's) scan_api \<Rightarrow> ('p, 's) PaimonScanBindData \<Rightarrow>
    ('w, 'm, 'z, idx_t option) sysP" where
  "PaimonGetPartitionStats S bind =
     (if ds_phase (bd_distributed bind) \<noteq> COORDINATOR then retP None
      else if bd_predicates bind \<noteq> None \<or> bd_part_filters bind \<noteq> [] then retP None
      else (\<lambda>s. case CreatePaimonScanSplits S bind s of
         (Inl (UndefinedBehaviour m), t) \<Rightarrow> (Inl (UndefinedBehaviour m), t)
       | (Inl e, t) \<Rightarrow> (Inr None, t)
       | (Inr splits, t) \<Rightarrow>
           bindP (call (EvRead ''read context'') (ReadContext_Finish S (count_context bind))) (\<lambda>r.
           case r of Inl _ \<Rightarrow> retP None | Inr _ \<Rightarrow>
           bindP (call (EvRead ''TableRead::Create'') (TableRead_Create S (count_context bind))) (\<lambda>r.
           case r of Inl _ \<Rightarrow> retP None | Inr _ \<Rightarrow>
           bindP (call (EvRead ''CreateCountReader'') (CreateCountReader S (count_context bind) splits)) (\<lambda>r.
           case r of Inl _ \<Rightarrow> retP None | Inr h \<Rightarrow>
           bindP (call (EvRead ''CountRows'') (CountRows S h)) (\<lambda>r.
           case r of Inl _ \<Rightarrow> retP None | Inr n \<Rightarrow> retP (if n < 0 then None else Some (word_of_int n)))))) t))"

end
