(* ===== verification/Scan_Correct.thy ===== *)
theory Scan_Correct
  imports Paimon_Scan "HOL-Library.Multiset"
begin

text \<open>
  A parallel scan: the threads share the list of splits through an atomic index. Every batch of every
  split is delivered exactly once, whatever the interleaving, and the loop over splits ends.
\<close>

section \<open>What a reader is\<close>

text \<open>
  \<open>content rx sp\<close> is what reading split \<open>sp\<close> under the read context \<open>rx\<close> (its columns, its predicate) returns,
  \<open>pending w h\<close> what reader \<open>h\<close> still has to return, \<open>opened\<close> the
  readers created so far. A new reader is a new one and starts with all of that, \<open>NextBatch\<close>
  returns the next batch or, when there is none, end of file; nothing else touches a reader.
\<close>

definition same_readers :: "('w \<Rightarrow> nat \<Rightarrow> ArrowBatch list) \<Rightarrow> ('w \<Rightarrow> nat set) \<Rightarrow> ('w, 'a) papi \<Rightarrow> bool" where
  "same_readers pending opened f \<longleftrightarrow> (\<forall>w. pending (snd (f w)) = pending w \<and> opened (snd (f w)) = opened w)"

definition reader_laws :: "('w, 'p, 's) scan_api \<Rightarrow> ('p ReadContext \<Rightarrow> 's option \<Rightarrow> ArrowBatch list) \<Rightarrow>
    ('w \<Rightarrow> nat \<Rightarrow> ArrowBatch list) \<Rightarrow> ('w \<Rightarrow> nat set) \<Rightarrow> bool" where
  "reader_laws S content pending opened \<longleftrightarrow>
     (\<forall>rx. same_readers pending opened (ReadContext_Finish S rx) \<and> same_readers pending opened (TableRead_Create S rx)) \<and>
     (\<forall>rx sp w h w'. CreateReader S rx sp w = (Inr h, w') \<longrightarrow> h \<notin> opened w \<and> opened w' = insert h (opened w) \<and>
        pending w' = (pending w)(h := content rx sp)) \<and>
     (\<forall>h w r w'. h \<in> opened w \<and> Reader_NextBatch S h w = (Inr r, w') \<longrightarrow> opened w' = opened w \<and>
        (case r of None \<Rightarrow> pending w h = [] \<and> pending w' = pending w
         | Some b \<Rightarrow> (\<exists>bs. pending w h = b # bs \<and> pending w' = (pending w)(h := bs))))"

lemma reader_laws_same:
  assumes "reader_laws S content pending opened"
  shows "ReadContext_Finish S rx w = (r, w') \<Longrightarrow> pending w' = pending w \<and> opened w' = opened w"
    and "TableRead_Create S rx w = (r, w') \<Longrightarrow> pending w' = pending w \<and> opened w' = opened w"
  using assms unfolding reader_laws_def same_readers_def by (metis snd_conv)+

lemma reader_laws_create:
  assumes "reader_laws S content pending opened" "CreateReader S rx sp w = (Inr h, w')"
  shows "h \<notin> opened w" "opened w' = insert h (opened w)" "pending w' = (pending w)(h := content rx sp)"
  using assms unfolding reader_laws_def by blast+

lemma reader_laws_next:
  assumes "reader_laws S content pending opened" "h \<in> opened w" "Reader_NextBatch S h w = (Inr r, w')"
  shows "opened w' = opened w" "case r of None \<Rightarrow> pending w h = [] \<and> pending w' = pending w
     | Some b \<Rightarrow> (\<exists>bs. pending w h = b # bs \<and> pending w' = (pending w)(h := bs))"
  using assms unfolding reader_laws_def by blast+

section \<open>Runs\<close>

definition scan_batch :: "('w, 'p, 's) scan_api \<Rightarrow> ('p, 's) PaimonScanBindData \<Rightarrow> nat \<Rightarrow> ('w, 'm, 'p, 's) scan \<Rightarrow>
    ArrowBatch list" where
  "scan_batch S bind i s = (case NextBatch S bind i (length (gs_splits (sn_global s)) + 2) s of
     (Inr (Some b), _) \<Rightarrow> [b] | _ \<Rightarrow> [])"

text \<open>A run without exceptions: the threads initialised, the batches delivered and the chunks returned.\<close>

inductive scan_run :: "('w, 'm, 'd) env \<Rightarrow> ('w, 'p, 's) scan_api \<Rightarrow> ('p, 's) PaimonScanBindData \<Rightarrow> idx_t list \<Rightarrow>
    ('w, 'm, 'p, 's) scan \<Rightarrow> nat list \<Rightarrow> ArrowBatch list \<Rightarrow> OutputChunk list \<Rightarrow> ('w, 'm, 'p, 's) scan \<Rightarrow> bool"
  for E S bind columns s0 where
  run_start: "scan_run E S bind columns s0 [] [] [] s0"
| run_init: "scan_run E S bind columns s0 is bs outs s \<Longrightarrow> i \<notin> set is \<Longrightarrow>
    PaimonScanInitLocal S bind columns i s = (Inr (), t) \<Longrightarrow> scan_run E S bind columns s0 (is @ [i]) bs outs t"
| run_scan: "scan_run E S bind columns s0 is bs outs s \<Longrightarrow> i \<in> set is \<Longrightarrow>
    PaimonScan E S bind (length columns) i s = (Inr out, t) \<Longrightarrow>
    scan_run E S bind columns s0 is (bs @ scan_batch S bind i s) (outs @ [out]) t"

section \<open>The invariant\<close>

abbreviation index :: "('w, 'm, 'p, 's) scan \<Rightarrow> nat" where
  "index s \<equiv> unat (gs_split_index (sn_global s))"

definition thread_pending :: "('w \<Rightarrow> nat \<Rightarrow> ArrowBatch list) \<Rightarrow> ('w, 'm, 'p, 's) scan \<Rightarrow> nat \<Rightarrow> ArrowBatch list" where
  "thread_pending pending s i = (case ls_reader (sn_locals s i) of None \<Rightarrow> [] | Some h \<Rightarrow> pending (sys_world s) h)"

definition untaken :: "('s option \<Rightarrow> ArrowBatch list) \<Rightarrow> ('w, 'm, 'p, 's) scan \<Rightarrow> ArrowBatch list" where
  "untaken content s = concat (map content (drop (index s) (gs_splits (sn_global s))))"

definition exhausted_threads :: "nat set \<Rightarrow> ('w, 'm, 'p, 's) scan \<Rightarrow> nat set" where
  "exhausted_threads A s = {i \<in> A. ls_exhausted (sn_locals s i)}"

definition threads_ok :: "('w \<Rightarrow> nat \<Rightarrow> ArrowBatch list) \<Rightarrow> ('w \<Rightarrow> nat set) \<Rightarrow> nat set \<Rightarrow>
    ('w, 'm, 'p, 's) scan \<Rightarrow> bool" where
  "threads_ok pending opened A s \<longleftrightarrow>
     (\<forall>i \<in> A. \<forall>h. ls_reader (sn_locals s i) = Some h \<longrightarrow> h \<in> opened (sys_world s)) \<and>
     (\<forall>i \<in> A. \<forall>j \<in> A. \<forall>h. ls_reader (sn_locals s i) = Some h \<and> ls_reader (sn_locals s j) = Some h \<longrightarrow> i = j) \<and>
     (\<forall>i \<in> A. ls_exhausted (sn_locals s i) \<longrightarrow> thread_pending pending s i = [] \<and> length (gs_splits (sn_global s)) \<le> index s) \<and>
     index s \<le> length (gs_splits (sn_global s)) + card (exhausted_threads A s)"

definition left_over :: "('s option \<Rightarrow> ArrowBatch list) \<Rightarrow> ('w \<Rightarrow> nat \<Rightarrow> ArrowBatch list) \<Rightarrow> nat set \<Rightarrow>
    ('w, 'm, 'p, 's) scan \<Rightarrow> ArrowBatch multiset" where
  "left_over content pending A s = (\<Sum>i \<in> A. mset (thread_pending pending s i)) + mset (untaken content s)"

section \<open>The read context\<close>

text \<open>
  All threads of a scan read under one context: the global state's path and picked predicate, and the projected
  columns. Nothing a scan does changes what a thread's context is made of.
\<close>

definition scan_reads :: "('p, 's) PaimonScanBindData \<Rightarrow> ('p, 's) PaimonScanGlobalState \<Rightarrow> idx_t list \<Rightarrow> 'p ReadContext" where
  "scan_reads bind g columns = read_context bind g (new_local (map unat columns))"

definition read_view :: "('w, 'm, 'p, 's) scan \<Rightarrow> string \<times> 'p option \<times> (nat \<Rightarrow> nat list)" where
  "read_view s = (gs_path (sn_global s), gs_predicates (sn_global s), \<lambda>j. ls_read_column_ids (sn_locals s j))"

definition thread_reads :: "('p, 's) PaimonScanBindData \<Rightarrow> ('w, 'm, 'p, 's) scan \<Rightarrow> nat \<Rightarrow> 'p ReadContext" where
  "thread_reads bind s i = read_context bind (sn_global s) (sn_locals s i)"

lemma thread_reads_view: "read_view t = read_view s \<Longrightarrow> thread_reads bind t = thread_reads bind s"
  by (simp add: thread_reads_def read_view_def read_context_def fun_eq_iff)

lemma keeps_NextSplit: "keeps read_view (NextSplit S bind i)"
  unfolding NextSplit_def case_prod_beta by (intro keeps_intros) (auto simp: read_view_def fun_eq_iff)

lemma keeps_ReleaseCurrentBatch: "keeps read_view (ReleaseCurrentBatch i)"
  unfolding ReleaseCurrentBatch_def by (intro keeps_intros) (auto simp: read_view_def fun_eq_iff)

lemma keeps_NextBatch: "keeps read_view (NextBatch S bind i fuel)"
proof (induction fuel)
  case (Suc fuel)
  show ?case
    unfolding NextBatch.simps
    by (intro keeps_intros Suc keeps_NextSplit keeps_ReleaseCurrentBatch) (auto simp: read_view_def)
qed (simp add: keeps_def)

lemma keeps_PaimonScan: "keeps read_view (PaimonScan E S bind columns i)"
  unfolding PaimonScan_def emit_batch_def check_worker_batch_def Let_def case_prod_beta
  by (intro keeps_intros keeps_NextBatch) (auto simp: read_view_def fun_eq_iff)

lemma read_columns_Inr: "read_columns S n columns = Inr cols \<Longrightarrow> cols = map unat columns"
  by (induction columns arbitrary: cols) (auto elim!: res_bindE split: if_split_asm)

section \<open>One split\<close>

lemma call_io_world:
  assumes "call_io ev f s = (Inr x, t)"
  shows "\<exists>w. f (sys_world s) = (Inr x, w) \<and> t = s\<lparr>sys_world := w, sys_trace := ev # sys_trace s\<rparr>"
  using assms by (auto simp: call_io_def call_def value_or_io_def elim!: bindPE split: prod.splits sum.splits)

text \<open>What a call of \<open>NextSplit\<close> that returns does: a new reader for the next split, or the end.\<close>

definition split_step :: "('s option \<Rightarrow> ArrowBatch list) \<Rightarrow> ('w \<Rightarrow> nat \<Rightarrow> ArrowBatch list) \<Rightarrow> ('w \<Rightarrow> nat set) \<Rightarrow>
    nat \<Rightarrow> bool \<Rightarrow> ('w, 'm, 'p, 's) scan \<Rightarrow> ('w, 'm, 'p, 's) scan \<Rightarrow> bool" where
  "split_step content pending opened i found s t \<longleftrightarrow>
     gs_splits (sn_global t) = gs_splits (sn_global s) \<and> index t = Suc (index s) \<and>
     (if found then index s < length (gs_splits (sn_global s)) \<and> (\<exists>h. h \<notin> opened (sys_world s) \<and>
        opened (sys_world t) = insert h (opened (sys_world s)) \<and>
        pending (sys_world t) = (pending (sys_world s))(h := content (gs_splits (sn_global s) ! index s)) \<and>
        sn_locals t = (sn_locals s)(i := (sn_locals s i)\<lparr>ls_reader := Some h\<rparr>))
      else length (gs_splits (sn_global s)) \<le> index s \<and> sys_world t = sys_world s \<and>
        sn_locals t = (sn_locals s)(i := (sn_locals s i)\<lparr>ls_exhausted := True\<rparr>))"

lemma NextSplit_ok:
  assumes "NextSplit S bind i s = (Inr found, t)" "reader_laws S content pending opened" "index s + 1 < 2 ^ 64"
  shows "split_step (content (thread_reads bind s i)) pending opened i found s t"
proof -
  let ?g = "sn_global_update (\<lambda>g. g\<lparr>gs_split_index := gs_split_index g + 1\<rparr>) s"
  have idx: "unat (gs_split_index (sn_global s) + 1) = Suc (index s)"
    using assms(3) by (simp add: unat_plus_if')
  show ?thesis
  proof (cases "length (gs_splits (sn_global s)) \<le> index s")
    case True
    then show ?thesis
      using assms(1) idx by (auto simp: NextSplit_def split_step_def)
  next
    case False
    let ?rx = "read_context bind (sn_global s) (sn_locals s i)"
    obtain u v w h where r: "call_io (EvRead ''read context'') (ReadContext_Finish S ?rx) ?g = (Inr (), u)"
      and c: "call_io (EvRead ''TableRead::Create'') (TableRead_Create S ?rx) u = (Inr (), v)"
      and h: "call_io (EvRead ''CreateReader'') (CreateReader S ?rx (gs_splits (sn_global s) ! index s)) v = (Inr h, w)"
      and t: "found" "t = sn_locals_update (\<lambda>L. L(i := (L i)\<lparr>ls_reader := Some h\<rparr>)) w"
      using assms(1) False by (auto simp: NextSplit_def elim!: bindPE)
    note worlds = call_io_world [OF r] call_io_world [OF c] call_io_world [OF h]
    have "pending (sys_world v) = pending (sys_world s) \<and> opened (sys_world v) = opened (sys_world s)"
      using worlds(1,2) reader_laws_same [OF assms(2)] by auto
    moreover have "h \<notin> opened (sys_world v)" "opened (sys_world w) = insert h (opened (sys_world v))"
      "pending (sys_world w) = (pending (sys_world v))(h := content ?rx (gs_splits (sn_global s) ! index s))"
      using worlds(3) reader_laws_create [OF assms(2)] by auto
    moreover have "sn_locals w = sn_locals s" "sn_global w = sn_global ?g"
      using worlds by auto
    ultimately show ?thesis
      using False t idx by (auto simp: split_step_def thread_reads_def)
  qed
qed


section \<open>The invariant is kept\<close>

definition scan_view :: "('w, 'm, 'p, 's) scan \<Rightarrow> 'w \<times> ('p, 's) PaimonScanGlobalState \<times> (nat \<Rightarrow> nat option \<times> bool)" where
  "scan_view s = (sys_world s, sn_global s, \<lambda>j. (ls_reader (sn_locals s j), ls_exhausted (sn_locals s j)))"

lemma scan_view_same:
  assumes "scan_view t = scan_view s"
  shows "threads_ok pending opened A t = threads_ok pending opened A s"
    and "left_over content pending A t = left_over content pending A s"
proof -
  have v: "sys_world t = sys_world s" "sn_global t = sn_global s"
    "\<And>j. ls_reader (sn_locals t j) = ls_reader (sn_locals s j)"
    "\<And>j. ls_exhausted (sn_locals t j) = ls_exhausted (sn_locals s j)"
    using assms by (auto simp: scan_view_def fun_eq_iff)
  have p: "thread_pending pending t = thread_pending pending s"
    by (auto simp: thread_pending_def fun_eq_iff v split: option.split)
  show "threads_ok pending opened A t = threads_ok pending opened A s"
    "left_over content pending A t = left_over content pending A s"
    by (simp_all add: threads_ok_def exhausted_threads_def left_over_def untaken_def v p)
qed

lemma sum_mset_upd:
  assumes "finite A" "i \<in> A" "\<And>j. j \<in> A \<Longrightarrow> j \<noteq> i \<Longrightarrow> f j = g j"
  shows "(\<Sum>j \<in> A. f j) + g i = (\<Sum>j \<in> A. g j) + (f i :: 'a multiset)"
proof -
  have "(\<Sum>j \<in> A - {i}. f j) = (\<Sum>j \<in> A - {i}. g j)"
    using assms(3) by (intro sum.cong) auto
  then show ?thesis
    using assms(1,2) by (simp add: sum.remove [of A i] ac_simps)
qed

lemma split_step_inv:
  assumes step: "split_step content pending opened i found s t" and ok: "threads_ok pending opened A s"
    and i: "i \<in> A" "finite A" "thread_pending pending s i = []" "\<not> ls_exhausted (sn_locals s i)"
  shows "threads_ok pending opened A t" "left_over content pending A t = left_over content pending A s"
proof -
  have reader: "h' \<in> opened (sys_world s)" if "j \<in> A" "ls_reader (sn_locals s j) = Some h'" for j h'
    using ok that by (auto simp: threads_ok_def)
  have "threads_ok pending opened A t \<and> left_over content pending A t = left_over content pending A s"
  proof (cases found)
    case True
    then obtain h where h: "h \<notin> opened (sys_world s)" "opened (sys_world t) = insert h (opened (sys_world s))"
      and p: "pending (sys_world t) = (pending (sys_world s))(h := content (gs_splits (sn_global s) ! index s))"
      and l: "sn_locals t = (sn_locals s)(i := (sn_locals s i)\<lparr>ls_reader := Some h\<rparr>)"
      and g: "gs_splits (sn_global t) = gs_splits (sn_global s)" "index t = Suc (index s)"
        "index s < length (gs_splits (sn_global s))"
      using step by (auto simp: split_step_def)
    have pend: "thread_pending pending t j = (if j = i then content (gs_splits (sn_global s) ! index s)
        else thread_pending pending s j)" if "j \<in> A" for j
      using h(1) p l reader [OF that] by (auto simp: thread_pending_def split: option.splits)
    have none: "\<not> ls_exhausted (sn_locals s j)" if "j \<in> A" for j
      using ok g(3) that by (auto simp: threads_ok_def)
    have new: "ls_reader (sn_locals s j) \<noteq> Some h" if "j \<in> A" for j
      using h(1) reader [OF that] by blast
    have rd: "ls_reader (sn_locals t j) = (if j = i then Some h else ls_reader (sn_locals s j))" for j
      using l by simp
    have old: "j = k" if "j \<in> A" "k \<in> A" "ls_reader (sn_locals s j) = Some h'" "ls_reader (sn_locals s k) = Some h'" for j k h'
      using ok that unfolding threads_ok_def by blast
    have uniq: "j = k" if jk: "j \<in> A" "k \<in> A" and r: "ls_reader (sn_locals t j) = Some h'" "ls_reader (sn_locals t k) = Some h'" for j k h'
      using r new [OF jk(1)] new [OF jk(2)] old [OF jk, of h'] by (simp add: rd split: if_split_asm)
    have opn: "h' \<in> opened (sys_world t)" if "j \<in> A" "ls_reader (sn_locals t j) = Some h'" for j h'
      using that l h(2) reader by (auto split: if_splits)
    have noex: "\<not> ls_exhausted (sn_locals t j)" if "j \<in> A" for j
      using none [OF that] none [OF i(1)] l by simp
    have "index t \<le> length (gs_splits (sn_global t)) + card (exhausted_threads A t)"
      using g by simp
    then have "threads_ok pending opened A t"
      using uniq opn noex unfolding threads_ok_def by blast
    moreover have "untaken content s = content (gs_splits (sn_global s) ! index s) @ untaken content t"
      using g by (simp add: untaken_def flip: Cons_nth_drop_Suc)
    moreover have "(\<Sum>j \<in> A. mset (thread_pending pending t j)) + mset (thread_pending pending s i) =
        (\<Sum>j \<in> A. mset (thread_pending pending s j)) + mset (thread_pending pending t i)"
      using i pend by (intro sum_mset_upd) auto
    ultimately show ?thesis
      using i pend by (simp add: left_over_def)
  next
    case False
    then have w: "sys_world t = sys_world s" and l: "sn_locals t = (sn_locals s)(i := (sn_locals s i)\<lparr>ls_exhausted := True\<rparr>)"
      and g: "gs_splits (sn_global t) = gs_splits (sn_global s)" "index t = Suc (index s)"
        "length (gs_splits (sn_global s)) \<le> index s"
      using step by (auto simp: split_step_def)
    have pend: "thread_pending pending t = thread_pending pending s"
      using w l by (auto simp: thread_pending_def fun_eq_iff split: option.split)
    have "exhausted_threads A t = insert i (exhausted_threads A s)" "i \<notin> exhausted_threads A s"
      using i l by (auto simp: exhausted_threads_def)
    then have "card (exhausted_threads A t) = Suc (card (exhausted_threads A s))"
      using i(2) by (simp add: exhausted_threads_def)
    moreover have "ls_reader (sn_locals t j) = ls_reader (sn_locals s j)"
      "ls_exhausted (sn_locals t j) \<longleftrightarrow> j = i \<or> ls_exhausted (sn_locals s j)" for j
      using l by simp_all
    ultimately have "threads_ok pending opened A t"
      using ok g i(3) unfolding threads_ok_def pend w by (metis (no_types, lifting) add_Suc_right le_SucI not_less_eq_eq)
    moreover have "untaken content t = untaken content s"
      using g by (simp add: untaken_def)
    ultimately show ?thesis
      using pend by (simp add: left_over_def)
  qed
  then show "threads_ok pending opened A t" "left_over content pending A t = left_over content pending A s" by blast+
qed


text \<open>One call of \<open>NextBatch\<close>: what it returns is taken from what was left, and at the end nothing is left for it.\<close>

lemma scan_view_release:
  assumes "ReleaseCurrentBatch i s = (Inr (), t)"
  shows "scan_view t = scan_view s"
  using assms by (auto simp: ReleaseCurrentBatch_def scan_view_def fun_eq_iff elim!: bindPE split: if_splits)

lemma threads_index:
  assumes "threads_ok pending opened A s" "i \<in> A" "finite A" "\<not> ls_exhausted (sn_locals s i)"
  shows "index s + 1 \<le> length (gs_splits (sn_global s)) + card A"
proof -
  have "exhausted_threads A s \<subset> A"
    using assms(2,4) by (auto simp: exhausted_threads_def)
  then have "card (exhausted_threads A s) < card A"
    by (rule psubset_card_mono [OF assms(3)])
  then show ?thesis
    using assms(1) by (simp add: threads_ok_def)
qed

lemma NextBatch_inv:
  assumes "NextBatch S bind i fuel s = (Inr r, t)" "reader_laws S content pending opened"
    and "threads_ok pending opened A s" "i \<in> A" "finite A" "length (gs_splits (sn_global s)) + card A < 2 ^ 64"
    and "thread_reads bind s i = rx"
  shows "threads_ok pending opened A t \<and> gs_splits (sn_global t) = gs_splits (sn_global s) \<and>
    left_over (content rx) pending A s = mset (case r of None \<Rightarrow> [] | Some b \<Rightarrow> [b]) + left_over (content rx) pending A t \<and>
    (r = None \<longrightarrow> ls_exhausted (sn_locals t i))"
  using assms(1,3,6,7)
proof (induction fuel arbitrary: s)
  case (Suc fuel)
  show ?case
  proof (cases "ls_exhausted (sn_locals s i)")
    case True
    then show ?thesis using Suc.prems by auto
  next
    case False
    obtain h batch u v where h: "ls_reader (sn_locals s i) = Some h"
      and n: "call_io (EvRead ''NextBatch'') (Reader_NextBatch S h) s = (Inr batch, u)"
      and rel: "ReleaseCurrentBatch i u = (Inr (), v)"
      and rest: "(case batch of Some b \<Rightarrow> retP (Some b) | None \<Rightarrow> bindP (NextSplit S bind i) (\<lambda>more.
             if \<not> more then retP None else NextBatch S bind i fuel)) v = (Inr r, t)"
      using Suc.prems(1) False by (auto elim!: bindPE split: option.splits)
    obtain w where w: "Reader_NextBatch S h (sys_world s) = (Inr batch, w)"
      and u: "u = s\<lparr>sys_world := w, sys_trace := EvRead ''NextBatch'' # sys_trace s\<rparr>"
      using call_io_world [OF n] by blast
    have hop: "h \<in> opened (sys_world s)"
      using Suc.prems(2) assms(4) h unfolding threads_ok_def by blast
    note law = reader_laws_next [OF assms(2) hop w]
    have view: "scan_view v = scan_view u"
      by (rule scan_view_release [OF rel])
    show ?thesis
    proof (cases batch)
      case (Some b)
      then obtain bs where bs: "pending (sys_world s) h = b # bs" "pending w = (pending (sys_world s))(h := bs)"
        using law(2) by auto
      have uniq: "ls_reader (sn_locals s j) \<noteq> Some h" if "j \<in> A" "j \<noteq> i" for j
        using Suc.prems(2) assms(4) h that unfolding threads_ok_def by blast
      have pend: "thread_pending pending u j = (if j = i then bs else thread_pending pending s j)" if "j \<in> A" for j
        using uniq [OF that] h u bs by (auto simp: thread_pending_def split: option.splits)
      have pi: "thread_pending pending s i = b # bs"
        using h bs by (simp add: thread_pending_def)
      have "(\<Sum>j \<in> A. mset (thread_pending pending u j)) + mset (thread_pending pending s i) =
        (\<Sum>j \<in> A. mset (thread_pending pending s j)) + mset (thread_pending pending u i)"
        using assms(4,5) pend by (intro sum_mset_upd) auto
      then have "left_over (content rx) pending A s = {#b#} + left_over (content rx) pending A u"
        using pi pend [OF assms(4)] u by (simp add: left_over_def untaken_def)
      moreover have "threads_ok pending opened A u"
        using Suc.prems(2) u law(1) pend pi unfolding threads_ok_def exhausted_threads_def
        by (auto simp: exhausted_threads_def)
      ultimately show ?thesis
        using Some rest scan_view_same [OF view] view u by (auto simp: scan_view_def)
    next
      case None
      then have p: "pending (sys_world s) h = []" "pending w = pending (sys_world s)"
        using law(2) by auto
      have pend: "thread_pending pending u = thread_pending pending s"
        using u p by (auto simp: thread_pending_def fun_eq_iff split: option.splits)
      have uok: "threads_ok pending opened A u" "left_over (content rx) pending A u = left_over (content rx) pending A s"
        using Suc.prems(2) u law(1) pend
        by (auto simp: threads_ok_def exhausted_threads_def left_over_def untaken_def)
      have vok: "threads_ok pending opened A v" "left_over (content rx) pending A v = left_over (content rx) pending A s"
        "gs_splits (sn_global v) = gs_splits (sn_global s)" "\<not> ls_exhausted (sn_locals v i)"
        "thread_pending pending v i = []"
        using uok scan_view_same [OF view] view u False h p
        by (auto simp: scan_view_def fun_eq_iff thread_pending_def split: option.splits)
      obtain found x where ns: "NextSplit S bind i v = (Inr found, x)"
        and tail: "(if \<not> found then retP None else NextBatch S bind i fuel) x = (Inr r, t)"
        using rest None by (auto elim!: bindPE)
      have "thread_reads bind u = thread_reads bind s"
        using u by (simp add: thread_reads_def fun_eq_iff)
      then have reads: "thread_reads bind v i = rx"
        using thread_reads_view [OF keepsD [OF keeps_ReleaseCurrentBatch rel], of bind] Suc.prems(4) by simp
      then have step: "split_step (content rx) pending opened i found v x"
        using NextSplit_ok [OF ns assms(2)] threads_index [OF vok(1) assms(4,5) vok(4)] vok(3) Suc.prems(3) by simp
      have readx: "thread_reads bind x i = rx"
        using thread_reads_view [OF keepsD [OF keeps_NextSplit ns], of bind] reads by simp
      note inv = split_step_inv [OF step vok(1) assms(4,5) vok(5,4)]
      have same: "gs_splits (sn_global x) = gs_splits (sn_global s)"
        using step vok(3) by (simp add: split_step_def)
      show ?thesis
      proof (cases found)
        case True
        then show ?thesis
          using Suc.IH [of x] tail inv same vok(2) Suc.prems(3) readx by simp
      next
        case False
        then show ?thesis
          using tail inv same vok(2) step by (auto simp: split_step_def)
      qed
    qed
  qed
qed simp


section \<open>Whole scans\<close>

lemma keeps_emit_batch: "keeps scan_view (emit_batch E S i columns b)"
  unfolding emit_batch_def check_worker_batch_def Let_def case_prod_beta
  by (intro keeps_intros) (auto simp: scan_view_def fun_eq_iff)

lemma emit_batch_view:
  assumes "emit_batch E S i columns b s = (Inr out, t)"
  shows "scan_view t = scan_view s" "\<exists>a. ab_array b = Some a \<and> oc_cardinality out = min (STANDARD_VECTOR_SIZE S) (nat (aa_length a))"
proof -
  show "scan_view t = scan_view s" by (rule keepsD [OF keeps_emit_batch assms])
  show "\<exists>a. ab_array b = Some a \<and> oc_cardinality out = min (STANDARD_VECTOR_SIZE S) (nat (aa_length a))"
    using assms by (auto simp: emit_batch_def Let_def elim!: bindPE split: if_splits option.splits)
qed

definition batch_rows :: "('w, 'p, 's) scan_api \<Rightarrow> ArrowBatch \<Rightarrow> nat" where
  "batch_rows S b = (case ab_array b of None \<Rightarrow> 0 | Some a \<Rightarrow> min (STANDARD_VECTOR_SIZE S) (nat (aa_length a)))"

lemma PaimonScan_inv:
  assumes "PaimonScan E S bind columns i s = (Inr out, t)" "reader_laws S content pending opened"
    and "threads_ok pending opened A s" "i \<in> A" "finite A" "length (gs_splits (sn_global s)) + card A < 2 ^ 64"
    and "thread_reads bind s i = rx"
  shows "threads_ok pending opened A t \<and> gs_splits (sn_global t) = gs_splits (sn_global s) \<and>
    left_over (content rx) pending A s = mset (scan_batch S bind i s) + left_over (content rx) pending A t \<and>
    oc_cardinality out = (\<Sum>b \<leftarrow> scan_batch S bind i s. batch_rows S b)"
proof -
  obtain r u where n: "NextBatch S bind i (length (gs_splits (sn_global s)) + 2) s = (Inr r, u)"
    and rest: "(case r of None \<Rightarrow> retP \<lparr>oc_cardinality = 0, oc_columns = []\<rparr> | Some b \<Rightarrow> emit_batch E S i columns b) u =
      (Inr out, t)"
    using assms(1) by (auto simp: PaimonScan_def elim!: bindPE)
  note inv = NextBatch_inv [OF n assms(2-7)]
  show ?thesis
  proof (cases r)
    case None
    then show ?thesis using inv rest n by (auto simp: scan_batch_def)
  next
    case (Some b)
    then have e: "emit_batch E S i columns b u = (Inr out, t)" using rest by simp
    have "gs_splits (sn_global t) = gs_splits (sn_global u)"
      using emit_batch_view(1) [OF e] by (simp add: scan_view_def)
    then show ?thesis
      using inv n Some scan_view_same [OF emit_batch_view(1) [OF e]] emit_batch_view(2) [OF e]
      by (auto simp: scan_batch_def batch_rows_def)
  qed
qed

lemma InitLocal_inv:
  assumes "PaimonScanInitLocal S bind columns i s = (Inr (), t)" "reader_laws S content pending opened"
    and "threads_ok pending opened A s" "i \<notin> A" "finite A" "length (gs_splits (sn_global s)) + card A + 1 < 2 ^ 64"
    and "rx = scan_reads bind (sn_global s) columns"
  shows "threads_ok pending opened (insert i A) t \<and> gs_splits (sn_global t) = gs_splits (sn_global s) \<and>
    left_over (content rx) pending (insert i A) t = left_over (content rx) pending A s \<and>
    thread_reads bind t = (thread_reads bind s)(i := rx) \<and> scan_reads bind (sn_global t) columns = rx"
proof -
  obtain cols found where n: "NextSplit S bind i (sn_locals_update (\<lambda>L. L(i := new_local cols)) s) = (Inr found, t)"
    and cols: "read_columns S (column_count bind) columns = Inr cols"
    using assms(1) by (auto simp: PaimonScanInitLocal_def elim!: bindPE)
  let ?s = "sn_locals_update (\<lambda>L. L(i := new_local cols)) s"
  have pend: "thread_pending pending ?s j = (if j = i then [] else thread_pending pending s j)" for j
    by (simp add: thread_pending_def new_local_def split: option.split)
  have ex: "exhausted_threads (insert i A) ?s = exhausted_threads A s"
    using assms(4) by (auto simp: exhausted_threads_def new_local_def)
  have ok: "threads_ok pending opened (insert i A) ?s"
    using assms(3,4) pend ex by (auto simp: threads_ok_def new_local_def)
  have "(\<Sum>j \<in> A. mset (thread_pending pending ?s j)) = (\<Sum>j \<in> A. mset (thread_pending pending s j))"
    using assms(4) pend by (intro sum.cong) auto
  then have lo: "left_over (content rx) pending (insert i A) ?s = left_over (content rx) pending A s"
    using assms(4,5) pend by (simp add: left_over_def untaken_def)
  have "card (exhausted_threads A s) \<le> card A"
    using assms(5) by (intro card_mono) (auto simp: exhausted_threads_def)
  then have "index ?s + 1 < 2 ^ 64"
    using assms(3,6) by (simp add: threads_ok_def)
  moreover have reads: "thread_reads bind ?s = (thread_reads bind s)(i := rx)"
    using assms(7) read_columns_Inr [OF cols] by (auto simp: thread_reads_def scan_reads_def fun_eq_iff)
  ultimately have step: "split_step (content rx) pending opened i found ?s t"
    using NextSplit_ok [OF n assms(2)] by simp
  have view: "read_view t = read_view ?s" by (rule keepsD [OF keeps_NextSplit n])
  then have "scan_reads bind (sn_global t) columns = rx"
    using assms(7) by (simp add: scan_reads_def read_view_def read_context_def)
  then show ?thesis
    using lo pend assms(5) step split_step_inv [OF step ok] thread_reads_view [OF view, of bind] reads
    by (simp add: split_step_def new_local_def)
qed

lemma scan_run_inv:
  assumes "scan_run E S bind columns s0 is bs outs s" "reader_laws S content pending opened"
    and "gs_split_index (sn_global s0) = 0" "length (gs_splits (sn_global s0)) + length is < 2 ^ 64"
    and "rx = scan_reads bind (sn_global s0) columns"
  shows "threads_ok pending opened (set is) s \<and> gs_splits (sn_global s) = gs_splits (sn_global s0) \<and> distinct is \<and>
    mset (concat (map (content rx) (gs_splits (sn_global s0)))) = mset bs + left_over (content rx) pending (set is) s \<and>
    (\<Sum>out \<leftarrow> outs. oc_cardinality out) = (\<Sum>b \<leftarrow> bs. batch_rows S b) \<and>
    scan_reads bind (sn_global s) columns = rx \<and> (\<forall>i \<in> set is. thread_reads bind s i = rx)"
  using assms(1,4)
proof (induction rule: scan_run.induct)
  case run_start
  then show ?case
    using assms(3,5) by (simp add: threads_ok_def left_over_def untaken_def)
next
  case (run_init "is" bs outs s i t)
  have "distinct is" using run_init by simp
  then show ?case
    using InitLocal_inv [OF run_init.hyps(3) assms(2), of "set is" rx] run_init by (simp add: distinct_card)
next
  case (run_scan "is" bs outs s i out t)
  have "distinct is" using run_scan by simp
  moreover have view: "read_view t = read_view s" by (rule keepsD [OF keeps_PaimonScan run_scan.hyps(3)])
  moreover have "scan_reads bind (sn_global t) columns = scan_reads bind (sn_global s) columns"
    using view by (simp add: scan_reads_def read_view_def read_context_def)
  ultimately show ?case
    using PaimonScan_inv [OF run_scan.hyps(3) assms(2), of "set is" rx] run_scan thread_reads_view [OF view, of bind]
    by (simp add: distinct_card)
qed

lemma scan_run_complete:
  assumes "reader_laws S content pending opened" and "scan_run E S bind columns s0 is bs outs s"
    and "gs_split_index (sn_global s0) = 0" and "length (gs_splits (sn_global s0)) + length is < 2 ^ 64"
    and "is \<noteq> []" and "\<And>i. i \<in> set is \<Longrightarrow> ls_exhausted (sn_locals s i)"
  shows "mset bs = mset (concat (map (content (scan_reads bind (sn_global s0) columns)) (gs_splits (sn_global s0))))"
    and "(\<Sum>out \<leftarrow> outs. oc_cardinality out) = (\<Sum>b \<leftarrow> bs. batch_rows S b)"
proof -
  let ?rx = "scan_reads bind (sn_global s0) columns"
  note inv = scan_run_inv [OF assms(2,1,3,4) refl]
  have "thread_pending pending s i = []" if "i \<in> set is" for i
    using inv assms(6) that by (auto simp: threads_ok_def)
  moreover have "length (gs_splits (sn_global s)) \<le> index s"
    using inv assms(5,6) by (auto simp: threads_ok_def neq_Nil_conv)
  ultimately have "left_over (content ?rx) pending (set is) s = {#}"
    by (simp add: left_over_def untaken_def)
  then show "mset bs = mset (concat (map (content ?rx) (gs_splits (sn_global s0))))"
    and "(\<Sum>out \<leftarrow> outs. oc_cardinality out) = (\<Sum>b \<leftarrow> bs. batch_rows S b)" using inv by simp_all
qed

section \<open>Properties\<close>

text \<open>
  C8. A parallel scan delivers every batch of every split exactly once: after a run without exceptions in
  which every thread has reached the end (and at least one has been started), in whatever order the
  threads took their turns, the batches delivered are those that reading the planned splits under the scan's read
  context (path, projected columns, picked predicate) returns, none lost and none twice, and the rows returned are the batches' rows, up to a vector per batch.
\<close>

theorem scan_delivers_once:
  assumes "reader_laws S content pending opened" and "scan_run E S bind columns s0 is bs outs s"
    and "gs_split_index (sn_global s0) = 0" and "length (gs_splits (sn_global s0)) + length is < 2 ^ 64"
    and "is \<noteq> []" and "\<And>i. i \<in> set is \<Longrightarrow> ls_exhausted (sn_locals s i)"
  shows "mset bs = mset (concat (map (content (scan_reads bind (sn_global s0) columns)) (gs_splits (sn_global s0)))) \<and>
    (\<Sum>out \<leftarrow> outs. oc_cardinality out) = (\<Sum>b \<leftarrow> bs. batch_rows S b)"
  using scan_run_complete [OF assms] by simp

lemma call_io_error: "call_io ev f s = (Inl e, t) \<Longrightarrow> \<exists>m. e = IOException m"
  by (auto simp: call_io_def call_def value_or_io_def bindP_def split: prod.splits sum.splits)

lemma NextSplit_error: "NextSplit S bind i s = (Inl e, t) \<Longrightarrow> \<exists>m. e = IOException m"
  by (auto simp: NextSplit_def bindP_Inl split: if_splits dest: call_io_error)

lemma NextSplit_progress:
  assumes "NextSplit S bind i s = (Inr True, t)"
  shows "sn_global t = (sn_global s)\<lparr>gs_split_index := gs_split_index (sn_global s) + 1\<rparr>"
    "index s < length (gs_splits (sn_global s))"
  using assms by (auto simp: NextSplit_def elim!: bindPE dest!: call_io_world split: if_splits)

lemma ReleaseCurrentBatch_ok: "\<exists>t. ReleaseCurrentBatch i s = (Inr (), t) \<and> sn_global t = sn_global s"
  by (auto simp: ReleaseCurrentBatch_def)

lemma NextBatch_fuel:
  assumes "length (gs_splits (sn_global s)) < 2 ^ 64" "length (gs_splits (sn_global s)) - index s < fuel"
  shows "fst (NextBatch S bind i fuel s) \<noteq> Inl (UndefinedBehaviour ''fuel'')"
  using assms
proof (induction fuel arbitrary: s)
  case (Suc fuel)
  show ?case
  proof (cases "ls_exhausted (sn_locals s i) \<or> ls_reader (sn_locals s i) = None")
    case False
    then obtain h where h: "ls_reader (sn_locals s i) = Some h" "\<not> ls_exhausted (sn_locals s i)" by auto
    obtain r u where n: "call_io (EvRead ''NextBatch'') (Reader_NextBatch S h) s = (r, u)" by fastforce
    show ?thesis
    proof (cases r)
      case (Inl e)
      then show ?thesis using h n call_io_error [of _ _ s e u] by auto
    next
      case (Inr batch)
      obtain v where v: "ReleaseCurrentBatch i u = (Inr (), v)" "sn_global v = sn_global s"
        using ReleaseCurrentBatch_ok [of i u] call_io_world [OF n [unfolded Inr]] by auto
      obtain q x where q: "NextSplit S bind i v = (q, x)" by fastforce
      have more: "fst (NextBatch S bind i fuel x) \<noteq> Inl (UndefinedBehaviour ''fuel'')" if "q = Inr True"
      proof -
        note p = NextSplit_progress [OF q [unfolded that]]
        have "unat (gs_split_index (sn_global s) + 1) = Suc (index s)"
          using Suc.prems(1) p(2) v(2) by (simp add: unat_plus_if')
        then show ?thesis
          using Suc.IH [of x] Suc.prems p v(2) by simp
      qed
      show ?thesis
        using h n Inr v(1) q more NextSplit_error [of S bind i v _ x]
        by (cases batch; cases q) auto
    qed
  qed auto
qed simp

text \<open>
  C33. The loop over splits always ends: \<open>PaimonScan\<close> gives \<open>NextBatch\<close> one iteration more than there can be
  splits left, and that is enough, so a call returns a chunk, the end of the scan or an exception of
  the code, from every state.
\<close>

theorem PaimonScan_terminates:
  assumes "length (gs_splits (sn_global s)) < 2 ^ 64"
  shows "fst (NextBatch S bind i (length (gs_splits (sn_global s)) + 2) s) \<noteq> Inl (UndefinedBehaviour ''fuel'')"
  using assms by (intro NextBatch_fuel) simp_all

section \<open>An instance\<close>

text \<open>The world is the list of the batches each reader has left; a split is the number of its batches.\<close>

definition demo_batch :: "nat \<Rightarrow> ArrowBatch" where
  "demo_batch n = \<lparr>ab_schema = None, ab_array = Some \<lparr>aa_length = int n, aa_n_children = 1, aa_children = [[]]\<rparr>\<rparr>"

definition demo_content :: "nat option \<Rightarrow> ArrowBatch list" where
  "demo_content sp = (case sp of None \<Rightarrow> [] | Some n \<Rightarrow> map demo_batch [1..<Suc n])"

definition demo_pending :: "ArrowBatch list list \<Rightarrow> nat \<Rightarrow> ArrowBatch list" where
  "demo_pending w h = (if h < length w then w ! h else [])"

definition demo_scan_api :: "(ArrowBatch list list, nat, nat) scan_api" where
  "demo_scan_api = \<lparr>EndsWith = (\<lambda>_ _. True), DB_SUFFIX = ''.db'', CatalogCreate = (\<lambda>_ _ w. (Inr (), w)),
     ScanContext_Finish = (\<lambda>_ w. (Inr (), w)), TableScan_Create = (\<lambda>_ w. (Inr (), w)),
     CreatePlan = (\<lambda>_ w. (Inr (Some \<lparr>pl_SnapshotId = Some 1, pl_Splits = [Some 1, Some 2]\<rparr>), w)),
     ReadContext_Finish = (\<lambda>_ w. (Inr (), w)), TableRead_Create = (\<lambda>_ w. (Inr (), w)),
     CreateReader = (\<lambda>_ sp w. (Inr (length w), w @ [demo_content sp])),
     Reader_NextBatch = (\<lambda>h w. case demo_pending w h of [] \<Rightarrow> (Inr None, w) | b # bs \<Rightarrow> (Inr (Some b), w[h := bs])),
     CreateCountReader = (\<lambda>_ _ w. (Inr 0, w)), CountRows = (\<lambda>_ w. (Inr 0, w)),
     CreatePickedFieldFilter = (\<lambda>p _. Inr (Some p)), IsRowIdColumnId = (\<lambda>c. c = idx_max), STANDARD_VECTOR_SIZE = 8,
     ColumnArrowToDuckDB = (\<lambda>_ vs n. Inr (take n vs)), Split_Serialize = (\<lambda>n. Inr (replicate (Suc n) CHR ''s'')),
     Split_Deserialize = (\<lambda>s. Inr (Some (length s - 1))), Split_FileList = (\<lambda>_. Some []), Split_IsIndexed = (\<lambda>_. False)\<rparr>"

lemma demo_reader_laws: "reader_laws demo_scan_api (\<lambda>_. demo_content) demo_pending (\<lambda>w. {0..<length w})"
proof -
  have "demo_pending (w @ [bs]) = (demo_pending w)(length w := bs)" for w bs
    by (auto simp: demo_pending_def nth_append)
  moreover have "demo_pending (w[h := bs]) = (demo_pending w)(h := bs)" if "h < length w" for w h bs
    using that by (auto simp: demo_pending_def fun_eq_iff)
  ultimately show ?thesis
    by (auto simp: reader_laws_def same_readers_def demo_scan_api_def split: list.splits)
qed

definition demo_scan :: "(ArrowBatch list list, nat, nat, nat) scan" where
  "demo_scan = \<lparr>sys_world = [], sys_trace = [], sn_global = \<lparr>gs_splits = [Some 1, Some 2], gs_split_index = 0, gs_path = ''/t'',
     gs_arrow_table = \<lparr>arrow_names = [], arrow_types = []\<rparr>, gs_predicates = None, gs_distributed_worker = False\<rparr>,
     sn_locals = (\<lambda>_. new_local [])\<rparr>"

text \<open>Two threads: each takes one split, thread 0 finishes first.\<close>

definition demo_st :: "ArrowBatch list list \<Rightarrow> idx_t \<Rightarrow> (nat \<Rightarrow> PaimonScanLocalState) \<Rightarrow> nat event list \<Rightarrow>
    (ArrowBatch list list, nat, nat, nat) scan" where
  "demo_st w idx l tr = demo_scan\<lparr>sys_world := w, sys_trace := tr,
     sn_global := (sn_global demo_scan)\<lparr>gs_split_index := idx\<rparr>, sn_locals := l\<rparr>"

lemma demo_st_fields [simp]:
  "sys_world (demo_st w idx l tr) = w" "sys_trace (demo_st w idx l tr) = tr" "sn_locals (demo_st w idx l tr) = l"
  "sn_global (demo_st w idx l tr) = (sn_global demo_scan)\<lparr>gs_split_index := idx\<rparr>"
  "(demo_st w idx l tr)\<lparr>sys_world := w', sys_trace := tr'\<rparr> = demo_st w' idx l tr'"
  "(demo_st w idx l tr)\<lparr>sys_trace := tr'\<rparr> = demo_st w idx l tr'"
  "sn_locals_update f (demo_st w idx l tr) = demo_st w idx (f l) tr"
  "sn_global_update (\<lambda>g. g\<lparr>gs_split_index := gs_split_index g + 1\<rparr>) (demo_st w idx l tr) = demo_st w (idx + 1) l tr"
  by (simp_all add: demo_st_def)

lemma demo_release: "\<exists>tr'. ReleaseCurrentBatch i (demo_st w idx l tr) = (Inr (), demo_st w idx (l(i := (l i)\<lparr>ls_chunk := False\<rparr>)) tr')"
proof (cases "ls_chunk (l i)")
  case True
  then have "ReleaseCurrentBatch i (demo_st w idx l tr) =
      (Inr (), demo_st w idx (l(i := (l i)\<lparr>ls_chunk := False\<rparr>)) (EvRead ''array release'' # tr))"
    by (simp add: ReleaseCurrentBatch_def)
  then show ?thesis by blast
next
  case False
  then have "l(i := (l i)\<lparr>ls_chunk := False\<rparr>) = l"
    by (cases "l i") (simp add: fun_eq_iff)
  with False have "ReleaseCurrentBatch i (demo_st w idx l tr) =
      (Inr (), demo_st w idx (l(i := (l i)\<lparr>ls_chunk := False\<rparr>)) tr)"
    by (simp add: ReleaseCurrentBatch_def)
  then show ?thesis by blast
qed

lemma demo_next:
  assumes "ls_reader (l i) = Some h" "\<not> ls_exhausted (l i)"
  shows "demo_pending w h = b # bs \<Longrightarrow> \<exists>tr'. NextBatch demo_scan_api bind i (Suc n) (demo_st w idx l tr) =
      (Inr (Some b), demo_st (w[h := bs]) idx (l(i := (l i)\<lparr>ls_chunk := False\<rparr>)) tr')"
    and "demo_pending w h = [] \<Longrightarrow> 2 \<le> unat idx \<Longrightarrow> \<exists>tr'. NextBatch demo_scan_api bind i (Suc n) (demo_st w idx l tr) =
      (Inr None, demo_st w (idx + 1) (l(i := (l i)\<lparr>ls_chunk := False, ls_exhausted := True\<rparr>)) tr')"
proof -
  obtain tr' where r: "ReleaseCurrentBatch i (demo_st w idx l (EvRead ''NextBatch'' # tr)) =
      (Inr (), demo_st w idx (l(i := (l i)\<lparr>ls_chunk := False\<rparr>)) tr')"
    using demo_release by blast
  obtain tr'' where r': "ReleaseCurrentBatch i (demo_st (w[h := bs]) idx l (EvRead ''NextBatch'' # tr)) =
      (Inr (), demo_st (w[h := bs]) idx (l(i := (l i)\<lparr>ls_chunk := False\<rparr>)) tr'')"
    using demo_release by blast
  show "\<exists>tr'. NextBatch demo_scan_api bind i (Suc n) (demo_st w idx l tr) =
      (Inr (Some b), demo_st (w[h := bs]) idx (l(i := (l i)\<lparr>ls_chunk := False\<rparr>)) tr')" if "demo_pending w h = b # bs"
    using assms that r' by (auto simp: demo_scan_api_def call_io_def call_def value_or_io_def)
  show "\<exists>tr'. NextBatch demo_scan_api bind i (Suc n) (demo_st w idx l tr) =
      (Inr None, demo_st w (idx + 1) (l(i := (l i)\<lparr>ls_chunk := False, ls_exhausted := True\<rparr>)) tr')"
    if "demo_pending w h = []" "2 \<le> unat idx"
    using assms that r
    by (auto simp: demo_scan_api_def call_io_def call_def value_or_io_def NextSplit_def demo_scan_def)
qed


lemma demo_scan_call:
  assumes "ls_reader (l i) = Some h" "\<not> ls_exhausted (l i)"
  shows "demo_pending w h = demo_batch n # bs \<Longrightarrow> \<exists>tr'. PaimonScan E demo_scan_api empty_bind 0 i (demo_st w idx l tr) =
      (Inr \<lparr>oc_cardinality = min 8 n, oc_columns = []\<rparr>, demo_st (w[h := bs]) idx (l(i := (l i)\<lparr>ls_chunk := True\<rparr>)) tr') \<and>
      scan_batch demo_scan_api empty_bind i (demo_st w idx l tr) = [demo_batch n]"
    and "demo_pending w h = [] \<Longrightarrow> 2 \<le> unat idx \<Longrightarrow> \<exists>tr'. PaimonScan E demo_scan_api empty_bind 0 i (demo_st w idx l tr) =
      (Inr \<lparr>oc_cardinality = 0, oc_columns = []\<rparr>, demo_st w (idx + 1) (l(i := (l i)\<lparr>ls_chunk := False, ls_exhausted := True\<rparr>)) tr') \<and>
      scan_batch demo_scan_api empty_bind i (demo_st w idx l tr) = []"
proof -
  have len: "length (gs_splits (sn_global demo_scan)) = 2"
    by (simp add: demo_scan_def)
  show "\<exists>tr'. PaimonScan E demo_scan_api empty_bind 0 i (demo_st w idx l tr) =
      (Inr \<lparr>oc_cardinality = min 8 n, oc_columns = []\<rparr>, demo_st (w[h := bs]) idx (l(i := (l i)\<lparr>ls_chunk := True\<rparr>)) tr') \<and>
      scan_batch demo_scan_api empty_bind i (demo_st w idx l tr) = [demo_batch n]"
    if p: "demo_pending w h = demo_batch n # bs"
  proof -
    obtain tr' where n: "NextBatch demo_scan_api empty_bind i (Suc 3) (demo_st w idx l tr) =
      (Inr (Some (demo_batch n)), demo_st (w[h := bs]) idx (l(i := (l i)\<lparr>ls_chunk := False\<rparr>)) tr')"
      using demo_next(1) [where l = l and i = i, OF assms p] by blast
    then have "emit_batch E demo_scan_api i 0 (demo_batch n)
        (demo_st (w[h := bs]) idx (l(i := (l i)\<lparr>ls_chunk := False\<rparr>)) tr') =
      (Inr \<lparr>oc_cardinality = min 8 n, oc_columns = []\<rparr>, demo_st (w[h := bs]) idx (l(i := (l i)\<lparr>ls_chunk := True\<rparr>)) tr')"
      by (simp add: emit_batch_def demo_scan_def demo_batch_def demo_scan_api_def)
    with n show ?thesis
      by (auto simp: PaimonScan_def scan_batch_def len simp del: NextBatch.simps)
  qed
  show "\<exists>tr'. PaimonScan E demo_scan_api empty_bind 0 i (demo_st w idx l tr) =
      (Inr \<lparr>oc_cardinality = 0, oc_columns = []\<rparr>, demo_st w (idx + 1) (l(i := (l i)\<lparr>ls_chunk := False, ls_exhausted := True\<rparr>)) tr') \<and>
      scan_batch demo_scan_api empty_bind i (demo_st w idx l tr) = []"
    if p: "demo_pending w h = []" "2 \<le> unat idx"
  proof -
    obtain tr' where n: "NextBatch demo_scan_api empty_bind i (Suc 3) (demo_st w idx l tr) =
      (Inr None, demo_st w (idx + 1) (l(i := (l i)\<lparr>ls_chunk := False, ls_exhausted := True\<rparr>)) tr')"
      using demo_next(2) [where l = l and i = i, OF assms p] by blast
    then show ?thesis
      by (auto simp: PaimonScan_def scan_batch_def len simp del: NextBatch.simps)
  qed
qed

lemma demo_init:
  assumes "unat idx < 2"
  shows "\<exists>tr'. PaimonScanInitLocal demo_scan_api empty_bind [] i (demo_st w idx l tr) =
    (Inr (), demo_st (w @ [demo_content ([Some 1, Some 2] ! unat idx)]) (idx + 1) (l(i := (new_local [])\<lparr>ls_reader := Some (length w)\<rparr>)) tr')"
  using assms by (auto simp: PaimonScanInitLocal_def NextSplit_def demo_scan_api_def demo_scan_def call_io_def call_def
      value_or_io_def)


definition demo_locals :: "bool \<Rightarrow> bool \<Rightarrow> bool \<Rightarrow> bool \<Rightarrow> nat \<Rightarrow> PaimonScanLocalState" where
  "demo_locals c0 e0 c1 e1 = (\<lambda>_. new_local [])
     (0 := \<lparr>ls_read_column_ids = [], ls_reader = Some 0, ls_exhausted = e0, ls_chunk = c0\<rparr>,
      1 := \<lparr>ls_read_column_ids = [], ls_reader = Some 1, ls_exhausted = e1, ls_chunk = c1\<rparr>)"

lemma demo_locals_upd [simp]:
  "(demo_locals c0 e0 c1 e1)(0 := (demo_locals c0 e0 c1 e1 0)\<lparr>ls_chunk := c\<rparr>) = demo_locals c e0 c1 e1"
  "(demo_locals c0 e0 c1 e1)(Suc 0 := (demo_locals c0 e0 c1 e1 (Suc 0))\<lparr>ls_chunk := c\<rparr>) = demo_locals c0 e0 c e1"
  "(demo_locals c0 e0 c1 e1)(0 := (demo_locals c0 e0 c1 e1 0)\<lparr>ls_chunk := c, ls_exhausted := e\<rparr>) = demo_locals c e c1 e1"
  "(demo_locals c0 e0 c1 e1)(Suc 0 := (demo_locals c0 e0 c1 e1 (Suc 0))\<lparr>ls_chunk := c, ls_exhausted := e\<rparr>) = demo_locals c0 e0 c e"
  "ls_reader (demo_locals c0 e0 c1 e1 0) = Some 0" "ls_reader (demo_locals c0 e0 c1 e1 (Suc 0)) = Some 1"
  "ls_exhausted (demo_locals c0 e0 c1 e1 0) = e0" "ls_exhausted (demo_locals c0 e0 c1 e1 (Suc 0)) = e1"
  by (auto simp: demo_locals_def fun_eq_iff)

lemma demo_scan_run:
  "\<exists>s outs. scan_run E demo_scan_api empty_bind [] demo_scan [0, 1] [demo_batch 1, demo_batch 1, demo_batch 2] outs s \<and>
    (\<forall>i \<in> {0, 1}. ls_exhausted (sn_locals s i)) \<and> outs \<noteq> []"
proof -
  let ?run = "scan_run E demo_scan_api empty_bind [] demo_scan"
  let ?b1 = "demo_batch 1" and ?b2 = "demo_batch 2"
  have c: "demo_content (Some 1) = [?b1]" "demo_content (Some 2) = [?b1, ?b2]"
    by (simp_all add: demo_content_def numeral_2_eq_2)
  have s0: "demo_scan = demo_st [] 0 (\<lambda>_. new_local []) []"
    by (simp add: demo_st_def demo_scan_def)
  obtain t1 where "PaimonScanInitLocal demo_scan_api empty_bind [] 0 demo_scan = (Inr (), demo_st [[?b1]] 1
      ((\<lambda>_. new_local [])(0 := (new_local [])\<lparr>ls_reader := Some 0\<rparr>)) t1)"
    using demo_init [of 0 0 "[]" "\<lambda>_. new_local []" "[]"] c by (auto simp: s0)
  from run_init [OF run_start _ this] have r1: "?run [0] [] [] (demo_st [[?b1]] 1
      ((\<lambda>_. new_local [])(0 := (new_local [])\<lparr>ls_reader := Some 0\<rparr>)) t1)" by simp
  obtain t2 where "PaimonScanInitLocal demo_scan_api empty_bind [] 1 (demo_st [[?b1]] 1
      ((\<lambda>_. new_local [])(0 := (new_local [])\<lparr>ls_reader := Some 0\<rparr>)) t1) =
      (Inr (), demo_st [[?b1], [?b1, ?b2]] 2 (demo_locals False False False False) t2)"
    using demo_init [of 1 1 "[[?b1]]" "(\<lambda>_. new_local [])(0 := (new_local [])\<lparr>ls_reader := Some 0\<rparr>)" t1] c
    by (auto simp: demo_locals_def new_local_def)
  from run_init [OF r1 _ this] have r2: "?run [0, 1] [] [] (demo_st [[?b1], [?b1, ?b2]] 2 (demo_locals False False False False) t2)"
    by simp
  have more: "\<exists>tr'. ?run [0, 1] (bs @ [demo_batch n]) (outs @ [\<lparr>oc_cardinality = min 8 n, oc_columns = []\<rparr>])
      (demo_st (w[h := rest]) idx (l(i := (l i)\<lparr>ls_chunk := True\<rparr>)) tr')"
    if "?run [0, 1] bs outs (demo_st w idx l tr)" "i \<in> {0, 1}" "ls_reader (l i) = Some h" "\<not> ls_exhausted (l i)"
      "demo_pending w h = demo_batch n # rest" for bs outs w idx l tr i h n rest
    using demo_scan_call(1) [where l = l and i = i, OF that(3,4,5), of E idx tr] run_scan [OF that(1), of i] that(2)
    by fastforce
  have fin: "\<exists>tr'. ?run [0, 1] bs (outs @ [\<lparr>oc_cardinality = 0, oc_columns = []\<rparr>])
      (demo_st w (idx + 1) (l(i := (l i)\<lparr>ls_chunk := False, ls_exhausted := True\<rparr>)) tr')"
    if "?run [0, 1] bs outs (demo_st w idx l tr)" "i \<in> {0, 1}" "ls_reader (l i) = Some h" "\<not> ls_exhausted (l i)"
      "demo_pending w h = []" "2 \<le> unat idx" for bs outs w idx l tr i h
    using demo_scan_call(2) [where l = l and i = i, OF that(3,4,5,6), of E tr] run_scan [OF that(1), of i] that(2)
    by fastforce
  obtain t3 where r3: "?run [0, 1] [?b1] [\<lparr>oc_cardinality = 1, oc_columns = []\<rparr>]
      (demo_st [[], [?b1, ?b2]] 2 (demo_locals True False False False) t3)"
    using more [OF r2, of 0 0 1 "[]"] by (auto simp: demo_pending_def)
  obtain t4 outs4 where r4: "?run [0, 1] [?b1, ?b1] outs4 (demo_st [[], [?b2]] 2 (demo_locals True False True False) t4)"
    using more [OF r3, of 1 1 1 "[?b2]"] by (auto simp: demo_pending_def)
  obtain t5 outs5 where r5: "?run [0, 1] [?b1, ?b1] outs5 (demo_st [[], [?b2]] 3 (demo_locals False True True False) t5)"
    using fin [OF r4, of 0 0] by (auto simp: demo_pending_def)
  obtain t6 outs6 where r6: "?run [0, 1] [?b1, ?b1, ?b2] outs6 (demo_st [[], []] 3 (demo_locals False True True False) t6)"
    using more [OF r5, of 1 1 2 "[]"] by (auto simp: demo_pending_def)
  obtain t7 where r7: "?run [0, 1] [?b1, ?b1, ?b2] (outs6 @ [\<lparr>oc_cardinality = 0, oc_columns = []\<rparr>])
      (demo_st [[], []] 4 (demo_locals False True False True) t7)"
    using fin [OF r6, of 1 1] by (auto simp: demo_pending_def)
  then show ?thesis
    by (intro exI conjI) (assumption, auto)
qed

theorem scan_delivers_once_witness:
  "\<forall>E. \<exists>outs s. scan_run E demo_scan_api empty_bind [] demo_scan [0, 1] [demo_batch 1, demo_batch 1, demo_batch 2] outs s \<and>
    mset [demo_batch 1, demo_batch 1, demo_batch 2] = mset (concat (map demo_content [Some 1, Some 2])) \<and>
    (\<Sum>out \<leftarrow> outs. oc_cardinality out) = 4"
proof
  fix E
  obtain s outs where r: "scan_run E demo_scan_api empty_bind [] demo_scan [0, 1] [demo_batch 1, demo_batch 1, demo_batch 2] outs s"
    and e: "\<And>i. i \<in> set [0, 1] \<Longrightarrow> ls_exhausted (sn_locals s i)"
    using demo_scan_run [of E] by auto
  have z: "gs_split_index (sn_global demo_scan) = 0" "length (gs_splits (sn_global demo_scan)) + length [0, 1 :: nat] < 2 ^ 64"
    "[0, 1 :: nat] \<noteq> []" "gs_splits (sn_global demo_scan) = [Some 1, Some 2]"
    by (simp_all add: demo_scan_def)
  have "batch_rows demo_scan_api (demo_batch 1) = 1" "batch_rows demo_scan_api (demo_batch 2) = 2"
    by (simp_all add: batch_rows_def demo_batch_def demo_scan_api_def)
  with scan_delivers_once [OF demo_reader_laws r z(1,2,3) e] z(4) r
  show "\<exists>outs s. scan_run E demo_scan_api empty_bind [] demo_scan [0, 1] [demo_batch 1, demo_batch 1, demo_batch 2] outs s \<and>
    mset [demo_batch 1, demo_batch 1, demo_batch 2] = mset (concat (map demo_content [Some 1, Some 2])) \<and>
    (\<Sum>out \<leftarrow> outs. oc_cardinality out) = 4"
    by auto
qed

theorem PaimonScan_terminates_witness:
  "fst (NextBatch demo_scan_api empty_bind 0 (length (gs_splits (sn_global demo_scan)) + 2) demo_scan) \<noteq>
    Inl (UndefinedBehaviour ''fuel'')"
  by (rule PaimonScan_terminates) (simp add: demo_scan_def)

end
