(* ===== verification/Query_Correct.thy ===== *)
theory Query_Correct
  imports Pushdown_Correct Scan_Correct
begin

text \<open>
  A query from its filters to its rows: the filters are pushed into the bind data (\<open>Paimon_Pushdown\<close>), the scan is
  planned with them, the pushed predicate is rewritten for the projected columns (\<open>PaimonScanInitGlobal\<close>), and several
  threads read the splits under it (\<open>Paimon_Scan\<close>). The rows are those of \<open>Pushdown_Correct\<close>, the runs those of
  \<open>Scan_Correct\<close>.
\<close>

section \<open>What a plan and a read are\<close>







section \<open>Planning and picking\<close>





section \<open>The rows of a query\<close>





end
