(* ===== verification/Pushdown_Demo.thy ===== *)
theory Pushdown_Demo
  imports Pushdown_Correct
begin

text \<open>
  A predicate builder with the SQL meaning and a table with columns of two types, on which the assumptions of
  \<open>Pushdown_Correct\<close> hold, and the witnesses of its properties.
\<close>

section \<open>A reference builder\<close>

datatype ref_pred =
    RCmp ExpressionType nat Literal | RFun PushdownFunction nat Literal | RNull nat | RNotNull nat
  | RIn nat "Literal list" | RNotIn nat "Literal list" | RAnd "ref_pred list" | ROr "ref_pred list"
  | RNot ref_pred

definition ref_builder :: "ref_pred predicate_builder" where
  "ref_builder = \<lparr>
     pb_Equal = (\<lambda>i n ft l. RCmp COMPARE_EQUAL i l),
     pb_NotEqual = (\<lambda>i n ft l. RCmp COMPARE_NOTEQUAL i l),
     pb_LessThan = (\<lambda>i n ft l. RCmp COMPARE_LESSTHAN i l),
     pb_LessOrEqual = (\<lambda>i n ft l. RCmp COMPARE_LESSTHANOREQUALTO i l),
     pb_GreaterThan = (\<lambda>i n ft l. RCmp COMPARE_GREATERTHAN i l),
     pb_GreaterOrEqual = (\<lambda>i n ft l. RCmp COMPARE_GREATERTHANOREQUALTO i l),
     pb_IsNull = (\<lambda>i n ft. RNull i), pb_IsNotNull = (\<lambda>i n ft. RNotNull i),
     pb_In = (\<lambda>i n ft ls. RIn i ls), pb_NotIn = (\<lambda>i n ft ls. RNotIn i ls),
     pb_StartsWith = (\<lambda>i n ft l. Inr (RFun PF_PREFIX i l)),
     pb_EndsWith = (\<lambda>i n ft l. Inr (RFun PF_SUFFIX i l)),
     pb_Contains = (\<lambda>i n ft l. Inr (RFun PF_CONTAINS i l)),
     pb_Like = (\<lambda>i n ft l. Inr (RFun PF_LIKE i l)),
     pb_And = (\<lambda>ps. Inr (RAnd ps)), pb_Or = (\<lambda>ps. Inr (ROr ps)), pb_Not = (\<lambda>p. Inr (RNot p))\<rparr>"

fun rsem :: "(sql_value \<Rightarrow> 'd::linorder) \<Rightarrow> (PushdownFunction \<Rightarrow> 'd \<Rightarrow> 'd \<Rightarrow> bool) \<Rightarrow> ref_pred \<Rightarrow>
    'd row \<Rightarrow> bool option" where
  "rsem place fsem (RCmp t i l) row = sql_cmp t (row i) (Some (lval place l))"
| "rsem place fsem (RFun f i l) row = sql_lift (fsem f) (row i) (Some (lval place l))"
| "rsem place fsem (RNull i) row = Some (row i = None)"
| "rsem place fsem (RNotNull i) row = Some (row i \<noteq> None)"
| "rsem place fsem (RIn i ls) row = sql_or (map (\<lambda>l. sql_cmp COMPARE_EQUAL (row i) (Some (lval place l))) ls)"
| "rsem place fsem (RNotIn i ls) row =
     sql_and (map (\<lambda>l. sql_cmp COMPARE_NOTEQUAL (row i) (Some (lval place l))) ls)"
| "rsem place fsem (RAnd ps) row = sql_and (map (\<lambda>q. rsem place fsem q row) ps)"
| "rsem place fsem (ROr ps) row = sql_or (map (\<lambda>q. rsem place fsem q row) ps)"
| "rsem place fsem (RNot p) row = sql_not (rsem place fsem p row)"

definition ref_flip :: "ExpressionType \<Rightarrow> ExpressionType" where
  "ref_flip t = (case t of
       COMPARE_LESSTHAN \<Rightarrow> COMPARE_GREATERTHAN | COMPARE_GREATERTHAN \<Rightarrow> COMPARE_LESSTHAN
     | COMPARE_LESSTHANOREQUALTO \<Rightarrow> COMPARE_GREATERTHANOREQUALTO
     | COMPARE_GREATERTHANOREQUALTO \<Rightarrow> COMPARE_LESSTHANOREQUALTO | _ \<Rightarrow> t)"

definition demo_hconv :: "int \<Rightarrow> hugeint" where
  "demo_hconv x = \<lparr>hi_upper = word_of_int (x div 2 ^ 64), hi_lower = word_of_int x\<rparr>"

lemma demo_hconv_ok: "hugeint_convert_ok demo_hconv"
proof -
  have "sint (word_of_int (x div 2 ^ 64) :: 64 word) * 2 ^ 64 + uint (word_of_int x :: 64 word) = x"
    if "int64_min \<le> x" "x \<le> int64_max" for x
  proof -
    have "x div 2 ^ 64 = 0 \<or> x div 2 ^ 64 = - 1" using that by simp linarith
    then have "sint (word_of_int (x div 2 ^ 64) :: 64 word) = x div 2 ^ 64" by auto
    then show ?thesis
      by (simp add: uint_word_of_int)
  qed
  then show ?thesis by (simp add: hugeint_convert_ok_def hugeint_value_def demo_hconv_def)
qed

lemma ref_laws:
  assumes "hugeint_convert_ok hconv"
  shows "pushdown_laws hconv ref_flip ref_builder place fsem (rsem place fsem)"
proof -
  have "predicate_laws ref_builder (lval place) fsem (rsem place fsem)"
    unfolding predicate_laws_def
    by (auto simp: ref_builder_def comparison_predicate_def function_predicate_def
        split: ExpressionType.split_asm PushdownFunction.split_asm)
  moreover have "flip_laws ref_flip"
    by (simp add: flip_laws_def ref_flip_def)
  ultimately show ?thesis using assms by (simp add: pushdown_laws_def)
qed

section \<open>A table\<close>

text \<open>BIGINT columns \<open>a\<close>, the partition key, and \<open>b\<close>, and a VARCHAR column \<open>s\<close>. Numbers come before texts.\<close>

datatype cell = CInt int | CText string

instantiation cell :: linorder
begin

fun less_eq_cell :: "cell \<Rightarrow> cell \<Rightarrow> bool" where
  "less_eq_cell (CInt m) (CInt n) \<longleftrightarrow> m \<le> n"
| "less_eq_cell (CInt m) (CText t) \<longleftrightarrow> True"
| "less_eq_cell (CText s) (CInt n) \<longleftrightarrow> False"
| "less_eq_cell (CText s) (CText t) \<longleftrightarrow> s \<le> t"

definition less_cell :: "cell \<Rightarrow> cell \<Rightarrow> bool" where
  "less_cell x y \<longleftrightarrow> x \<le> y \<and> \<not> y \<le> x"

instance
proof
  fix x y z :: cell
  show "x < y \<longleftrightarrow> x \<le> y \<and> \<not> y \<le> x" by (rule less_cell_def)
  show "x \<le> x" by (cases x) simp_all
  show "x \<le> y \<Longrightarrow> y \<le> z \<Longrightarrow> x \<le> z" by (cases x; cases y; cases z) simp_all
  show "x \<le> y \<Longrightarrow> y \<le> x \<Longrightarrow> x = y" by (cases x; cases y) simp_all
  show "x \<le> y \<or> y \<le> x" by (cases x; cases y) auto
qed

end

fun cell_of :: "sql_value \<Rightarrow> cell" where
  "cell_of (SqlInt n) = CInt n"
| "cell_of (SqlText s) = CText s"
| "cell_of v = CInt 0"

definition like_prefix :: "PushdownFunction \<Rightarrow> cell \<Rightarrow> cell \<Rightarrow> bool" where
  "like_prefix f x y = (case (f, x, y) of (PF_PREFIX, CText s, CText t) \<Rightarrow> take (length t) s = t | _ \<Rightarrow> False)"

definition column_type :: "LogicalTypeId \<Rightarrow> LogicalType" where
  "column_type k = \<lparr>lt_id = k, lt_width = 0, lt_scale = 0, lt_internal = PT_INT64\<rparr>"

definition mixed_get :: LogicalGet where
  "mixed_get = \<lparr>get_column_ids = [0, 1, 2],
     get_column_type = (\<lambda>i. column_type (if i = 2 then LT_VARCHAR else LT_BIGINT)),
     get_column_name = (\<lambda>i. if i = 0 then ''a'' else if i = 1 then ''b'' else ''s'')\<rparr>"

definition bigint_value :: "int \<Rightarrow> string \<Rightarrow> Value" where
  "bigint_value n s = blank_value\<lparr>val_type := column_type LT_BIGINT, val_i64 := n, val_to_string := s\<rparr>"

definition text_value :: "string \<Rightarrow> Value" where
  "text_value s = blank_value\<lparr>val_type := column_type LT_VARCHAR, val_get_string := s, val_to_string := s\<rparr>"

definition mixed_row :: "int \<Rightarrow> int \<Rightarrow> string \<Rightarrow> cell row" where
  "mixed_row a b s = (\<lambda>i. Some (if i = 0 then CInt a else if i = 1 then CInt b else CText s))"

definition row_part :: "cell row \<Rightarrow> string \<Rightarrow> string" where
  "row_part row k = (if row 0 = Some (CInt 2) then ''2'' else ''1'')"

text \<open>\<open>a = 2\<close>, \<open>NOT 3 > b\<close> and \<open>prefix(s, 'x')\<close>\<close>

definition example_filters :: "Expression list" where
  "example_filters =
     [BOUND_COMPARISON COMPARE_EQUAL (BOUND_COLUMN_REF 0) (BOUND_CONSTANT (bigint_value 2 ''2'')),
      BOUND_OPERATOR OPERATOR_NOT
        [BOUND_COMPARISON COMPARE_GREATERTHAN (BOUND_CONSTANT (bigint_value 3 ''3'')) (BOUND_COLUMN_REF 1)],
      BOUND_FUNCTION ''prefix'' [BOUND_COLUMN_REF 2, BOUND_CONSTANT (text_value ''x'')]]"

definition example_predicate :: ref_pred where
  "example_predicate = RAnd [RCmp COMPARE_EQUAL 0 (LitBigint 2), RNot (RCmp COMPARE_LESSTHAN 1 (LitBigint 3)),
     RFun PF_PREFIX 2 (LitString ''x'')]"

lemmas pushdown_eval =
  TryConvertComparison_def is_supported_comparison_def convert_column_constant_def column_id_def
  TryConvertFunction_def ClassifyFunction_def function_predicate_def
  mixed_get_def column_type_def bigint_value_def text_value_def blank_value_def ConvertFieldType_def ConvertLiteral_def
  comparison_predicate_def ref_builder_def ref_flip_def ok_or_null_def
  sql_lift_def sql_and_def sql_not_def Let_def example_filters_def

lemma example_pushdown:
  "bd_part_keys b = [''a''] \<Longrightarrow>
    PaimonPushdownFilter hconv ref_flip ref_builder mixed_get example_filters b =
    Inr (b\<lparr>bd_predicates := Some example_predicate, bd_part_filters := [[(''a'', ''2'')]]\<rparr>)"
  by (simp add: PaimonPushdownFilter_def pushdown_eval TryExtractPartitionFilters_def example_predicate_def
      extract_equality_def combine_part_filters_def)

lemma example_partitioned:
  "partition_laws mixed_get {''a''} cell_of (row_part row) row (\<Union>f \<in> set example_filters. set (compared_constants mixed_get f))"
  by (auto simp: partition_laws_def row_part_def example_filters_def bigint_value_def blank_value_def mixed_get_def
      column_type_def value_of_def)

lemma example_safe:
  "f \<in> set example_filters \<Longrightarrow> well_typed mixed_get f \<and> not_safe hconv ref_flip ref_builder mixed_get f"
  by (auto simp: example_filters_def typed_operands_def typed_operand_def bigint_value_def text_value_def blank_value_def
      mixed_get_def raw_in_range_def)

lemma example_holds:
  "(\<forall>f \<in> set example_filters. esem (cval cell_of) like_prefix ov ob mixed_get f (mixed_row a b s) = Some True) \<longleftrightarrow>
    a = 2 \<and> 3 \<le> b \<and> take 1 s = ''x''"
  by (auto simp: pushdown_eval mixed_row_def value_of_def like_prefix_def less_cell_def)

section \<open>Witnesses\<close>

theorem PaimonPushdownFilter_keeps_rows_witness:
  "\<exists>bind'. PaimonPushdownFilter demo_hconv ref_flip ref_builder mixed_get example_filters
      (empty_bind\<lparr>bd_part_keys := [''a'']\<rparr> :: (ref_pred, unit) PaimonScanBindData) = Inr bind' \<and>
    (case bd_predicates bind' of None \<Rightarrow> True
       | Some p \<Rightarrow> rsem cell_of like_prefix p (mixed_row 2 5 ''xy'') = Some True) \<and>
    (bd_part_filters bind' = [] \<or>
      (\<exists>m \<in> set (bd_part_filters bind'). matches (row_part (mixed_row 2 5 ''xy'')) m))"
proof -
  let ?bind = "empty_bind\<lparr>bd_part_keys := [''a'']\<rparr> :: (ref_pred, unit) PaimonScanBindData"
  have k: "bd_part_keys ?bind = [''a'']" by simp
  have e: "esem (cval cell_of) like_prefix (\<lambda>_ _. None) (\<lambda>_ _. None) mixed_get f (mixed_row 2 5 ''xy'') = Some True"
    if "f \<in> set example_filters" for f
    using example_holds [of "\<lambda>_ _. None" "\<lambda>_ _. None" 2 5 "''xy''"] that by simp
  have p: "partition_laws mixed_get (set (bd_part_keys ?bind)) cell_of (row_part (mixed_row 2 5 ''xy'')) (mixed_row 2 5 ''xy'')
      (\<Union>f \<in> set example_filters. set (compared_constants mixed_get f))"
    using example_partitioned by simp
  show ?thesis
    using example_pushdown [OF k]
      PaimonPushdownFilter_keeps_rows [OF example_pushdown [OF k] ref_laws [OF demo_hconv_ok] p example_safe e] by blast
qed

text \<open>\<open>NOT (s = 'x' AND e)\<close> where nothing is known of \<open>e\<close> but that it is false on the row.\<close>

definition partial_conjuncts :: "Expression list" where
  "partial_conjuncts =
     [BOUND_COMPARISON COMPARE_EQUAL (BOUND_COLUMN_REF 2) (BOUND_CONSTANT (text_value ''x'')), OTHER_EXPRESSION 0]"

abbreviation partial_filter :: Expression where
  "partial_filter \<equiv> BOUND_OPERATOR OPERATOR_NOT [BOUND_CONJUNCTION CONJUNCTION_AND partial_conjuncts]"

theorem pushdown_not_partial_conjunction_witness:
  "\<exists>bind' r. PaimonPushdownFilter demo_hconv ref_flip ref_builder mixed_get [partial_filter]
      (empty_bind :: (ref_pred, unit) PaimonScanBindData) = Inr bind' \<and>
    esem (cval cell_of) like_prefix (\<lambda>_ _. None) (\<lambda>_ _. Some False) mixed_get partial_filter (mixed_row 2 5 ''x'') = Some True \<and>
    bd_predicates bind' = Some r \<and> rsem cell_of like_prefix r (mixed_row 2 5 ''x'') = Some False"
proof -
  let ?esem = "esem (cval cell_of) like_prefix (\<lambda>_ _. None) (\<lambda>_ _. Some False) mixed_get"
  obtain bind' where b: "PaimonPushdownFilter demo_hconv ref_flip ref_builder mixed_get [partial_filter]
      (empty_bind :: (ref_pred, unit) PaimonScanBindData) = Inr bind'"
    by (simp add: PaimonPushdownFilter_def pushdown_eval partial_conjuncts_def empty_bind_def)
  have f: "partial_filter \<in> set [partial_filter]" by simp
  have conv: "converts demo_hconv ref_flip ref_builder mixed_get partial_filter"
    by (simp add: converts_def pushdown_eval partial_conjuncts_def)
  have each: "well_typed mixed_get c \<and> lossless demo_hconv ref_flip ref_builder mixed_get c \<and>
      ?esem c (mixed_row 2 5 ''x'') = Some True"
    if "c \<in> set partial_conjuncts" "converts demo_hconv ref_flip ref_builder mixed_get c" for c
    using that
    by (auto simp: partial_conjuncts_def converts_def typed_operands_def typed_operand_def raw_in_range_def pushdown_eval
        mixed_row_def value_of_def)
  have e: "OTHER_EXPRESSION 0 \<in> set partial_conjuncts" "?esem (OTHER_EXPRESSION 0) (mixed_row 2 5 ''x'') = Some False"
    by (simp_all add: partial_conjuncts_def)
  show ?thesis
    using b pushdown_not_partial_conjunction [OF b f conv ref_laws [OF demo_hconv_ok] each e] by blast
qed


end
