(* ===== verification/Query_Demo.thy ===== *)
theory Query_Demo
  imports Query_Correct Pushdown_Demo
begin

text \<open>
  A planner, a reader and \<open>CreatePickedFieldFilter\<close> on which the laws of \<open>Query_Correct\<close> hold, and a run of a query.
  The table of \<open>Pushdown_Demo\<close> has four rows: the plan skips the one of another partition, the reader skips a row
  group by the picked predicate, and of the two rows delivered one is left to DuckDB to drop. The projection
  reverses the columns.
\<close>

section \<open>Picking\<close>




definition mixed_names :: "string list" where
  "mixed_names = [''a'', ''b'', ''s'']"


section \<open>Batches\<close>

definition encode_cell :: "cell option \<Rightarrow> Value" where
  "encode_cell c = (case c of None \<Rightarrow> blank_value\<lparr>val_null := True\<rparr> | Some (CInt n) \<Rightarrow> bigint_value n []
     | Some (CText s) \<Rightarrow> text_value s)"

definition decode_cell :: "Value \<Rightarrow> cell option" where
  "decode_cell v = (if val_null v then None else Some (cell_of (value_of v)))"

lemma decode_encode [simp]: "decode_cell (encode_cell c) = c"
  by (auto simp: decode_cell_def encode_cell_def bigint_value_def text_value_def blank_value_def value_of_def
      column_type_def split: option.split cell.split)




section \<open>Planner and reader\<close>







type_synonym reader = "ArrowBatch list option"








section \<open>A query\<close>

definition query_arrow :: ArrowTableSchema where
  "query_arrow = \<lparr>arrow_names = mixed_names, arrow_types = [column_type LT_BIGINT, column_type LT_BIGINT, column_type LT_VARCHAR]\<rparr>"




text \<open>The predicate with the columns where the projection puts them.\<close>

definition query_picked :: ref_pred where
  "query_picked = RAnd [RCmp COMPARE_EQUAL 2 (LitBigint 2), RNot (RCmp COMPARE_LESSTHAN 1 (LitBigint 3)),
     RFun PF_PREFIX 0 (LitString ''x'')]"

definition query_st :: "reader \<Rightarrow> idx_t \<Rightarrow> PaimonScanLocalState \<Rightarrow> nat event list \<Rightarrow> (reader, nat, ref_pred, nat) scan" where
  "query_st w idx l tr = \<lparr>sys_world = w, sys_trace = tr, sn_global = \<lparr>gs_splits = [Some 1], gs_split_index = idx,
     gs_path = ''/t'', gs_arrow_table = query_arrow, gs_predicates = Some query_picked, gs_distributed_worker = False\<rparr>,
     sn_locals = (\<lambda>_. new_local [])(0 := l)\<rparr>"

lemma query_st_fields [simp]:
  "sys_world (query_st w idx l tr) = w" "sn_locals (query_st w idx l tr) 0 = l" "sys_trace (query_st w idx l tr) = tr"
  "sn_global (query_st w idx l tr) = \<lparr>gs_splits = [Some 1], gs_split_index = idx, gs_path = ''/t'',
     gs_arrow_table = query_arrow, gs_predicates = Some query_picked, gs_distributed_worker = False\<rparr>"
  "(query_st w idx l tr)\<lparr>sys_world := w', sys_trace := tr'\<rparr> = query_st w' idx l tr'"
  "(query_st w idx l tr)\<lparr>sys_trace := tr'\<rparr> = query_st w idx l tr'"
  "sn_locals_update (\<lambda>L. L(0 := f (L 0))) (query_st w idx l tr) = query_st w idx (f l) tr"
  "sn_locals_update (\<lambda>L. L(0 := l')) (query_st w idx l tr) = query_st w idx l' tr"
  "sn_global_update (\<lambda>g. g\<lparr>gs_split_index := gs_split_index g + 1\<rparr>) (query_st w idx l tr) = query_st w (idx + 1) l tr"
  by (simp_all add: query_st_def)















end
