(* ===== verification/Env_Instance.thy ===== *)
theory Env_Instance
  imports Paimon_Api
begin

text \<open>
  A concrete instance of the parameters of \<open>Paimon_Api\<close>: a self-delimiting wire format with its
  reader, a message codec, a string splitter, and a catalog that holds one table. It shows that
  the laws the properties assume of the parameters hold together, and the witnesses of the
  properties run the components on it. It is not a model of Paimon or of DuckDB.
\<close>

section \<open>A wire format\<close>

text \<open>\<open>dec\<close> takes from the front of a byte string what \<open>enc\<close> put there.\<close>

definition codec :: "('a \<Rightarrow> string) \<Rightarrow> (string \<Rightarrow> 'a \<times> string) \<Rightarrow> ('a \<Rightarrow> bool) \<Rightarrow> bool" where
  "codec enc dec ok \<longleftrightarrow> (\<forall>x r. ok x \<longrightarrow> dec (enc x @ r) = (x, r))"

fun enc_nat :: "nat \<Rightarrow> string" where
  "enc_nat 0 = ''.''"
| "enc_nat (Suc n) = CHR ''1'' # enc_nat n"

fun dec_nat :: "string \<Rightarrow> nat \<times> string" where
  "dec_nat (c # s) = (if c = CHR ''1'' then (case dec_nat s of (n, r) \<Rightarrow> (Suc n, r)) else (0, s))"
| "dec_nat [] = (0, [])"

definition enc_list :: "('a \<Rightarrow> string) \<Rightarrow> 'a list \<Rightarrow> string" where
  "enc_list enc xs = enc_nat (length xs) @ concat (map enc xs)"

fun dec_n :: "(string \<Rightarrow> 'a \<times> string) \<Rightarrow> nat \<Rightarrow> string \<Rightarrow> 'a list \<times> string" where
  "dec_n dec 0 s = ([], s)"
| "dec_n dec (Suc n) s = (case dec s of (x, r) \<Rightarrow> case dec_n dec n r of (xs, r') \<Rightarrow> (x # xs, r'))"

definition dec_list :: "(string \<Rightarrow> 'a \<times> string) \<Rightarrow> string \<Rightarrow> 'a list \<times> string" where
  "dec_list dec s = (case dec_nat s of (n, r) \<Rightarrow> dec_n dec n r)"

definition enc_pair :: "('a \<Rightarrow> string) \<Rightarrow> ('b \<Rightarrow> string) \<Rightarrow> 'a \<times> 'b \<Rightarrow> string" where
  "enc_pair f g p = f (fst p) @ g (snd p)"

definition dec_pair :: "(string \<Rightarrow> 'a \<times> string) \<Rightarrow> (string \<Rightarrow> 'b \<times> string) \<Rightarrow> string \<Rightarrow> ('a \<times> 'b) \<times> string" where
  "dec_pair f g s = (case f s of (a, r) \<Rightarrow> case g r of (b, r') \<Rightarrow> ((a, b), r'))"

definition enc_via :: "('a \<Rightarrow> 'b) \<Rightarrow> ('b \<Rightarrow> string) \<Rightarrow> 'a \<Rightarrow> string" where
  "enc_via f enc x = enc (f x)"

definition dec_via :: "('b \<Rightarrow> 'a) \<Rightarrow> (string \<Rightarrow> 'b \<times> string) \<Rightarrow> string \<Rightarrow> 'a \<times> string" where
  "dec_via g dec s = (case dec s of (y, r) \<Rightarrow> (g y, r))"

lemma dec_enc_nat [simp]: "dec_nat (enc_nat n @ r) = (n, r)"
  by (induction n) auto

lemma codec_nat: "codec enc_nat dec_nat (\<lambda>_. True)"
  by (simp add: codec_def)

lemma codec_list: "codec enc dec ok \<Longrightarrow> codec (enc_list enc) (dec_list dec) (list_all ok)"
proof -
  assume c: "codec enc dec ok"
  have "list_all ok xs \<Longrightarrow> dec_n dec (length xs) (concat (map enc xs) @ r) = (xs, r)" for xs r
    using c by (induction xs) (auto simp: codec_def)
  then show ?thesis
    by (auto simp: codec_def enc_list_def dec_list_def)
qed

lemma codec_pair: "codec f f' p \<Longrightarrow> codec g g' q \<Longrightarrow>
  codec (enc_pair f g) (dec_pair f' g') (\<lambda>(a, b). p a \<and> q b)"
  by (auto simp: codec_def enc_pair_def dec_pair_def)

lemma codec_via: "codec enc dec ok \<Longrightarrow> (\<And>x. ok' x \<Longrightarrow> ok (f x) \<and> g (f x) = x) \<Longrightarrow>
  codec (enc_via f enc) (dec_via g dec) ok'"
  by (auto simp: codec_def enc_via_def dec_via_def)

definition "enc_char c = [c :: char]"
definition "dec_char s = (hd s :: char, tl s)"
definition "enc_str = enc_list enc_char"
definition "dec_str = dec_list dec_char"
definition "enc_int = enc_via (\<lambda>i. (nat i, nat (- i))) (enc_pair enc_nat enc_nat)"
definition "dec_int = dec_via (\<lambda>(p, n). int p - int n) (dec_pair dec_nat dec_nat)"
definition enc_word :: "'a::len word \<Rightarrow> string" where "enc_word = enc_via unat enc_nat"
definition dec_word :: "string \<Rightarrow> 'a::len word \<times> string" where "dec_word = dec_via of_nat dec_nat"
definition "enc_bool = enc_via (\<lambda>b. if b then 1 else 0) enc_nat"
definition "dec_bool = dec_via (\<lambda>n. n = 1) dec_nat"

definition lt_ids :: "LogicalTypeId list" where
  "lt_ids = [LT_INVALID, LT_BOOLEAN, LT_TINYINT, LT_SMALLINT, LT_INTEGER, LT_BIGINT, LT_FLOAT,
     LT_DOUBLE, LT_VARCHAR, LT_BLOB, LT_TIMESTAMP, LT_TIMESTAMP_TZ, LT_TIMESTAMP_MS,
     LT_TIMESTAMP_SEC, LT_TIMESTAMP_NS, LT_DECIMAL, LT_DATE]"

definition lt_id_num :: "LogicalTypeId \<Rightarrow> nat" where
  "lt_id_num t = (case t of LT_OTHER n \<Rightarrow> length lt_ids + n | _ \<Rightarrow> the (find_index t lt_ids))"

definition lt_id_of_num :: "nat \<Rightarrow> LogicalTypeId" where
  "lt_id_of_num n = (if n < length lt_ids then lt_ids ! n else LT_OTHER (n - length lt_ids))"

definition pt_ids :: "PhysicalType list" where
  "pt_ids = [PT_INT16, PT_INT32, PT_INT64, PT_INT128]"

definition pt_num :: "PhysicalType \<Rightarrow> nat" where
  "pt_num t = (case t of PT_OTHER n \<Rightarrow> length pt_ids + n | _ \<Rightarrow> the (find_index t pt_ids))"

definition pt_of_num :: "nat \<Rightarrow> PhysicalType" where
  "pt_of_num n = (if n < length pt_ids then pt_ids ! n else PT_OTHER (n - length pt_ids))"

definition "enc_type = enc_via (\<lambda>t. (lt_id_num (lt_id t), lt_width t, lt_scale t, pt_num (lt_internal t)))
  (enc_pair enc_nat (enc_pair enc_nat (enc_pair enc_nat enc_nat)))"
definition "dec_type = dec_via (\<lambda>(i, w, s, p).
    \<lparr>lt_id = lt_id_of_num i, lt_width = w, lt_scale = s, lt_internal = pt_of_num p\<rparr>)
  (dec_pair dec_nat (dec_pair dec_nat (dec_pair dec_nat dec_nat)))"

lemma type_nums [simp]: "lt_id_of_num (lt_id_num i) = i" "pt_of_num (pt_num p) = p"
  by (cases i; simp add: lt_id_of_num_def lt_id_num_def lt_ids_def)
    (cases p; simp add: pt_of_num_def pt_num_def pt_ids_def)

lemma codec_str: "codec enc_str dec_str (\<lambda>_. True)"
  using codec_list [of enc_char dec_char "\<lambda>_. True"]
  by (simp add: codec_def enc_char_def dec_char_def enc_str_def dec_str_def list.pred_True)

lemma codec_int: "codec enc_int dec_int (\<lambda>_. True)"
  unfolding enc_int_def dec_int_def
  by (rule codec_via [OF codec_pair [OF codec_nat codec_nat]]) auto

lemma codec_word: "codec (enc_word :: 'a::len word \<Rightarrow> string) dec_word (\<lambda>_. True)"
  unfolding enc_word_def dec_word_def by (rule codec_via [OF codec_nat]) simp

lemma codec_bool: "codec enc_bool dec_bool (\<lambda>_. True)"
  unfolding enc_bool_def dec_bool_def by (rule codec_via [OF codec_nat]) simp

lemma codec_type: "codec enc_type dec_type (\<lambda>_. True)"
  unfolding enc_type_def dec_type_def
  by (rule codec_via [OF codec_pair [OF codec_nat codec_pair [OF codec_nat codec_pair [OF codec_nat codec_nat]]]])
    auto

lemma dec_enc_word [simp]: "dec_word (enc_word (w :: 'a::len word) @ r) = (w, r)"
  using codec_word [where 'a = 'a] by (simp add: codec_def)

lemma decs [simp]:
  "dec_str (enc_str a @ r) = (a, r)" "dec_int (enc_int b @ r) = (b, r)"
  "dec_bool (enc_bool c @ r) = (c, r)"
  "dec_list dec_str (enc_list enc_str d @ r) = (d, r)"
  "dec_list dec_type (enc_list enc_type e @ r) = (e, r)"
  "dec_list (dec_pair dec_str dec_str) (enc_list (enc_pair enc_str enc_str) f @ r) = (f, r)"
  using codec_str codec_int codec_bool codec_type
    codec_list [OF codec_str] codec_list [OF codec_type] codec_list [OF codec_pair [OF codec_str codec_str]]
  by (simp_all add: codec_def list.pred_True case_prod_beta')

fun enc_pval :: "pval \<Rightarrow> string" where
  "enc_pval (PU8 x) = enc_word x" | "enc_pval (PU32 x) = enc_word x" | "enc_pval (PI32 x) = enc_int x"
| "enc_pval (PI64 x) = enc_int x" | "enc_pval (PIdx x) = enc_word x" | "enc_pval (PBool x) = enc_bool x"
| "enc_pval (PStr x) = enc_str x" | "enc_pval (PStrs x) = enc_list enc_str x"
| "enc_pval (PTypes x) = enc_list enc_type x"
| "enc_pval (PMap x) = enc_list (enc_pair enc_str enc_str) x"

definition dec_pval :: "ptype \<Rightarrow> string \<Rightarrow> pval \<times> string" where
  "dec_pval ty s = (case ty of
     TU8 \<Rightarrow> apfst PU8 (dec_word s) | TU32 \<Rightarrow> apfst PU32 (dec_word s) | TI32 \<Rightarrow> apfst PI32 (dec_int s)
   | TI64 \<Rightarrow> apfst PI64 (dec_int s) | TIdx \<Rightarrow> apfst PIdx (dec_word s) | TBool \<Rightarrow> apfst PBool (dec_bool s)
   | TStr \<Rightarrow> apfst PStr (dec_str s) | TStrs \<Rightarrow> apfst PStrs (dec_list dec_str s)
   | TTypes \<Rightarrow> apfst PTypes (dec_list dec_type s)
   | TMap \<Rightarrow> apfst PMap (dec_list (dec_pair dec_str dec_str) s))"

lemma dec_enc_pval [simp]: "dec_pval (ptype_of v) (enc_pval v @ r) = (v, r)"
  by (cases v) (simp_all add: dec_pval_def)

fun enc_item :: "witem \<Rightarrow> string" where
  "enc_item (WProp i t v) = enc_nat i @ enc_pval v"
| "enc_item (WObjBegin i t) = enc_nat i"
| "enc_item WObjEnd = ''e''"

definition demo_bytes :: "witem list \<Rightarrow> string" where
  "demo_bytes items = CHR ''b'' # concat (map enc_item items) @ ''e''"

definition demo_begin :: "string \<Rightarrow> string res" where
  "demo_begin s = (case s of c # r \<Rightarrow> if c = CHR ''b'' then Inr r else Inl (SerializationException ''begin'')
     | [] \<Rightarrow> Inl (SerializationException ''begin''))"

definition demo_field :: "nat \<Rightarrow> (string, unit) proc" where
  "demo_field i s = (case dec_nat s of (n, r) \<Rightarrow>
     if n = i then (Inr (), r) else (Inl (SerializationException ''field id''), s))"

definition demo_read :: "nat \<Rightarrow> string \<Rightarrow> ptype \<Rightarrow> (string, pval) proc" where
  "demo_read i t ty = bindP (demo_field i) (\<lambda>_ s. case dec_pval ty s of (v, r) \<Rightarrow> (Inr v, r))"

definition demo_end :: "(string, unit) proc" where
  "demo_end s = (case s of c # r \<Rightarrow> if c = CHR ''e'' then (Inr (), r) else (Inl (SerializationException ''end''), s)
     | [] \<Rightarrow> (Inl (SerializationException ''end''), s))"

section \<open>A splitter and a message codec\<close>

fun split_on :: "char \<Rightarrow> string \<Rightarrow> string list" where
  "split_on d [] = [[]]"
| "split_on d (c # s) = (if c = d then [] # split_on d s
     else case split_on d s of w # ws \<Rightarrow> (c # w) # ws | [] \<Rightarrow> [[c]])"

definition demo_split :: "string \<Rightarrow> char \<Rightarrow> string list" where
  "demo_split s d = split_on d s"

lemma split_on_plain: "d \<notin> set a \<Longrightarrow> split_on d a = [a]"
  by (induction a) auto

lemma split_on_append: "d \<notin> set a \<Longrightarrow> split_on d (a @ d # s) = a # split_on d s"
  by (induction a) auto

definition demo_opt_nat :: "nat option \<Rightarrow> nat" where
  "demo_opt_nat x = (case x of None \<Rightarrow> 0 | Some n \<Rightarrow> Suc n)"

definition demo_nat_opt :: "nat \<Rightarrow> nat option" where
  "demo_nat_opt n = (case n of 0 \<Rightarrow> None | Suc m \<Rightarrow> Some m)"

definition demo_SerializeList :: "nat option list \<Rightarrow> string presult" where
  "demo_SerializeList ms = Inr (enc_list (enc_via demo_opt_nat enc_nat) ms)"

definition demo_DeserializeList :: "int \<Rightarrow> string \<Rightarrow> nat option list presult" where
  "demo_DeserializeList v s = Inr (fst (dec_list (dec_via demo_nat_opt dec_nat) s))"

lemma demo_codec: "demo_SerializeList ms = Inr b \<Longrightarrow> demo_DeserializeList v b = Inr ms"
proof -
  have "codec (enc_via demo_opt_nat enc_nat) (dec_via demo_nat_opt dec_nat) (\<lambda>_. True)"
    by (rule codec_via [OF codec_nat]) (simp add: demo_opt_nat_def demo_nat_opt_def split: option.splits)
  from codec_list [OF this] have "dec_list (dec_via demo_nat_opt dec_nat)
      (enc_list (enc_via demo_opt_nat enc_nat) ms @ []) = (ms, [])"
    by (simp only: codec_def list.pred_True)
  then show "demo_SerializeList ms = Inr b \<Longrightarrow> demo_DeserializeList v b = Inr ms"
    by (auto simp: demo_SerializeList_def demo_DeserializeList_def)
qed

section \<open>The instance\<close>

definition demo_type :: LogicalType where
  "demo_type = \<lparr>lt_id = LT_INTEGER, lt_width = 0, lt_scale = 0, lt_internal = PT_INT32\<rparr>"

definition demo_data_schema :: DataSchema where
  "demo_data_schema = \<lparr>dsc_Id = 0, dsc_PrimaryKeys = [], dsc_PartitionKeys = [''p''], dsc_Options = [(''null-name'', ''null'')]\<rparr>"

definition demo_schema :: TableSchema where
  "demo_schema = \<lparr>ts_data = Some demo_data_schema, ts_FieldNames = [''p'', ''v''],
     ts_GetArrowSchema = Inr (Some \<lparr>as_children = [(''p'', ''i''), (''v'', ''i'')]\<rparr>),
     ts_GetJsonSchema = Inr ''schema''\<rparr>"

definition demo_string_util :: string_util where
  "demo_string_util = \<lparr>su_ci_equals = (=), su_lower = id, su_trim = id,
     su_starts_with = (\<lambda>s p. take (length p) s = p)\<rparr>"

definition demo_keys :: option_keys where
  "demo_keys = \<lparr>key_METASTORE = ''metastore'', key_URI = ''uri'', key_TOKEN_PROVIDER = ''provider'',
     key_TOKEN = ''token'', key_MANIFEST_FORMAT = ''manifest.format'', key_FILE_FORMAT = ''file.format'',
     key_FILE_SYSTEM = ''fs'', key_READ_BATCH_SIZE = ''batch'', key_SCAN_SNAPSHOT_ID = ''snap-id'',
     key_SCAN_TIMESTAMP_MILLIS = ''snap-ms'', key_PARTITION_DEFAULT_NAME = ''null-name'',
     key_DATA_FILE_PREFIX = ''prefix''\<rparr>"

definition demo_ctx :: client_ctx where
  "demo_ctx = \<lparr>ctx_secret = (\<lambda>_. None), ctx_epoch_ms = (\<lambda>_. Inr 0),
     ctx_vector_size = 8\<rparr>"

text \<open>The world is a counter: it numbers the handles and the commit messages handed out.\<close>

definition demo_ok :: "'a \<Rightarrow> (nat, 'a) papi" where
  "demo_ok x = (\<lambda>w. (Inr x, w))"

definition demo_fresh :: "(nat \<Rightarrow> 'a) \<Rightarrow> (nat, 'a) papi" where
  "demo_fresh f = (\<lambda>w. (Inr (f w), Suc w))"

abbreviation demo_snapshot :: SnapshotInfo where
  "demo_snapshot \<equiv> \<lparr>sn_snapshot_id = 7, sn_schema_id = 0, sn_commit_user = ''u'', sn_commit_kind = 0, sn_time_millis = 1500,
     sn_total_record_count = Some 3, sn_delta_record_count = None, sn_watermark = None\<rparr>"

definition demo_env :: "(nat, nat, string) env" where
  "demo_env = \<lparr>TableExists = (\<lambda>_. demo_ok True), GetTable = (\<lambda>_. demo_ok (Some ''table-uuid'')),
     GetTableLocation = (\<lambda>_. demo_ok ''/data/db.db/t''), LoadTableSchema = (\<lambda>_. demo_ok (Some demo_schema)),
     ListSnapshots = (\<lambda>_. demo_ok [demo_snapshot]), CatalogCreateTable = (\<lambda>_ _. demo_ok ()),
     CatalogDropTable = (\<lambda>_ _. demo_ok ()), CreateDatabase = (\<lambda>_ _. demo_ok ()),
     DropDatabase = (\<lambda>_ _ _. demo_ok ()), ListDatabases = demo_ok [''db''], ListTables = (\<lambda>_. demo_ok [''t'']),
     FinishWriteContext = (\<lambda>_. demo_ok ()), FileStoreWrite_Create = (\<lambda>_. demo_fresh id),
     FinishRecordBatch = (\<lambda>_. demo_ok ()), Writer_Write = (\<lambda>_ _. demo_ok ()),
     Writer_PrepareCommit = (\<lambda>_ _. demo_fresh (\<lambda>w. [Some w])), Writer_Close = (\<lambda>_. demo_ok ()),
     FinishCommitContext = (\<lambda>_. demo_ok ()), FileStoreCommit_Create = (\<lambda>_. demo_fresh id),
     Committer_Abort = (\<lambda>_ _. demo_ok ()), Committer_FilterAndCommit = (\<lambda>_ _. demo_ok 1),
     Committer_Commit = (\<lambda>_ _. demo_ok ()), SerializeList = demo_SerializeList,
     DeserializeList = demo_DeserializeList, SerializeMessage = (\<lambda>m. Inr (enc_nat m)), CurrentVersion = 3,
     sd_bytes = demo_bytes, sd_begin = demo_begin, sd_read = demo_read,
     sd_obj_begin = (\<lambda>i t. demo_field i), sd_obj_end = demo_end, sd_end = demo_end,
     PopulateArrowTableSchema = (\<lambda>a. Inr \<lparr>arrow_names = map fst (as_children a),
        arrow_types = map (\<lambda>_. demo_type) (as_children a)\<rparr>),
     ToArrowSchema = (\<lambda>types names. Inr \<lparr>as_children = map (\<lambda>n. (n, ''i'')) names\<rparr>),
     MD5Hex = (\<lambda>_. replicate 32 CHR ''a''), HashBytes = (\<lambda>s. of_nat (length s)),
     UUIDParses = (\<lambda>s. hd s = CHR ''u''), UUID_STRING_SIZE = 4, GenerateUUID = (\<lambda>w. (''u-id'', Suc w)),
     StringSplit = demo_split, CharacterIsDigit = (\<lambda>c. c \<in> set ''0123456789''),
     StringUtil = demo_string_util, OptionKeys = demo_keys, Context = demo_ctx,
     TaskValidate = (\<lambda>_. Inr ()), TaskResultValidate = (\<lambda>_. Inr ()),
     TaskResultRowCount = (\<lambda>r. sum_list (map fr_row_count (tr_fragments r))),
     TaskResultByteCount = (\<lambda>r. sum_list (map fr_byte_count (tr_fragments r))),
     WriteInfoName = (\<lambda>i. cap_name (wi_capability i)),
     ResolveWriteInfo = (\<lambda>p. Inr \<lparr>wi_mode = CALLBACK_SINK,
        wi_capability = \<lparr>cap_extension_name = wp_extension_name p, cap_name = wp_operator_name p,
          cap_protocol_version = 3\<rparr>,
        wi_fragment_codec = \<lparr>codec_name = ''paimon.append-commit-fragment'', codec_version = 3\<rparr>,
        wi_worker_bind_data = wp_worker_bind_data p\<rparr>),
     FullName = (\<lambda>i. id_database i @ ''.'' @ id_table i)\<rparr>"

text \<open>The fields of the instance.\<close>

lemma demo_env_fields [simp]:
  "TableExists demo_env = (\<lambda>_. demo_ok True)"
  "GetTable demo_env = (\<lambda>_. demo_ok (Some ''table-uuid''))"
  "GetTableLocation demo_env = (\<lambda>_. demo_ok ''/data/db.db/t'')"
  "LoadTableSchema demo_env = (\<lambda>_. demo_ok (Some demo_schema))"
  "ListSnapshots demo_env = (\<lambda>_. demo_ok [demo_snapshot])"
  "CatalogCreateTable demo_env = (\<lambda>_ _. demo_ok ())"
  "CatalogDropTable demo_env = (\<lambda>_ _. demo_ok ())"
  "CreateDatabase demo_env = (\<lambda>_ _. demo_ok ())"
  "DropDatabase demo_env = (\<lambda>_ _ _. demo_ok ())"
  "ListDatabases demo_env = demo_ok [''db'']"
  "ListTables demo_env = (\<lambda>_. demo_ok [''t''])"
  "FinishWriteContext demo_env = (\<lambda>_. demo_ok ())"
  "FileStoreWrite_Create demo_env = (\<lambda>_. demo_fresh id)"
  "FinishRecordBatch demo_env = (\<lambda>_. demo_ok ())"
  "Writer_Write demo_env = (\<lambda>_ _. demo_ok ())"
  "Writer_PrepareCommit demo_env = (\<lambda>_ _. demo_fresh (\<lambda>w. [Some w]))"
  "Writer_Close demo_env = (\<lambda>_. demo_ok ())"
  "FinishCommitContext demo_env = (\<lambda>_. demo_ok ())"
  "FileStoreCommit_Create demo_env = (\<lambda>_. demo_fresh id)"
  "Committer_Abort demo_env = (\<lambda>_ _. demo_ok ())"
  "Committer_FilterAndCommit demo_env = (\<lambda>_ _. demo_ok 1)"
  "Committer_Commit demo_env = (\<lambda>_ _. demo_ok ())"
  "SerializeList demo_env = demo_SerializeList"
  "DeserializeList demo_env = demo_DeserializeList"
  "SerializeMessage demo_env = (\<lambda>m. Inr (enc_nat m))"
  "CurrentVersion demo_env = 3"
  "sd_bytes demo_env = demo_bytes"
  "sd_begin demo_env = demo_begin"
  "sd_read demo_env = demo_read"
  "sd_obj_begin demo_env = (\<lambda>i t. demo_field i)"
  "sd_obj_end demo_env = demo_end"
  "sd_end demo_env = demo_end"
  "PopulateArrowTableSchema demo_env = (\<lambda>a. Inr \<lparr>arrow_names = map fst (as_children a),
     arrow_types = map (\<lambda>_. demo_type) (as_children a)\<rparr>)"
  "ToArrowSchema demo_env = (\<lambda>types names. Inr \<lparr>as_children = map (\<lambda>n. (n, ''i'')) names\<rparr>)"
  "MD5Hex demo_env = (\<lambda>_. replicate 32 CHR ''a'')"
  "HashBytes demo_env = (\<lambda>s. of_nat (length s))"
  "UUIDParses demo_env = (\<lambda>s. hd s = CHR ''u'')"
  "UUID_STRING_SIZE demo_env = 4"
  "GenerateUUID demo_env = (\<lambda>w. (''u-id'', Suc w))"
  "StringSplit demo_env = demo_split"
  "CharacterIsDigit demo_env = (\<lambda>c. c \<in> set ''0123456789'')"
  "StringUtil demo_env = demo_string_util"
  "OptionKeys demo_env = demo_keys"
  "Context demo_env = demo_ctx"
  "TaskValidate demo_env = (\<lambda>_. Inr ())"
  "TaskResultValidate demo_env = (\<lambda>_. Inr ())"
  "TaskResultRowCount demo_env = (\<lambda>r. sum_list (map fr_row_count (tr_fragments r)))"
  "TaskResultByteCount demo_env = (\<lambda>r. sum_list (map fr_byte_count (tr_fragments r)))"
  "WriteInfoName demo_env = (\<lambda>i. cap_name (wi_capability i))"
  "ResolveWriteInfo demo_env = (\<lambda>p. Inr \<lparr>wi_mode = CALLBACK_SINK, wi_capability =
     \<lparr>cap_extension_name = wp_extension_name p, cap_name = wp_operator_name p,
     cap_protocol_version = 3\<rparr>, wi_fragment_codec = \<lparr>codec_name = ''paimon.append-commit-fragment'', codec_version = 3\<rparr>, wi_worker_bind_data = wp_worker_bind_data p\<rparr>)"
  "FullName demo_env = (\<lambda>i. id_database i @ ''.'' @ id_table i)"
  by (simp_all add: demo_env_def)

lemma demo_calls:
  "call_io ev (demo_ok x) s = (Inr x, s\<lparr>sys_trace := ev # sys_trace s\<rparr>)"
  "call_io ev (demo_fresh f) s = (Inr (f (sys_world s)), s\<lparr>sys_world := Suc (sys_world s), sys_trace := ev # sys_trace s\<rparr>)"
  by (simp_all add: call_io_def call_def demo_ok_def demo_fresh_def value_or_io_def bindP_def)

lemma demo_reads_back:
  "reads_back demo_env items (concat (map enc_item items) @ r) r"
proof (induction items)
  case (Cons x items)
  then show ?case
    by (cases x) (auto simp: demo_read_def demo_field_def demo_end_def bindP_def)
qed simp

lemma demo_serde_laws: "serde_laws demo_env"
  unfolding serde_laws_def
proof (intro allI impI conjI exI)
  fix items
  show "reads_back demo_env items (concat (map enc_item items) @ ''e'') ''e''"
    by (rule demo_reads_back)
qed (simp_all add: demo_bytes_def demo_begin_def demo_end_def)

lemma demo_codec_laws: "codec_laws demo_env"
  by (simp add: codec_laws_def demo_codec)

lemma demo_split_laws: "split_laws demo_env"
  by (simp add: split_laws_def demo_split_def split_on_plain split_on_append)

lemma demo_vane_laws: "vane_laws demo_env"
  by (simp add: vane_laws_def)

end
