(* ===== verification/Dist_Transport.thy ===== *)
theory Dist_Transport
  imports Env_Instance
begin

text \<open>
  Component \<^verbatim>\<open>src/src/paimon_storage/paimon_distributed_insert.cpp\<close>, first part: the identities and
  the wire formats of a distributed write. The transport travels from the coordinator to the
  workers; the commit envelope travels back with the serialized commit messages.
\<close>

section \<open>Constants and data\<close>

definition PAIMON_DISTRIBUTED_WRITE_PROTOCOL_VERSION :: "32 word" where
  "PAIMON_DISTRIBUTED_WRITE_PROTOCOL_VERSION = 3"

definition PAIMON_DISTRIBUTED_INSERT_OPERATOR :: string where
  "PAIMON_DISTRIBUTED_INSERT_OPERATOR = ''insert''"

definition PAIMON_DISTRIBUTED_CTAS_OPERATOR :: string where
  "PAIMON_DISTRIBUTED_CTAS_OPERATOR = ''ctas''"

definition PAIMON_DISTRIBUTED_WRITE_FRAGMENT_CODEC :: string where
  "PAIMON_DISTRIBUTED_WRITE_FRAGMENT_CODEC = ''paimon.append-commit-fragment''"

text \<open>\<open>enum class : uint8_t\<close>: a value read from the wire may be none of the enumerators.\<close>

datatype PaimonDistributedWriteKind = WK_INSERT | WK_CTAS | WK_OTHER "8 word"

definition write_kind_byte :: "PaimonDistributedWriteKind \<Rightarrow> 8 word" where
  "write_kind_byte k = (case k of WK_INSERT \<Rightarrow> 1 | WK_CTAS \<Rightarrow> 2 | WK_OTHER b \<Rightarrow> b)"

definition write_kind_of_byte :: "8 word \<Rightarrow> PaimonDistributedWriteKind" where
  "write_kind_of_byte b = (if b = 1 then WK_INSERT else if b = 2 then WK_CTAS else WK_OTHER b)"

record PaimonDistributedInsertTransport =
  tp_write_kind :: PaimonDistributedWriteKind
  tp_operation_id :: string
  tp_database_name :: string
  tp_table_name :: string
  tp_table_uuid :: string
  tp_table_path :: string
  tp_schema_fingerprint :: string
  tp_schema_id :: int
  tp_append_only :: bool
  tp_has_snapshot :: bool
  tp_snapshot_id :: int
  tp_commit_identifier :: int
  tp_input_types :: "LogicalType list"
  tp_input_names :: "string list"
  tp_part_keys :: "string list"
  tp_null_part_name :: string
  tp_portable_options :: options

record PaimonDistributedCommitEnvelope =
  ev_operation_id :: string
  ev_table_uuid :: string
  ev_table_path :: string
  ev_schema_fingerprint :: string
  ev_schema_id :: int
  ev_has_snapshot :: bool
  ev_snapshot_id :: int
  ev_commit_identifier :: int
  ev_query_id :: string
  ev_task_attempt_id :: string
  ev_writer_commit_user :: string
  ev_commit_message_version :: int
  ev_message_count :: idx_t
  ev_row_count :: idx_t
  ev_serialized_transport :: string
  ev_serialized_messages :: string

section \<open>Counters and identities\<close>

definition CheckedAdd :: "idx_t \<Rightarrow> idx_t \<Rightarrow> idx_t res" where
  "CheckedAdd l r =
     (if r > idx_max - l then Inl (InvalidInputException ''count exceeds idx_t'') else Inr (l + r))"

definition ValidateVaneTaskIdentityComponent :: "('w, 'm, 'd) env \<Rightarrow> string \<Rightarrow> unit res" where
  "ValidateVaneTaskIdentityComponent E component =
     (if component = [] \<or> (length component > 1 \<and> hd component = CHR ''0'')
      then Inl (InvalidInputException ''invalid Vane identity'')
      else res_all (\<lambda>c. throw_if (\<not> CharacterIsDigit E c)
        (InvalidInputException ''invalid Vane identity'')) component)"

definition VaneLogicalTaskIdentity :: "('w, 'm, 'd) env \<Rightarrow> string \<Rightarrow> string \<Rightarrow> string res" where
  "VaneLogicalTaskIdentity E query_id task_attempt_id =
     (let prefix = query_id @ ''.''
      in if query_id = [] \<or> take (length prefix) task_attempt_id \<noteq> prefix
         then Inl (InvalidInputException ''attempt does not match query'')
         else case StringSplit E (drop (length prefix) task_attempt_id) CHR ''.'' of
             [c0, c1, c2] \<Rightarrow>
               res_bind (ValidateVaneTaskIdentityComponent E c0) (\<lambda>_.
               res_bind (ValidateVaneTaskIdentityComponent E c1) (\<lambda>_.
               res_bind (ValidateVaneTaskIdentityComponent E c2) (\<lambda>_.
               Inr (prefix @ c0 @ ''.'' @ c1))))
           | _ \<Rightarrow> Inl (InvalidInputException ''invalid task attempt identity''))"

definition IsCanonicalUUID :: "('w, 'm, 'd) env \<Rightarrow> string \<Rightarrow> bool" where
  "IsCanonicalUUID E v \<longleftrightarrow> length v = UUID_STRING_SIZE E \<and> UUIDParses E v"

definition SchemaFingerprint :: "('w, 'm, 'd) env \<Rightarrow> string \<Rightarrow> string" where
  "SchemaFingerprint E schema_bytes = MD5Hex E schema_bytes"

definition PlannedSchemaFingerprint :: "('w, 'm, 'd) env \<Rightarrow> string list \<Rightarrow> LogicalType list \<Rightarrow>
    string list \<Rightarrow> string list \<Rightarrow> options \<Rightarrow> string" where
  "PlannedSchemaFingerprint E field_names field_types part_keys primary_keys table_options =
     SchemaFingerprint E (sd_bytes E
       [WProp 1 ''field_names'' (PStrs field_names),
        WProp 2 ''field_types'' (PTypes field_types),
        WProp 3 ''partition_keys'' (PStrs part_keys),
        WProp 4 ''primary_keys'' (PStrs primary_keys),
        WProp 5 ''table_options'' (PMap table_options)])"

definition WriteOperatorName :: "PaimonDistributedWriteKind \<Rightarrow> string res" where
  "WriteOperatorName k =
     (case k of
        WK_INSERT \<Rightarrow> Inr PAIMON_DISTRIBUTED_INSERT_OPERATOR
      | WK_CTAS \<Rightarrow> Inr PAIMON_DISTRIBUTED_CTAS_OPERATOR
      | WK_OTHER _ \<Rightarrow> Inl (SerializationException ''invalid write kind''))"

definition CompactUUID :: "string \<Rightarrow> string" where
  "CompactUUID uuid = filter (\<lambda>c. c \<noteq> CHR ''-'') uuid"

text \<open>The context hashes the concatenation of what is added: the query, a zero byte, the attempt.\<close>

definition AttemptDigest :: "('w, 'm, 'd) env \<Rightarrow> string \<Rightarrow> string \<Rightarrow> string" where
  "AttemptDigest E query_id task_attempt_id = MD5Hex E (query_id @ [CHR 0x00] @ task_attempt_id)"

definition WorkerCommitUser :: "('w, 'm, 'd) env \<Rightarrow> PaimonDistributedInsertTransport \<Rightarrow>
    DistributedWriteTaskContext \<Rightarrow> string" where
  "WorkerCommitUser E transport task = ''vane-'' @ CompactUUID (tp_operation_id transport) @ ''-'' @
     AttemptDigest E (tk_query_id task) (tk_task_attempt_id task)"

definition WorkerDataFilePrefix :: "('w, 'm, 'd) env \<Rightarrow> PaimonDistributedInsertTransport \<Rightarrow>
    DistributedWriteTaskContext \<Rightarrow> string" where
  "WorkerDataFilePrefix E transport task = ''vane_'' @ CompactUUID (tp_operation_id transport) @ ''_'' @
     AttemptDigest E (tk_query_id task) (tk_task_attempt_id task)"

definition ExpectedFragmentId :: "PaimonDistributedInsertTransport \<Rightarrow> string \<Rightarrow> string" where
  "ExpectedFragmentId transport task_attempt_id = tp_operation_id transport @ '':'' @ task_attempt_id"

text \<open>The final cast is value preserving below \<open>2 ^ 63\<close>; it is written as the signed reading of the word.\<close>

unbundle bit_operations_syntax

definition CreateCommitIdentifier :: "('w, 'm, 'd) env \<Rightarrow> string \<Rightarrow> int" where
  "CreateCommitIdentifier E operation_id =
     (let v = HashBytes E operation_id AND word_of_int int64_max
      in sint (if v = 0 then 1 else v))"

definition IsPortableWriteOption :: "('w, 'm, 'd) env \<Rightarrow> string \<Rightarrow> bool" where
  "IsPortableWriteOption E key \<longleftrightarrow>
     key = key_MANIFEST_FORMAT (OptionKeys E) \<or> key = key_FILE_FORMAT (OptionKeys E)"

definition GetPortableWriteOptions :: "('w, 'm, 'd) env \<Rightarrow> options \<Rightarrow> options" where
  "GetPortableWriteOptions E opts =
     fold (\<lambda>key result. case map_of opts key of None \<Rightarrow> result | Some v \<Rightarrow> map_emplace key v result)
       [key_MANIFEST_FORMAT (OptionKeys E), key_FILE_FORMAT (OptionKeys E)] []"

section \<open>The transport\<close>

fun valid_input_fields :: "(LogicalType \<times> string) list \<Rightarrow> string set \<Rightarrow> bool" where
  "valid_input_fields [] seen = True"
| "valid_input_fields ((ty, name) # fs) seen =
     (lt_id ty \<noteq> LT_INVALID \<and> name \<noteq> [] \<and> name \<notin> seen \<and> valid_input_fields fs (insert name seen))"

fun valid_part_keys :: "string set \<Rightarrow> string list \<Rightarrow> string set \<Rightarrow> bool" where
  "valid_part_keys names [] seen = True"
| "valid_part_keys names (k # ks) seen =
     (k \<noteq> [] \<and> k \<in> names \<and> k \<notin> seen \<and> valid_part_keys names ks (insert k seen))"

definition ValidateTransport :: "('w, 'm, 'd) env \<Rightarrow> PaimonDistributedInsertTransport \<Rightarrow> unit res" where
  "ValidateTransport E t =
     (if \<not> IsCanonicalUUID E (tp_operation_id t) \<or> tp_database_name t = [] \<or> tp_table_name t = [] \<or>
         tp_table_uuid t = [] \<or> tp_table_path t = [] \<or> length (tp_schema_fingerprint t) \<noteq> 32 \<or>
         tp_schema_id t < 0 \<or> tp_commit_identifier t \<le> 0 \<or> tp_input_types t = [] \<or>
         length (tp_input_types t) \<noteq> length (tp_input_names t) \<or> tp_null_part_name t = []
      then Inl (SerializationException ''incomplete target state'')
      else res_bind (WriteOperatorName (tp_write_kind t)) (\<lambda>_.
        if (\<not> tp_has_snapshot t \<and> tp_snapshot_id t \<noteq> 0) \<or> (tp_has_snapshot t \<and> tp_snapshot_id t \<le> 0)
        then Inl (SerializationException ''non-canonical snapshot state'')
        else if \<not> valid_input_fields (zip (tp_input_types t) (tp_input_names t)) {}
        then Inl (SerializationException ''invalid input schema'')
        else if \<not> valid_part_keys (set (tp_input_names t)) (tp_part_keys t) {}
        then Inl (SerializationException ''invalid partition key'')
        else if list_ex (\<lambda>(k, v). \<not> IsPortableWriteOption E k \<or> v = []) (tp_portable_options t)
        then Inl (SerializationException ''non-portable option'')
        else Inr ()))"

definition transport_items :: "PaimonDistributedInsertTransport \<Rightarrow> witem list" where
  "transport_items t =
     [WProp 1 ''protocol_version'' (PU32 PAIMON_DISTRIBUTED_WRITE_PROTOCOL_VERSION),
      WProp 2 ''operation_id'' (PStr (tp_operation_id t)),
      WProp 3 ''database_name'' (PStr (tp_database_name t)),
      WProp 4 ''table_name'' (PStr (tp_table_name t)),
      WProp 5 ''table_path'' (PStr (tp_table_path t)),
      WProp 6 ''schema_fingerprint'' (PStr (tp_schema_fingerprint t)),
      WProp 7 ''schema_id'' (PI64 (tp_schema_id t)),
      WProp 8 ''has_snapshot'' (PBool (tp_has_snapshot t)),
      WProp 9 ''snapshot_id'' (PI64 (if tp_has_snapshot t then tp_snapshot_id t else 0)),
      WProp 10 ''commit_identifier'' (PI64 (tp_commit_identifier t)),
      WProp 11 ''input_types'' (PTypes (tp_input_types t)),
      WProp 12 ''input_names'' (PStrs (tp_input_names t)),
      WProp 13 ''part_keys'' (PStrs (tp_part_keys t)),
      WProp 14 ''null_part_name'' (PStr (tp_null_part_name t)),
      WProp 15 ''portable_options'' (PMap (tp_portable_options t)),
      WProp 16 ''append_only'' (PBool (tp_append_only t)),
      WProp 17 ''table_uuid'' (PStr (tp_table_uuid t)),
      WProp 18 ''write_kind'' (PU8 (write_kind_byte (tp_write_kind t)))]"

definition SerializeTransport :: "('w, 'm, 'd) env \<Rightarrow> PaimonDistributedInsertTransport \<Rightarrow> string res" where
  "SerializeTransport E t =
     res_bind (ValidateTransport E t) (\<lambda>_. Inr (sd_bytes E (transport_items t)))"

definition DeserializeTransport :: "('w, 'm, 'd) env \<Rightarrow> string \<Rightarrow> PaimonDistributedInsertTransport res" where
  "DeserializeTransport E bytes =
     (if bytes = [] then Inl (SerializationException ''empty bind'')
      else res_bind (sd_begin E bytes) (\<lambda>d. fst (
        bindP (read_u32 E 1 ''protocol_version'') (\<lambda>protocol_version.
        if protocol_version \<noteq> PAIMON_DISTRIBUTED_WRITE_PROTOCOL_VERSION
        then throwP (SerializationException ''unsupported protocol version'')
        else
        bindP (read_str E 2 ''operation_id'') (\<lambda>operation_id.
        bindP (read_str E 3 ''database_name'') (\<lambda>database_name.
        bindP (read_str E 4 ''table_name'') (\<lambda>table_name.
        bindP (read_str E 5 ''table_path'') (\<lambda>table_path.
        bindP (read_str E 6 ''schema_fingerprint'') (\<lambda>schema_fingerprint.
        bindP (read_i64 E 7 ''schema_id'') (\<lambda>schema_id.
        bindP (read_bool E 8 ''has_snapshot'') (\<lambda>has_snapshot.
        bindP (read_i64 E 9 ''snapshot_id'') (\<lambda>snapshot_id.
        bindP (read_i64 E 10 ''commit_identifier'') (\<lambda>commit_identifier.
        bindP (read_types E 11 ''input_types'') (\<lambda>input_types.
        bindP (read_strs E 12 ''input_names'') (\<lambda>input_names.
        bindP (read_strs E 13 ''part_keys'') (\<lambda>part_keys.
        bindP (read_str E 14 ''null_part_name'') (\<lambda>null_part_name.
        bindP (read_map E 15 ''portable_options'') (\<lambda>portable_options.
        bindP (read_bool E 16 ''append_only'') (\<lambda>append_only.
        bindP (read_str E 17 ''table_uuid'') (\<lambda>table_uuid.
        bindP (read_u8 E 18 ''write_kind'') (\<lambda>write_kind.
        bindP (sd_end E) (\<lambda>_.
        let result = \<lparr>tp_write_kind = write_kind_of_byte write_kind, tp_operation_id = operation_id,
              tp_database_name = database_name, tp_table_name = table_name, tp_table_uuid = table_uuid,
              tp_table_path = table_path, tp_schema_fingerprint = schema_fingerprint,
              tp_schema_id = schema_id, tp_append_only = append_only, tp_has_snapshot = has_snapshot,
              tp_snapshot_id = snapshot_id, tp_commit_identifier = commit_identifier,
              tp_input_types = input_types, tp_input_names = input_names, tp_part_keys = part_keys,
              tp_null_part_name = null_part_name, tp_portable_options = portable_options\<rparr>
        in bindP (liftP (ValidateTransport E result)) (\<lambda>_. retP result))))))))))))))))))))
        d)))"

section \<open>The commit envelope\<close>

definition envelope_items :: "PaimonDistributedCommitEnvelope \<Rightarrow> witem list" where
  "envelope_items e =
     [WProp 1 ''protocol_version'' (PU32 PAIMON_DISTRIBUTED_WRITE_PROTOCOL_VERSION),
      WProp 2 ''operation_id'' (PStr (ev_operation_id e)),
      WProp 3 ''table_path'' (PStr (ev_table_path e)),
      WProp 4 ''schema_fingerprint'' (PStr (ev_schema_fingerprint e)),
      WProp 5 ''schema_id'' (PI64 (ev_schema_id e)),
      WProp 6 ''has_snapshot'' (PBool (ev_has_snapshot e)),
      WProp 7 ''snapshot_id'' (PI64 (if ev_has_snapshot e then ev_snapshot_id e else 0)),
      WProp 8 ''commit_identifier'' (PI64 (ev_commit_identifier e)),
      WProp 9 ''query_id'' (PStr (ev_query_id e)),
      WProp 10 ''task_attempt_id'' (PStr (ev_task_attempt_id e)),
      WProp 11 ''writer_commit_user'' (PStr (ev_writer_commit_user e)),
      WProp 12 ''commit_message_version'' (PI32 (ev_commit_message_version e)),
      WProp 13 ''message_count'' (PIdx (ev_message_count e)),
      WProp 14 ''row_count'' (PIdx (ev_row_count e)),
      WProp 15 ''serialized_messages'' (PStr (ev_serialized_messages e)),
      WProp 16 ''table_uuid'' (PStr (ev_table_uuid e)),
      WProp 17 ''serialized_transport'' (PStr (ev_serialized_transport e))]"

definition SerializeCommitEnvelope :: "('w, 'm, 'd) env \<Rightarrow> PaimonDistributedCommitEnvelope \<Rightarrow> string" where
  "SerializeCommitEnvelope E e = sd_bytes E (envelope_items e)"

definition envelope_invalid :: "('w, 'm, 'd) env \<Rightarrow> PaimonDistributedCommitEnvelope \<Rightarrow> bool" where
  "envelope_invalid E e \<longleftrightarrow>
     \<not> IsCanonicalUUID E (ev_operation_id e) \<or> ev_table_uuid e = [] \<or> ev_table_path e = [] \<or>
     length (ev_schema_fingerprint e) \<noteq> 32 \<or> ev_schema_id e < 0 \<or> ev_commit_identifier e \<le> 0 \<or>
     ev_query_id e = [] \<or> ev_task_attempt_id e = [] \<or> ev_writer_commit_user e = [] \<or>
     ev_commit_message_version e \<le> 0 \<or> ev_message_count e = 0 \<or> ev_row_count e = 0 \<or>
     ev_serialized_transport e = [] \<or> ev_serialized_messages e = [] \<or>
     (\<not> ev_has_snapshot e \<and> ev_snapshot_id e \<noteq> 0) \<or> (ev_has_snapshot e \<and> ev_snapshot_id e \<le> 0)"

definition DeserializeCommitEnvelope :: "('w, 'm, 'd) env \<Rightarrow> string \<Rightarrow>
    PaimonDistributedCommitEnvelope res" where
  "DeserializeCommitEnvelope E bytes =
     (if bytes = [] then Inl (SerializationException ''empty commit fragment'')
      else res_bind (sd_begin E bytes) (\<lambda>d. fst (
        bindP (read_u32 E 1 ''protocol_version'') (\<lambda>protocol_version.
        if protocol_version \<noteq> PAIMON_DISTRIBUTED_WRITE_PROTOCOL_VERSION
        then throwP (SerializationException ''unsupported protocol version'')
        else
        bindP (read_str E 2 ''operation_id'') (\<lambda>operation_id.
        bindP (read_str E 3 ''table_path'') (\<lambda>table_path.
        bindP (read_str E 4 ''schema_fingerprint'') (\<lambda>schema_fingerprint.
        bindP (read_i64 E 5 ''schema_id'') (\<lambda>schema_id.
        bindP (read_bool E 6 ''has_snapshot'') (\<lambda>has_snapshot.
        bindP (read_i64 E 7 ''snapshot_id'') (\<lambda>snapshot_id.
        bindP (read_i64 E 8 ''commit_identifier'') (\<lambda>commit_identifier.
        bindP (read_str E 9 ''query_id'') (\<lambda>query_id.
        bindP (read_str E 10 ''task_attempt_id'') (\<lambda>task_attempt_id.
        bindP (read_str E 11 ''writer_commit_user'') (\<lambda>writer_commit_user.
        bindP (read_i32 E 12 ''commit_message_version'') (\<lambda>commit_message_version.
        bindP (read_idx E 13 ''message_count'') (\<lambda>message_count.
        bindP (read_idx E 14 ''row_count'') (\<lambda>row_count.
        bindP (read_str E 15 ''serialized_messages'') (\<lambda>serialized_messages.
        bindP (read_str E 16 ''table_uuid'') (\<lambda>table_uuid.
        bindP (read_str E 17 ''serialized_transport'') (\<lambda>serialized_transport.
        bindP (sd_end E) (\<lambda>_.
        let result = \<lparr>ev_operation_id = operation_id, ev_table_uuid = table_uuid, ev_table_path = table_path,
              ev_schema_fingerprint = schema_fingerprint, ev_schema_id = schema_id,
              ev_has_snapshot = has_snapshot, ev_snapshot_id = snapshot_id,
              ev_commit_identifier = commit_identifier, ev_query_id = query_id,
              ev_task_attempt_id = task_attempt_id, ev_writer_commit_user = writer_commit_user,
              ev_commit_message_version = commit_message_version, ev_message_count = message_count,
              ev_row_count = row_count, ev_serialized_transport = serialized_transport,
              ev_serialized_messages = serialized_messages\<rparr>
        in if envelope_invalid E result
           then throwP (SerializationException ''invalid identity or payload state'')
           else retP result))))))))))))))))))
        d)))"

section \<open>Round trips\<close>

text \<open>What the fields of the C++ structs can hold.\<close>

definition transport_typed :: "PaimonDistributedInsertTransport \<Rightarrow> bool" where
  "transport_typed t \<longleftrightarrow> list_all witem_ok (transport_items t)"

definition envelope_typed :: "PaimonDistributedCommitEnvelope \<Rightarrow> bool" where
  "envelope_typed e \<longleftrightarrow> list_all witem_ok (envelope_items e)"

lemma write_kind_of_byte_byte:
  "is_ok (WriteOperatorName k) \<Longrightarrow> write_kind_of_byte (write_kind_byte k) = k"
  by (cases k) (simp_all add: write_kind_of_byte_def write_kind_byte_def WriteOperatorName_def)

lemma ValidateTransport_facts:
  assumes "ValidateTransport E t = Inr ()"
  shows "is_ok (WriteOperatorName (tp_write_kind t))"
    and "\<not> tp_has_snapshot t \<Longrightarrow> tp_snapshot_id t = 0"
    and "tp_commit_identifier t > 0" and "tp_table_path t \<noteq> []" and "tp_table_uuid t \<noteq> []"
    and "tp_schema_id t \<ge> 0" and "length (tp_schema_fingerprint t) = 32"
    and "IsCanonicalUUID E (tp_operation_id t)"
    and "tp_has_snapshot t \<Longrightarrow> tp_snapshot_id t > 0"
    and "length (tp_input_types t) = length (tp_input_names t)"
    and "valid_part_keys (set (tp_input_names t)) (tp_part_keys t) {}"
  using assms by (auto simp: ValidateTransport_def res_bind_Inr split: if_splits)

lemma DeserializeTransport_Serialize:
  assumes "serde_laws E" and "transport_typed t" and "SerializeTransport E t = Inr bytes"
  shows "bytes \<noteq> []" and "DeserializeTransport E bytes = Inr t"
proof -
  have val: "ValidateTransport E t = Inr ()" and b: "bytes = sd_bytes E (transport_items t)"
    using assms(3) by (auto simp: SerializeTransport_def res_bind_Inr)
  obtain d d' where bytes: "sd_bytes E (transport_items t) \<noteq> []"
      "sd_begin E (sd_bytes E (transport_items t)) = Inr d" and rb: "reads_back E (transport_items t) d d'"
      and fin: "fst (sd_end E d') = Inr ()"
    using serde_lawsE assms(1,2) unfolding transport_typed_def by metis
  have snap: "(if tp_has_snapshot t then tp_snapshot_id t else 0) = tp_snapshot_id t"
    using ValidateTransport_facts(2) [OF val] by simp
  show "bytes \<noteq> []" using b bytes(1) by simp
  show "DeserializeTransport E bytes = Inr t"
    using rb fin unfolding b transport_items_def snap DeserializeTransport_def
    using bytes unfolding transport_items_def snap
    using val ValidateTransport_facts(1) [OF val]
    by (cases t, cases "sd_end E d'") (clarsimp simp: Let_def write_kind_of_byte_byte)
qed

lemma DeserializeCommitEnvelope_Serialize:
  assumes "serde_laws E" and "envelope_typed e" and "\<not> envelope_invalid E e"
  shows "DeserializeCommitEnvelope E (SerializeCommitEnvelope E e) = Inr e"
proof -
  obtain d d' where bytes: "sd_bytes E (envelope_items e) \<noteq> []"
      "sd_begin E (sd_bytes E (envelope_items e)) = Inr d" and rb: "reads_back E (envelope_items e) d d'"
      and fin: "fst (sd_end E d') = Inr ()"
    using serde_lawsE assms(1,2) unfolding envelope_typed_def by metis
  have snap: "(if ev_has_snapshot e then ev_snapshot_id e else 0) = ev_snapshot_id e"
    using assms(3) by (auto simp: envelope_invalid_def)
  show ?thesis
    using rb fin unfolding SerializeCommitEnvelope_def envelope_items_def snap DeserializeCommitEnvelope_def
    using bytes unfolding envelope_items_def snap
    using assms(3) by (cases e, cases "sd_end E d'") (clarsimp simp: Let_def)
qed

interpretation insert_transport: wire_format
  "\<lambda>t. serde_laws E \<and> transport_typed t \<and> ValidateTransport E t = Inr ()" "SerializeTransport E" "DeserializeTransport E" for E
proof unfold_locales
  fix t assume t: "serde_laws E \<and> transport_typed t \<and> ValidateTransport E t = Inr ()"
  then have "SerializeTransport E t = Inr (sd_bytes E (transport_items t))"
    by (simp add: SerializeTransport_def)
  with t DeserializeTransport_Serialize
  show "\<exists>b. SerializeTransport E t = Inr b \<and> b \<noteq> [] \<and> DeserializeTransport E b = Inr t"
    by blast
qed

interpretation commit_envelope: wire_format
  "\<lambda>e. serde_laws E \<and> envelope_typed e \<and> \<not> envelope_invalid E e" "\<lambda>e. Inr (SerializeCommitEnvelope E e)"
  "DeserializeCommitEnvelope E" for E
proof unfold_locales
  fix e assume e: "serde_laws E \<and> envelope_typed e \<and> \<not> envelope_invalid E e"
  then have "SerializeCommitEnvelope E e \<noteq> []"
    unfolding SerializeCommitEnvelope_def envelope_typed_def by (metis serde_lawsE)
  with e DeserializeCommitEnvelope_Serialize
  show "\<exists>b. Inr (SerializeCommitEnvelope E e) = Inr b \<and> b \<noteq> [] \<and> DeserializeCommitEnvelope E b = Inr e"
    by blast
qed

lemma DeserializeTransport_valid:
  "DeserializeTransport E bytes = Inr t \<Longrightarrow> ValidateTransport E t = Inr ()"
  by (auto simp: DeserializeTransport_def Let_def throwP_def liftP_def retP_def
      elim!: res_bindE bindPE fst_InrE split: if_splits)

section \<open>Counters\<close>

lemma CheckedAdd_Inr:
  "CheckedAdd l r = Inr s \<longleftrightarrow> unat l + unat r < 2 ^ 64 \<and> s = l + r"
proof -
  have max: "unat idx_max = 2 ^ 64 - 1"
    by (simp add: unsigned_minus_1_eq_mask mask_eq_exp_minus_1)
  have "unat (idx_max - l) = 2 ^ 64 - 1 - unat l"
    using unsigned_less [where 'a = nat, of l] by (simp add: unat_sub_if' max)
  then have "r > idx_max - l \<longleftrightarrow> \<not> unat l + unat r < 2 ^ 64"
    using unsigned_less [where 'a = nat, of l] unsigned_less [where 'a = nat, of r]
    by (simp add: word_less_nat_alt) linarith
  then show ?thesis
    by (auto simp: CheckedAdd_def)
qed

lemma unat_CheckedAdd: "CheckedAdd l r = Inr s \<Longrightarrow> unat s = unat l + unat r"
  by (simp add: CheckedAdd_Inr unat_plus_if')

section \<open>Identities\<close>

definition canonical_number :: "string \<Rightarrow> bool" where
  "canonical_number s \<longleftrightarrow> s \<noteq> [] \<and> (length s > 1 \<longrightarrow> hd s \<noteq> CHR ''0'') \<and> set s \<subseteq> set ''0123456789''"

definition attempt_id :: "string \<Rightarrow> string \<Rightarrow> string \<Rightarrow> string \<Rightarrow> string" where
  "attempt_id q f p a =
     q @ ''.'' @ f @ ''.'' @ p @ ''.'' @ a"

lemma ValidateVaneTaskIdentityComponent_iff:
  assumes "split_laws E"
  shows "ValidateVaneTaskIdentityComponent E s = Inr u \<longleftrightarrow> canonical_number s"
proof -
  have digit: "CharacterIsDigit E c \<longleftrightarrow> c \<in> set ''0123456789''" for c
    using assms unfolding split_laws_def by (elim conjE) (erule spec)
  define D where "D = set ''0123456789''"
  show ?thesis
    unfolding ValidateVaneTaskIdentityComponent_def canonical_number_def digit D_def [symmetric]
    by (auto simp: res_all_Inr)
qed

lemma ValidateVaneTaskIdentityComponent_ok:
  "split_laws E \<Longrightarrow> canonical_number s \<Longrightarrow> ValidateVaneTaskIdentityComponent E s = Inr ()"
  by (simp add: ValidateVaneTaskIdentityComponent_iff)

lemma canonical_number_no_dot: "canonical_number s \<Longrightarrow> CHR ''.'' \<notin> set s"
  by (auto simp: canonical_number_def)

lemma VaneLogicalTaskIdentity_attempt:
  assumes "split_laws E" "q \<noteq> []" "canonical_number f" "canonical_number p" "canonical_number a"
  shows "VaneLogicalTaskIdentity E q (attempt_id q f p a) = Inr (q @ ''.'' @ f @ ''.'' @ p)"
proof -
  have "StringSplit E (f @ ''.'' @ p @ ''.'' @ a) CHR ''.'' = [f, p, a]"
    using assms canonical_number_no_dot by (simp add: split_laws_def canonical_number_def)
  moreover have "drop (Suc (length q)) (attempt_id q f p a) = f @ ''.'' @ p @ ''.'' @ a"
    "take (Suc (length q)) (attempt_id q f p a) = q @ ''.''"
    by (simp_all add: attempt_id_def)
  ultimately show ?thesis
    using assms by (simp add: VaneLogicalTaskIdentity_def Let_def ValidateVaneTaskIdentityComponent_ok)
qed

lemma dotted_inject:
  assumes "CHR ''.'' \<notin> set f" "CHR ''.'' \<notin> set f'"
  shows "f @ ''.'' @ p = f' @ ''.'' @ p' \<longleftrightarrow> f = f' \<and> p = p'"
proof
  assume eq: "f @ ''.'' @ p = f' @ ''.'' @ p'"
  have "takeWhile (\<lambda>c. c \<noteq> CHR ''.'') (g @ ''.'' @ r) = g" if "CHR ''.'' \<notin> set g" for g r
    using that by (induction g) auto
  with assms eq have "f = f'" by metis
  with eq show "f = f' \<and> p = p'" by simp
qed simp

lemma map_of_GetPortableWriteOptions:
  "map_of (GetPortableWriteOptions E opts) k = (if IsPortableWriteOption E k then map_of opts k else None)"
  by (auto simp: GetPortableWriteOptions_def IsPortableWriteOption_def split: option.splits)

section \<open>Properties\<close>

text \<open>
  C34. A transport the coordinator serializes is what the worker reads: every transport that passes
  validation survives the wire unchanged.
\<close>

theorem transport_roundtrip:
  assumes "serde_laws E" and "transport_typed t" and "ValidateTransport E t = Inr ()"
  shows "\<exists>bytes. SerializeTransport E t = Inr bytes \<and> bytes \<noteq> [] \<and> DeserializeTransport E bytes = Inr t"
  using assms by (intro insert_transport.dec_enc) simp

definition demo_transport :: PaimonDistributedInsertTransport where
  "demo_transport = \<lparr>tp_write_kind = WK_INSERT, tp_operation_id = ''u-id'', tp_database_name = ''db'',
     tp_table_name = ''t'', tp_table_uuid = ''table-uuid'', tp_table_path = ''/data/db.db/t'',
     tp_schema_fingerprint = replicate 32 CHR ''a'', tp_schema_id = 0, tp_append_only = True,
     tp_has_snapshot = True, tp_snapshot_id = 7, tp_commit_identifier = 4,
     tp_input_types = [demo_type, demo_type], tp_input_names = [''p'', ''v''], tp_part_keys = [''p''],
     tp_null_part_name = ''null'', tp_portable_options = [(''file.format'', ''orc'')]\<rparr>"

lemma demo_transport_ok: "ValidateTransport demo_env demo_transport = Inr ()" "transport_typed demo_transport"
  by (simp_all add: ValidateTransport_def demo_transport_def IsCanonicalUUID_def WriteOperatorName_def
    demo_type_def IsPortableWriteOption_def demo_keys_def transport_typed_def transport_items_def str_ok_def)

theorem transport_roundtrip_witness:
  "\<exists>bytes. SerializeTransport demo_env demo_transport = Inr bytes \<and> bytes \<noteq> [] \<and>
     DeserializeTransport demo_env bytes = Inr demo_transport"
  by (rule transport_roundtrip [OF demo_serde_laws demo_transport_ok(2,1)])

text \<open>
  C35. The envelope of a commit fragment survives the wire when it is one the reader accepts.
\<close>

theorem envelope_roundtrip:
  assumes "serde_laws E" and "envelope_typed e" and "\<not> envelope_invalid E e"
  shows "DeserializeCommitEnvelope E (SerializeCommitEnvelope E e) = Inr e"
  using assms commit_envelope.dec_enc [of E e] by simp

definition demo_envelope :: PaimonDistributedCommitEnvelope where
  "demo_envelope = \<lparr>ev_operation_id = ''u-id'', ev_table_uuid = ''table-uuid'',
     ev_table_path = ''/data/db.db/t'', ev_schema_fingerprint = replicate 32 CHR ''a'', ev_schema_id = 0,
     ev_has_snapshot = True, ev_snapshot_id = 7, ev_commit_identifier = 4, ev_query_id = ''q'',
     ev_task_attempt_id = ''q.0.1.0'', ev_writer_commit_user = ''user'', ev_commit_message_version = 3,
     ev_message_count = 1, ev_row_count = 2, ev_serialized_transport = ''t'', ev_serialized_messages = ''m''\<rparr>"

theorem envelope_roundtrip_witness:
  "DeserializeCommitEnvelope demo_env (SerializeCommitEnvelope demo_env demo_envelope) = Inr demo_envelope"
  by (rule envelope_roundtrip [OF demo_serde_laws])
    (simp_all add: envelope_typed_def envelope_items_def envelope_invalid_def demo_envelope_def str_ok_def
      IsCanonicalUUID_def)

text \<open>
  The logical identity of a Vane task is its query, fragment and partition: it does not depend
  on the attempt number, and two attempts of one query have the same identity exactly when they
  run the same fragment on the same partition.
\<close>

theorem VaneLogicalTaskIdentity_attempts:
  assumes "split_laws E" and "q \<noteq> []"
    and "canonical_number f" and "canonical_number p" and "canonical_number a"
    and "canonical_number f'" and "canonical_number p'" and "canonical_number a'"
  shows "VaneLogicalTaskIdentity E q (attempt_id q f p a) = Inr (q @ ''.'' @ f @ ''.'' @ p) \<and>
    (VaneLogicalTaskIdentity E q (attempt_id q f p a) = VaneLogicalTaskIdentity E q (attempt_id q f' p' a')
      \<longleftrightarrow> f = f' \<and> p = p')"
proof -
  have "f @ ''.'' @ p = f' @ ''.'' @ p' \<longleftrightarrow> f = f' \<and> p = p'"
    using assms canonical_number_no_dot by (intro dotted_inject)
  then show ?thesis
    by (simp add: VaneLogicalTaskIdentity_attempt assms)
qed

theorem VaneLogicalTaskIdentity_attempts_witness:
  "VaneLogicalTaskIdentity demo_env ''q'' (attempt_id ''q'' ''10'' ''0'' ''3'') = Inr ''q.10.0'' \<and>
    (VaneLogicalTaskIdentity demo_env ''q'' (attempt_id ''q'' ''10'' ''0'' ''3'') =
      VaneLogicalTaskIdentity demo_env ''q'' (attempt_id ''q'' ''1'' ''0'' ''3'')
      \<longleftrightarrow> ''10'' = ''1'' \<and> ''0'' = ''0'')"
  using VaneLogicalTaskIdentity_attempts [OF demo_split_laws, of "''q''" "''10''" "''0''" "''3''" "''1''"
      "''0''" "''3''"]
  by (auto simp: canonical_number_def)

text \<open>
  The commit identifier derived from the operation is a positive \<open>int64_t\<close>, whatever 64-bit
  hash the operation has, which is what the validation of the transport demands.
\<close>

theorem CreateCommitIdentifier_bounds:
  "0 < CreateCommitIdentifier E operation_id \<and> CreateCommitIdentifier E operation_id \<le> int64_max"
proof -
  define v where "v = HashBytes E operation_id AND word_of_int int64_max"
  have "uint v \<le> int64_max"
    using AND_upper2 [of "uint (word_of_int int64_max :: 64 word)" "uint (HashBytes E operation_id)"]
    by (simp add: v_def uint_and)
  then have "sint v = uint v"
    using signed_take_bit_int_eq_self [of 63 "uint v"] order_trans [of int64_min 0 "uint v"]
    by (simp add: sint_uint)
  moreover have "0 < uint v" if "v \<noteq> 0"
    using that unsigned_greater_eq [of v] by (simp add: order_less_le unsigned_eq_0_iff)
  moreover have "CreateCommitIdentifier E operation_id = sint (if v = 0 then 1 else v)"
    unfolding CreateCommitIdentifier_def v_def Let_def by (rule refl)
  ultimately show ?thesis
    using \<open>uint v \<le> int64_max\<close> by simp
qed

end
