(* ===== verification/Dist_Worker.thy ===== *)
theory Dist_Worker
  imports Dist_Transport "HOL-Library.Multiset"
begin

text \<open>
  Component \<^verbatim>\<open>src/src/paimon_storage/paimon_distributed_insert.cpp\<close>, second part: the callbacks a Vane
  worker runs for one task attempt. \<open>InitializeGlobal\<close> once, then for every thread
  \<open>InitializeLocal\<close>, \<open>Sink\<close> per chunk and \<open>Combine\<close>, then \<open>Finalize\<close> once; the destructor of the
  global state aborts what is still owned.

  The state of a worker extends \<open>sys\<close> by the global state and one local state per thread. A
  callback is one step: what it does outside \<open>global.lock\<close> touches only its own local state. Memory
  exhaustion is not modelled. The conversion of a chunk to Arrow is DuckDB's; a record batch here
  carries the chunk and the properties it is converted with.
\<close>

section \<open>Committers and cleanup\<close>

definition BuildRuntimeOptions :: "('w, 'm, 'd) env \<Rightarrow> PaimonDistributedInsertTransport \<Rightarrow>
    DistributedWriteTaskContext option \<Rightarrow> options res" where
  "BuildRuntimeOptions E transport task =
     res_bind (GetPaimonOptions (StringUtil E) (OptionKeys E) (Context E) (tp_table_path transport) []) (\<lambda>r.
     let r = map_put_all (tp_portable_options transport) r
     in Inr (case task of
          None \<Rightarrow> r
        | Some t \<Rightarrow> map_put (key_DATA_FILE_PREFIX (OptionKeys E)) (WorkerDataFilePrefix E transport t) r))"

definition CreateCommitter :: "('w, 'm, 'd) env \<Rightarrow> PaimonDistributedInsertTransport \<Rightarrow> options \<Rightarrow>
    string \<Rightarrow> bool \<Rightarrow> ('w, 'm, 'z, nat) sysP" where
  "CreateCommitter E transport opts commit_user conflict_check =
     (let cc = \<lparr>cc_table_path = tp_table_path transport, cc_commit_user = commit_user,
                cc_options = opts, cc_check_conflict = Some conflict_check\<rparr>
      in bindP (call_io (EvRead ''commit context'') (FinishCommitContext E cc)) (\<lambda>_.
         call_io (EvOpenCommitter cc) (FileStoreCommit_Create E cc)))"

definition AbortMessages :: "('w, 'm, 'd) env \<Rightarrow> PaimonDistributedInsertTransport \<Rightarrow> options \<Rightarrow>
    string \<Rightarrow> 'm option list \<Rightarrow> ('w, 'm, 'z, unit) sysP" where
  "AbortMessages E transport opts commit_user messages =
     (if messages = [] then retP ()
      else bindP (record_event (EvAbortRequest messages)) (\<lambda>_.
           bindP (CreateCommitter E transport opts commit_user False) (\<lambda>committer.
           call_io (EvAbort committer messages) (Committer_Abort E committer messages))))"

definition BestEffortAbortMessages :: "('w, 'm, 'd) env \<Rightarrow> PaimonDistributedInsertTransport \<Rightarrow> options \<Rightarrow>
    string \<Rightarrow> 'm option list \<Rightarrow> ('w, 'm, 'z, unit) sysP" where
  "BestEffortAbortMessages E transport opts commit_user messages =
     swallowP (AbortMessages E transport opts commit_user messages)"

section \<open>State\<close>

record 'm PaimonDistributedInsertGlobalState =
  g_transport :: PaimonDistributedInsertTransport
  g_options :: options
  g_query_id :: string
  g_task_attempt_id :: string
  g_writer_commit_user :: string
  g_next_write_id :: "32 word"
  g_messages :: "'m option list"
  g_row_count :: idx_t
  g_part_col_idxs :: "nat list"
  g_finalized :: bool

record PaimonDistributedInsertLocalState =
  l_writer :: "nat option"
  l_row_count :: idx_t

record ('w, 'm) worker = "('w, 'm) sys" +
  wk_global :: "'m PaimonDistributedInsertGlobalState"
  wk_locals :: "nat \<Rightarrow> PaimonDistributedInsertLocalState"

type_synonym ('w, 'm, 'a) workerP = "(('w, 'm) worker, 'a) proc"

definition blank_local :: PaimonDistributedInsertLocalState where
  "blank_local = \<lparr>l_writer = None, l_row_count = 0\<rparr>"

abbreviation set_global :: "('m PaimonDistributedInsertGlobalState \<Rightarrow> 'm PaimonDistributedInsertGlobalState) \<Rightarrow>
    ('w, 'm, unit) workerP" where
  "set_global f \<equiv> modifyP (wk_global_update f)"

abbreviation set_local :: "nat \<Rightarrow> (PaimonDistributedInsertLocalState \<Rightarrow> PaimonDistributedInsertLocalState) \<Rightarrow>
    ('w, 'm, unit) workerP" where
  "set_local i f \<equiv> modifyP (wk_locals_update (\<lambda>L. L(i := f (L i))))"

section \<open>Initialisation\<close>

definition ValidateTask :: "('w, 'm, 'd) env \<Rightarrow> 'm PaimonDistributedInsertGlobalState \<Rightarrow>
    DistributedWriteTaskContext \<Rightarrow> unit res" where
  "ValidateTask E global task =
     res_bind (TaskValidate E task) (\<lambda>_.
     res_bind (VaneLogicalTaskIdentity E (tk_query_id task) (tk_task_attempt_id task)) (\<lambda>_.
     throw_if (g_query_id global \<noteq> tk_query_id task \<or> g_task_attempt_id global \<noteq> tk_task_attempt_id task)
       (InvalidInputException ''worker task identity changed'')))"

fun part_col_indexes :: "string list \<Rightarrow> string list \<Rightarrow> nat list res" where
  "part_col_indexes input_names [] = Inr []"
| "part_col_indexes input_names (k # ks) =
     (case find_index k input_names of
        None \<Rightarrow> Inl (SerializationException ''partition key absent'')
      | Some i \<Rightarrow> res_bind (part_col_indexes input_names ks) (\<lambda>is. Inr (i # is)))"

definition PaimonDistributedInsertInitializeGlobal :: "('w, 'm, 'd) env \<Rightarrow> DistributedExtensionWriteInfo \<Rightarrow>
    DistributedWriteTaskContext \<Rightarrow> 'm PaimonDistributedInsertGlobalState res" where
  "PaimonDistributedInsertInitializeGlobal E info task =
     (if wi_mode info \<noteq> CALLBACK_SINK \<or>
         codec_name (wi_fragment_codec info) \<noteq> PAIMON_DISTRIBUTED_WRITE_FRAGMENT_CODEC \<or>
         codec_version (wi_fragment_codec info) \<noteq> PAIMON_DISTRIBUTED_WRITE_PROTOCOL_VERSION
      then Inl (InvalidInputException ''worker contract'')
      else res_bind (TaskValidate E task) (\<lambda>_.
        res_bind (DeserializeTransport E (wi_worker_bind_data info)) (\<lambda>transport.
        res_bind (WriteOperatorName (tp_write_kind transport)) (\<lambda>name.
        if WriteInfoName E info \<noteq> name then Inl (InvalidInputException ''write kind mismatch'')
        else res_bind (BuildRuntimeOptions E transport (Some task)) (\<lambda>opts.
          res_bind (part_col_indexes (tp_input_names transport) (tp_part_keys transport)) (\<lambda>idxs.
          Inr \<lparr>g_transport = transport, g_options = opts, g_query_id = tk_query_id task,
               g_task_attempt_id = tk_task_attempt_id task,
               g_writer_commit_user = WorkerCommitUser E transport task, g_next_write_id = 0,
               g_messages = [], g_row_count = 0, g_part_col_idxs = idxs, g_finalized = False\<rparr>))))))"

text \<open>\<open>fetch_add\<close> returns the old value and wraps at \<open>2 ^ 32\<close>, also when the call then throws.\<close>

definition PaimonDistributedInsertInitializeLocal :: "('w, 'm, 'd) env \<Rightarrow> DistributedWriteTaskContext \<Rightarrow>
    nat \<Rightarrow> ('w, 'm, unit) workerP" where
  "PaimonDistributedInsertInitializeLocal E task i =
     bindP (getP wk_global) (\<lambda>global.
     bindP (liftP (ValidateTask E global task)) (\<lambda>_.
     bindP (set_global (\<lambda>g. g\<lparr>g_next_write_id := g_next_write_id g + 1\<rparr>)) (\<lambda>_.
     let write_id = g_next_write_id global;
         wc = \<lparr>wc_table_path = tp_table_path (g_transport global),
               wc_commit_user = g_writer_commit_user global, wc_write_id = uint write_id,
               wc_streaming = True, wc_options = g_options global\<rparr>
     in if uint write_id > 2 ^ 31 - 1
        then throwP (InvalidInputException ''exhausted write identities'')
        else bindP (call_io (EvRead ''write context'') (FinishWriteContext E wc)) (\<lambda>_.
             bindP (call_io (EvOpenWriter wc) (FileStoreWrite_Create E wc)) (\<lambda>h.
             set_local i (\<lambda>_. \<lparr>l_writer = Some h, l_row_count = 0\<rparr>))))))"

section \<open>Writing\<close>

definition WritePaimonChunk :: "('w, 'm, 'd) env \<Rightarrow> nat \<Rightarrow> DataChunk \<Rightarrow> options \<Rightarrow> ('w, 'm, 'z, unit) sysP" where
  "WritePaimonChunk E h chunk part =
     (let batch = \<lparr>rb_props = Some \<lparr>ap_offset_size_regular = True, ap_use_list_view = False,
                     ap_string_view = False, ap_output_version_1_0 = True\<rparr>,
                   rb_chunk = chunk, rb_partition = part,
                   rb_bucket = (if part = [] then None else Some 0)\<rparr>
      in bindP (call_io (EvRead ''record batch'') (FinishRecordBatch E batch)) (\<lambda>_.
         call_io (EvWrite h batch) (Writer_Write E h batch)))"

definition partition_key :: "string \<Rightarrow> nat list \<Rightarrow> Value list \<Rightarrow> string list" where
  "partition_key null_part_name part_idxs row =
     map (\<lambda>c. if val_null (row ! c) then null_part_name else val_to_string (row ! c)) part_idxs"

text \<open>\<open>groups[key].push_back(row)\<close> for the rows in order.\<close>

definition group_rows :: "(Value list \<Rightarrow> string list) \<Rightarrow> Value list list \<Rightarrow> (string list, nat list) omap" where
  "group_rows key rows =
     fold (\<lambda>r groups. let k = key (rows ! r) in
         map_put k ((case map_of groups k of None \<Rightarrow> [] | Some rs \<Rightarrow> rs) @ [r]) groups)
       [0..<length rows] []"

definition partition_map :: "string list \<Rightarrow> string list \<Rightarrow> options" where
  "partition_map part_keys key = map_put_all (zip part_keys key) []"

definition slice_chunk :: "DataChunk \<Rightarrow> nat list \<Rightarrow> DataChunk" where
  "slice_chunk input selection = \<lparr>dc_types = dc_types input, dc_rows = map (\<lambda>r. dc_rows input ! r) selection\<rparr>"

fun write_groups :: "('w, 'm, 'd) env \<Rightarrow> nat \<Rightarrow> string list \<Rightarrow> DataChunk \<Rightarrow>
    (string list \<times> nat list) list \<Rightarrow> ('w, 'm, 'z, unit) sysP" where
  "write_groups E h part_keys input [] = retP ()"
| "write_groups E h part_keys input ((key, rows) # groups) =
     bindP (WritePaimonChunk E h (slice_chunk input rows) (partition_map part_keys key)) (\<lambda>_.
     write_groups E h part_keys input groups)"

definition add_local_rows :: "nat \<Rightarrow> DataChunk \<Rightarrow> ('w, 'm, unit) workerP" where
  "add_local_rows i input =
     bindP (getP (\<lambda>s. l_row_count (wk_locals s i))) (\<lambda>n.
     bindP (liftP (CheckedAdd n (of_nat (length (dc_rows input))))) (\<lambda>n'.
     set_local i (\<lambda>l. l\<lparr>l_row_count := n'\<rparr>)))"

definition PaimonDistributedInsertSink :: "('w, 'm, 'd) env \<Rightarrow> DistributedWriteTaskContext \<Rightarrow> nat \<Rightarrow>
    DataChunk \<Rightarrow> ('w, 'm, unit) workerP" where
  "PaimonDistributedInsertSink E task i input =
     bindP (getP wk_global) (\<lambda>global.
     bindP (getP (\<lambda>s. l_writer (wk_locals s i))) (\<lambda>writer.
     bindP (liftP (ValidateTask E global task)) (\<lambda>_.
     if dc_types input \<noteq> tp_input_types (g_transport global)
     then throwP (InvalidInputException ''worker input schema'')
     else case writer of
         None \<Rightarrow> throwP (UndefinedBehaviour ''null writer'')
       | Some h \<Rightarrow>
           bindP (if g_part_col_idxs global = [] then WritePaimonChunk E h input []
                  else write_groups E h (tp_part_keys (g_transport global)) input
                    (group_rows (partition_key (tp_null_part_name (g_transport global))
                       (g_part_col_idxs global)) (dc_rows input))) (\<lambda>_.
           add_local_rows i input))))"

section \<open>Combine and finalize\<close>

definition merge_local :: "('w, 'm, 'd) env \<Rightarrow> nat \<Rightarrow> 'm option list \<Rightarrow> ('w, 'm, unit) workerP" where
  "merge_local E i messages =
     bindP (getP id) (\<lambda>s.
     let global = wk_global s in
     bindP (liftP (CheckedAdd (g_row_count global) (l_row_count (wk_locals s i)))) (\<lambda>combined_row_count.
     if length messages > 2 ^ 64 - 1 - length (g_messages global)
     then throwP (InvalidInputException ''too many commit messages'')
     else set_global (\<lambda>g. g\<lparr>g_messages := g_messages g @ messages, g_row_count := combined_row_count\<rparr>)))"

definition global_abort :: "('w, 'm, 'd) env \<Rightarrow> 'm option list \<Rightarrow> ('w, 'm, unit) workerP" where
  "global_abort E messages =
     bindP (getP wk_global) (\<lambda>g.
     BestEffortAbortMessages E (g_transport g) (g_options g) (g_writer_commit_user g) messages)"

definition combine_messages :: "('w, 'm, 'd) env \<Rightarrow> nat \<Rightarrow> 'm option list \<Rightarrow> ('w, 'm, unit) workerP" where
  "combine_messages E i messages =
     (if messages = [] then throwP (IOException ''no commit messages for non-empty input'')
      else if None \<in> set messages
      then bindP (global_abort E (filter (\<lambda>m. m \<noteq> None) messages)) (\<lambda>_.
           throwP (IOException ''empty commit message''))
      else rethrowP (merge_local E i messages) (global_abort E messages))"

definition reset_writer :: "nat \<Rightarrow> ('w, 'm, unit) workerP" where
  "reset_writer i = set_local i (\<lambda>l. l\<lparr>l_writer := None\<rparr>)"

definition PaimonDistributedInsertCombine :: "('w, 'm, 'd) env \<Rightarrow> DistributedWriteTaskContext \<Rightarrow> nat \<Rightarrow>
    ('w, 'm, unit) workerP" where
  "PaimonDistributedInsertCombine E task i =
     bindP (getP wk_global) (\<lambda>global.
     bindP (getP (\<lambda>s. wk_locals s i)) (\<lambda>local.
     bindP (liftP (ValidateTask E global task)) (\<lambda>_.
     case l_writer local of
       None \<Rightarrow> throwP (InternalException ''local writer was already combined'')
     | Some h \<Rightarrow>
         if l_row_count local = 0
         then bindP (call (EvClose h) (Writer_Close E h)) (\<lambda>status.
              bindP (reset_writer i) (\<lambda>_. value_or_io status))
         else bindP (call (EvPrepare h)
                (Writer_PrepareCommit E h (Some (False, tp_commit_identifier (g_transport global))))) (\<lambda>result.
              case result of
                Inl failure \<Rightarrow>
                  bindP (call (EvClose h) (Writer_Close E h)) (\<lambda>_.
                  bindP (reset_writer i) (\<lambda>_. throwP (IOException (st_text failure))))
              | Inr messages \<Rightarrow>
                  bindP (record_event (EvPrepared h messages)) (\<lambda>_.
                  bindP (call (EvClose h) (Writer_Close E h)) (\<lambda>close_status.
                  bindP (reset_writer i) (\<lambda>_.
                  case close_status of
                    Inl st \<Rightarrow> bindP (global_abort E messages) (\<lambda>_. throwP (IOException (st_text st)))
                  | Inr _ \<Rightarrow> combine_messages E i messages)))))))"

definition worker_envelope :: "('w, 'm, 'd) env \<Rightarrow> 'm PaimonDistributedInsertGlobalState \<Rightarrow>
    DistributedWriteTaskContext \<Rightarrow> string \<Rightarrow> string \<Rightarrow> PaimonDistributedCommitEnvelope" where
  "worker_envelope E g task transport_bytes message_bytes =
     \<lparr>ev_operation_id = tp_operation_id (g_transport g), ev_table_uuid = tp_table_uuid (g_transport g),
      ev_table_path = tp_table_path (g_transport g),
      ev_schema_fingerprint = tp_schema_fingerprint (g_transport g),
      ev_schema_id = tp_schema_id (g_transport g), ev_has_snapshot = tp_has_snapshot (g_transport g),
      ev_snapshot_id = tp_snapshot_id (g_transport g),
      ev_commit_identifier = tp_commit_identifier (g_transport g), ev_query_id = tk_query_id task,
      ev_task_attempt_id = tk_task_attempt_id task, ev_writer_commit_user = g_writer_commit_user g,
      ev_commit_message_version = CurrentVersion E,
      ev_message_count = of_nat (length (g_messages g)), ev_row_count = g_row_count g,
      ev_serialized_transport = transport_bytes, ev_serialized_messages = message_bytes\<rparr>"

definition worker_fragment :: "('w, 'm, 'd) env \<Rightarrow> 'm PaimonDistributedInsertGlobalState \<Rightarrow>
    DistributedWriteTaskContext \<Rightarrow> PaimonDistributedCommitEnvelope \<Rightarrow> DistributedWriteFragment" where
  "worker_fragment E g task e =
     \<lparr>fr_fragment_id = ExpectedFragmentId (g_transport g) (tk_task_attempt_id task),
      fr_payload = SerializeCommitEnvelope E e, fr_row_count = g_row_count g, fr_byte_count = 0,
      fr_artifacts = []\<rparr>"

definition PaimonDistributedInsertFinalize :: "('w, 'm, 'd) env \<Rightarrow> DistributedWriteTaskContext \<Rightarrow>
    ('w, 'm, DistributedWriteFragment list) workerP" where
  "PaimonDistributedInsertFinalize E task =
     bindP (getP wk_global) (\<lambda>g.
     bindP (liftP (ValidateTask E g task)) (\<lambda>_.
     if g_finalized g then throwP (InvalidInputException ''worker finalized more than once'')
     else bindP (set_global (\<lambda>g. g\<lparr>g_finalized := True\<rparr>)) (\<lambda>_.
       if g_messages g = []
       then bindP (checkP (g_row_count g \<noteq> 0) (InternalException ''lost commit messages'')) (\<lambda>_. retP [])
       else if g_row_count g = 0
       then throwP (InternalException ''commit messages for empty input'')
       else case SerializeList E (g_messages g) of
           Inl st \<Rightarrow> bindP (global_abort E (g_messages g)) (\<lambda>_. throwP (IOException (st_text st)))
         | Inr message_bytes \<Rightarrow>
             bindP (liftP (SerializeTransport E (g_transport g))) (\<lambda>transport_bytes.
             let fragment = worker_fragment E g task
                   (worker_envelope E g task transport_bytes message_bytes)
             in bindP (record_event (EvPublish (g_messages g))) (\<lambda>_.
                bindP (set_global (\<lambda>g. g\<lparr>g_messages := []\<rparr>)) (\<lambda>_.
                retP [fragment]))))))"

text \<open>\<open>~PaimonDistributedInsertGlobalState\<close>\<close>

definition destroy_global :: "('w, 'm, 'd) env \<Rightarrow> ('w, 'm, unit) workerP" where
  "destroy_global E = bindP (getP (\<lambda>s. g_messages (wk_global s))) (\<lambda>ms. global_abort E ms)"

section \<open>Grouping\<close>

definition put_row :: "('r \<Rightarrow> 'k::linorder) \<Rightarrow> 'r \<Rightarrow> ('k, 'r list) omap \<Rightarrow> ('k, 'r list) omap" where
  "put_row key r groups = map_put (key r)
     ((case map_of groups (key r) of None \<Rightarrow> [] | Some rs \<Rightarrow> rs) @ [r]) groups"

lemma group_rows_put_row:
  "group_rows key rows = fold (put_row (\<lambda>r. key (rows ! r))) [0..<length rows] []"
  unfolding group_rows_def put_row_def Let_def by (rule refl)

lemma map_of_put_row:
  "map_of (put_row key x m) k =
     (if k = key x then Some ((case map_of m k of None \<Rightarrow> [] | Some rs \<Rightarrow> rs) @ [x]) else map_of m k)"
  by (simp add: put_row_def)

text \<open>Reference: the group of a key is the list of the rows that have it, in order.\<close>

lemma map_of_fold_put_row:
  "map_of (fold (put_row key) xs []) k = (if k \<in> key ` set xs then Some (filter (\<lambda>r. key r = k) xs) else None)"
proof (induction xs arbitrary: k rule: rev_induct)
  case (snoc x xs)
  have "filter (\<lambda>r. key r = k) xs = []" if "k \<notin> key ` set xs"
    using that by (auto simp: filter_empty_conv)
  with snoc show ?case by (auto simp: map_of_put_row)
qed simp

lemma omap_wf_fold_put_row: "omap_wf m \<Longrightarrow> omap_wf (fold (put_row key) xs m)"
  by (induction xs arbitrary: m) (auto simp: put_row_def)

lemma mset_map_put:
  "omap_wf m \<Longrightarrow> mset (concat (map snd (map_put k (v @ w) m))) + mset (case map_of m k of None \<Rightarrow> [] | Some u \<Rightarrow> u)
     = mset (concat (map snd m)) + mset (v @ w)"
proof (induction m)
  case (Cons e m)
  have "map_of m k = None" if "k \<le> fst e"
    using Cons.prems that by (fastforce simp: map_of_eq_None_iff)
  with Cons show ?case by (cases e) (auto simp: ac_simps)
qed simp

lemma mset_fold_put_row:
  "omap_wf m \<Longrightarrow> mset (concat (map snd (fold (put_row key) xs m))) = mset (concat (map snd m)) + mset xs"
proof (induction xs arbitrary: m)
  case (Cons x xs)
  have "mset (concat (map snd (put_row key x m))) = mset (concat (map snd m)) + {#x#}"
    using mset_map_put [OF Cons.prems, of "key x" "case map_of m (key x) of None \<Rightarrow> [] | Some u \<Rightarrow> u" "[x]"]
    by (simp add: put_row_def)
  moreover have "omap_wf (put_row key x m)"
    using Cons.prems by (simp add: put_row_def)
  ultimately show ?case
    using Cons.IH by simp
qed simp

lemma group_rows_member:
  assumes "(k, rs) \<in> set (group_rows key rows)"
  shows "rs = filter (\<lambda>r. key (rows ! r) = k) [0..<length rows]" and "rs \<noteq> []"
proof -
  have "omap_wf (group_rows key rows)"
    unfolding group_rows_put_row by (rule omap_wf_fold_put_row) simp
  then have "map_of (group_rows key rows) k = Some rs"
    using assms by (simp add: omap_wf_distinct)
  then show "rs = filter (\<lambda>r. key (rows ! r) = k) [0..<length rows]" "rs \<noteq> []"
    by (auto 0 3 simp: group_rows_put_row map_of_fold_put_row filter_empty_conv split: if_splits)
qed

lemma mset_group_rows:
  "mset (concat (map (\<lambda>(k, rs). map (\<lambda>r. rows ! r) rs) (group_rows key rows))) = mset rows"
proof -
  have "concat (map (\<lambda>(k, rs). map (\<lambda>r. rows ! r) rs) gs) = map (\<lambda>r. rows ! r) (concat (map snd gs))"
    for gs :: "(string list \<times> nat list) list"
    by (induction gs) auto
  moreover have "mset (concat (map snd (group_rows key rows))) = mset [0..<length rows]"
    using mset_fold_put_row [of "[]"] by (simp add: group_rows_put_row del: mset_upt)
  then have "mset (map (\<lambda>r. rows ! r) (concat (map snd (group_rows key rows)))) = mset (map (\<lambda>r. rows ! r) [0..<length rows])"
    by (simp only: mset_map)
  ultimately show ?thesis
    by (simp only: map_nth)
qed

section \<open>What a sink writes\<close>

definition batches :: "'m event list \<Rightarrow> (nat \<times> RecordBatch) list" where
  "batches tr = rev (List.map_filter (\<lambda>ev. case ev of EvWrite h b \<Rightarrow> Some (h, b) | _ \<Rightarrow> None) tr)"

lemma batches_simps [simp]:
  "batches [] = []"
  "batches (EvWrite h b # tr) = batches tr @ [(h, b)]"
  "batches (EvRead x # tr) = batches tr"
  by (simp_all add: batches_def map_filter_simps)

lemma call_io_ok:
  assumes "call_io ev f s = (Inr x, t)"
  shows "sys_trace t = ev # sys_trace s"
    and "(\<And>u w tr. g (u\<lparr>sys_world := w, sys_trace := tr\<rparr>) = g u) \<Longrightarrow> g t = g s"
  using assms by (auto simp: call_io_def call_def value_or_io_def bindP_def split: prod.splits sum.splits)

definition batch_of :: "DataChunk \<Rightarrow> options \<Rightarrow> RecordBatch" where
  "batch_of chunk part = \<lparr>rb_props = Some \<lparr>ap_offset_size_regular = True, ap_use_list_view = False,
     ap_string_view = False, ap_output_version_1_0 = True\<rparr>, rb_chunk = chunk, rb_partition = part,
     rb_bucket = (if part = [] then None else Some 0)\<rparr>"

lemma WritePaimonChunk_ok:
  assumes "WritePaimonChunk E h chunk part s = (Inr x, t)"
  shows "batches (sys_trace t) = batches (sys_trace s) @ [(h, batch_of chunk part)]"
  using assms by (auto simp: WritePaimonChunk_def batch_of_def Let_def dest!: call_io_ok(1) elim!: bindPE)

lemma write_groups_ok:
  "write_groups E h part_keys input groups s = (Inr x, t) \<Longrightarrow>
   batches (sys_trace t) = batches (sys_trace s) @
     map (\<lambda>(key, rows). (h, batch_of (slice_chunk input rows) (partition_map part_keys key))) groups"
proof (induction groups arbitrary: s)
  case (Cons g groups)
  then show ?case
    by (cases g) (auto dest!: WritePaimonChunk_ok elim!: bindPE)
qed simp

lemma keeps_writes [keeps_intros]:
  assumes "\<And>s w tr. f (s\<lparr>sys_world := w, sys_trace := tr\<rparr>) = f s"
  shows "keeps f (WritePaimonChunk E h chunk part)" and "keeps f (write_groups E h part_keys input groups)"
proof -
  show w: "keeps f (WritePaimonChunk E h chunk part)" for chunk part
    unfolding WritePaimonChunk_def Let_def by (intro keeps_intros assms)
  show "keeps f (write_groups E h part_keys input groups)"
  proof (induction groups)
    case (Cons g groups)
    then show ?case
      by (cases g) (simp only: write_groups.simps, intro keeps_intros w)
  qed (simp only: write_groups.simps keeps_pure)
qed

section \<open>The well-formed worker\<close>

text \<open>
  What \<open>InitializeGlobal\<close> establishes and the callbacks never change: the partition columns are
  those the transport names.
\<close>

definition worker_wf :: "'m PaimonDistributedInsertGlobalState \<Rightarrow> bool" where
  "worker_wf g \<longleftrightarrow> distinct (tp_part_keys (g_transport g)) \<and>
     part_col_indexes (tp_input_names (g_transport g)) (tp_part_keys (g_transport g)) = Inr (g_part_col_idxs g) \<and>
     length (tp_input_types (g_transport g)) = length (tp_input_names (g_transport g))"

lemma valid_part_keys_iff:
  "valid_part_keys names ks seen \<longleftrightarrow> distinct ks \<and> set ks \<inter> seen = {} \<and> set ks \<subseteq> names \<and> [] \<notin> set ks"
  by (induction ks arbitrary: seen) auto

lemma part_col_indexes_Inr:
  "part_col_indexes names ks = Inr is \<longleftrightarrow> set ks \<subseteq> set names \<and> is = map (\<lambda>k. the (find_index k names)) ks"
proof (induction ks arbitrary: "is")
  case (Cons k ks)
  then show ?case
    using find_index_None [of k names]
    by (cases "find_index k names") (auto simp: res_bind_Inr simp del: find_index_None)
qed auto

lemma InitializeGlobal_fields:
  assumes "PaimonDistributedInsertInitializeGlobal E info task = Inr g"
  shows "worker_wf g" and "g_messages g = []" and "g_row_count g = 0" and "\<not> g_finalized g"
    and "g_query_id g = tk_query_id task" and "g_task_attempt_id g = tk_task_attempt_id task"
    and "DeserializeTransport E (wi_worker_bind_data info) = Inr (g_transport g)"
    and "g_writer_commit_user g = WorkerCommitUser E (g_transport g) task" and "g_next_write_id g = 0"
proof -
  have "distinct (tp_part_keys t) \<and> length (tp_input_types t) = length (tp_input_names t)"
    if "DeserializeTransport E (wi_worker_bind_data info) = Inr t" for t
    using ValidateTransport_facts(10,11) [OF DeserializeTransport_valid [OF that]]
    by (simp add: valid_part_keys_iff)
  then show "worker_wf g" "g_messages g = []" "g_row_count g = 0" "\<not> g_finalized g"
    "g_query_id g = tk_query_id task" "g_task_attempt_id g = tk_task_attempt_id task"
    "DeserializeTransport E (wi_worker_bind_data info) = Inr (g_transport g)"
    "g_writer_commit_user g = WorkerCommitUser E (g_transport g) task" "g_next_write_id g = 0"
    using assms
    by (auto simp: PaimonDistributedInsertInitializeGlobal_def worker_wf_def res_bind_Inr split: if_splits)
qed

definition part_value :: "PaimonDistributedInsertTransport \<Rightarrow> string \<Rightarrow> Value list \<Rightarrow> string" where
  "part_value t k row =
     (let v = row ! the (find_index k (tp_input_names t))
      in if val_null v then tp_null_part_name t else val_to_string v)"

lemma partition_key_wf:
  assumes "worker_wf g"
  shows "partition_key (tp_null_part_name (g_transport g)) (g_part_col_idxs g) row =
    map (\<lambda>k. part_value (g_transport g) k row) (tp_part_keys (g_transport g))"
  using assms by (simp add: partition_key_def worker_wf_def part_col_indexes_Inr part_value_def Let_def)

lemma map_of_partition_map:
  "distinct ks \<Longrightarrow> map_of (partition_map ks key) = map_of (zip ks key)"
  by (simp add: partition_map_def map_of_map_put_all map_fst_zip_take)

lemma partition_map_inject:
  assumes "distinct ks" "length key = length ks" "length key' = length ks"
    and "partition_map ks key = partition_map ks key'"
  shows "key = key'"
proof (rule nth_equalityI)
  fix j assume "j < length key"
  then have "map_of (zip ks key) (ks ! j) = Some (key ! j)" "map_of (zip ks key') (ks ! j) = Some (key' ! j)"
    using assms(1-3) by (simp_all add: map_of_zip_nth)
  then show "key ! j = key' ! j"
    using assms(1,4) by (metis map_of_partition_map option.inject)
qed (simp add: assms)

section \<open>Runs of a worker\<close>

datatype worker_op = OpInit nat | OpSink nat DataChunk | OpCombine nat | OpFinalize

definition run_op :: "('w, 'm, 'd) env \<Rightarrow> DistributedWriteTaskContext \<Rightarrow> worker_op \<Rightarrow>
    ('w, 'm, DistributedWriteFragment list) workerP" where
  "run_op E task op = (case op of
     OpInit i \<Rightarrow> bindP (PaimonDistributedInsertInitializeLocal E task i) (\<lambda>_. retP [])
   | OpSink i chunk \<Rightarrow> bindP (PaimonDistributedInsertSink E task i chunk) (\<lambda>_. retP [])
   | OpCombine i \<Rightarrow> bindP (PaimonDistributedInsertCombine E task i) (\<lambda>_. retP [])
   | OpFinalize \<Rightarrow> PaimonDistributedInsertFinalize E task)"

text \<open>Any sequence of callbacks, in any interleaving of the threads, successful or not.\<close>

inductive worker_reach :: "('w, 'm, 'd) env \<Rightarrow> DistributedWriteTaskContext \<Rightarrow> ('w, 'm) worker \<Rightarrow>
    worker_op list \<Rightarrow> ('w, 'm) worker \<Rightarrow> bool" for E task s0 where
  reach_start: "worker_reach E task s0 [] s0"
| reach_step: "worker_reach E task s0 ops s \<Longrightarrow> run_op E task op s = (r, t) \<Longrightarrow>
    worker_reach E task s0 (ops @ [op]) t"

definition worker_start :: "('w, 'm, 'd) env \<Rightarrow> DistributedExtensionWriteInfo \<Rightarrow>
    DistributedWriteTaskContext \<Rightarrow> ('w, 'm) worker \<Rightarrow> bool" where
  "worker_start E info task s0 \<longleftrightarrow>
     PaimonDistributedInsertInitializeGlobal E info task = Inr (wk_global s0) \<and>
     wk_locals s0 = (\<lambda>_. blank_local) \<and> sys_trace s0 = []"

text \<open>The part of the global state the callbacks only read.\<close>

definition frozen :: "('w, 'm) worker \<Rightarrow> _" where
  "frozen s = (let g = wk_global s in (g_transport g, g_options g, g_query_id g, g_task_attempt_id g,
     g_writer_commit_user g, g_part_col_idxs g))"

lemma keeps_cleanup [keeps_intros]:
  assumes "\<And>s w tr. f (s\<lparr>sys_world := w, sys_trace := tr\<rparr>) = f s"
  shows "keeps f (BestEffortAbortMessages E tp os u ms)"
proof -
  have "f (s\<lparr>sys_trace := tr\<rparr>) = f s" for s tr
    using assms [where s = s and w = "sys_world s" and tr = tr] by simp
  then show ?thesis
    unfolding BestEffortAbortMessages_def AbortMessages_def CreateCommitter_def Let_def
    by (intro keeps_intros assms)
qed

lemma keeps_global_abort [keeps_intros]:
  assumes "\<And>s w tr. f (s\<lparr>sys_world := w, sys_trace := tr\<rparr>) = f s"
  shows "keeps f (global_abort E ms)"
  unfolding global_abort_def by (intro keeps_intros assms)

lemma frozen_update [simp]:
  "frozen (s\<lparr>sys_world := w, sys_trace := tr\<rparr>) = frozen s"
  "frozen (s\<lparr>sys_trace := tr\<rparr>) = frozen s"
  "frozen (wk_locals_update f s) = frozen s"
  by (simp_all add: frozen_def)

lemmas worker_ops_defs = PaimonDistributedInsertInitializeLocal_def PaimonDistributedInsertSink_def
  PaimonDistributedInsertCombine_def PaimonDistributedInsertFinalize_def combine_messages_def merge_local_def
  reset_writer_def add_local_rows_def

lemma keeps_frozen: "keeps frozen (run_op E task op)"
proof (cases op)
  case OpFinalize
  then show ?thesis
    unfolding run_op_def worker_op.case worker_ops_defs Let_def
    by (simp, intro keeps_intros frozen_update) (simp_all add: frozen_def Let_def)
qed (simp_all only: run_op_def worker_op.case worker_ops_defs Let_def,
    (intro keeps_intros frozen_update; simp add: frozen_def Let_def)+)

section \<open>Ownership of commit messages\<close>

definition somes :: "'m option list \<Rightarrow> 'm list" where
  "somes ms = List.map_filter id ms"

lemma somes_simps [simp]:
  "somes [] = []" "somes (None # ms) = somes ms" "somes (Some m # ms) = m # somes ms"
  "somes (xs @ ys) = somes xs @ somes ys" "somes (filter (\<lambda>m. m \<noteq> None) ms) = somes ms"
  "somes (filter (\<lambda>m. \<exists>y. m = Some y) ms) = somes ms"
  by (auto simp: somes_def List.map_filter_def)

definition prepared :: "'m event list \<Rightarrow> 'm list" where
  "prepared tr = concat (map (\<lambda>ev. case ev of EvPrepared _ ms \<Rightarrow> somes ms | _ \<Rightarrow> []) tr)"

definition abort_requested :: "'m event list \<Rightarrow> 'm list" where
  "abort_requested tr = concat (map (\<lambda>ev. case ev of EvAbortRequest ms \<Rightarrow> somes ms | _ \<Rightarrow> []) tr)"

definition published :: "'m event list \<Rightarrow> 'm list" where
  "published tr = concat (map (\<lambda>ev. case ev of EvPublish ms \<Rightarrow> somes ms | _ \<Rightarrow> []) tr)"

definition quiet :: "'m event \<Rightarrow> bool" where
  "quiet ev = (case ev of EvPrepared _ _ \<Rightarrow> False | EvAbortRequest _ \<Rightarrow> False | EvPublish _ \<Rightarrow> False | _ \<Rightarrow> True)"

lemma views_Cons [simp]:
  "prepared (EvPrepared h ms # tr) = somes ms @ prepared tr"
  "prepared (EvAbortRequest ms # tr) = prepared tr"
  "prepared (EvPublish ms # tr) = prepared tr"
  "abort_requested (EvPrepared h ms # tr) = abort_requested tr"
  "abort_requested (EvAbortRequest ms # tr) = somes ms @ abort_requested tr"
  "abort_requested (EvPublish ms # tr) = abort_requested tr"
  "published (EvPrepared h ms # tr) = published tr"
  "published (EvAbortRequest ms # tr) = published tr"
  "published (EvPublish ms # tr) = somes ms @ published tr"
  by (simp_all add: prepared_def abort_requested_def published_def)

lemma views_quiet:
  assumes "list_all quiet evs"
  shows "prepared (evs @ tr) = prepared tr" "abort_requested (evs @ tr) = abort_requested tr"
    "published (evs @ tr) = published tr"
  using assms by (induction evs)
    (auto simp: prepared_def abort_requested_def published_def quiet_def split: event.splits)

lemma views_quiet1 [simp]:
  assumes "quiet ev"
  shows "prepared (ev # tr) = prepared tr" "abort_requested (ev # tr) = abort_requested tr"
    "published (ev # tr) = published tr"
  using views_quiet [of "[ev]" tr] assms by simp_all

lemma quiet_simps [simp]:
  "quiet EvLock" "quiet EvUnlock" "quiet (EvRead x)" "quiet (EvOpenWriter wc)" "quiet (EvWrite h b)"
  "quiet (EvPrepare h)" "quiet (EvClose h)" "quiet (EvOpenCommitter cc)" "quiet (EvAbort c ms)"
  "quiet (EvCommit c cs)" "quiet (EvNativeCommit c ms)"
  by (simp_all add: quiet_def)

text \<open>The quantities the ownership invariant speaks about.\<close>

definition own_view :: "('w, 'm) worker \<Rightarrow> 'm list \<times> 'm list \<times> 'm list \<times> 'm option list \<times> bool" where
  "own_view s = (prepared (sys_trace s), published (sys_trace s), abort_requested (sys_trace s),
     g_messages (wk_global s), g_finalized (wk_global s))"

lemma emits_writes [emits_intros]:
  assumes "\<And>x. P (EvRead x)" "\<And>h b. P (EvWrite h b)"
  shows "emits P (WritePaimonChunk E h chunk part)" and "emits P (write_groups E h part_keys input groups)"
proof -
  show w: "emits P (WritePaimonChunk E h chunk part)" for chunk part
    unfolding WritePaimonChunk_def Let_def by (intro emits_intros assms)
  show "emits P (write_groups E h part_keys input groups)"
  proof (induction groups)
    case (Cons g groups)
    then show ?case
      by (cases g) (simp only: write_groups.simps, intro emits_intros w)
  qed (simp only: write_groups.simps emits_pure)
qed

lemma own_view_quiet:
  assumes "emits quiet m" "keeps (\<lambda>s. (g_messages (wk_global s), g_finalized (wk_global s))) m" "m s = (r, t)"
  shows "own_view t = own_view s"
proof -
  obtain evs where "sys_trace t = evs @ sys_trace s" "list_all quiet evs" by (rule emitsE [OF assms(1,3)])
  then show ?thesis
    using keepsD [OF assms(2,3)] by (simp add: own_view_def views_quiet)
qed

lemma BestEffortAbortMessages_trace:
  assumes "BestEffortAbortMessages E tp os u ms s = (r, t)"
  shows "\<exists>evs. list_all quiet evs \<and>
    sys_trace t = evs @ (if ms = [] then [] else [EvAbortRequest ms]) @ sys_trace s"
proof (cases "ms = []")
  case True
  then show ?thesis
    using assms by (auto simp: BestEffortAbortMessages_def AbortMessages_def swallowP_def)
next
  case False
  let ?rest = "bindP (CreateCommitter E tp os u False) (\<lambda>c. call_io (EvAbort c ms) (Committer_Abort E c ms))"
  have em: "emits quiet ?rest"
    unfolding CreateCommitter_def Let_def by (intro emits_intros quiet_simps)
  obtain r' where run: "?rest (s\<lparr>sys_trace := EvAbortRequest ms # sys_trace s\<rparr>) = (r', t)"
    using assms False
    by (cases "?rest (s\<lparr>sys_trace := EvAbortRequest ms # sys_trace s\<rparr>)")
      (simp add: BestEffortAbortMessages_def AbortMessages_def swallowP_def)
  obtain evs where "list_all quiet evs" "sys_trace t = evs @ EvAbortRequest ms # sys_trace s"
    using emitsE [OF em run] by auto
  then show ?thesis
    using False by auto
qed

lemma global_abort_view:
  assumes "global_abort E ms s = (r, t)" and "own_view s = (P, U, R, M, f)"
  shows "own_view t = (P, U, somes ms @ R, M, f)"
proof -
  obtain evs where "list_all quiet evs"
    "sys_trace t = evs @ (if ms = [] then [] else [EvAbortRequest ms]) @ sys_trace s"
    using assms(1) BestEffortAbortMessages_trace unfolding global_abort_def by (auto elim!: bindPE) blast
  moreover have "keeps wk_global (global_abort E ms)"
    by (intro keeps_intros) simp
  then have "wk_global t = wk_global s"
    using assms(1) by (rule keepsD)
  ultimately show ?thesis
    using assms(2) by (auto simp: own_view_def views_quiet)
qed

lemma own_view_update [simp]:
  "own_view (wk_locals_update g s) = own_view s"
  "own_view (s\<lparr>sys_world := w, sys_trace := tr\<rparr>) = own_view (s\<lparr>sys_trace := tr\<rparr>)"
  "quiet ev \<Longrightarrow> own_view (s\<lparr>sys_trace := ev # sys_trace s\<rparr>) = own_view s"
  "own_view (s\<lparr>sys_trace := EvPrepared h ms # sys_trace s\<rparr>) =
     (let (P, U, R, M, f) = own_view s in (somes ms @ P, U, R, M, f))"
  by (simp_all add: own_view_def)

lemma call_own_view:
  assumes "call ev f s = (Inr x, t)" and "quiet ev"
  shows "own_view t = own_view s"
  using assms by (auto simp: call_def split: prod.splits)

lemma call_no_throw: "call ev f s = (Inl e, t) \<longleftrightarrow> False"
  by (auto simp: call_def split: prod.splits)

lemma emits_quiet_init: "emits quiet (PaimonDistributedInsertInitializeLocal E task i)"
  unfolding PaimonDistributedInsertInitializeLocal_def Let_def
  by (intro emits_intros quiet_simps) simp_all

lemma emits_quiet_sink: "emits quiet (PaimonDistributedInsertSink E task i chunk)"
  unfolding PaimonDistributedInsertSink_def add_local_rows_def
  by (intro emits_intros quiet_simps) simp_all

lemma init_sink_view:
  assumes "op = OpInit i \<or> op = OpSink i chunk" and "run_op E task op s = (r, t)"
  shows "own_view t = own_view s"
proof (rule own_view_quiet [where m = "run_op E task op" and s = s and r = r])
  show "emits quiet (run_op E task op)"
    using assms(1) emits_quiet_init emits_quiet_sink
    by (auto simp: run_op_def intro!: emits_bindP emits_pure)
  show "keeps (\<lambda>s. (g_messages (wk_global s), g_finalized (wk_global s))) (run_op E task op)"
    using assms(1) unfolding run_op_def
    by (auto simp only: worker_op.case worker_ops_defs Let_def) (intro keeps_intros; simp)+
qed (fact assms(2))

lemma combine_messages_view:
  assumes "combine_messages E i ms s = (r, t)" and "own_view s = (P, U, R, M, f)"
  shows "None \<notin> set ms \<and> own_view t = (P, U, R, M @ ms, f) \<or> own_view t = (P, U, somes ms @ R, M, f)"
proof -
  have merge: "own_view u = (P, U, R, M @ ms, f)" if "merge_local E i ms s = (Inr (), u)" for u
    using that assms(2)
    by (auto simp: merge_local_def Let_def own_view_def throwP_def elim!: bindPE split: if_splits)
  have fail: "u = s" if "merge_local E i ms s = (Inl e, u)" for e u
    using that by (auto simp: merge_local_def Let_def bindP_Inl split: if_splits)
  consider (empty) "ms = []" | (null) "None \<in> set ms" | (all) "ms \<noteq> []" "None \<notin> set ms"
    by auto
  then show ?thesis
  proof cases
    case null
    then obtain u r' where "global_abort E (filter (\<lambda>m. m \<noteq> None) ms) s = (r', u)" "t = u"
      using assms(1) by (auto simp: combine_messages_def bindP_def split: prod.splits sum.splits if_splits)
    then show ?thesis
      using global_abort_view [OF _ assms(2)] by (metis somes_simps(5))
  next
    case all
    have abort: "own_view (snd (global_abort E ms s)) = (P, U, somes ms @ R, M, f)"
      using global_abort_view [OF _ assms(2)] by (metis prod.collapse)
    show ?thesis
      using assms merge fail abort all
      by (cases "merge_local E i ms s"; cases "fst (merge_local E i ms s)")
        (auto simp: combine_messages_def rethrowP_def)
  qed (use assms in \<open>auto simp: combine_messages_def\<close>)
qed

text \<open>How one callback moves messages.\<close>

inductive own_step :: "'m list \<times> 'm list \<times> 'm list \<times> 'm option list \<times> bool \<Rightarrow>
    'm list \<times> 'm list \<times> 'm list \<times> 'm option list \<times> bool \<Rightarrow> bool" where
  own_idle: "own_step v v"
| own_adopt: "None \<notin> set ms \<Longrightarrow> own_step (P, U, R, M, f) (somes ms @ P, U, R, M @ ms, f)"
| own_drop: "own_step (P, U, R, M, f) (somes ms @ P, U, somes ms @ R, M, f)"
| own_close: "own_step (P, U, R, M, False) (P, U, R, M, True)"
| own_abort: "own_step (P, U, R, M, False) (P, U, somes M @ R, M, True)"
| own_publish: "own_step (P, U, R, M, False) (P, somes M @ U, R, [], True)"

lemma combine_view:
  assumes "PaimonDistributedInsertCombine E task i s = (r, t)"
  shows "own_step (own_view s) (own_view t)"
proof -
  obtain P U R M f where v: "own_view s = (P, U, R, M, f)" by (metis prod_cases5)
  note parts = v [unfolded own_view_def prod.inject]
  have drop: "own_step (P, U, R, M, f) (own_view u')"
    if "global_abort E ms u = (x, u')" "own_view u = (somes ms @ P, U, R, M, f)" for ms u u' x
    using global_abort_view [OF that] own_drop by metis
  have keep: "own_step (P, U, R, M, f) (own_view u')"
    if "combine_messages E i ms u = (x, u')" "own_view u = (somes ms @ P, U, R, M, f)" for ms u u' x
    using combine_messages_view [OF that] own_drop own_adopt by metis
  have idle: "own_view u = (P, U, R, M, f) \<Longrightarrow> own_step (P, U, R, M, f) (own_view u)" for u
    by (simp add: own_idle)
  have view: "own_view u = (prepared (sys_trace u), published (sys_trace u), abort_requested (sys_trace u),
      g_messages (wk_global u), g_finalized (wk_global u))" for u :: "('a, 'b) worker"
    by (simp add: own_view_def)
  show ?thesis
    unfolding v using assms
    by (auto simp: PaimonDistributedInsertCombine_def reset_writer_def call_def bindP_def value_or_io_def
        intro!: idle elim!: drop keep split: option.splits sum.splits prod.splits if_splits)
      (use parts in \<open>auto simp: view\<close>)
qed

lemma finalize_view:
  assumes "PaimonDistributedInsertFinalize E task s = (r, t)"
  shows "own_step (own_view s) (own_view t)"
proof -
  obtain P U R M f where v: "own_view s = (P, U, R, M, f)" by (metis prod_cases5)
  note parts = v [unfolded own_view_def prod.inject]
  let ?s' = "wk_global_update (g_finalized_update (\<lambda>_. True)) s"
  have fin: "own_view ?s' = (P, U, R, M, True)"
    using parts by (simp add: own_view_def)
  then have abort: "own_view (snd (global_abort E M ?s')) = (P, U, somes M @ R, M, True)"
    using global_abort_view by (metis prod.collapse)
  consider (refused) "t = s" | (closed) "\<not> f" "t = ?s'" | (failed) "\<not> f" "t = snd (global_abort E M ?s')"
    | (handed) "\<not> f" "own_view t = (P, somes M @ U, R, [], True)"
  proof (cases "is_ok (ValidateTask E (wk_global s) task) \<and> \<not> f")
    case False
    then have "t = s"
      using assms parts
      by (cases "ValidateTask E (wk_global s) task") (auto simp: PaimonDistributedInsertFinalize_def bindP_def)
    then show ?thesis by (rule that(1))
  next
    case True
    then have ok: "ValidateTask E (wk_global s) task = Inr ()"
      by (cases "ValidateTask E (wk_global s) task") auto
    show ?thesis
    proof (cases "SerializeList E M")
      case (Inl st)
      then have "t = ?s' \<or> t = snd (global_abort E M ?s')"
        using assms parts ok True
        by (auto simp: PaimonDistributedInsertFinalize_def bindP_def split: if_splits prod.splits sum.splits)
      then show ?thesis using that(2,3) True by blast
    next
      case (Inr bytes)
      then have "t = ?s' \<or> own_view t = (P, somes M @ U, R, [], True)"
        using assms parts ok True
        by (cases "SerializeTransport E (g_transport (wk_global s))")
          (auto simp: PaimonDistributedInsertFinalize_def bindP_def Let_def own_view_def split: if_splits)
      then show ?thesis using that(2,4) True by blast
    qed
  qed
  then show ?thesis
    using v abort fin by cases (auto intro: own_step.intros)
qed

lemma run_op_view: "run_op E task op s = (r, t) \<Longrightarrow> own_step (own_view s) (own_view t)"
proof (cases op)
  case (OpCombine i)
  then show "run_op E task op s = (r, t) \<Longrightarrow> ?thesis"
    using combine_view by (fastforce simp: run_op_def bindP_def split: prod.splits sum.splits)
next
  case OpFinalize
  then show "run_op E task op s = (r, t) \<Longrightarrow> ?thesis"
    by (simp add: run_op_def finalize_view)
qed (metis init_sink_view own_idle)+

definition own_inv :: "'m list \<times> 'm list \<times> 'm list \<times> 'm option list \<times> bool \<Rightarrow> bool" where
  "own_inv v = (case v of (P, U, R, M, f) \<Rightarrow> distinct P \<longrightarrow>
     distinct (somes M @ U) \<and> set (somes M @ U) \<subseteq> set P \<and> set P \<subseteq> set (somes M @ U @ R) \<and>
     set R \<subseteq> set P \<and> set R \<inter> set U = {} \<and> (\<not> f \<longrightarrow> set R \<inter> set (somes M) = {} \<and> U = []))"

lemma own_inv_step: "own_step v v' \<Longrightarrow> own_inv v \<Longrightarrow> own_inv v'"
  by (induction rule: own_step.induct) (auto simp: own_inv_def)

lemma own_inv_start: "worker_start E info task s0 \<Longrightarrow> own_inv (own_view s0)"
  using InitializeGlobal_fields [of E info task]
  by (auto simp: worker_start_def own_inv_def own_view_def prepared_def published_def abort_requested_def)

lemma own_inv_reach:
  assumes "worker_reach E task s0 ops s" "worker_start E info task s0"
  shows "own_inv (own_view s)"
  using assms by (induction rule: worker_reach.induct) (auto intro: own_inv_start own_inv_step run_op_view)

lemma frozen_reach: "worker_reach E task s0 ops s \<Longrightarrow> frozen s = frozen s0"
  by (induction rule: worker_reach.induct) (auto dest: keepsD [OF keeps_frozen])

lemma worker_wf_reach:
  assumes "worker_start E info task s0" "worker_reach E task s0 ops s"
  shows "worker_wf (wk_global s)"
  using InitializeGlobal_fields(1) [of E info task "wk_global s0"] frozen_reach [OF assms(2)] assms(1)
  by (simp add: worker_start_def worker_wf_def frozen_def Let_def)

text \<open>The batches a sink writes for a chunk.\<close>

definition sink_batches :: "'m PaimonDistributedInsertGlobalState \<Rightarrow> DataChunk \<Rightarrow> RecordBatch list" where
  "sink_batches g input = (if g_part_col_idxs g = [] then [batch_of input []]
     else map (\<lambda>(key, rows). batch_of (slice_chunk input rows) (partition_map (tp_part_keys (g_transport g)) key))
       (group_rows (partition_key (tp_null_part_name (g_transport g)) (g_part_col_idxs g)) (dc_rows input)))"

lemma sink_writes_ok:
  assumes "(if g_part_col_idxs g = [] then WritePaimonChunk E h input []
     else write_groups E h (tp_part_keys (g_transport g)) input
       (group_rows (partition_key (tp_null_part_name (g_transport g)) (g_part_col_idxs g)) (dc_rows input))) s
     = (Inr x, u)"
  shows "batches (sys_trace u) = batches (sys_trace s) @ map (Pair h) (sink_batches g input)"
    and "wk_global u = wk_global s" and "wk_locals u = wk_locals s"
proof -
  show "batches (sys_trace u) = batches (sys_trace s) @ map (Pair h) (sink_batches g input)"
    using assms by (auto simp: sink_batches_def dest!: WritePaimonChunk_ok write_groups_ok split: if_splits)
  have "keeps (\<lambda>s. (wk_global s, wk_locals s)) (WritePaimonChunk E h input [])"
    "keeps (\<lambda>s. (wk_global s, wk_locals s)) (write_groups E h pk input gs)" for pk gs
    by (intro keeps_intros; simp)+
  then show "wk_global u = wk_global s" "wk_locals u = wk_locals s"
    using assms keepsD by (fastforce split: if_splits)+
qed

lemma Sink_ok:
  assumes "PaimonDistributedInsertSink E task i input s = (Inr x, t)"
  shows "\<exists>h n. l_writer (wk_locals s i) = Some h \<and>
    batches (sys_trace t) = batches (sys_trace s) @ map (Pair h) (sink_batches (wk_global s) input) \<and>
    CheckedAdd (l_row_count (wk_locals s i)) (of_nat (length (dc_rows input))) = Inr n \<and>
    wk_global t = wk_global s \<and> wk_locals t = (wk_locals s)(i := (wk_locals s i)\<lparr>l_row_count := n\<rparr>)"
proof -
  let ?g = "wk_global s"
  let ?w = "\<lambda>h. if g_part_col_idxs ?g = [] then WritePaimonChunk E h input []
         else write_groups E h (tp_part_keys (g_transport ?g)) input
           (group_rows (partition_key (tp_null_part_name (g_transport ?g)) (g_part_col_idxs ?g)) (dc_rows input))"
  obtain h where h: "l_writer (wk_locals s i) = Some h"
    and run: "bindP (?w h) (\<lambda>_. add_local_rows i input) s = (Inr x, t)"
    using assms by (auto simp: PaimonDistributedInsertSink_def split: option.splits if_splits elim!: bindPE)
  from run obtain u y where w: "?w h s = (Inr y, u)" and add: "add_local_rows i input u = (Inr x, t)"
    by (rule bindPE)
  note same = sink_writes_ok [OF w]
  from add obtain n where "CheckedAdd (l_row_count (wk_locals s i)) (of_nat (length (dc_rows input))) = Inr n"
    and "t = wk_locals_update (\<lambda>L. L(i := (L i)\<lparr>l_row_count := n\<rparr>)) u"
    by (auto simp: add_local_rows_def same elim!: bindPE)
  then show ?thesis
    using h same by auto
qed

lemma sink_batches_rows:
  "mset (concat (map (\<lambda>b. dc_rows (rb_chunk b)) (sink_batches g input))) = mset (dc_rows input)"
  using mset_group_rows [of "dc_rows input"
      "partition_key (tp_null_part_name (g_transport g)) (g_part_col_idxs g)"]
  by (simp add: sink_batches_def batch_of_def slice_chunk_def comp_def case_prod_beta')

lemma worker_wf_no_keys: "worker_wf g \<Longrightarrow> g_part_col_idxs g = [] \<longleftrightarrow> tp_part_keys (g_transport g) = []"
  by (auto simp: worker_wf_def part_col_indexes_Inr)

lemma sink_batches_partition:
  assumes "worker_wf g" and "b \<in> set (sink_batches g input)" and "row \<in> set (dc_rows (rb_chunk b))"
    and "k \<in> set (tp_part_keys (g_transport g))"
  shows "map_of (rb_partition b) k = Some (part_value (g_transport g) k row)"
proof -
  let ?t = "g_transport g"
  let ?key = "partition_key (tp_null_part_name ?t) (g_part_col_idxs g)"
  have "g_part_col_idxs g \<noteq> []" using assms(4) worker_wf_no_keys [OF assms(1)] by auto
  then obtain key rs where g: "(key, rs) \<in> set (group_rows ?key (dc_rows input))"
    and b: "b = batch_of (slice_chunk input rs) (partition_map (tp_part_keys ?t) key)"
    using assms(2) by (auto simp: sink_batches_def)
  then have "?key row = key"
    using assms(3) group_rows_member(1) [OF g] by (auto simp: batch_of_def slice_chunk_def)
  then have "rb_partition b = partition_map (tp_part_keys ?t) (map (\<lambda>k. part_value ?t k row) (tp_part_keys ?t))"
    using b by (simp add: batch_of_def partition_key_wf [OF assms(1)])
  then show ?thesis
    using assms(1,4) by (simp add: worker_wf_def map_of_partition_map map_of_zip_map)
qed

lemma sink_batches_distinct:
  assumes "worker_wf g"
  shows "distinct (map rb_partition (sink_batches g input))"
proof (cases "g_part_col_idxs g = []")
  case False
  let ?ks = "tp_part_keys (g_transport g)"
  let ?key = "partition_key (tp_null_part_name (g_transport g)) (g_part_col_idxs g)"
  let ?groups = "group_rows ?key (dc_rows input)"
  have len: "length q = length ?ks" if q: "q \<in> fst ` set ?groups" for q
  proof -
    obtain rs where rs: "(q, rs) \<in> set ?groups" using q by auto
    then obtain r where "?key (dc_rows input ! r) = q"
      using group_rows_member [OF rs] by (auto simp: filter_empty_conv)
    then show ?thesis by (auto simp: partition_key_wf [OF assms])
  qed
  have "distinct ?ks" using assms by (simp add: worker_wf_def)
  then have "inj_on (partition_map ?ks) (fst ` set ?groups)"
    by (intro inj_onI) (rule partition_map_inject, simp_all only: len)
  moreover have "distinct (map fst ?groups)"
    unfolding group_rows_put_row by (intro omap_wf_distinct omap_wf_fold_put_row) simp
  ultimately have "distinct (map (partition_map ?ks) (map fst ?groups))"
    by (simp only: distinct_map set_map)
  moreover have "map rb_partition (sink_batches g input) = map (partition_map ?ks) (map fst ?groups)"
    using False by (simp add: sink_batches_def batch_of_def case_prod_beta')
  ultimately show ?thesis by simp
qed (simp add: sink_batches_def)

section \<open>Row counts\<close>

lemma Init_ok:
  assumes "PaimonDistributedInsertInitializeLocal E task i s = (Inr x, t)"
  shows "wk_locals t = (wk_locals s)(i := wk_locals t i)" and "l_row_count (wk_locals t i) = 0"
    and "wk_global t = (wk_global s)\<lparr>g_next_write_id := g_next_write_id (wk_global s) + 1\<rparr>"
  using assms
  by (auto simp: PaimonDistributedInsertInitializeLocal_def Let_def call_io_def call_def value_or_io_def
      elim!: bindPE split: if_splits prod.splits sum.splits)

lemma merge_local_ok:
  assumes "merge_local E i ms s = (Inr x, t)"
  shows "unat (g_row_count (wk_global t)) = unat (g_row_count (wk_global s)) + unat (l_row_count (wk_locals s i))"
    and "wk_locals t = wk_locals s"
  using assms by (auto simp: merge_local_def Let_def unat_CheckedAdd elim!: bindPE split: if_splits)

lemma combine_messages_ok:
  "combine_messages E i ms s = (Inr x, t) \<Longrightarrow> merge_local E i ms s = (Inr x, t)"
  by (auto simp: combine_messages_def rethrowP_Inr elim!: bindPE split: if_splits)

lemma Combine_ok:
  assumes "PaimonDistributedInsertCombine E task i s = (Inr x, t)"
  shows "l_writer (wk_locals s i) \<noteq> None"
    and "wk_locals t = (wk_locals s)(i := (wk_locals s i)\<lparr>l_writer := None\<rparr>)"
    and "unat (g_row_count (wk_global t)) = unat (g_row_count (wk_global s)) + unat (l_row_count (wk_locals s i))"
  using assms
  by (auto simp: PaimonDistributedInsertCombine_def reset_writer_def call_def value_or_io_def
      dest!: combine_messages_ok elim!: bindPE split: option.splits if_splits sum.splits prod.splits)
    (fastforce dest: merge_local_ok)+

lemma Finalize_ok:
  assumes "PaimonDistributedInsertFinalize E task s = (Inr frs, t)"
  shows "wk_locals t = wk_locals s" and "g_row_count (wk_global t) = g_row_count (wk_global s)"
    and "(\<Sum>fr \<leftarrow> frs. unat (fr_row_count fr)) = unat (g_row_count (wk_global s))"
  using assms
  by (auto simp: PaimonDistributedInsertFinalize_def Let_def worker_fragment_def bindP_def
      split: if_splits sum.splits prod.splits)

text \<open>A run without exceptions; each thread is initialised once and a chunk is smaller than \<open>2 ^ 64\<close>.\<close>

inductive worker_ok_run :: "('w, 'm, 'd) env \<Rightarrow> DistributedWriteTaskContext \<Rightarrow> ('w, 'm) worker \<Rightarrow>
    worker_op list \<Rightarrow> ('w, 'm) worker \<Rightarrow> bool" for E task s0 where
  ok_start: "worker_ok_run E task s0 [] s0"
| ok_step: "worker_ok_run E task s0 ops s \<Longrightarrow> run_op E task op s = (Inr frs, t) \<Longrightarrow>
    (\<And>i. op = OpInit i \<Longrightarrow> OpInit i \<notin> set ops) \<Longrightarrow>
    (\<And>i c. op = OpSink i c \<Longrightarrow> length (dc_rows c) < 2 ^ 64) \<Longrightarrow>
    worker_ok_run E task s0 (ops @ [op]) t"

definition sunk_rows :: "worker_op list \<Rightarrow> nat" where
  "sunk_rows ops = (\<Sum>op \<leftarrow> ops. case op of OpSink _ c \<Rightarrow> length (dc_rows c) | _ \<Rightarrow> 0)"

definition local_rows :: "PaimonDistributedInsertLocalState \<Rightarrow> nat" where
  "local_rows l = (if l_writer l = None then 0 else unat (l_row_count l))"

definition open_rows :: "worker_op list \<Rightarrow> ('w, 'm) worker \<Rightarrow> nat" where
  "open_rows ops s = (\<Sum>i \<in> {i. OpInit i \<in> set ops}. local_rows (wk_locals s i))"

lemma finite_inits [simp]: "finite {i. OpInit i \<in> set ops}"
proof -
  have "{i. OpInit i \<in> set ops} \<subseteq> (\<lambda>op. case op of OpInit i \<Rightarrow> i | _ \<Rightarrow> 0) ` set ops"
    by (force intro: rev_image_eqI)
  then show ?thesis by (rule finite_subset) simp
qed

lemma open_rows_upd:
  fixes s t :: "('w, 'm) worker"
  assumes "wk_locals t = (wk_locals s)(j := l)" "OpInit j \<in> set ops"
  shows "open_rows ops t + local_rows (wk_locals s j) = open_rows ops s + local_rows l"
  using sum_upd [of "{i. OpInit i \<in> set ops}" j "\<lambda>i. local_rows (wk_locals t i)" "\<lambda>i. local_rows (wk_locals s i)"] assms
  by (simp add: open_rows_def)

lemma open_rows_init:
  assumes "OpInit j \<notin> set ops" "wk_locals t = (wk_locals s)(j := l)" "l_row_count l = 0"
  shows "open_rows (ops @ [OpInit j]) t = open_rows ops s"
proof -
  have "{i. OpInit i \<in> set (ops @ [OpInit j])} = insert j {i. OpInit i \<in> set ops}" by auto
  moreover have "(\<Sum>i \<in> {i. OpInit i \<in> set ops}. local_rows (wk_locals t i)) = open_rows ops s"
    using assms(1,2) unfolding open_rows_def by (intro sum.cong) auto
  ultimately show ?thesis
    using assms by (simp add: open_rows_def local_rows_def)
qed

lemma open_rows_snoc: "(\<And>i. op \<noteq> OpInit i) \<Longrightarrow> open_rows (ops @ [op]) s = open_rows ops s"
  unfolding open_rows_def by (intro sum.cong) auto

lemma sunk_rows_snoc [simp]:
  "sunk_rows (ops @ [op]) = sunk_rows ops + (case op of OpSink _ c \<Rightarrow> length (dc_rows c) | _ \<Rightarrow> 0)"
  by (simp add: sunk_rows_def)

definition rows_inv :: "worker_op list \<Rightarrow> ('w, 'm) worker \<Rightarrow> bool" where
  "rows_inv ops s \<longleftrightarrow> unat (g_row_count (wk_global s)) + open_rows ops s = sunk_rows ops \<and>
     (\<forall>i. l_writer (wk_locals s i) \<noteq> None \<longrightarrow> OpInit i \<in> set ops)"

lemma rows_inv_step:
  assumes inv: "rows_inv ops s" and run: "run_op E task op s = (Inr frs, t)"
    and fresh: "\<And>i. op = OpInit i \<Longrightarrow> OpInit i \<notin> set ops"
    and small: "\<And>i c. op = OpSink i c \<Longrightarrow> length (dc_rows c) < 2 ^ 64"
  shows "rows_inv (ops @ [op]) t"
proof (cases op)
  case (OpInit i)
  then obtain x where init: "PaimonDistributedInsertInitializeLocal E task i s = (Inr x, t)"
    using run by (auto simp: run_op_def elim!: bindPE)
  have "l_writer (wk_locals t j) \<noteq> None \<longrightarrow> j = i \<or> OpInit j \<in> set ops" for j
    using inv Init_ok(1) [OF init] unfolding rows_inv_def by (metis fun_upd_other)
  then show ?thesis
    using inv Init_ok [OF init] open_rows_init [OF fresh [OF OpInit] Init_ok(1,2) [OF init]] OpInit
    by (auto simp: rows_inv_def)
next
  case (OpSink i c)
  then obtain x where sink: "PaimonDistributedInsertSink E task i c s = (Inr x, t)"
    using run by (auto simp: run_op_def elim!: bindPE)
  then obtain h n where ok: "l_writer (wk_locals s i) = Some h" "wk_global t = wk_global s"
      "wk_locals t = (wk_locals s)(i := (wk_locals s i)\<lparr>l_row_count := n\<rparr>)"
    and n: "CheckedAdd (l_row_count (wk_locals s i)) (of_nat (length (dc_rows c))) = Inr n"
    using Sink_ok [OF sink] by blast
  then show ?thesis
    using inv open_rows_upd [OF ok(3), of ops] unat_CheckedAdd [OF n] small [OF OpSink] OpSink
    by (auto simp: rows_inv_def open_rows_snoc local_rows_def unat_of_nat)
next
  case (OpCombine i)
  then obtain x where comb: "PaimonDistributedInsertCombine E task i s = (Inr x, t)"
    using run by (auto simp: run_op_def elim!: bindPE)
  then show ?thesis
    using inv Combine_ok [OF comb] open_rows_upd [OF Combine_ok(2) [OF comb], of ops] OpCombine
    by (auto simp: rows_inv_def open_rows_snoc local_rows_def)
next
  case OpFinalize
  then have "PaimonDistributedInsertFinalize E task s = (Inr frs, t)"
    using run by (simp add: run_op_def)
  from Finalize_ok [OF this] show ?thesis
    using inv OpFinalize by (simp add: rows_inv_def open_rows_snoc open_rows_def)
qed

lemma rows_inv_run:
  assumes "worker_ok_run E task s0 ops s" "worker_start E info task s0"
  shows "rows_inv ops s"
  using assms
proof (induction rule: worker_ok_run.induct)
  case ok_start
  then show ?case
    using InitializeGlobal_fields(3) [of E info task "wk_global s0"]
    by (simp add: worker_start_def rows_inv_def open_rows_def sunk_rows_def blank_local_def)
qed (blast intro: rows_inv_step)

section \<open>Properties\<close>

definition demo_info :: DistributedExtensionWriteInfo where
  "demo_info = \<lparr>wi_mode = CALLBACK_SINK,
     wi_capability = \<lparr>cap_extension_name = ''paimon'', cap_name = ''insert'', cap_protocol_version = 3\<rparr>,
     wi_fragment_codec = \<lparr>codec_name = ''paimon.append-commit-fragment'', codec_version = 3\<rparr>,
     wi_worker_bind_data = demo_bytes (transport_items demo_transport)\<rparr>"

definition demo_task :: DistributedWriteTaskContext where
  "demo_task = \<lparr>tk_query_id = ''q'', tk_task_attempt_id = ''q.0.1.0''\<rparr>"

definition demo_options :: options where
  "demo_options = (case BuildRuntimeOptions demo_env demo_transport (Some demo_task) of Inr os \<Rightarrow> os | Inl _ \<Rightarrow> [])"

definition demo_worker :: "(nat, nat) worker" where
  "demo_worker = \<lparr>sys_world = 0, sys_trace = [],
     wk_global = \<lparr>g_transport = demo_transport,
       g_options = demo_options, g_query_id = ''q'', g_task_attempt_id = ''q.0.1.0'',
       g_writer_commit_user = WorkerCommitUser demo_env demo_transport demo_task, g_next_write_id = 0,
       g_messages = [], g_row_count = 0, g_part_col_idxs = [0], g_finalized = False\<rparr>,
     wk_locals = (\<lambda>_. blank_local)\<rparr>"

definition demo_value :: "string \<Rightarrow> Value" where
  "demo_value x = blank_value\<lparr>val_to_string := x\<rparr>"

definition demo_chunk :: DataChunk where
  "demo_chunk = \<lparr>dc_types = [demo_type, demo_type],
     dc_rows = [[demo_value ''b'', demo_value ''1''], [demo_value ''a'', demo_value ''2''],
                [demo_value ''b'', demo_value ''3'']]\<rparr>"

lemma demo_start: "worker_start demo_env demo_info demo_task demo_worker"
proof -
  have ser: "SerializeTransport demo_env demo_transport = Inr (demo_bytes (transport_items demo_transport))"
    using demo_transport_ok by (simp add: SerializeTransport_def)
  have "DeserializeTransport demo_env (wi_worker_bind_data demo_info) = Inr demo_transport"
    using DeserializeTransport_Serialize(2) [OF demo_serde_laws demo_transport_ok(2) ser] by (simp add: demo_info_def)
  moreover have "is_ok (BuildRuntimeOptions demo_env demo_transport (Some demo_task))"
    by (simp add: BuildRuntimeOptions_def GetPaimonOptions_def metastore_options_def format_option_def
        secret_options_def snapshot_options_def Let_def demo_ctx_def)
  then obtain os where "BuildRuntimeOptions demo_env demo_transport (Some demo_task) = Inr os"
    by (cases "BuildRuntimeOptions demo_env demo_transport (Some demo_task)") auto
  ultimately show ?thesis
    by (simp add: worker_start_def PaimonDistributedInsertInitializeGlobal_def demo_worker_def demo_info_def demo_options_def
        PAIMON_DISTRIBUTED_WRITE_FRAGMENT_CODEC_def PAIMON_DISTRIBUTED_WRITE_PROTOCOL_VERSION_def
        WriteOperatorName_def demo_transport_def PAIMON_DISTRIBUTED_INSERT_OPERATOR_def demo_task_def)
qed

text \<open>
  C13. A worker writes exactly the rows it is given, each into the partition its values name: after a
  successful sink the new batches hold the rows of the chunk, none lost and none twice; no two
  batches go to the same partition; every row of a batch has, in each partition column, the
  value (or the null partition name) the batch is written under; and the thread's row count
  grows by the size of the chunk.
\<close>

theorem Sink_partitions_rows:
  assumes "worker_start E info task s0" and "worker_reach E task s0 ops s"
    and "PaimonDistributedInsertSink E task i input s = (Inr (), t)" and "length (dc_rows input) < 2 ^ 64"
  shows "\<exists>h bs. batches (sys_trace t) = batches (sys_trace s) @ map (Pair h) bs \<and>
    mset (concat (map (\<lambda>b. dc_rows (rb_chunk b)) bs)) = mset (dc_rows input) \<and>
    distinct (map rb_partition bs) \<and>
    (\<forall>b \<in> set bs. \<forall>row \<in> set (dc_rows (rb_chunk b)). \<forall>k \<in> set (tp_part_keys (g_transport (wk_global s))).
       map_of (rb_partition b) k = Some (part_value (g_transport (wk_global s)) k row)) \<and>
    unat (l_row_count (wk_locals t i)) = unat (l_row_count (wk_locals s i)) + length (dc_rows input)"
proof -
  obtain h n where "batches (sys_trace t) = batches (sys_trace s) @ map (Pair h) (sink_batches (wk_global s) input)"
    and n: "CheckedAdd (l_row_count (wk_locals s i)) (of_nat (length (dc_rows input))) = Inr n"
    and "wk_locals t = (wk_locals s)(i := (wk_locals s i)\<lparr>l_row_count := n\<rparr>)"
    using Sink_ok [OF assms(3)] by blast
  moreover have "unat (of_nat (length (dc_rows input)) :: idx_t) = length (dc_rows input)"
    using assms(4) by (simp add: unat_of_nat)
  ultimately show ?thesis
    using sink_batches_rows [of "wk_global s" input] sink_batches_partition sink_batches_distinct
      worker_wf_reach [OF assms(1,2)] unat_CheckedAdd [OF n]
    by (intro exI [of _ h] exI [of _ "sink_batches (wk_global s) input"]) auto
qed

definition demo_opened :: "(nat, nat) worker" where
  "demo_opened = snd (run_op demo_env demo_task (OpInit 0) demo_worker)"

definition demo_sunk :: "(nat, nat) worker" where
  "demo_sunk = snd (run_op demo_env demo_task (OpSink 0 demo_chunk) demo_opened)"

lemma demo_ValidateTask: "ValidateTask demo_env (wk_global demo_worker) demo_task = Inr ()"
  using VaneLogicalTaskIdentity_attempt [OF demo_split_laws, of "''q''" "''0''" "''1''" "''0''"]
  by (simp add: ValidateTask_def demo_task_def demo_worker_def canonical_number_def attempt_id_def)

lemma ValidateTask_cong:
  "g_query_id g = g_query_id g' \<Longrightarrow> g_task_attempt_id g = g_task_attempt_id g' \<Longrightarrow>
   ValidateTask E g task = ValidateTask E g' task"
  by (simp add: ValidateTask_def)

lemma demo_opened_eq:
  "run_op demo_env demo_task (OpInit 0) demo_worker = (Inr [], demo_opened)"
  "wk_global demo_opened = (wk_global demo_worker)\<lparr>g_next_write_id := 1\<rparr>"
  "wk_locals demo_opened = (\<lambda>_. blank_local)(0 := \<lparr>l_writer = Some 0, l_row_count = 0\<rparr>)"
  "sys_world demo_opened = 1" "batches (sys_trace demo_opened) = []"
  "own_view demo_opened = ([], [], [], [], False)"
  using demo_ValidateTask
  by (simp_all add: demo_opened_def run_op_def PaimonDistributedInsertInitializeLocal_def Let_def call_io_def
      call_def value_or_io_def bindP_def demo_ok_def demo_fresh_def own_view_def prepared_def published_def
      abort_requested_def batches_def map_filter_simps)
    (simp_all add: demo_worker_def)

lemma demo_write_groups:
  "\<exists>u. write_groups demo_env h pk input groups s = (Inr (), u) \<and> wk_locals u = wk_locals (s :: (nat, nat) worker)"
proof (induction groups arbitrary: s)
  case (Cons g groups)
  have "\<exists>u. WritePaimonChunk demo_env h c part s = (Inr (), u) \<and> wk_locals u = wk_locals (s :: (nat, nat) worker)"
    for c part s
    by (simp add: WritePaimonChunk_def Let_def call_io_def call_def value_or_io_def bindP_def demo_ok_def)
  with Cons show ?case by (cases g) (simp, metis bindP_Inr_eq)
qed simp

lemma demo_Sink: "fst (PaimonDistributedInsertSink demo_env demo_task 0 demo_chunk demo_opened) = Inr ()"
proof -
  have "ValidateTask demo_env (wk_global demo_opened) demo_task = Inr ()"
    using demo_ValidateTask ValidateTask_cong [of "wk_global demo_opened" "wk_global demo_worker" demo_env demo_task]
    by (simp add: demo_opened_eq)
  moreover obtain u where "write_groups demo_env 0 [''p''] demo_chunk
      (group_rows (partition_key ''null'' [0]) (dc_rows demo_chunk)) demo_opened = (Inr (), u)"
    "wk_locals u = wk_locals demo_opened"
    using demo_write_groups by blast
  moreover have "CheckedAdd 0 3 = Inr 3" "length (dc_rows demo_chunk) = 3" "dc_types demo_chunk = [demo_type, demo_type]"
    by (simp_all add: CheckedAdd_Inr demo_chunk_def)
  ultimately show ?thesis
    by (simp add: PaimonDistributedInsertSink_def add_local_rows_def demo_opened_eq demo_worker_def demo_transport_def)
qed

lemma demo_sunk_eq:
  "PaimonDistributedInsertSink demo_env demo_task 0 demo_chunk demo_opened = (Inr (), demo_sunk)"
  "run_op demo_env demo_task (OpSink 0 demo_chunk) demo_opened = (Inr [], demo_sunk)"
  using demo_Sink
  by (auto simp: demo_sunk_def run_op_def bindP_def split: prod.splits sum.splits)

lemma demo_reach:
  "worker_reach demo_env demo_task demo_worker [OpInit 0] demo_opened"
  "worker_reach demo_env demo_task demo_worker [OpInit 0, OpSink 0 demo_chunk] demo_sunk"
  using reach_step [OF reach_start demo_opened_eq(1)] reach_step [OF reach_step [OF reach_start demo_opened_eq(1)] demo_sunk_eq(2)]
  by simp_all

theorem Sink_partitions_rows_witness:
  "\<exists>h bs. batches (sys_trace demo_sunk) = batches (sys_trace demo_opened) @ map (Pair h) bs \<and>
    mset (concat (map (\<lambda>b. dc_rows (rb_chunk b)) bs)) = mset (dc_rows demo_chunk) \<and>
    distinct (map rb_partition bs) \<and>
    (\<forall>b \<in> set bs. \<forall>row \<in> set (dc_rows (rb_chunk b)). \<forall>k \<in> set (tp_part_keys (g_transport (wk_global demo_opened))).
       map_of (rb_partition b) k = Some (part_value (g_transport (wk_global demo_opened)) k row)) \<and>
    unat (l_row_count (wk_locals demo_sunk 0)) = unat (l_row_count (wk_locals demo_opened 0)) + length (dc_rows demo_chunk)"
  by (rule Sink_partitions_rows [OF demo_start demo_reach(1) demo_sunk_eq(1)]) (simp add: demo_chunk_def)

text \<open>
  C6. A worker neither leaks nor double-spends a commit message: after any sequence of callbacks, in
  any interleaving and with any failures, and the destruction of the global state, every message
  a writer prepared was either handed out in a fragment or asked to be aborted, never both, and
  none was handed out twice (the messages writers prepare being distinct).
\<close>

theorem worker_messages_accounted:
  assumes "worker_start E info task s0" and "worker_reach E task s0 ops s"
    and "destroy_global E s = (r, t)" and "distinct (prepared (sys_trace t))"
  shows "set (prepared (sys_trace t)) = set (published (sys_trace t)) \<union> set (abort_requested (sys_trace t)) \<and>
    set (published (sys_trace t)) \<inter> set (abort_requested (sys_trace t)) = {} \<and>
    distinct (published (sys_trace t))"
proof -
  obtain P U R M f where v: "own_view s = (P, U, R, M, f)" by (metis prod_cases5)
  have "global_abort E M s = (r, t)"
    using assms(3) v by (simp add: destroy_global_def own_view_def)
  from global_abort_view [OF this v] have "own_view t = (P, U, somes M @ R, M, f)" .
  moreover have "own_inv (own_view s)"
    by (rule own_inv_reach [OF assms(2,1)])
  ultimately show ?thesis
    using v assms(4) by (auto simp: own_inv_def own_view_def)
qed

text \<open>The run of the witness: one thread, three rows, one message prepared and then dropped.\<close>

definition demo_combined :: "(nat, nat) worker" where
  "demo_combined = snd (run_op demo_env demo_task (OpCombine 0) demo_sunk)"

lemma demo_sunk_parts:
  "wk_global demo_sunk = (wk_global demo_worker)\<lparr>g_next_write_id := 1\<rparr>"
  "l_writer (wk_locals demo_sunk 0) = Some 0" "l_row_count (wk_locals demo_sunk 0) = 3"
  "own_view demo_sunk = ([], [], [], [], False)"
proof -
  show "wk_global demo_sunk = (wk_global demo_worker)\<lparr>g_next_write_id := 1\<rparr>"
    "l_writer (wk_locals demo_sunk 0) = Some 0" "l_row_count (wk_locals demo_sunk 0) = 3"
    using Sink_ok [OF demo_sunk_eq(1)] by (auto simp: demo_opened_eq demo_chunk_def CheckedAdd_Inr)
  show "own_view demo_sunk = ([], [], [], [], False)"
    using init_sink_view [of "OpSink 0 demo_chunk" 0 demo_chunk] demo_sunk_eq(2) demo_opened_eq(6) by metis
qed

lemma demo_combined_eq:
  "run_op demo_env demo_task (OpCombine 0) demo_sunk = (Inr [], demo_combined)"
  "own_view demo_combined = ([sys_world demo_sunk], [], [], [Some (sys_world demo_sunk)], False)"
  "wk_global demo_combined = (wk_global demo_worker)\<lparr>g_next_write_id := 1,
     g_messages := [Some (sys_world demo_sunk)], g_row_count := 3\<rparr>"
proof -
  have val: "ValidateTask demo_env (wk_global demo_sunk) demo_task = Inr ()"
    using demo_ValidateTask ValidateTask_cong [of "wk_global demo_sunk" "wk_global demo_worker" demo_env demo_task]
    by (simp add: demo_sunk_parts)
  have add: "CheckedAdd 0 3 = Inr 3"
    by (simp add: CheckedAdd_Inr)
  have g: "g_messages (wk_global demo_worker) = []" "g_row_count (wk_global demo_worker) = 0"
    by (simp_all add: demo_worker_def)
  have run: "\<exists>u. run_op demo_env demo_task (OpCombine 0) demo_sunk = (Inr [], u) \<and>
     own_view u = ([sys_world demo_sunk], [], [], [Some (sys_world demo_sunk)], False) \<and>
     wk_global u = (wk_global demo_worker)\<lparr>g_next_write_id := 1,
       g_messages := [Some (sys_world demo_sunk)], g_row_count := 3\<rparr>"
    using demo_sunk_parts val add g
    by (simp add: run_op_def PaimonDistributedInsertCombine_def call_def demo_fresh_def demo_ok_def bindP_def
        reset_writer_def combine_messages_def merge_local_def rethrowP_def own_view_def)
  then show "run_op demo_env demo_task (OpCombine 0) demo_sunk = (Inr [], demo_combined)"
    "own_view demo_combined = ([sys_world demo_sunk], [], [], [Some (sys_world demo_sunk)], False)"
    "wk_global demo_combined = (wk_global demo_worker)\<lparr>g_next_write_id := 1,
     g_messages := [Some (sys_world demo_sunk)], g_row_count := 3\<rparr>"
    by (auto simp: demo_combined_def)
qed

lemma demo_reach_combined:
  "worker_reach demo_env demo_task demo_worker [OpInit 0, OpSink 0 demo_chunk, OpCombine 0] demo_combined"
  using reach_step [OF demo_reach(2) demo_combined_eq(1)] by simp

definition demo_destroyed :: "(nat, nat) worker" where
  "demo_destroyed = snd (destroy_global demo_env demo_combined)"

theorem worker_messages_accounted_witness:
  "prepared (sys_trace demo_destroyed) \<noteq> [] \<and>
    set (prepared (sys_trace demo_destroyed)) =
      set (published (sys_trace demo_destroyed)) \<union> set (abort_requested (sys_trace demo_destroyed)) \<and>
    set (published (sys_trace demo_destroyed)) \<inter> set (abort_requested (sys_trace demo_destroyed)) = {} \<and>
    distinct (published (sys_trace demo_destroyed))"
proof -
  obtain r where d: "destroy_global demo_env demo_combined = (r, demo_destroyed)"
    by (metis demo_destroyed_def prod.collapse)
  then have "global_abort demo_env [Some (sys_world demo_sunk)] demo_combined = (r, demo_destroyed)"
    using demo_combined_eq(2) by (simp add: destroy_global_def own_view_def)
  from global_abort_view [OF this demo_combined_eq(2)]
  have "prepared (sys_trace demo_destroyed) = [sys_world demo_sunk]"
    by (simp add: own_view_def)
  then show ?thesis
    using worker_messages_accounted [OF demo_start demo_reach_combined d] by simp
qed

text \<open>
  C14. The row count a worker reports is the number of rows it was given: after a run without exceptions
  in which every thread has been combined, the fragments \<open>Finalize\<close> returns count exactly the rows
  of all chunks sunk by all threads.
\<close>

theorem worker_reports_rows:
  assumes "worker_start E info task s0" and "worker_ok_run E task s0 ops s"
    and "\<And>i. l_writer (wk_locals s i) = None"
    and "PaimonDistributedInsertFinalize E task s = (Inr frs, t)"
  shows "(\<Sum>fr \<leftarrow> frs. unat (fr_row_count fr)) = sunk_rows ops"
  using rows_inv_run [OF assms(2,1)] Finalize_ok(3) [OF assms(4)] assms(3)
  by (simp add: rows_inv_def open_rows_def local_rows_def)

definition demo_finished :: "(nat, nat) worker" where
  "demo_finished = snd (run_op demo_env demo_task OpFinalize demo_combined)"

definition demo_fragment :: DistributedWriteFragment where
  "demo_fragment = worker_fragment demo_env (wk_global demo_combined) demo_task
     (worker_envelope demo_env (wk_global demo_combined) demo_task (demo_bytes (transport_items demo_transport))
       (enc_list (enc_via demo_opt_nat enc_nat) (g_messages (wk_global demo_combined))))"

lemma demo_Finalize:
  "PaimonDistributedInsertFinalize demo_env demo_task demo_combined = (Inr [demo_fragment], demo_finished)"
proof -
  have "ValidateTask demo_env (wk_global demo_combined) demo_task = Inr ()"
    using demo_ValidateTask ValidateTask_cong [of "wk_global demo_combined" "wk_global demo_worker" demo_env demo_task]
    by (simp add: demo_combined_eq)
  moreover have "SerializeTransport demo_env demo_transport = Inr (demo_bytes (transport_items demo_transport))"
    using demo_transport_ok by (simp add: SerializeTransport_def)
  ultimately have "\<exists>u. PaimonDistributedInsertFinalize demo_env demo_task demo_combined = (Inr [demo_fragment], u)"
    by (simp add: PaimonDistributedInsertFinalize_def demo_fragment_def demo_combined_eq demo_worker_def
        demo_SerializeList_def Let_def)
  then show ?thesis
    by (auto simp: demo_finished_def run_op_def)
qed

theorem worker_reports_rows_witness:
  "(\<Sum>fr \<leftarrow> [demo_fragment]. unat (fr_row_count fr)) = sunk_rows [OpInit 0, OpSink 0 demo_chunk, OpCombine 0]
    \<and> sunk_rows [OpInit 0, OpSink 0 demo_chunk, OpCombine 0] = 3"
proof
  have "worker_ok_run demo_env demo_task demo_worker (([] @ [OpInit 0]) @ [OpSink 0 demo_chunk]) demo_sunk"
    by (rule ok_step [OF ok_step [OF ok_start demo_opened_eq(1)] demo_sunk_eq(2)])
      (auto simp: demo_chunk_def)
  then have run: "worker_ok_run demo_env demo_task demo_worker [OpInit 0, OpSink 0 demo_chunk, OpCombine 0] demo_combined"
    using ok_step [OF _ demo_combined_eq(1)] by fastforce
  have "l_writer (wk_locals demo_combined i) = None" for i
  proof -
    obtain x where "PaimonDistributedInsertCombine demo_env demo_task 0 demo_sunk = (Inr x, demo_combined)"
      using demo_combined_eq(1) by (auto simp: run_op_def elim!: bindPE)
    from Combine_ok(2) [OF this] show ?thesis
      using Sink_ok [OF demo_sunk_eq(1)] by (auto simp: demo_opened_eq blank_local_def)
  qed
  then show "(\<Sum>fr \<leftarrow> [demo_fragment]. unat (fr_row_count fr)) = sunk_rows [OpInit 0, OpSink 0 demo_chunk, OpCombine 0]"
    by (rule worker_reports_rows [OF demo_start run _ demo_Finalize])
qed (simp add: sunk_rows_def demo_chunk_def)

end
