(* ===== verification/Paimon_Catalog.thy ===== *)
theory Paimon_Catalog
  imports Env_Instance
begin

text \<open>
  The catalog: \<^verbatim>\<open>paimon_table_set.cpp\<close>, \<^verbatim>\<open>paimon_schema_entry.cpp\<close>, \<^verbatim>\<open>paimon_schema_set.cpp\<close> and the
  catalog operations of \<^verbatim>\<open>paimon_catalog.cpp\<close> (all under \<^verbatim>\<open>src/src/paimon_storage/\<close>).

  Schema entries are objects with identity: a schema set maps names to addresses, and \<open>cat_heap\<close>
  holds the entries. A \<open>case_insensitive_map_t\<close> is the list of its entries in iteration order,
  looked up with DuckDB's \<open>CIEquals\<close>. The operations of a set run under its own \<open>entry_lock\<close>, so
  each is one step; the catalog mutation mutex is in the trace.
\<close>

section \<open>Data\<close>

datatype OnCreateConflict = ERROR_ON_CONFLICT | IGNORE_ON_CONFLICT | REPLACE_ON_CONFLICT | ALTER_ON_CONFLICT

datatype AccessMode = READ_ONLY | READ_WRITE | AUTOMATIC

datatype CatalogType = TABLE_ENTRY | OTHER_ENTRY

datatype OnEntryNotFound = THROW_EXCEPTION | RETURN_NULL

datatype Constraint = UniqueConstraint bool "nat option" "string list" | OtherConstraint

datatype ParsedExpression = PE_VALUE_CONSTANT Value | PE_COLUMN_REF string | PE_OTHER

record CreateTableInfo =
  ci_schema :: string
  ci_table :: string
  ci_columns :: "(string \<times> LogicalType) list"
  ci_constraints :: "Constraint list"
  ci_partition_keys :: "ParsedExpression list"
  ci_sort_keys :: "ParsedExpression list"
  ci_options :: "(string \<times> ParsedExpression) list"
  ci_on_conflict :: OnCreateConflict

record DropInfo =
  di_type :: CatalogType
  di_name :: string
  di_if_not_found :: OnEntryNotFound
  di_cascade :: bool

record PaimonTableEntry =
  te_table :: string
  te_columns :: "(string \<times> LogicalType) list"

record PaimonTableSet =
  tset_inited :: bool
  tset_entries :: "(string \<times> PaimonTableEntry) list"

record PaimonSchemaEntry =
  se_name :: string
  se_tables :: PaimonTableSet

record PaimonSchemaSet =
  sset_inited :: bool
  sset_entries :: "(string \<times> nat) list"

record ('w, 'm) catalog = "('w, 'm) sys" +
  cat_path :: string
  cat_access_mode :: AccessMode
  cat_attached_options :: "(string \<times> Value) list"
  cat_schemas :: PaimonSchemaSet
  cat_heap :: "nat \<Rightarrow> PaimonSchemaEntry"
  cat_next :: nat

type_synonym ('w, 'm, 'z, 'a) catP = "(('w, 'm, 'z) catalog_scheme, 'a) proc"

section \<open>Case-insensitive maps\<close>

definition ci_find :: "('w, 'm, 'd) env \<Rightarrow> string \<Rightarrow> (string \<times> 'a) list \<Rightarrow> 'a option" where
  "ci_find E k m = map_option snd (find (\<lambda>e. su_ci_equals (StringUtil E) (fst e) k) m)"

definition ci_emplace :: "('w, 'm, 'd) env \<Rightarrow> string \<Rightarrow> 'a \<Rightarrow> (string \<times> 'a) list \<Rightarrow> (string \<times> 'a) list" where
  "ci_emplace E k v m = (case ci_find E k m of None \<Rightarrow> m @ [(k, v)] | Some _ \<Rightarrow> m)"

definition ci_erase :: "('w, 'm, 'd) env \<Rightarrow> string \<Rightarrow> (string \<times> 'a) list \<Rightarrow> (string \<times> 'a) list" where
  "ci_erase E k m = filter (\<lambda>e. \<not> su_ci_equals (StringUtil E) (fst e) k) m"

definition ci_laws :: "('w, 'm, 'd) env \<Rightarrow> bool" where
  "ci_laws E \<longleftrightarrow> equivp (su_ci_equals (StringUtil E))"

section \<open>Table sets\<close>

definition tables_at :: "('w, 'm, 'z) catalog_scheme \<Rightarrow> nat \<Rightarrow> PaimonTableSet" where
  "tables_at s p = se_tables (cat_heap s p)"

abbreviation set_tables :: "nat \<Rightarrow> (PaimonTableSet \<Rightarrow> PaimonTableSet) \<Rightarrow> ('w, 'm, 'z, unit) catP" where
  "set_tables p f \<equiv> modifyP (cat_heap_update (\<lambda>H. H(p := (H p)\<lparr>se_tables := f (se_tables (H p))\<rparr>)))"

definition table_entry_of :: "string \<Rightarrow> ArrowTableSchema \<Rightarrow> PaimonTableEntry res" where
  "table_entry_of table_name arrow_table =
     (if length (arrow_names arrow_table) \<noteq> length (arrow_types arrow_table)
      then Inl (IOException ''column names and types'')
      else Inr \<lparr>te_table = table_name, te_columns = zip (arrow_names arrow_table) (arrow_types arrow_table)\<rparr>)"

definition BuildEntry :: "('w, 'm, 'd) env \<Rightarrow> nat \<Rightarrow> string \<Rightarrow> ('w, 'm, 'z, PaimonTableEntry option) catP" where
  "BuildEntry E p table_name =
     bindP (getP (\<lambda>s. cat_heap s p)) (\<lambda>schema.
     case ci_find E table_name (tset_entries (se_tables schema)) of
       Some entry \<Rightarrow> retP (Some entry)
     | None \<Rightarrow>
         bindP (call (EvRead ''LoadTableSchema'')
           (LoadTableSchema E \<lparr>id_database = se_name schema, id_table = table_name\<rparr>)) (\<lambda>result.
         case result of
           Inl st \<Rightarrow> if st_not_exist st then retP None else throwP (IOException (st_text st))
         | Inr None \<Rightarrow> throwP (IOException ''Paimon table schema is empty'')
         | Inr (Some table_schema) \<Rightarrow>
             bindP (value_or_io (ts_GetArrowSchema table_schema)) (\<lambda>arrow_raw.
             case arrow_raw of
               None \<Rightarrow> throwP (IOException ''Paimon Arrow schema is empty'')
             | Some arrow_schema \<Rightarrow>
                 bindP (liftP (PopulateArrowTableSchema E arrow_schema)) (\<lambda>arrow_table.
                 bindP (liftP (table_entry_of table_name arrow_table)) (\<lambda>entry.
                 bindP (set_tables p (\<lambda>ts. ts\<lparr>tset_entries := ci_emplace E table_name entry (tset_entries ts)\<rparr>)) (\<lambda>_.
                 getP (\<lambda>s. ci_find E table_name (tset_entries (tables_at s p)))))))))"

fun build_all :: "('w, 'm, 'd) env \<Rightarrow> nat \<Rightarrow> string list \<Rightarrow> ('w, 'm, 'z, unit) catP" where
  "build_all E p [] = retP ()"
| "build_all E p (t # ts) = bindP (BuildEntry E p t) (\<lambda>_. build_all E p ts)"

definition TableSet_LoadEntries :: "('w, 'm, 'd) env \<Rightarrow> nat \<Rightarrow> ('w, 'm, 'z, unit) catP" where
  "TableSet_LoadEntries E p =
     bindP (getP (\<lambda>s. cat_heap s p)) (\<lambda>schema.
     if tset_inited (se_tables schema) then retP ()
     else bindP (call_io (EvRead ''ListTables'') (ListTables E (se_name schema))) (\<lambda>tables.
          bindP (build_all E p tables) (\<lambda>_.
          set_tables p (\<lambda>ts. ts\<lparr>tset_inited := True\<rparr>))))"

definition TableSet_GetEntry :: "('w, 'm, 'd) env \<Rightarrow> nat \<Rightarrow> string \<Rightarrow> ('w, 'm, 'z, PaimonTableEntry option) catP" where
  "TableSet_GetEntry E p table_name = BuildEntry E p table_name"

text \<open>\<open>Scan\<close> calls back with every entry; here it returns them.\<close>

definition TableSet_Scan :: "('w, 'm, 'd) env \<Rightarrow> nat \<Rightarrow> ('w, 'm, 'z, PaimonTableEntry list) catP" where
  "TableSet_Scan E p =
     bindP (TableSet_LoadEntries E p) (\<lambda>_. getP (\<lambda>s. map snd (tset_entries (tables_at s p))))"

definition TableSet_CreateEntry :: "('w, 'm, 'd) env \<Rightarrow> nat \<Rightarrow> CreateTableInfo \<Rightarrow>
    ('w, 'm, 'z, PaimonTableEntry option) catP" where
  "TableSet_CreateEntry E p info =
     bindP (set_tables p (\<lambda>ts. ts\<lparr>tset_entries := ci_emplace E (ci_table info)
       \<lparr>te_table = ci_table info, te_columns = ci_columns info\<rparr> (tset_entries ts)\<rparr>)) (\<lambda>_.
     getP (\<lambda>s. ci_find E (ci_table info) (tset_entries (tables_at s p))))"

definition RefreshEntry :: "('w, 'm, 'd) env \<Rightarrow> nat \<Rightarrow> string \<Rightarrow> ('w, 'm, 'z, PaimonTableEntry option) catP" where
  "RefreshEntry E p table_name =
     bindP (set_tables p (\<lambda>ts. ts\<lparr>tset_entries := ci_erase E table_name (tset_entries ts)\<rparr>)) (\<lambda>_.
     BuildEntry E p table_name)"

definition TableSet_DropEntry :: "('w, 'm, 'd) env \<Rightarrow> nat \<Rightarrow> string \<Rightarrow> ('w, 'm, 'z, unit) catP" where
  "TableSet_DropEntry E p table_name =
     set_tables p (\<lambda>ts. ts\<lparr>tset_entries := ci_erase E table_name (tset_entries ts)\<rparr>)"

section \<open>Schema entries\<close>

definition CatalogTypeIsSupported :: "CatalogType \<Rightarrow> bool" where
  "CatalogTypeIsSupported t = (case t of TABLE_ENTRY \<Rightarrow> True | _ \<Rightarrow> False)"

definition SchemaEntry_Scan :: "('w, 'm, 'd) env \<Rightarrow> nat \<Rightarrow> CatalogType \<Rightarrow> ('w, 'm, 'z, PaimonTableEntry list) catP" where
  "SchemaEntry_Scan E p t = (if \<not> CatalogTypeIsSupported t then retP [] else TableSet_Scan E p)"

definition SchemaEntry_LookupEntry :: "('w, 'm, 'd) env \<Rightarrow> nat \<Rightarrow> CatalogType \<Rightarrow> string \<Rightarrow>
    ('w, 'm, 'z, PaimonTableEntry option) catP" where
  "SchemaEntry_LookupEntry E p t name =
     (if \<not> CatalogTypeIsSupported t then retP None else TableSet_GetEntry E p name)"

text \<open>\<open>if (status.IsExist() || status.IsNotExist()) throw CatalogException; throw IOException\<close>\<close>

definition status_or_throw :: "unit presult \<Rightarrow> ('s, unit) proc" where
  "status_or_throw r = (case r of
     Inr _ \<Rightarrow> retP ()
   | Inl st \<Rightarrow> if st_exist st \<or> st_not_exist st then throwP (CatalogException (st_text st))
               else throwP (IOException (st_text st)))"

text \<open>\<open>duckdb::vector\<close> checks its index and throws.\<close>

definition vector_at :: "'a list \<Rightarrow> nat \<Rightarrow> 'a res" where
  "vector_at xs i = (if i < length xs then Inr (xs ! i) else Inl (InternalException ''vector index''))"

fun create_primary_keys :: "string list \<Rightarrow> Constraint list \<Rightarrow> string list res" where
  "create_primary_keys col_names [] = Inr []"
| "create_primary_keys col_names (OtherConstraint # cs) = create_primary_keys col_names cs"
| "create_primary_keys col_names (UniqueConstraint primary index names # cs) =
     (if \<not> primary then create_primary_keys col_names cs
      else case index of
          Some i \<Rightarrow> res_bind (vector_at col_names i) (\<lambda>n.
            res_bind (create_primary_keys col_names cs) (\<lambda>ks. Inr (n # ks)))
        | None \<Rightarrow> res_bind (create_primary_keys col_names cs) (\<lambda>ks. Inr (names @ ks)))"

fun create_partition_keys :: "ParsedExpression list \<Rightarrow> string list res" where
  "create_partition_keys [] = Inr []"
| "create_partition_keys (PE_COLUMN_REF c # es) = res_bind (create_partition_keys es) (\<lambda>ks. Inr (c # ks))"
| "create_partition_keys (_ # es) = Inl (InvalidInputException ''partition key must be a column reference'')"

fun create_options :: "(string \<times> ParsedExpression) list \<Rightarrow> options \<Rightarrow> options res" where
  "create_options [] m = Inr m"
| "create_options ((k, PE_VALUE_CONSTANT v) # os) m =
     create_options os (if val_null v then m else map_put k (val_to_string v) m)"
| "create_options ((k, PE_COLUMN_REF c) # os) m = create_options os (map_put k c m)"
| "create_options ((k, PE_OTHER) # os) m = Inl (InvalidInputException ''table option must be a literal value'')"

definition create_table_request :: "('w, 'm, 'd) env \<Rightarrow> CreateTableInfo \<Rightarrow> CreateTableRequest res" where
  "create_table_request E base =
     res_bind (ToArrowSchema E (map snd (ci_columns base)) (map fst (ci_columns base))) (\<lambda>arrow_schema.
     res_bind (create_primary_keys (map fst (ci_columns base)) (ci_constraints base)) (\<lambda>primary_keys.
     res_bind (create_partition_keys (ci_partition_keys base)) (\<lambda>partition_keys.
     res_bind (create_options (ci_options base) []) (\<lambda>paimon_options.
     Inr \<lparr>ct_schema = arrow_schema, ct_partition_keys = partition_keys, ct_primary_keys = primary_keys,
          ct_options = paimon_options, ct_ignore_if_exists = (ci_on_conflict base = IGNORE_ON_CONFLICT)\<rparr>))))"

definition SchemaEntry_CreateTable :: "('w, 'm, 'd) env \<Rightarrow> nat \<Rightarrow> CreateTableInfo \<Rightarrow>
    ('w, 'm, 'z, PaimonTableEntry option) catP" where
  "SchemaEntry_CreateTable E p base =
     (if ci_on_conflict base = REPLACE_ON_CONFLICT
      then throwP (NotImplementedException ''CREATE OR REPLACE TABLE'')
      else with_mutex (
        bindP (getP (\<lambda>s. se_name (cat_heap s p))) (\<lambda>name.
        bindP (liftP (create_table_request E base)) (\<lambda>request.
        let identifier = \<lparr>id_database = name, id_table = ci_table base\<rparr> in
        bindP (call (EvCreateTable identifier request) (CatalogCreateTable E identifier request)) (\<lambda>status.
        bindP (status_or_throw status) (\<lambda>_.
        RefreshEntry E p (ci_table base)))))))"

definition SchemaEntry_DropEntry :: "('w, 'm, 'd) env \<Rightarrow> nat \<Rightarrow> DropInfo \<Rightarrow> ('w, 'm, 'z, unit) catP" where
  "SchemaEntry_DropEntry E p info =
     (if di_type info \<noteq> TABLE_ENTRY then throwP (NotImplementedException ''Only dropping tables is supported'')
      else with_mutex (
        bindP (getP (\<lambda>s. se_name (cat_heap s p))) (\<lambda>name.
        let identifier = \<lparr>id_database = name, id_table = di_name info\<rparr> in
        bindP (call (EvDropTable identifier)
          (CatalogDropTable E identifier (di_if_not_found info = RETURN_NULL))) (\<lambda>status.
        bindP (status_or_throw status) (\<lambda>_.
        TableSet_DropEntry E p (di_name info))))))"

section \<open>Schema sets\<close>

definition new_schema_entry :: "string \<Rightarrow> PaimonSchemaEntry" where
  "new_schema_entry name = \<lparr>se_name = name, se_tables = \<lparr>tset_inited = False, tset_entries = []\<rparr>\<rparr>"

text \<open>\<open>make_uniq<PaimonSchemaEntry>\<close> followed by \<open>entries.emplace\<close>: an entry that is not new is kept.\<close>

definition emplace_schema :: "('w, 'm, 'd) env \<Rightarrow> string \<Rightarrow> ('w, 'm, 'z, unit) catP" where
  "emplace_schema E name = modifyP (\<lambda>s. s\<lparr>
     cat_schemas := (cat_schemas s)\<lparr>sset_entries := ci_emplace E name (cat_next s) (sset_entries (cat_schemas s))\<rparr>,
     cat_heap := (cat_heap s)(cat_next s := new_schema_entry name), cat_next := Suc (cat_next s)\<rparr>)"

fun emplace_schemas :: "('w, 'm, 'd) env \<Rightarrow> string list \<Rightarrow> ('w, 'm, 'z, unit) catP" where
  "emplace_schemas E [] = retP ()"
| "emplace_schemas E (d # ds) = bindP (emplace_schema E d) (\<lambda>_. emplace_schemas E ds)"

definition SchemaSet_LoadEntries :: "('w, 'm, 'd) env \<Rightarrow> ('w, 'm, 'z, unit) catP" where
  "SchemaSet_LoadEntries E =
     bindP (getP (\<lambda>s. sset_inited (cat_schemas s))) (\<lambda>inited.
     if inited then retP ()
     else bindP (call_io (EvRead ''ListDatabases'') (ListDatabases E)) (\<lambda>databases.
          bindP (emplace_schemas E databases) (\<lambda>_.
          modifyP (cat_schemas_update (\<lambda>ss. ss\<lparr>sset_inited := True\<rparr>)))))"

definition SchemaSet_Scan :: "('w, 'm, 'd) env \<Rightarrow> ('w, 'm, 'z, nat list) catP" where
  "SchemaSet_Scan E = bindP (SchemaSet_LoadEntries E) (\<lambda>_. getP (\<lambda>s. map snd (sset_entries (cat_schemas s))))"

definition SchemaSet_GetEntry :: "('w, 'm, 'd) env \<Rightarrow> string \<Rightarrow> ('w, 'm, 'z, nat option) catP" where
  "SchemaSet_GetEntry E name =
     bindP (SchemaSet_LoadEntries E) (\<lambda>_. getP (\<lambda>s. ci_find E name (sset_entries (cat_schemas s))))"

definition SchemaSet_CreateEntry :: "('w, 'm, 'd) env \<Rightarrow> string \<Rightarrow> ('w, 'm, 'z, nat option) catP" where
  "SchemaSet_CreateEntry E name =
     bindP (emplace_schema E name) (\<lambda>_. getP (\<lambda>s. ci_find E name (sset_entries (cat_schemas s))))"

definition SchemaSet_DropEntry :: "('w, 'm, 'd) env \<Rightarrow> string \<Rightarrow> ('w, 'm, 'z, unit) catP" where
  "SchemaSet_DropEntry E name =
     modifyP (cat_schemas_update (\<lambda>ss. ss\<lparr>sset_entries := ci_erase E name (sset_entries ss)\<rparr>))"

section \<open>The catalog\<close>

definition Attach_access_mode :: "('w, 'm, 'd) env \<Rightarrow> string \<Rightarrow> AccessMode \<Rightarrow> AccessMode" where
  "Attach_access_mode E path mode =
     (if is_s3_path (StringUtil E) path \<or> is_oss_path (StringUtil E) path then READ_ONLY else mode)"

definition CreateSchema :: "('w, 'm, 'd) env \<Rightarrow> string \<Rightarrow> OnCreateConflict \<Rightarrow> ('w, 'm, 'z, nat option) catP" where
  "CreateSchema E schema on_conflict = with_mutex (
     bindP (call (EvCreateDatabase schema) (CreateDatabase E schema (on_conflict = IGNORE_ON_CONFLICT))) (\<lambda>status.
     bindP (status_or_throw status) (\<lambda>_.
     SchemaSet_CreateEntry E schema)))"

definition LookupSchema :: "('w, 'm, 'd) env \<Rightarrow> string \<Rightarrow> OnEntryNotFound \<Rightarrow> ('w, 'm, 'z, nat option) catP" where
  "LookupSchema E schema_name if_not_found =
     bindP (SchemaSet_GetEntry E schema_name) (\<lambda>entry.
     case entry of
       None \<Rightarrow> if if_not_found = THROW_EXCEPTION then throwP (CatalogException ''Schema not found'') else retP None
     | Some p \<Rightarrow> retP (Some p))"

definition DropSchema :: "('w, 'm, 'd) env \<Rightarrow> DropInfo \<Rightarrow> ('w, 'm, 'z, unit) catP" where
  "DropSchema E info = with_mutex (
     bindP (call (EvDropDatabase (di_name info))
       (DropDatabase E (di_name info) (di_if_not_found info = RETURN_NULL) (di_cascade info))) (\<lambda>status.
     bindP (status_or_throw status) (\<lambda>_.
     SchemaSet_DropEntry E (di_name info))))"

definition SupportsCreateTable :: "CreateTableInfo \<Rightarrow> error option" where
  "SupportsCreateTable base =
     (if ci_sort_keys base \<noteq> [] then Some (CatalogException ''SORTED BY is not supported'') else None)"

end
