(* ===== verification/Dist_Coordinator.thy ===== *)
theory Dist_Coordinator
  imports Dist_Worker Paimon_Catalog
begin

text \<open>
  Component \<^verbatim>\<open>src/src/paimon_storage/paimon_distributed_insert.cpp\<close>, third part: the coordinator of a
  distributed write (methods of \<open>PhysicalPaimonInsert\<close>, declared in
  \<^verbatim>\<open>src/src/include/paimon_insert.hpp\<close>), with the two planning functions of \<^verbatim>\<open>paimon_catalog.cpp\<close> that
  create the operator.

  The coordinator's state extends the catalog's by the operator. \<open>ins_schema\<close> is the pointer to the
  schema entry, \<open>ins_children\<close> the output types of each child, \<open>ins_context\<close> whether the client
  context was set. A \<open>const\<close> method that sets \<open>mutable\<close> members is a procedure on that state, and an
  exception leaves what was assigned before it.
\<close>

section \<open>The operator\<close>

record PhysicalPaimonInsert =
  ins_schema :: "nat option"
  ins_info :: "CreateTableInfo option"
  ins_table_identifier :: Identifier
  ins_paimon_options :: options
  ins_part_keys :: "string list"
  ins_children :: "LogicalType list list"
  ins_write_plan :: DistributedExtensionWritePlan
  ins_operation_id :: string
  ins_table_uuid :: string
  ins_table_path :: string
  ins_schema_fingerprint :: string
  ins_table_schema_json :: string
  ins_input_types :: "LogicalType list"
  ins_input_names :: "string list"
  ins_primary_keys :: "string list"
  ins_table_options :: options
  ins_portable_options :: options
  ins_context :: bool
  ins_null_part_name :: string
  ins_schema_id :: int
  ins_commit_identifier :: int
  ins_append_only :: bool
  ins_has_snapshot :: bool
  ins_snapshot_id :: int
  ins_target_initialized :: bool
  ins_worker_plan_selected :: bool
  ins_prepare_started :: bool
  ins_target_prepared :: bool
  ins_finalize_started :: bool

definition new_insert :: "nat option \<Rightarrow> CreateTableInfo option \<Rightarrow> Identifier \<Rightarrow> options \<Rightarrow> string list \<Rightarrow>
    LogicalType list list \<Rightarrow> bool \<Rightarrow> PhysicalPaimonInsert" where
  "new_insert sch cinfo ident opts pkeys children ctx =
     \<lparr>ins_schema = sch, ins_info = cinfo, ins_table_identifier = ident, ins_paimon_options = opts,
      ins_part_keys = pkeys, ins_children = children,
      ins_write_plan = \<lparr>wp_extension_name = [], wp_operator_name = [], wp_worker_bind_data = []\<rparr>,
      ins_operation_id = [], ins_table_uuid = [], ins_table_path = [], ins_schema_fingerprint = [],
      ins_table_schema_json = [], ins_input_types = [], ins_input_names = [], ins_primary_keys = [],
      ins_table_options = [], ins_portable_options = [], ins_context = ctx, ins_null_part_name = [],
      ins_schema_id = - 1, ins_commit_identifier = 0, ins_append_only = False, ins_has_snapshot = False,
      ins_snapshot_id = 0, ins_target_initialized = False, ins_worker_plan_selected = False,
      ins_prepare_started = False, ins_target_prepared = False, ins_finalize_started = False\<rparr>"

record ('w, 'm) coord = "('w, 'm) catalog" +
  co_insert :: PhysicalPaimonInsert

type_synonym ('w, 'm, 'a) coordP = "(('w, 'm) coord, 'a) proc"

abbreviation set_insert :: "(PhysicalPaimonInsert \<Rightarrow> PhysicalPaimonInsert) \<Rightarrow> ('w, 'm, unit) coordP" where
  "set_insert f \<equiv> modifyP (co_insert_update f)"

section \<open>Planning\<close>

definition PlanCreateTableAs :: "('w, 'm, 'd) env \<Rightarrow> nat \<Rightarrow> CreateTableInfo \<Rightarrow> LogicalType list \<Rightarrow>
    ('w, 'm, 'z, PhysicalPaimonInsert) catP" where
  "PlanCreateTableAs E schema base plan =
     bindP (getP cat_access_mode) (\<lambda>mode.
     if mode = READ_ONLY then throwP (PermissionException ''read-only Paimon catalog'')
     else bindP (getP (\<lambda>s. (cat_path s, cat_attached_options s))) (\<lambda>(path, opts).
       bindP (liftP (GetPaimonOptions (StringUtil E) (OptionKeys E) (Context E) path opts)) (\<lambda>paimon_options.
       bindP (liftP (create_partition_keys (ci_partition_keys base))) (\<lambda>part_keys.
       retP (new_insert (Some schema) (Some base)
         \<lparr>id_database = ci_schema base, id_table = ci_table base\<rparr> paimon_options part_keys [plan] True)))))"

text \<open>\<open>ResolveDefaultsProjection\<close> is the planner's: \<open>plan\<close> is the child it leaves, if there is one.\<close>

definition PlanInsert :: "('w, 'm, 'd) env \<Rightarrow> nat \<Rightarrow> string \<Rightarrow> LogicalType list option \<Rightarrow>
    ('w, 'm, 'z, PhysicalPaimonInsert) catP" where
  "PlanInsert E schema table_name plan =
     bindP (getP cat_access_mode) (\<lambda>mode.
     if mode = READ_ONLY then throwP (PermissionException ''read-only Paimon catalog'')
     else bindP (getP (\<lambda>s. (cat_path s, cat_attached_options s, se_name (cat_heap s schema)))) (\<lambda>(path, opts, name).
       bindP (liftP (GetPaimonOptions (StringUtil E) (OptionKeys E) (Context E) path opts)) (\<lambda>paimon_options.
       let ident = \<lparr>id_database = name, id_table = table_name\<rparr> in
       bindP (call_io (EvRead ''LoadTableSchema'') (LoadTableSchema E ident)) (\<lambda>table_schema.
       let part_keys = (case Option.bind table_schema ts_data of
             None \<Rightarrow> [] | Some data_schema \<Rightarrow> dsc_PartitionKeys data_schema)
       in retP (new_insert (Some schema) None ident paimon_options part_keys
            (case plan of None \<Rightarrow> [] | Some types \<Rightarrow> [types]) (plan \<noteq> None))))))"

section \<open>Reading the target\<close>

record PaimonDistributedTargetState =
  tg_table_uuid :: string
  tg_table_path :: string
  tg_table_schema_json :: string
  tg_schema_id :: int
  tg_append_only :: bool
  tg_has_snapshot :: bool
  tg_snapshot_id :: int
  tg_field_names :: "string list"
  tg_field_types :: "LogicalType list"
  tg_part_keys :: "string list"
  tg_primary_keys :: "string list"
  tg_table_options :: options
  tg_null_part_name :: string

definition LoadTableUUID :: "('w, 'm, 'd) env \<Rightarrow> Identifier \<Rightarrow> ('w, 'm, 'z, string) sysP" where
  "LoadTableUUID E ident =
     bindP (call_io (EvRead ''GetTable'') (GetTable E ident)) (\<lambda>table.
     case table of
       None \<Rightarrow> throwP (IOException ''no stable table identity'')
     | Some uuid \<Rightarrow> bindP (checkP (uuid = []) (IOException ''empty table UUID'')) (\<lambda>_. retP uuid))"

definition null_partition_name :: "('w, 'm, 'd) env \<Rightarrow> options \<Rightarrow> string" where
  "null_partition_name E table_options =
     (case map_of table_options (key_PARTITION_DEFAULT_NAME (OptionKeys E)) of
        None \<Rightarrow> ''__DEFAULT_PARTITION__'' | Some n \<Rightarrow> n)"

definition LoadTargetState :: "('w, 'm, 'd) env \<Rightarrow> Identifier \<Rightarrow> ('w, 'm, 'z, PaimonDistributedTargetState) sysP" where
  "LoadTargetState E ident =
     bindP (call_io (EvRead ''TableExists'') (TableExists E ident)) (\<lambda>exists.
     if \<not> exists then throwP (TransactionException ''table no longer exists'')
     else bindP (LoadTableUUID E ident) (\<lambda>table_uuid.
     bindP (call_io (EvRead ''GetTableLocation'') (GetTableLocation E ident)) (\<lambda>table_path.
     bindP (call_io (EvRead ''LoadTableSchema'') (LoadTableSchema E ident)) (\<lambda>table_schema.
     case table_schema of
       None \<Rightarrow> throwP (IOException ''Failed to resolve Paimon data schema'')
     | Some ts \<Rightarrow>
     (case ts_data ts of
       None \<Rightarrow> throwP (IOException ''Failed to resolve Paimon data schema'')
     | Some data_schema \<Rightarrow>
     bindP (value_or_io (ts_GetArrowSchema ts)) (\<lambda>arrow_schema.
     case arrow_schema of
       None \<Rightarrow> throwP (IOException ''no Arrow schema'')
     | Some arrow \<Rightarrow>
     bindP (liftP (PopulateArrowTableSchema E arrow)) (\<lambda>arrow_table.
     if arrow_names arrow_table \<noteq> ts_FieldNames ts \<or>
        length (arrow_names arrow_table) \<noteq> length (arrow_types arrow_table)
     then throwP (IOException ''field names and types disagree'')
     else bindP (value_or_io (ts_GetJsonSchema ts)) (\<lambda>json.
     bindP (call_io (EvRead ''ListSnapshots'') (ListSnapshots E ident)) (\<lambda>snapshots.
     bindP (LoadTableUUID E ident) (\<lambda>uuid_after.
     if uuid_after \<noteq> table_uuid then throwP (TransactionException ''table was replaced'')
     else retP \<lparr>tg_table_uuid = table_uuid, tg_table_path = table_path, tg_table_schema_json = json,
          tg_schema_id = dsc_Id data_schema, tg_append_only = (dsc_PrimaryKeys data_schema = []),
          tg_has_snapshot = (snapshots \<noteq> []),
          tg_snapshot_id = (if snapshots = [] then 0 else sn_snapshot_id (last snapshots)),
          tg_field_names = arrow_names arrow_table, tg_field_types = arrow_types arrow_table,
          tg_part_keys = dsc_PartitionKeys data_schema, tg_primary_keys = dsc_PrimaryKeys data_schema,
          tg_table_options = dsc_Options data_schema,
          tg_null_part_name = null_partition_name E (dsc_Options data_schema)\<rparr>))))))))))"

fun GetCreatePrimaryKeys :: "string list \<Rightarrow> Constraint list \<Rightarrow> string list \<Rightarrow> string list res" where
  "GetCreatePrimaryKeys column_names [] r = Inr r"
| "GetCreatePrimaryKeys column_names (c # cs) r =
     (case c of
        OtherConstraint \<Rightarrow> GetCreatePrimaryKeys column_names cs r
      | UniqueConstraint primary index names \<Rightarrow>
          if \<not> primary then GetCreatePrimaryKeys column_names cs r
          else (case index of
              Some i \<Rightarrow> res_bind (vector_at column_names i) (\<lambda>n. GetCreatePrimaryKeys column_names cs (r @ [n]))
            | None \<Rightarrow> GetCreatePrimaryKeys column_names cs (r @ names)))"

fun GetCreateTableOptions :: "(string \<times> ParsedExpression) list \<Rightarrow> options \<Rightarrow> options res" where
  "GetCreateTableOptions [] r = Inr r"
| "GetCreateTableOptions ((k, e) # os) r =
     (case e of
        PE_VALUE_CONSTANT v \<Rightarrow>
          GetCreateTableOptions os (if val_null v then r else map_put k (val_to_string v) r)
      | PE_COLUMN_REF c \<Rightarrow> GetCreateTableOptions os (map_put k c r)
      | PE_OTHER \<Rightarrow> Inl (InvalidInputException ''table option must be a literal value''))"

section \<open>Decoding the workers' results\<close>

definition ValidateResolvedInfo :: "DistributedExtensionWriteInfo \<Rightarrow> PaimonDistributedInsertTransport \<Rightarrow> unit res" where
  "ValidateResolvedInfo info transport =
     (if wi_mode info \<noteq> CALLBACK_SINK \<or> cap_extension_name (wi_capability info) \<noteq> ''paimon''
      then Inl (InvalidInputException ''coordinator contract'')
      else res_bind (WriteOperatorName (tp_write_kind transport)) (\<lambda>name.
        throw_if (cap_name (wi_capability info) \<noteq> name \<or>
          cap_protocol_version (wi_capability info) \<noteq> PAIMON_DISTRIBUTED_WRITE_PROTOCOL_VERSION \<or>
          codec_name (wi_fragment_codec info) \<noteq> PAIMON_DISTRIBUTED_WRITE_FRAGMENT_CODEC \<or>
          codec_version (wi_fragment_codec info) \<noteq> PAIMON_DISTRIBUTED_WRITE_PROTOCOL_VERSION)
          (InvalidInputException ''coordinator contract'')))"

text \<open>The locals of \<open>DecodeCommitResults\<close> and the \<open>decoded\<close> result it fills, also when it throws.\<close>

record 'm decoding =
  de_attempts :: "string set"
  de_logical :: "string set"
  de_fragments :: "string set"
  de_canonical :: "string set"
  de_query_id :: string
  de_duplicate :: string
  de_messages :: "'m option list"
  de_row_count :: idx_t

definition decoding_start :: "'m decoding" where
  "decoding_start = \<lparr>de_attempts = {}, de_logical = {}, de_fragments = {}, de_canonical = {},
     de_query_id = [], de_duplicate = [], de_messages = [], de_row_count = 0\<rparr>"

fun decode_messages :: "('w, 'm, 'd) env \<Rightarrow> 'm option list \<Rightarrow> ('m decoding, unit) proc" where
  "decode_messages E [] = retP ()"
| "decode_messages E (None # ms) = throwP (InvalidInputException ''fragment contains an empty message'')"
| "decode_messages E (Some m # ms) =
     (case SerializeMessage E m of
        Inl st \<Rightarrow> throwP (InvalidInputException ''Failed to canonicalize commit message'')
      | Inr canonical \<Rightarrow>
          bindP (getP de_canonical) (\<lambda>seen.
          if canonical \<in> seen then throwP (InvalidInputException ''duplicate commit message'')
          else bindP (modifyP (\<lambda>d. d\<lparr>de_canonical := insert canonical (de_canonical d),
                 de_messages := de_messages d @ [Some m]\<rparr>)) (\<lambda>_.
               decode_messages E ms)))"

definition envelope_matches :: "('w, 'm, 'd) env \<Rightarrow> PaimonDistributedInsertTransport \<Rightarrow> string \<Rightarrow>
    DistributedWriteTaskResult \<Rightarrow> DistributedWriteFragment \<Rightarrow> PaimonDistributedCommitEnvelope \<Rightarrow> bool" where
  "envelope_matches E transport expected_transport r fragment e \<longleftrightarrow>
     ev_operation_id e = tp_operation_id transport \<and> ev_table_uuid e = tp_table_uuid transport \<and>
     ev_table_path e = tp_table_path transport \<and> ev_schema_fingerprint e = tp_schema_fingerprint transport \<and>
     ev_schema_id e = tp_schema_id transport \<and> ev_has_snapshot e = tp_has_snapshot transport \<and>
     ev_snapshot_id e = tp_snapshot_id transport \<and>
     ev_commit_identifier e = tp_commit_identifier transport \<and> ev_query_id e = tr_query_id r \<and>
     ev_task_attempt_id e = tr_task_attempt_id r \<and>
     ev_writer_commit_user e = WorkerCommitUser E transport
       \<lparr>tk_query_id = tr_query_id r, tk_task_attempt_id = tr_task_attempt_id r\<rparr> \<and>
     ev_commit_message_version e = CurrentVersion E \<and> ev_serialized_transport e = expected_transport \<and>
     ev_row_count e = fr_row_count fragment \<and> ev_row_count e = TaskResultRowCount E r"

definition decode_fragment :: "('w, 'm, 'd) env \<Rightarrow> PaimonDistributedInsertTransport \<Rightarrow> string \<Rightarrow>
    DistributedWriteTaskResult \<Rightarrow> DistributedWriteFragment \<Rightarrow> ('m decoding, unit) proc" where
  "decode_fragment E transport expected_transport r fragment =
     bindP (getP de_fragments) (\<lambda>seen.
     if fr_fragment_id fragment \<noteq> ExpectedFragmentId transport (tr_task_attempt_id r) \<or>
        fr_fragment_id fragment \<in> seen \<or> fr_artifacts fragment \<noteq> [] \<or> fr_byte_count fragment \<noteq> 0
     then throwP (InvalidInputException ''invalid fragment metadata'')
     else bindP (modifyP (de_fragments_update (insert (fr_fragment_id fragment)))) (\<lambda>_.
     bindP (liftP (DeserializeCommitEnvelope E (fr_payload fragment))) (\<lambda>e.
     if \<not> envelope_matches E transport expected_transport r fragment e
     then throwP (InvalidInputException ''fragment does not match its target or attempt'')
     else if length (ev_serialized_messages e) > 2 ^ 31 - 1
     then throwP (InvalidInputException ''fragment exceeds the Paimon codec limit'')
     else (case DeserializeList E (ev_commit_message_version e) (ev_serialized_messages e) of
         Inl st \<Rightarrow> throwP (InvalidInputException ''Failed to deserialize commit messages'')
       | Inr messages \<Rightarrow>
           if length messages \<noteq> unat (ev_message_count e) \<or> messages = []
           then throwP (InvalidInputException ''commit-message count does not match'')
           else bindP (decode_messages E messages) (\<lambda>_.
                bindP (getP de_row_count) (\<lambda>n.
                bindP (liftP (CheckedAdd n (ev_row_count e))) (\<lambda>n'.
                modifyP (\<lambda>d. d\<lparr>de_row_count := n'\<rparr>))))))))"

definition decode_result :: "('w, 'm, 'd) env \<Rightarrow> DistributedExtensionWriteInfo \<Rightarrow>
    PaimonDistributedInsertTransport \<Rightarrow> string \<Rightarrow> DistributedWriteTaskResult \<Rightarrow> ('m decoding, unit) proc" where
  "decode_result E info transport expected_transport r =
     bindP (liftP (TaskResultValidate E r)) (\<lambda>_.
     if tr_capability r \<noteq> wi_capability info \<or> tr_fragment_codec r \<noteq> wi_fragment_codec info
     then throwP (InvalidInputException ''task result does not match its coordinator contract'')
     else bindP (getP id) (\<lambda>d.
     bindP (if de_query_id d = [] then modifyP (\<lambda>d. d\<lparr>de_query_id := tr_query_id r\<rparr>)
            else checkP (de_query_id d \<noteq> tr_query_id r)
              (InvalidInputException ''inconsistent query identities'')) (\<lambda>_.
     if tr_task_attempt_id r \<in> de_attempts d
     then throwP (InvalidInputException ''task attempt selected more than once'')
     else bindP (modifyP (de_attempts_update (insert (tr_task_attempt_id r)))) (\<lambda>_.
     bindP (liftP (VaneLogicalTaskIdentity E (tr_query_id r) (tr_task_attempt_id r))) (\<lambda>logical_task_id.
     bindP (modifyP (\<lambda>d. d\<lparr>de_logical := insert logical_task_id (de_logical d),
       de_duplicate := (if logical_task_id \<in> de_logical d \<and> de_duplicate d = [] then logical_task_id
                        else de_duplicate d)\<rparr>)) (\<lambda>_.
     case tr_fragments r of
       [] \<Rightarrow> checkP (TaskResultRowCount E r \<noteq> 0 \<or> TaskResultByteCount E r \<noteq> 0)
          (InvalidInputException ''Empty task result has non-zero counts'')
     | [fragment] \<Rightarrow> decode_fragment E transport expected_transport r fragment
     | _ \<Rightarrow> throwP (InvalidInputException ''at most one commit fragment'')))))))"

fun decode_results :: "('w, 'm, 'd) env \<Rightarrow> DistributedExtensionWriteInfo \<Rightarrow>
    PaimonDistributedInsertTransport \<Rightarrow> string \<Rightarrow> DistributedWriteTaskResult list \<Rightarrow> ('m decoding, unit) proc" where
  "decode_results E info transport expected [] =
     bindP (getP de_duplicate) (\<lambda>dup.
     checkP (dup \<noteq> []) (InvalidInputException ''selected multiple attempts for a logical task''))"
| "decode_results E info transport expected (r # rs) =
     bindP (decode_result E info transport expected r) (\<lambda>_. decode_results E info transport expected rs)"

definition DecodeCommitResults :: "('w, 'm, 'd) env \<Rightarrow> DistributedExtensionWriteInfo \<Rightarrow>
    PaimonDistributedInsertTransport \<Rightarrow> DistributedWriteTaskResult list \<Rightarrow> ('m decoding, unit) proc" where
  "DecodeCommitResults E info transport results =
     bindP (liftP (ValidateResolvedInfo info transport)) (\<lambda>_.
     bindP (liftP (SerializeTransport E transport)) (\<lambda>expected_serialized_transport.
     decode_results E info transport expected_serialized_transport results))"

section \<open>Validation of the coordinator\<close>

definition coordinator_transport :: "PaimonDistributedWriteKind \<Rightarrow> PhysicalPaimonInsert \<Rightarrow>
    PaimonDistributedInsertTransport" where
  "coordinator_transport kind i =
     \<lparr>tp_write_kind = kind, tp_operation_id = ins_operation_id i,
      tp_database_name = id_database (ins_table_identifier i), tp_table_name = id_table (ins_table_identifier i),
      tp_table_uuid = ins_table_uuid i, tp_table_path = ins_table_path i,
      tp_schema_fingerprint = ins_schema_fingerprint i, tp_schema_id = ins_schema_id i,
      tp_append_only = ins_append_only i, tp_has_snapshot = ins_has_snapshot i,
      tp_snapshot_id = ins_snapshot_id i, tp_commit_identifier = ins_commit_identifier i,
      tp_input_types = ins_input_types i, tp_input_names = ins_input_names i, tp_part_keys = ins_part_keys i,
      tp_null_part_name = ins_null_part_name i, tp_portable_options = ins_portable_options i\<rparr>"

definition expected_kind :: "PhysicalPaimonInsert \<Rightarrow> PaimonDistributedWriteKind" where
  "expected_kind i = (if ins_info i = None then WK_INSERT else WK_CTAS)"

text \<open>Every field is compared, so the test is that the transport is the one the members describe.\<close>

definition GetCoordinatorTransport :: "('w, 'm, 'd) env \<Rightarrow> PhysicalPaimonInsert \<Rightarrow>
    PaimonDistributedInsertTransport res" where
  "GetCoordinatorTransport E i =
     res_bind (DeserializeTransport E (wp_worker_bind_data (ins_write_plan i))) (\<lambda>transport.
     if transport \<noteq> coordinator_transport (expected_kind i) i
     then Inl (InvalidInputException ''worker bind does not match its coordinator target'')
     else Inr transport)"

definition ValidateCoordinatorShape :: "('w, 'm, 'd) env \<Rightarrow> PhysicalPaimonInsert \<Rightarrow> unit res" where
  "ValidateCoordinatorShape E i =
     (if \<not> ins_append_only i then Inl (NotImplementedException ''append-only tables'')
      else if \<not> ins_target_initialized i \<or> \<not> ins_worker_plan_selected i \<or>
         wp_extension_name (ins_write_plan i) \<noteq> ''paimon'' \<or>
         wp_operator_name (ins_write_plan i) \<noteq> (if ins_info i = None then PAIMON_DISTRIBUTED_INSERT_OPERATOR
           else PAIMON_DISTRIBUTED_CTAS_OPERATOR) \<or>
         wp_worker_bind_data (ins_write_plan i) = [] \<or> length (ins_children i) \<noteq> 1 \<or>
         hd (ins_children i) \<noteq> ins_input_types i
      then Inl (InvalidInputException ''target or worker plan was not initialized'')
      else res_bind (GetCoordinatorTransport E i) (\<lambda>_. Inr ()))"

definition GetCoordinatorCatalog :: "('w, 'm, unit) coordP" where
  "GetCoordinatorCatalog =
     bindP (getP (\<lambda>s. ins_schema (co_insert s))) (\<lambda>schema.
     if schema = None then throwP (InvalidInputException ''no coordinator schema entry'')
     else bindP (getP cat_access_mode) (\<lambda>mode.
       checkP (mode = READ_ONLY) (PermissionException ''read-only Paimon catalog'')))"

definition ValidateCTASDefinition :: "PhysicalPaimonInsert \<Rightarrow> unit res" where
  "ValidateCTASDefinition i =
     (case ins_info i of
        None \<Rightarrow> Inl (InternalException ''no create-table information'')
      | Some base \<Rightarrow>
          if ci_on_conflict base \<noteq> ERROR_ON_CONFLICT
          then Inl (NotImplementedException ''error-on-conflict semantics'')
          else throw_if (ins_primary_keys i \<noteq> []) (NotImplementedException ''append-only tables''))"

definition ValidateCTASTargetAbsent :: "('w, 'm, 'd) env \<Rightarrow> ('w, 'm, unit) coordP" where
  "ValidateCTASTargetAbsent E =
     bindP (getP co_insert) (\<lambda>i.
     bindP (liftP (ValidateCTASDefinition i)) (\<lambda>_.
     bindP (call_io (EvRead ''TableExists'') (TableExists E (ins_table_identifier i))) (\<lambda>exists.
     checkP exists (CatalogException ''table already exists''))))"

definition same_target :: "PhysicalPaimonInsert \<Rightarrow> PaimonDistributedTargetState \<Rightarrow> bool" where
  "same_target i current \<longleftrightarrow> tg_append_only current = ins_append_only i \<and>
     tg_field_names current = ins_input_names i \<and> tg_field_types current = ins_input_types i \<and>
     tg_part_keys current = ins_part_keys i \<and> tg_primary_keys current = ins_primary_keys i \<and>
     tg_table_options current = ins_table_options i \<and> tg_null_part_name current = ins_null_part_name i"

definition ValidateTargetBaseline :: "('w, 'm, 'd) env \<Rightarrow> ('w, 'm, unit) coordP" where
  "ValidateTargetBaseline E =
     bindP GetCoordinatorCatalog (\<lambda>_.
     bindP (getP co_insert) (\<lambda>i.
     bindP (LoadTargetState E (ins_table_identifier i)) (\<lambda>current.
     if tg_table_uuid current \<noteq> ins_table_uuid i then throwP (TransactionException ''table was replaced'')
     else if tg_table_path current \<noteq> ins_table_path i then throwP (TransactionException ''path changed'')
     else if tg_schema_id current \<noteq> ins_schema_id i \<or>
             tg_table_schema_json current \<noteq> ins_table_schema_json i \<or> \<not> same_target i current
     then throwP (TransactionException ''schema changed'')
     else checkP (tg_has_snapshot current \<noteq> ins_has_snapshot i \<or> tg_snapshot_id current \<noteq> ins_snapshot_id i)
       (TransactionException ''snapshot changed''))))"

definition CapturePreparedCTASTarget :: "('w, 'm, 'd) env \<Rightarrow> ('w, 'm, unit) coordP" where
  "CapturePreparedCTASTarget E =
     bindP GetCoordinatorCatalog (\<lambda>_.
     bindP (getP co_insert) (\<lambda>i.
     bindP (LoadTargetState E (ins_table_identifier i)) (\<lambda>current.
     if tg_table_uuid current \<noteq> ins_table_uuid i \<or> tg_table_path current \<noteq> ins_table_path i \<or>
        tg_schema_id current \<noteq> ins_schema_id i \<or> tg_has_snapshot current \<or> tg_snapshot_id current \<noteq> 0 \<or>
        \<not> same_target i current
     then throwP (TransactionException ''prepared table does not match the frozen definition'')
     else set_insert (\<lambda>i. i\<lparr>ins_table_schema_json := tg_table_schema_json current\<rparr>))))"

section \<open>The life of a distributed write\<close>

definition SetDistributedWriteContext :: "('w, 'm, unit) coordP" where
  "SetDistributedWriteContext =
     bindP (getP (\<lambda>s. ins_context (co_insert s))) (\<lambda>already.
     if already then throwP (InternalException ''context was set more than once'')
     else set_insert (\<lambda>i. i\<lparr>ins_context := True\<rparr>))"

definition generate_uuid :: "('w, 'm, 'd) env \<Rightarrow> ('w, 'm, 'z, string) sysP" where
  "generate_uuid E = (\<lambda>s. case GenerateUUID E (sys_world s) of (u, w) \<Rightarrow> (Inr u, s\<lparr>sys_world := w\<rparr>))"

definition initialize_ctas :: "('w, 'm, 'd) env \<Rightarrow> LogicalType list \<Rightarrow> CreateTableInfo \<Rightarrow> ('w, 'm, unit) coordP" where
  "initialize_ctas E input_types base =
     bindP (set_insert (\<lambda>i. i\<lparr>ins_input_names := map fst (ci_columns base),
       ins_input_types := map snd (ci_columns base)\<rparr>)) (\<lambda>_.
     if input_types \<noteq> map snd (ci_columns base)
     then throwP (InvalidInputException ''CTAS input schema'')
     else bindP (liftP (GetCreatePrimaryKeys (map fst (ci_columns base)) (ci_constraints base) [])) (\<lambda>pks.
     bindP (set_insert (\<lambda>i. i\<lparr>ins_primary_keys := pks\<rparr>)) (\<lambda>_.
     bindP (liftP (GetCreateTableOptions (ci_options base) [])) (\<lambda>os.
     bindP (set_insert (\<lambda>i. i\<lparr>ins_table_options := os, ins_append_only := (pks = [])\<rparr>)) (\<lambda>_.
     bindP (getP co_insert) (\<lambda>i.
     bindP (liftP (ValidateCTASDefinition i)) (\<lambda>_.
     bindP (set_insert (\<lambda>i. i\<lparr>ins_table_uuid := FullName E (ins_table_identifier i)\<rparr>)) (\<lambda>_.
     bindP (call (EvRead ''GetTableLocation'') (GetTableLocation E (ins_table_identifier i))) (\<lambda>path_result.
     case path_result of
       Inl st \<Rightarrow> throwP (NotImplementedException ''catalog resolves the location before creation'')
     | Inr path \<Rightarrow> set_insert (\<lambda>i. i\<lparr>ins_table_path := path, ins_schema_id := 0, ins_has_snapshot := False,
         ins_snapshot_id := 0, ins_null_part_name := null_partition_name E os,
         ins_schema_fingerprint := PlannedSchemaFingerprint E (map fst (ci_columns base))
           (map snd (ci_columns base)) (ins_part_keys i) pks os\<rparr>))))))))))"

definition initialize_insert :: "('w, 'm, 'd) env \<Rightarrow> LogicalType list \<Rightarrow> ('w, 'm, unit) coordP" where
  "initialize_insert E input_types = with_mutex (
     bindP (getP co_insert) (\<lambda>i.
     bindP (LoadTargetState E (ins_table_identifier i)) (\<lambda>target.
     if input_types \<noteq> tg_field_types target
     then throwP (InvalidInputException ''INSERT input schema'')
     else if ins_part_keys i \<noteq> tg_part_keys target
     then throwP (InternalException ''INSERT partition keys'')
     else set_insert (\<lambda>i. i\<lparr>ins_table_uuid := tg_table_uuid target, ins_table_path := tg_table_path target,
       ins_table_schema_json := tg_table_schema_json target,
       ins_schema_fingerprint := SchemaFingerprint E (tg_table_schema_json target),
       ins_schema_id := tg_schema_id target, ins_append_only := tg_append_only target,
       ins_has_snapshot := tg_has_snapshot target, ins_snapshot_id := tg_snapshot_id target,
       ins_input_types := input_types, ins_input_names := tg_field_names target,
       ins_primary_keys := tg_primary_keys target, ins_table_options := tg_table_options target,
       ins_null_part_name := tg_null_part_name target\<rparr>))))"

definition InitializeDistributedWrite :: "('w, 'm, 'd) env \<Rightarrow> LogicalType list \<Rightarrow> ('w, 'm, unit) coordP" where
  "InitializeDistributedWrite E input_types =
     bindP (getP co_insert) (\<lambda>i.
     if ins_target_initialized i then throwP (InternalException ''initialized more than once'')
     else if ins_schema i = None then throwP (InternalException ''requires a coordinator schema entry'')
     else bindP (generate_uuid E) (\<lambda>operation_id.
     bindP (set_insert (\<lambda>i. i\<lparr>ins_operation_id := operation_id,
       ins_commit_identifier := CreateCommitIdentifier E operation_id,
       ins_portable_options := GetPortableWriteOptions E (ins_paimon_options i)\<rparr>)) (\<lambda>_.
     bindP (case ins_info i of
         Some base \<Rightarrow> initialize_ctas E input_types base
       | None \<Rightarrow> initialize_insert E input_types) (\<lambda>_.
     bindP (getP co_insert) (\<lambda>j.
     let transport = coordinator_transport (expected_kind i) j in
     bindP (liftP (WriteOperatorName (expected_kind i))) (\<lambda>name.
     bindP (set_insert (\<lambda>i. i\<lparr>ins_write_plan := (ins_write_plan i)\<lparr>wp_extension_name := ''paimon'',
       wp_operator_name := name\<rparr>\<rparr>)) (\<lambda>_.
     bindP (liftP (SerializeTransport E transport)) (\<lambda>bytes.
     set_insert (\<lambda>i. i\<lparr>ins_write_plan := (ins_write_plan i)\<lparr>wp_worker_bind_data := bytes\<rparr>,
       ins_target_initialized := True\<rparr>)))))))))"

definition GetExtensionWriteTaskProvider :: "('w, 'm, 'd) env \<Rightarrow> ('w, 'm, unit) coordP" where
  "GetExtensionWriteTaskProvider E =
     bindP (getP co_insert) (\<lambda>i.
     if ins_worker_plan_selected i then retP ()
     else if length (ins_children i) \<noteq> 1 then throwP (InvalidInputException ''exactly one physical child'')
     else if \<not> ins_context i then throwP (InvalidInputException ''no coordinator context'')
     else bindP (if ins_target_initialized i then retP ()
                 else InitializeDistributedWrite E (hd (ins_children i))) (\<lambda>_.
       set_insert (\<lambda>i. i\<lparr>ins_worker_plan_selected := True\<rparr>)))"

definition WritePlan :: "('w, 'm, 'd) env \<Rightarrow> ('w, 'm, DistributedExtensionWritePlan) coordP" where
  "WritePlan E =
     bindP (getP co_insert) (\<lambda>i.
     bindP (liftP (ValidateCoordinatorShape E i)) (\<lambda>_. retP (ins_write_plan i)))"

definition ValidateDistributedWrite :: "('w, 'm, 'd) env \<Rightarrow> ('w, 'm, unit) coordP" where
  "ValidateDistributedWrite E =
     bindP (getP co_insert) (\<lambda>i.
     bindP (liftP (ValidateCoordinatorShape E i)) (\<lambda>_.
     case ins_info i of
       Some _ \<Rightarrow> bindP (liftP (ValidateCTASDefinition i)) (\<lambda>_. GetCoordinatorCatalog)
     | None \<Rightarrow> with_mutex (ValidateTargetBaseline E)))"

definition PrepareDistributedWrite :: "('w, 'm, 'd) env \<Rightarrow> ('w, 'm, unit) coordP" where
  "PrepareDistributedWrite E =
     bindP (getP co_insert) (\<lambda>i.
     bindP (liftP (ValidateCoordinatorShape E i)) (\<lambda>_.
     if ins_prepare_started i then throwP (InvalidInputException ''preparation started more than once'')
     else bindP (set_insert (\<lambda>i. i\<lparr>ins_prepare_started := True\<rparr>)) (\<lambda>_.
     case ins_info i of
       None \<Rightarrow> with_mutex (bindP (ValidateTargetBaseline E) (\<lambda>_.
          set_insert (\<lambda>i. i\<lparr>ins_target_prepared := True\<rparr>)))
     | Some base \<Rightarrow>
          bindP (liftP (ValidateCTASDefinition i)) (\<lambda>_.
          bindP (with_mutex (bindP GetCoordinatorCatalog (\<lambda>_. ValidateCTASTargetAbsent E))) (\<lambda>_.
          bindP (SchemaEntry_CreateTable E (the (ins_schema i)) base) (\<lambda>_.
          bindP (with_mutex (CapturePreparedCTASTarget E)) (\<lambda>_.
          set_insert (\<lambda>i. i\<lparr>ins_target_prepared := True\<rparr>))))))))"

definition decode_for :: "('w, 'm, 'd) env \<Rightarrow> PhysicalPaimonInsert \<Rightarrow> PaimonDistributedInsertTransport \<Rightarrow>
    DistributedWriteTaskResult list \<Rightarrow> unit res \<times> 'm decoding" where
  "decode_for E i transport results =
     (case ResolveWriteInfo E (ins_write_plan i) of
        Inl e \<Rightarrow> (Inl e, decoding_start)
      | Inr info \<Rightarrow> DecodeCommitResults E info transport results decoding_start)"

definition coordinator_commit_user :: "PaimonDistributedInsertTransport \<Rightarrow> string" where
  "coordinator_commit_user transport = ''vane-'' @ CompactUUID (tp_operation_id transport)"

text \<open>The second \<open>try\<close> block: \<open>None\<close> is the early \<open>return 0\<close>.\<close>

definition finalize_precommit :: "('w, 'm, 'd) env \<Rightarrow> PaimonDistributedInsertTransport \<Rightarrow> options \<Rightarrow>
    'm decoding \<Rightarrow> ('w, 'm, nat option) coordP" where
  "finalize_precommit E transport opts decoded =
     bindP (ValidateTargetBaseline E) (\<lambda>_.
     if de_messages decoded = []
     then bindP (checkP (de_row_count decoded \<noteq> 0) (InvalidInputException ''rows without commit messages'')) (\<lambda>_.
          retP None)
     else if de_row_count decoded = 0
     then throwP (InvalidInputException ''commit messages without rows'')
     else bindP (CreateCommitter E transport opts (coordinator_commit_user transport) True) (\<lambda>c. retP (Some c)))"

definition finalize_commit :: "('w, 'm, 'd) env \<Rightarrow> PaimonDistributedInsertTransport \<Rightarrow> 'm decoding \<Rightarrow> nat \<Rightarrow>
    ('w, 'm, idx_t) coordP" where
  "finalize_commit E transport decoded committer =
     (let commits = map_emplace (tp_commit_identifier transport) (de_messages decoded) []
      in bindP (call (EvCommit committer commits) (Committer_FilterAndCommit E committer commits)) (\<lambda>r.
         case r of
           Inl st \<Rightarrow> throwP (IOException ''commit outcome is unknown'')
         | Inr n \<Rightarrow> bindP (checkP (n \<noteq> 1) (IOException ''commit outcome is unknown'')) (\<lambda>_.
             retP (de_row_count decoded))))"

definition finalize_locked :: "('w, 'm, 'd) env \<Rightarrow> PaimonDistributedInsertTransport \<Rightarrow> options \<Rightarrow> 'm decoding \<Rightarrow>
    ('w, 'm, idx_t) coordP" where
  "finalize_locked E transport opts decoded = (\<lambda>s.
     case finalize_precommit E transport opts decoded (snd (record_event EvLock s)) of
       (Inl e, t) \<Rightarrow> bindP (BestEffortAbortMessages E transport opts (coordinator_commit_user transport)
           (de_messages decoded)) (\<lambda>_. throwP e) (snd (record_event EvUnlock t))
     | (Inr None, t) \<Rightarrow> (Inr 0, snd (record_event EvUnlock t))
     | (Inr (Some c), t) \<Rightarrow> (case finalize_commit E transport decoded c t of
         (r, u) \<Rightarrow> (r, snd (record_event EvUnlock u))))"

definition FinalizeDistributedWrite :: "('w, 'm, 'd) env \<Rightarrow> DistributedWriteTaskResult list \<Rightarrow> ('w, 'm, idx_t) coordP" where
  "FinalizeDistributedWrite E results =
     bindP (getP co_insert) (\<lambda>i.
     bindP (liftP (ValidateCoordinatorShape E i)) (\<lambda>_.
     if ins_finalize_started i then throwP (InvalidInputException ''finalized more than once'')
     else bindP (set_insert (\<lambda>i. i\<lparr>ins_finalize_started := True\<rparr>)) (\<lambda>_.
     if \<not> ins_target_prepared i then throwP (InvalidInputException ''target was not prepared'')
     else bindP (liftP (GetCoordinatorTransport E i)) (\<lambda>transport.
     bindP (liftP (BuildRuntimeOptions E transport None)) (\<lambda>opts.
     case decode_for E i transport results of
       (Inl e, decoded) \<Rightarrow> bindP (BestEffortAbortMessages E transport opts
           (coordinator_commit_user transport) (de_messages decoded)) (\<lambda>_. throwP e)
     | (Inr _, decoded) \<Rightarrow> finalize_locked E transport opts decoded)))))"

definition AbortDistributedWrite :: "('w, 'm, 'd) env \<Rightarrow> DistributedWriteTaskResult list \<Rightarrow> ('w, 'm, unit) coordP" where
  "AbortDistributedWrite E selected_results =
     bindP (getP co_insert) (\<lambda>i.
     bindP (liftP (ValidateCoordinatorShape E i)) (\<lambda>_.
     if ins_finalize_started i then throwP (InvalidInputException ''cannot abort after finalization started'')
     else if selected_results = [] then retP ()
     else bindP (liftP (GetCoordinatorTransport E i)) (\<lambda>transport.
     bindP (liftP (BuildRuntimeOptions E transport None)) (\<lambda>opts.
     case decode_for E i transport selected_results of (r, decoded) \<Rightarrow>
       bindP (BestEffortAbortMessages E transport opts (coordinator_commit_user transport)
         (de_messages decoded)) (\<lambda>_. liftP r)))))"

definition BuildPipelines :: "PhysicalPaimonInsert \<Rightarrow> unit res" where
  "BuildPipelines i = throw_if (ins_worker_plan_selected i)
     (InvalidInputException ''worker plan cannot execute as a native coordinator operator'')"

end
