(* ===== verification/Trace_Lock.thy ===== *)
theory Trace_Lock
  imports Paimon_Api
begin

text \<open>
  The discipline of the global mutex \<open>PaimonCatalog::GetVaneMutex\<close>
  (\<^verbatim>\<open>src/src/paimon_storage/paimon_catalog.cpp\<close>), a non-recursive \<open>std::mutex\<close>: it is never taken by a
  thread that holds it (which would be undefined behaviour), it is released on every way out, and
  the calls that change the catalog or commit to a table are made while it is held.

  \<open>lock_run\<close> is the monitor of that discipline over a trace in chronological order;
  \<open>disciplined h m\<close> says that the procedure \<open>m\<close>, entered with the mutex held (\<open>h\<close>) or not, obeys it and
  leaves it as it was. The rules \<open>lock_intros\<close> follow the structure of a procedure.
\<close>

fun guarded :: "'m event \<Rightarrow> bool" where
  "guarded (EvCreateTable _ _) = True"
| "guarded (EvDropTable _) = True"
| "guarded (EvCreateDatabase _) = True"
| "guarded (EvDropDatabase _) = True"
| "guarded (EvCommit _ _) = True"
| "guarded (EvNativeCommit _ _) = True"
| "guarded _ = False"

fun lock_step :: "bool \<Rightarrow> 'm event \<Rightarrow> bool option" where
  "lock_step h EvLock = (if h then None else Some True)"
| "lock_step h EvUnlock = (if h then Some False else None)"
| "lock_step h ev = (if guarded ev \<and> \<not> h then None else Some h)"

fun lock_run :: "bool \<Rightarrow> 'm event list \<Rightarrow> bool option" where
  "lock_run h [] = Some h"
| "lock_run h (ev # evs) = Option.bind (lock_step h ev) (\<lambda>h'. lock_run h' evs)"

lemma lock_run_append: "lock_run h (evs @ evs') = Option.bind (lock_run h evs) (\<lambda>h'. lock_run h' evs')"
proof (induction evs arbitrary: h)
  case (Cons ev evs)
  then show ?case by (cases "lock_step h ev") simp_all
qed simp

definition disciplined :: "bool \<Rightarrow> ('w, 'm, 'z, 'a) sysP \<Rightarrow> bool" where
  "disciplined h m \<longleftrightarrow> (\<forall>s. \<exists>evs. sys_trace (snd (m s)) = rev evs @ sys_trace s \<and> lock_run h evs = Some h)"

named_theorems lock_intros \<open>the locking discipline of the procedures\<close>

lemma disciplinedI:
  "(\<And>s. \<exists>evs. sys_trace (snd (m s)) = rev evs @ sys_trace s \<and> lock_run h evs = Some h) \<Longrightarrow> disciplined h m"
  by (simp add: disciplined_def)

lemma disciplinedE:
  assumes "disciplined h m" "m s = (r, t)"
  obtains evs where "sys_trace t = rev evs @ sys_trace s" "lock_run h evs = Some h"
  using assms unfolding disciplined_def by (metis snd_conv)

text \<open>A procedure that emits neither lock events nor guarded calls is disciplined in both states.\<close>

definition unlocked :: "'m event \<Rightarrow> bool" where
  "unlocked ev \<longleftrightarrow> ev \<noteq> EvLock \<and> ev \<noteq> EvUnlock \<and> \<not> guarded ev"

lemma unlocked_simps [simp]:
  "unlocked (EvRead x)" "unlocked (EvOpenWriter wc)" "unlocked (EvWrite h b)" "unlocked (EvPrepare h)"
  "unlocked (EvPrepared h ms)" "unlocked (EvClose h)" "unlocked (EvAbortRequest ms)" "unlocked (EvPublish ms)"
  "unlocked (EvOpenCommitter cc)" "unlocked (EvAbort h ms)"
  by (simp_all add: unlocked_def)

lemma lock_step_unlocked: "unlocked ev \<Longrightarrow> lock_step h ev = Some h"
  by (cases ev) (auto simp: unlocked_def)

lemma lock_run_unlocked: "list_all unlocked evs \<Longrightarrow> lock_run h evs = Some h"
  by (induction evs) (simp_all add: lock_step_unlocked)

lemma emits_disciplined:
  assumes "emits unlocked m"
  shows "disciplined h m"
proof (rule disciplinedI)
  fix s
  obtain evs where "sys_trace (snd (m s)) = evs @ sys_trace s" "list_all unlocked evs"
    using assms unfolding emits_def by blast
  then show "\<exists>evs. sys_trace (snd (m s)) = rev evs @ sys_trace s \<and> lock_run h evs = Some h"
    by (intro exI [of _ "rev evs"]) (simp add: lock_run_unlocked)
qed

lemma lock_bindP [lock_intros]:
  assumes "disciplined h m" "\<And>x. disciplined h (f x)"
  shows "disciplined h (bindP m f)"
proof (rule disciplinedI)
  fix s
  obtain r t where m: "m s = (r, t)" by fastforce
  obtain evs where evs: "sys_trace t = rev evs @ sys_trace s" "lock_run h evs = Some h"
    using disciplinedE [OF assms(1) m] .
  show "\<exists>evs. sys_trace (snd (bindP m f s)) = rev evs @ sys_trace s \<and> lock_run h evs = Some h"
  proof (cases r)
    case (Inl e)
    then show ?thesis using m evs by auto
  next
    case (Inr x)
    obtain r' u where f: "f x t = (r', u)" by fastforce
    obtain evs' where "sys_trace u = rev evs' @ sys_trace t" "lock_run h evs' = Some h"
      using disciplinedE [OF assms(2) f] .
    then show ?thesis
      using m Inr evs f by (intro exI [of _ "evs @ evs'"]) (simp add: lock_run_append)
  qed
qed

lemma lock_pure [lock_intros]:
  "disciplined h (retP x)" "disciplined h (liftP r)" "disciplined h (throwP e)" "disciplined h (getP f)"
  "disciplined h (checkP c e)" "disciplined h (value_or_io q)"
  by (intro emits_disciplined emits_pure)+

lemma lock_modifyP [lock_intros]:
  "(\<And>s. sys_trace (f s) = sys_trace s) \<Longrightarrow> disciplined h (modifyP f)"
  by (intro emits_disciplined emits_modifyP)

lemma lock_call [lock_intros]: "unlocked ev \<Longrightarrow> disciplined h (call ev f)" "unlocked ev \<Longrightarrow> disciplined h (call_io ev f)"
  by (intro emits_disciplined emits_intros; assumption)+

lemma lock_call_held [lock_intros]: "guarded ev \<Longrightarrow> disciplined True (call ev f)"
proof (rule disciplinedI)
  fix s
  assume "guarded ev"
  then have "lock_run True [ev] = Some True"
    by (cases ev) auto
  then show "\<exists>evs. sys_trace (snd (call ev f s)) = rev evs @ sys_trace s \<and> lock_run True evs = Some True"
    by (intro exI [of _ "[ev]"]) (simp add: call_def split: prod.splits)
qed

lemma lock_call_io_held [lock_intros]: "guarded ev \<Longrightarrow> disciplined True (call_io ev f)"
  unfolding call_io_def by (intro lock_intros)

lemma lock_with_mutex [lock_intros]:
  assumes "disciplined True m"
  shows "disciplined False (with_mutex m)"
proof (rule disciplinedI)
  fix s
  obtain r t where m: "m (snd (record_event EvLock s)) = (r, t)" by fastforce
  obtain evs where "sys_trace t = rev evs @ EvLock # sys_trace s" "lock_run True evs = Some True"
    using disciplinedE [OF assms m] by auto
  then show "\<exists>evs. sys_trace (snd (with_mutex m s)) = rev evs @ sys_trace s \<and> lock_run False evs = Some False"
    using m by (intro exI [of _ "EvLock # evs @ [EvUnlock]"]) (simp add: with_mutex_def lock_run_append)
qed

lemma lock_if [lock_intros]:
  "(c \<Longrightarrow> disciplined h m) \<Longrightarrow> (\<not> c \<Longrightarrow> disciplined h n) \<Longrightarrow> disciplined h (if c then m else n)"
  by simp

lemma lock_case_option [lock_intros]:
  "(x = None \<Longrightarrow> disciplined h m) \<Longrightarrow> (\<And>y. x = Some y \<Longrightarrow> disciplined h (f y)) \<Longrightarrow>
   disciplined h (case x of None \<Rightarrow> m | Some y \<Rightarrow> f y)"
  by (cases x) auto

lemma lock_case_sum [lock_intros]:
  "(\<And>y. x = Inl y \<Longrightarrow> disciplined h (f y)) \<Longrightarrow> (\<And>y. x = Inr y \<Longrightarrow> disciplined h (g y)) \<Longrightarrow>
   disciplined h (case x of Inl y \<Rightarrow> f y | Inr y \<Rightarrow> g y)"
  by (cases x) auto

lemma lock_case_prod [lock_intros]:
  "(\<And>y z. x = (y, z) \<Longrightarrow> disciplined h (f y z)) \<Longrightarrow> disciplined h (case x of (y, z) \<Rightarrow> f y z)"
  by (cases x) auto

end
