(* ===== verification/Coordinator_Correct.thy ===== *)
theory Coordinator_Correct
  imports Dist_Coordinator Trace_Lock
begin

text \<open>
  What the coordinator of a distributed write guarantees, whatever the order in which Vane calls it,
  whatever the workers return and whatever fails: one commit at most and no abort after it, exactly
  the selected messages committed, cleanup of what was decoded when the commit is not reached, and
  the discipline of the catalog mutex.
\<close>

section \<open>Runs of the coordinator\<close>

datatype coord_op =
    CoContext
  | CoInitialize "LogicalType list"
  | CoProvider
  | CoPlan
  | CoValidate
  | CoPrepare
  | CoFinalize "DistributedWriteTaskResult list"
  | CoAbort "DistributedWriteTaskResult list"

definition run_coord :: "('w, 'm, 'd) env \<Rightarrow> coord_op \<Rightarrow> ('w, 'm, unit) coordP" where
  "run_coord E op = (case op of
     CoContext \<Rightarrow> SetDistributedWriteContext
   | CoInitialize types \<Rightarrow> InitializeDistributedWrite E types
   | CoProvider \<Rightarrow> GetExtensionWriteTaskProvider E
   | CoPlan \<Rightarrow> voidP (WritePlan E)
   | CoValidate \<Rightarrow> ValidateDistributedWrite E
   | CoPrepare \<Rightarrow> PrepareDistributedWrite E
   | CoFinalize results \<Rightarrow> voidP (FinalizeDistributedWrite E results)
   | CoAbort results \<Rightarrow> AbortDistributedWrite E results)"

inductive coord_reach :: "('w, 'm, 'd) env \<Rightarrow> ('w, 'm) coord \<Rightarrow> coord_op list \<Rightarrow> ('w, 'm) coord \<Rightarrow> bool"
  for E s0 where
  start: "coord_reach E s0 [] s0"
| step: "coord_reach E s0 ops s \<Longrightarrow> run_coord E op s = (r, t) \<Longrightarrow> coord_reach E s0 (ops @ [op]) t"

lemma voidP_eq [simp]: "voidP m s = (case m s of (Inl e, t) \<Rightarrow> (Inl e, t) | (Inr _, t) \<Rightarrow> (Inr (), t))"
  by (auto simp: voidP_def bindP_def split: prod.splits sum.splits)

section \<open>What the parts emit\<close>

lemma emits_case_prod [emits_intros]:
  "(\<And>y z. x = (y, z) \<Longrightarrow> emits P (f y z)) \<Longrightarrow> emits P (case x of (y, z) \<Rightarrow> f y z)"
  by (cases x) auto

lemma emits_reads [emits_intros]:
  assumes "\<And>x. P (EvRead x)"
  shows "emits P (LoadTableUUID E ident)" "emits P (LoadTargetState E ident)"
proof -
  show u: "emits P (LoadTableUUID E ident)"
    unfolding LoadTableUUID_def by (intro emits_intros assms)
  show "emits P (LoadTargetState E ident)"
    unfolding LoadTargetState_def by (intro emits_intros u assms)
qed

lemma emits_generate_uuid [emits_intros]: "emits P (generate_uuid E)"
  by (rule emitsI_same) (simp add: generate_uuid_def split: prod.splits)

lemma emits_CreateCommitter [emits_intros]:
  assumes "\<And>x. P (EvRead x)" "\<And>cc. P (EvOpenCommitter cc)"
  shows "emits P (CreateCommitter E tp os u b)"
  unfolding CreateCommitter_def Let_def by (intro emits_intros assms)

lemma emits_GetCoordinatorCatalog [emits_intros]: "emits P GetCoordinatorCatalog"
  unfolding GetCoordinatorCatalog_def by (intro emits_intros)

lemma emits_BuildEntry [emits_intros]:
  assumes "\<And>x. P (EvRead x)"
  shows "emits P (BuildEntry E p n)" "emits P (RefreshEntry E p n)"
proof -
  show b: "emits P (BuildEntry E p n)"
    unfolding BuildEntry_def by (intro emits_intros assms) simp
  show "emits P (RefreshEntry E p n)"
    unfolding RefreshEntry_def by (intro emits_intros b) simp
qed

lemma emits_checks [emits_intros]:
  assumes "\<And>x. P (EvRead x)"
  shows "emits P (ValidateTargetBaseline E)" "emits P (ValidateCTASTargetAbsent E)"
    "emits P (CapturePreparedCTASTarget E)"
  unfolding ValidateTargetBaseline_def ValidateCTASTargetAbsent_def CapturePreparedCTASTarget_def
  by (intro emits_intros assms; simp)+

lemma emits_initialize [emits_intros]:
  assumes "\<And>x. P (EvRead x)" "P EvLock" "P EvUnlock"
  shows "emits P (InitializeDistributedWrite E types)"
  unfolding InitializeDistributedWrite_def initialize_ctas_def initialize_insert_def Let_def
  by (intro emits_intros assms; simp)

section \<open>Decisions\<close>

text \<open>The events that decide the fate of commit messages; the newest comes first.\<close>

definition decisive :: "'m event \<Rightarrow> bool" where
  "decisive ev = (case ev of EvCommit _ _ \<Rightarrow> True | EvNativeCommit _ _ \<Rightarrow> True | EvAbortRequest _ \<Rightarrow> True | _ \<Rightarrow> False)"

definition decisions :: "'m event list \<Rightarrow> 'm event list" where
  "decisions tr = filter decisive tr"

abbreviation minor :: "'m event \<Rightarrow> bool" where
  "minor ev \<equiv> \<not> decisive ev"

lemma decisive_simps [simp]:
  "decisive (EvCommit c cs)" "decisive (EvAbortRequest ms)" "minor EvLock" "minor EvUnlock" "minor (EvRead x)"
  "minor (EvCreateTable i q)" "minor (EvOpenCommitter cc)" "minor (EvAbort c ms)"
  by (simp_all add: decisive_def)

lemma decisions_simps [simp]:
  "decisions [] = []" "decisions (ev # tr) = (if decisive ev then [ev] else []) @ decisions tr"
  "decisions (evs @ tr) = decisions evs @ decisions tr"
  by (simp_all add: decisions_def)

lemma decisions_minor: "list_all (\<lambda>ev. minor ev) evs \<Longrightarrow> decisions evs = []"
  by (induction evs) simp_all

lemma emits_minor:
  assumes "emits (\<lambda>ev. minor ev) m" "m s = (r, t)"
  shows "decisions (sys_trace t) = decisions (sys_trace s)"
  using emitsE [OF assms] by (metis append_Nil decisions_minor decisions_simps(3))

abbreviation request :: "'m option list \<Rightarrow> 'm event list" where
  "request ms \<equiv> (if ms = [] then [] else [EvAbortRequest ms])"

lemma BestEffortAbort_decisions:
  assumes "BestEffortAbortMessages E tp os u ms s = (r, t)"
  shows "r = Inr () \<and> decisions (sys_trace t) = request ms @ decisions (sys_trace s)"
proof (cases "ms = []")
  case True
  then show ?thesis
    using assms by (auto simp: BestEffortAbortMessages_def AbortMessages_def swallowP_def)
next
  case False
  let ?s = "s\<lparr>sys_trace := EvAbortRequest ms # sys_trace s\<rparr>"
  let ?rest = "bindP (CreateCommitter E tp os u False) (\<lambda>c. call_io (EvAbort c ms) (Committer_Abort E c ms))"
  have "emits (\<lambda>ev. minor ev) ?rest"
    by (intro emits_intros decisive_simps)
  then have "decisions (sys_trace (snd (?rest ?s))) = decisions (sys_trace ?s)"
    by (rule emits_minor) (rule surjective_pairing)
  then show ?thesis
    using assms False by (auto simp: BestEffortAbortMessages_def AbortMessages_def swallowP_def)
qed

section \<open>The critical section\<close>

lemma finalize_precommit_decisions:
  assumes "finalize_precommit E tp os d s = (r, t)"
  shows "decisions (sys_trace t) = decisions (sys_trace s)" and
    "r = Inr None \<Longrightarrow> de_messages d = [] \<and> de_row_count d = 0" and
    "r = Inr (Some c) \<Longrightarrow> de_messages d \<noteq> [] \<and> de_row_count d \<noteq> 0"
proof -
  have "emits (\<lambda>ev. minor ev) (finalize_precommit E tp os d)"
    unfolding finalize_precommit_def by (intro emits_intros decisive_simps)
  then show "decisions (sys_trace t) = decisions (sys_trace s)"
    using assms by (rule emits_minor)
  show "r = Inr None \<Longrightarrow> de_messages d = [] \<and> de_row_count d = 0"
    and "r = Inr (Some c) \<Longrightarrow> de_messages d \<noteq> [] \<and> de_row_count d \<noteq> 0"
    using assms by (auto simp: finalize_precommit_def res_simps split: if_split_asm)
qed

lemma finalize_commit_decisions:
  assumes "finalize_commit E tp d c s = (r, t)"
  shows "decisions (sys_trace t) = EvCommit c [(tp_commit_identifier tp, de_messages d)] # decisions (sys_trace s)"
    and "r = Inr n \<Longrightarrow> n = de_row_count d"
  using assms
  by (auto simp: finalize_commit_def Let_def map_emplace_def call_def bindP_def split: prod.splits sum.splits if_splits)

text \<open>The three ways out: nothing to commit, one commit of everything, or cleanup without a commit.\<close>

lemma finalize_locked_cases:
  assumes "finalize_locked E tp os d s = (r, t)"
  obtains (empty) "r = Inr 0" "de_messages d = []" "de_row_count d = 0"
      "decisions (sys_trace t) = decisions (sys_trace s)"
  | (commit) c where "de_messages d \<noteq> []" "\<And>n. r = Inr n \<Longrightarrow> n = de_row_count d" "de_row_count d \<noteq> 0"
      "decisions (sys_trace t) = EvCommit c [(tp_commit_identifier tp, de_messages d)] # decisions (sys_trace s)"
  | (cleanup) e where "r = Inl e"
      "decisions (sys_trace t) = request (de_messages d) @ decisions (sys_trace s)"
proof -
  obtain q u where pre: "finalize_precommit E tp os d (snd (record_event EvLock s)) = (q, u)" by fastforce
  note p = finalize_precommit_decisions [OF pre]
  consider e where "q = Inl e" | "q = Inr None" | c where "q = Inr (Some c)"
    by (metis not_Some_eq obj_sumE)
  then show thesis
  proof cases
    case 1
    obtain q' v where a: "BestEffortAbortMessages E tp os (coordinator_commit_user tp) (de_messages d)
        (snd (record_event EvUnlock u)) = (q', v)" by fastforce
    note b = BestEffortAbort_decisions [OF a]
    have "r = Inl e \<and> t = v"
      using assms pre 1 a b by (simp add: finalize_locked_def)
    then show thesis using b p(1) cleanup by simp
  next
    case 2
    then show thesis using assms pre p empty by (auto simp: finalize_locked_def)
  next
    case 3
    obtain q' v where f: "finalize_commit E tp d c u = (q', v)" by fastforce
    have "r = q' \<and> t = snd (record_event EvUnlock v)"
      using assms pre 3 f by (simp add: finalize_locked_def)
    then show thesis
      using commit [of c] p(1) p(3) [OF 3] finalize_commit_decisions [OF f] by simp
  qed
qed

section \<open>At most one commit\<close>

abbreviation started :: "('w, 'm) coord \<Rightarrow> bool" where
  "started s \<equiv> ins_finalize_started (co_insert s)"

lemma keeps_case_prod [keeps_intros]:
  "(\<And>y z. x = (y, z) \<Longrightarrow> keeps f (g y z)) \<Longrightarrow> keeps f (case x of (y, z) \<Rightarrow> g y z)"
  by (cases x) auto

lemma keeps_with_mutex [keeps_intros]:
  assumes "\<And>s tr. f (s\<lparr>sys_trace := tr\<rparr>) = f s" "keeps f m"
  shows "keeps f (with_mutex m)"
  using assms by (simp add: keeps_def with_mutex_def split: prod.splits) (metis snd_conv)

lemma keeps_reads [keeps_intros]:
  assumes "\<And>s w tr. f (s\<lparr>sys_world := w, sys_trace := tr\<rparr>) = f s"
  shows "keeps f (LoadTargetState E ident)"
  unfolding LoadTargetState_def LoadTableUUID_def by (intro keeps_intros assms)

lemma keeps_generate_uuid [keeps_intros]:
  assumes "\<And>s w. f (s\<lparr>sys_world := w\<rparr>) = f s"
  shows "keeps f (generate_uuid E)"
  using assms by (simp add: keeps_def generate_uuid_def split: prod.splits)

lemmas coord_ops_defs = SetDistributedWriteContext_def InitializeDistributedWrite_def initialize_ctas_def
  initialize_insert_def GetExtensionWriteTaskProvider_def WritePlan_def ValidateDistributedWrite_def
  PrepareDistributedWrite_def ValidateTargetBaseline_def ValidateCTASTargetAbsent_def
  CapturePreparedCTASTarget_def GetCoordinatorCatalog_def SchemaEntry_CreateTable_def status_or_throw_def
  RefreshEntry_def BuildEntry_def voidP_def Let_def

lemma keeps_started:
  assumes "\<And>rs. op \<noteq> CoFinalize rs" "\<And>rs. op \<noteq> CoAbort rs"
  shows "keeps started (run_coord E op)"
  using assms by (cases op)
    (simp_all only: run_coord_def coord_op.case coord_ops_defs, (intro keeps_intros; simp)+, blast+)

lemma emits_minor_op:
  assumes "\<And>rs. op \<noteq> CoFinalize rs" "\<And>rs. op \<noteq> CoAbort rs"
  shows "emits (\<lambda>ev. minor ev) (run_coord E op)"
  using assms by (cases op)
    (simp_all only: run_coord_def coord_op.case coord_ops_defs, (intro emits_intros; simp)+, blast+)

text \<open>Finalization, once it is let in.\<close>

definition finalize_body :: "('w, 'm, 'd) env \<Rightarrow> PaimonDistributedInsertTransport \<Rightarrow> options \<Rightarrow>
    unit res \<times> 'm decoding \<Rightarrow> ('w, 'm, idx_t) coordP" where
  "finalize_body E tp os q = (case q of
     (Inl e, d) \<Rightarrow> bindP (BestEffortAbortMessages E tp os (coordinator_commit_user tp) (de_messages d)) (\<lambda>_. throwP e)
   | (Inr _, d) \<Rightarrow> finalize_locked E tp os d)"

definition admitted :: "('w, 'm, 'd) env \<Rightarrow> PhysicalPaimonInsert \<Rightarrow> PaimonDistributedInsertTransport \<Rightarrow> options \<Rightarrow> bool" where
  "admitted E i tp os \<longleftrightarrow> ValidateCoordinatorShape E i = Inr () \<and> \<not> ins_finalize_started i \<and>
     ins_target_prepared i \<and> GetCoordinatorTransport E i = Inr tp \<and> BuildRuntimeOptions E tp None = Inr os"

definition set_started :: "('w, 'm) coord \<Rightarrow> ('w, 'm) coord" where
  "set_started s = co_insert_update (ins_finalize_started_update (\<lambda>_. True)) s"

lemma Finalize_admitted:
  assumes "admitted E (co_insert s) tp os"
  shows "FinalizeDistributedWrite E results s =
    finalize_body E tp os (decode_for E (co_insert s) tp results) (set_started s)"
  using assms by (simp add: FinalizeDistributedWrite_def admitted_def finalize_body_def set_started_def)

lemma Finalize_refused:
  assumes "FinalizeDistributedWrite E results s = (r, t)" "\<nexists>tp os. admitted E (co_insert s) tp os"
  shows "\<exists>e. r = Inl e \<and> (t = s \<or> t = set_started s)"
proof (cases "ValidateCoordinatorShape E (co_insert s)")
  case shape: (Inr u)
  show ?thesis
  proof (cases "ins_finalize_started (co_insert s) \<or> \<not> ins_target_prepared (co_insert s)")
    case False
    show ?thesis
    proof (cases "GetCoordinatorTransport E (co_insert s)")
      case (Inr tp)
      then obtain e where "BuildRuntimeOptions E tp None = Inl e"
        using assms(2) shape False by (cases "BuildRuntimeOptions E tp None") (auto simp: admitted_def)
      then show ?thesis
        using assms(1) shape False Inr by (auto simp: FinalizeDistributedWrite_def set_started_def)
    qed (use assms(1) shape False in \<open>auto simp: FinalizeDistributedWrite_def set_started_def\<close>)
  next
    case True
    then show ?thesis
      using assms(1) shape
      by (cases "ins_finalize_started (co_insert s)") (auto simp: FinalizeDistributedWrite_def set_started_def)
  qed
qed (use assms(1) in \<open>auto simp: FinalizeDistributedWrite_def\<close>)

lemma finalize_body_cases:
  assumes "finalize_body E tp os (q, d) s = (r, t)"
  obtains (empty) "q = Inr ()" "r = Inr 0" "de_messages d = []" "de_row_count d = 0"
      "decisions (sys_trace t) = decisions (sys_trace s)"
  | (commit) c where "q = Inr ()" "de_messages d \<noteq> []" "\<And>n. r = Inr n \<Longrightarrow> n = de_row_count d"
      "decisions (sys_trace t) = EvCommit c [(tp_commit_identifier tp, de_messages d)] # decisions (sys_trace s)"
  | (cleanup) e where "r = Inl e" "decisions (sys_trace t) = request (de_messages d) @ decisions (sys_trace s)"
proof (cases q)
  case (Inl e)
  obtain q' v where a: "BestEffortAbortMessages E tp os (coordinator_commit_user tp) (de_messages d) s = (q', v)"
    by fastforce
  note b = BestEffortAbort_decisions [OF a]
  then have "r = Inl e \<and> t = v"
    using assms Inl a by (simp add: finalize_body_def)
  then show thesis using b cleanup by simp
next
  case (Inr u)
  then have "finalize_locked E tp os d s = (r, t)"
    using assms by (simp add: finalize_body_def)
  then show thesis
    using Inr empty commit cleanup by (cases rule: finalize_locked_cases) auto
qed

lemma keeps_finalize_body:
  assumes "\<And>s w tr. f (s\<lparr>sys_world := w, sys_trace := tr\<rparr>) = f s" "\<And>s tr. f (s\<lparr>sys_trace := tr\<rparr>) = f s"
  shows "keeps f (finalize_body E tp os (q, d))"
proof (cases q)
  case (Inl e)
  then show ?thesis
    unfolding finalize_body_def by (simp, intro keeps_intros assms)
next
  case (Inr u)
  have pre: "keeps f (finalize_precommit E tp os d)"
    unfolding finalize_precommit_def CreateCommitter_def ValidateTargetBaseline_def GetCoordinatorCatalog_def Let_def
    by (intro keeps_intros assms)
  have com: "keeps f (finalize_commit E tp d c)" for c
    unfolding finalize_commit_def Let_def by (intro keeps_intros assms)
  have abo: "keeps f (bindP (BestEffortAbortMessages E tp os (coordinator_commit_user tp) (de_messages d)) (\<lambda>_. throwP e) ::
      (_, idx_t) proc)" for e
    by (intro keeps_intros assms)
  show ?thesis
  proof (rule keepsI)
    fix s
    obtain q' u where p: "finalize_precommit E tp os d (snd (record_event EvLock s)) = (q', u)" by fastforce
    have u: "f u = f s"
      using keepsD [OF pre p] assms(2) by simp
    consider e where "q' = Inl e" | "q' = Inr None" | c where "q' = Inr (Some c)"
      by (metis not_Some_eq obj_sumE)
    then show "f (snd (finalize_body E tp os (q, d) s)) = f s"
    proof cases
      case 1
      then show ?thesis
        using Inr p u assms(2) abo [of e] by (simp add: keeps_def finalize_body_def finalize_locked_def)
    next
      case 2
      then show ?thesis
        using Inr p u assms(2) by (simp add: finalize_body_def finalize_locked_def)
    next
      case 3
      obtain q'' v where c: "finalize_commit E tp d c u = (q'', v)" by fastforce
      then show ?thesis
        using Inr p u assms(2) 3 keepsD [OF com c] by (simp add: finalize_body_def finalize_locked_def)
    qed
  qed
qed


text \<open>\<open>undecided\<close>: the trace decides nothing; \<open>decided\<close>: it ends with the only commit.\<close>

definition commit_inv :: "('w, 'm) coord \<Rightarrow> bool" where
  "commit_inv s \<longleftrightarrow> (\<exists>cs ms. decisions (sys_trace s) = cs @ map EvAbortRequest ms \<and>
     (cs = [] \<or> (\<exists>c commits. cs = [EvCommit c commits]) \<and> started s))"

lemma commit_inv_same:
  assumes "commit_inv s" "decisions (sys_trace t) = decisions (sys_trace s)" "started s \<Longrightarrow> started t"
  shows "commit_inv t"
  using assms unfolding commit_inv_def by metis

lemma commit_inv_request:
  assumes "commit_inv s" "\<not> started s" "decisions (sys_trace t) = request ms @ decisions (sys_trace s)"
  shows "commit_inv t"
proof -
  obtain rs where "decisions (sys_trace s) = map EvAbortRequest rs"
    using assms(1,2) unfolding commit_inv_def by auto
  then have "decisions (sys_trace t) = map EvAbortRequest ((if ms = [] then [] else [ms]) @ rs)"
    using assms(3) by simp
  then show ?thesis
    unfolding commit_inv_def by (metis append_Nil)
qed

lemma commit_inv_finalize:
  assumes "commit_inv s" "FinalizeDistributedWrite E results s = (r, t)"
  shows "commit_inv t"
proof (cases "\<exists>tp os. admitted E (co_insert s) tp os")
  case False
  then have "t = s \<or> t = set_started s"
    using Finalize_refused assms(2) by blast
  then show ?thesis
    using assms(1) commit_inv_same [OF assms(1), of "set_started s"] by (auto simp: set_started_def)
next
  case True
  then obtain tp os where a: "admitted E (co_insert s) tp os" by blast
  obtain q d where q: "decode_for E (co_insert s) tp results = (q, d)" by fastforce
  have run: "finalize_body E tp os (q, d) (set_started s) = (r, t)"
    using Finalize_admitted [OF a] assms(2) q by simp
  have "keeps co_insert (finalize_body E tp os (q, d))"
    by (rule keeps_finalize_body) simp_all
  from keepsD [OF this run] have st: "started t"
    by (simp add: set_started_def)
  have not: "\<not> started s"
    using a by (simp add: admitted_def)
  have same: "decisions (sys_trace (set_started s)) = decisions (sys_trace s)"
    by (simp add: set_started_def)
  from run show ?thesis
  proof (cases rule: finalize_body_cases)
    case empty
    then show ?thesis using commit_inv_same assms(1) same not by metis
  next
    case (commit c)
    obtain rs where "decisions (sys_trace s) = map EvAbortRequest rs"
      using assms(1) not unfolding commit_inv_def by auto
    then show ?thesis
      using commit(4) same st unfolding commit_inv_def by (metis append_Cons append_Nil)
  next
    case (cleanup e)
    then show ?thesis using commit_inv_request [OF assms(1) not] same by simp
  qed
qed

lemma commit_inv_abort:
  assumes "commit_inv s" "AbortDistributedWrite E results s = (r, t)"
  shows "commit_inv t"
proof (cases "started s")
  case True
  then have "t = s"
    using assms(2) by (cases "ValidateCoordinatorShape E (co_insert s)") (auto simp: AbortDistributedWrite_def)
  then show ?thesis using assms(1) by simp
next
  case False
  show ?thesis
  proof (cases "t = s")
    case changed: False
    obtain tp os u ms r' where "BestEffortAbortMessages E tp os u ms s = (r', t)"
      using assms(2) changed False
      by (auto simp: AbortDistributedWrite_def bindP_def split: sum.splits if_splits prod.splits)
    from BestEffortAbort_decisions [OF this] show ?thesis
      using commit_inv_request [OF assms(1) False] by blast
  qed (use assms(1) in simp)
qed

lemma commit_inv_step:
  assumes "commit_inv s" "run_coord E op s = (r, t)"
  shows "commit_inv t"
proof (cases op)
  case (CoFinalize rs)
  then obtain r' where "FinalizeDistributedWrite E rs s = (r', t)"
    using assms(2) by (auto simp: run_coord_def split: prod.splits sum.splits)
  then show ?thesis by (rule commit_inv_finalize [OF assms(1)])
next
  case (CoAbort rs)
  then show ?thesis
    using assms(2) by (auto simp: run_coord_def intro: commit_inv_abort [OF assms(1)])
qed (use assms commit_inv_same emits_minor [OF emits_minor_op assms(2)] keepsD [OF keeps_started assms(2)] in auto)

lemma commit_inv_reach: "coord_reach E s0 ops s \<Longrightarrow> commit_inv s0 \<Longrightarrow> commit_inv s"
  by (induction rule: coord_reach.induct) (auto intro: commit_inv_step)

end
