(* ===== verification/Commit_Decode.thy ===== *)
theory Commit_Decode
  imports Dist_Coordinator
begin

text \<open>
  What \<open>DecodeCommitResults\<close> guarantees when it accepts the workers' results, and that it accepts what
  workers return: the two halves of the contract between \<^verbatim>\<open>PaimonDistributedInsertFinalize\<close> on the
  workers and \<^verbatim>\<open>FinalizeDistributedWrite\<close> on the coordinator.
\<close>

section \<open>What a result carries\<close>

definition fragment_messages :: "('w, 'm, 'd) env \<Rightarrow> DistributedWriteFragment \<Rightarrow> 'm option list" where
  "fragment_messages E fr = (case DeserializeCommitEnvelope E (fr_payload fr) of
     Inl _ \<Rightarrow> []
   | Inr e \<Rightarrow> (case DeserializeList E (ev_commit_message_version e) (ev_serialized_messages e) of
       Inl _ \<Rightarrow> [] | Inr ms \<Rightarrow> ms))"

definition result_messages :: "('w, 'm, 'd) env \<Rightarrow> DistributedWriteTaskResult \<Rightarrow> 'm option list" where
  "result_messages E r = concat (map (fragment_messages E) (tr_fragments r))"

definition result_rows :: "DistributedWriteTaskResult \<Rightarrow> nat" where
  "result_rows r = (\<Sum>fr \<leftarrow> tr_fragments r. unat (fr_row_count fr))"

definition logical_task :: "('w, 'm, 'd) env \<Rightarrow> DistributedWriteTaskResult \<Rightarrow> string res" where
  "logical_task E r = VaneLogicalTaskIdentity E (tr_query_id r) (tr_task_attempt_id r)"

definition canonical :: "('w, 'm, 'd) env \<Rightarrow> 'm \<Rightarrow> string" where
  "canonical E m = (case SerializeMessage E m of Inl _ \<Rightarrow> [] | Inr c \<Rightarrow> c)"

abbreviation canonicals :: "('w, 'm, 'd) env \<Rightarrow> 'm option list \<Rightarrow> string list" where
  "canonicals E ms \<equiv> map (canonical E) (somes ms)"

definition decodable :: "('w, 'm, 'd) env \<Rightarrow> string set \<Rightarrow> 'm option list \<Rightarrow> bool" where
  "decodable E seen ms \<longleftrightarrow> None \<notin> set ms \<and> (\<forall>m \<in> set (somes ms). \<exists>c. SerializeMessage E m = Inr c) \<and>
     distinct (canonicals E ms) \<and> set (canonicals E ms) \<inter> seen = {}"

lemma decodable_append:
  "decodable E seen (ms @ ms') \<Longrightarrow> decodable E (set (canonicals E ms) \<union> seen) ms'"
  "decodable E seen (ms @ ms') \<Longrightarrow> decodable E seen ms"
  by (auto simp: decodable_def)

section \<open>Acceptance\<close>

lemma decode_messages_iff:
  "decode_messages E ms d = (Inr (), d') \<longleftrightarrow> decodable E (de_canonical d) ms \<and>
     d' = d\<lparr>de_canonical := set (canonicals E ms) \<union> de_canonical d, de_messages := de_messages d @ ms\<rparr>"
proof (induction ms arbitrary: d)
  case (Cons m ms)
  show ?case
  proof (cases m)
    case (Some x)
    then show ?thesis
      by (cases "SerializeMessage E x") (auto simp: Cons.IH decodable_def canonical_def insert_absorb)
  qed (simp add: decodable_def)
qed (auto simp: decodable_def)

lemma VaneLogicalTaskIdentity_nonempty: "VaneLogicalTaskIdentity E q a = Inr l \<Longrightarrow> l \<noteq> []"
  by (auto simp: VaneLogicalTaskIdentity_def Let_def elim!: res_bindE split: if_splits list.splits)

definition accepted :: "('w, 'm, 'd) env \<Rightarrow> PaimonDistributedInsertTransport \<Rightarrow> string \<Rightarrow>
    DistributedWriteTaskResult \<Rightarrow> DistributedWriteFragment \<Rightarrow> bool" where
  "accepted E tp expected r fr \<longleftrightarrow> (\<exists>e. DeserializeCommitEnvelope E (fr_payload fr) = Inr e \<and>
     envelope_matches E tp expected r fr e \<and> length (fragment_messages E fr) = unat (ev_message_count e))"

lemma decode_fragment_ok:
  assumes "decode_fragment E tp expected r fr d = (Inr (), d')"
  shows "accepted E tp expected r fr"
    and "decodable E (de_canonical d) (fragment_messages E fr)"
    and "de_messages d' = de_messages d @ fragment_messages E fr"
    and "de_canonical d' = set (canonicals E (fragment_messages E fr)) \<union> de_canonical d"
    and "unat (de_row_count d') = unat (de_row_count d) + unat (fr_row_count fr)"
    and "(de_duplicate d', de_logical d') = (de_duplicate d, de_logical d)"
proof -
  let ?d = "de_fragments_update (insert (fr_fragment_id fr)) d"
  obtain e ms u n where e: "DeserializeCommitEnvelope E (fr_payload fr) = Inr e"
    and m: "envelope_matches E tp expected r fr e"
    and ms: "DeserializeList E (ev_commit_message_version e) (ev_serialized_messages e) = Inr ms"
      "length ms = unat (ev_message_count e)"
    and dm: "decode_messages E ms ?d = (Inr (), u)"
    and n: "CheckedAdd (de_row_count u) (ev_row_count e) = Inr n" and d': "d' = u\<lparr>de_row_count := n\<rparr>"
    using assms
    by (auto simp: decode_fragment_def elim!: bindPE split: if_splits sum.splits)
  have f: "fragment_messages E fr = ms"
    using e ms by (simp add: fragment_messages_def)
  note dm = dm [unfolded decode_messages_iff]
  show "accepted E tp expected r fr"
    using e m ms f by (auto simp: accepted_def)
  show "decodable E (de_canonical d) (fragment_messages E fr)"
    and "de_messages d' = de_messages d @ fragment_messages E fr"
    and "de_canonical d' = set (canonicals E (fragment_messages E fr)) \<union> de_canonical d"
    and "(de_duplicate d', de_logical d') = (de_duplicate d, de_logical d)"
    using dm d' f by simp_all
  have "ev_row_count e = fr_row_count fr"
    using m by (simp add: envelope_matches_def)
  then show "unat (de_row_count d') = unat (de_row_count d) + unat (fr_row_count fr)"
    using unat_CheckedAdd [OF n] dm d' by simp
qed

text \<open>What holds after the results \<open>rs\<close> have been decoded.\<close>

definition decode_inv :: "('w, 'm, 'd) env \<Rightarrow> PaimonDistributedInsertTransport \<Rightarrow> string \<Rightarrow>
    DistributedWriteTaskResult list \<Rightarrow> 'm decoding \<Rightarrow> bool" where
  "decode_inv E tp expected rs d \<longleftrightarrow>
     de_messages d = concat (map (result_messages E) rs) \<and> decodable E {} (de_messages d) \<and>
     de_canonical d = set (canonicals E (de_messages d)) \<and>
     unat (de_row_count d) = (\<Sum>r \<leftarrow> rs. result_rows r) \<and>
     (de_duplicate d = [] \<longrightarrow> distinct (map (logical_task E) rs)) \<and>
     Inr ` de_logical d = set (map (logical_task E) rs) \<and>
     (\<forall>r \<in> set rs. \<forall>fr \<in> set (tr_fragments r). accepted E tp expected r fr)"

lemma decode_inv_start: "decode_inv E tp expected [] decoding_start"
  by (simp add: decode_inv_def decoding_start_def decodable_def)

text \<open>A successful step: the identities are noted in \<open>u\<close>, then the fragment, if there is one, is decoded.\<close>

definition noted :: "DistributedWriteTaskResult \<Rightarrow> string \<Rightarrow> 'm decoding \<Rightarrow> 'm decoding \<Rightarrow> bool" where
  "noted r l d u \<longleftrightarrow> de_messages u = de_messages d \<and> de_canonical u = de_canonical d \<and>
     de_row_count u = de_row_count d \<and> de_logical u = insert l (de_logical d) \<and>
     de_duplicate u = (if l \<in> de_logical d \<and> de_duplicate d = [] then l else de_duplicate d)"

lemma decode_result_ok:
  assumes "decode_result E info tp expected r d = (Inr (), d')"
  shows "\<exists>l u. logical_task E r = Inr l \<and> noted r l d u \<and> (tr_fragments r = [] \<and> d' = u \<or>
    (\<exists>f. tr_fragments r = [f] \<and> decode_fragment E tp expected r f u = (Inr (), d')))"
proof -
  define body where "body = (case tr_fragments r of
       [] \<Rightarrow> checkP (TaskResultRowCount E r \<noteq> 0 \<or> TaskResultByteCount E r \<noteq> 0)
          (InvalidInputException ''Empty task result has non-zero counts'')
     | [fragment] \<Rightarrow> decode_fragment E tp expected r fragment
     | _ \<Rightarrow> throwP (InvalidInputException ''at most one commit fragment''))"
  define v where "v = (if de_query_id d = [] then d\<lparr>de_query_id := tr_query_id r\<rparr> else d)"
  define u where "u l = (de_attempts_update (insert (tr_task_attempt_id r)) v)
      \<lparr>de_logical := insert l (de_logical d),
       de_duplicate := (if l \<in> de_logical d \<and> de_duplicate d = [] then l else de_duplicate d)\<rparr>" for l
  obtain l where l: "logical_task E r = Inr l"
    using assms by (auto simp: decode_result_def logical_task_def elim!: bindPE split: if_split_asm)
  have b: "body (u l) = (Inr (), d')"
    using assms l unfolding decode_result_def body_def [symmetric] u_def
    by (cases "de_query_id d = []") (auto simp: logical_task_def v_def elim!: bindPE split: if_split_asm)
  have "noted r l d (u l)"
    by (simp add: noted_def u_def v_def)
  moreover have "tr_fragments r = [] \<and> d' = u l \<or>
      (\<exists>f. tr_fragments r = [f] \<and> decode_fragment E tp expected r f (u l) = (Inr (), d'))"
    using b by (simp add: body_def split: list.split_asm if_split_asm)
  ultimately show ?thesis
    using l by blast
qed

lemma decode_inv_noted:
  assumes "noted r l d u" "logical_task E r = Inr l" "decode_inv E tp expected rs d"
  shows "de_duplicate u = [] \<longrightarrow> distinct (map (logical_task E) (rs @ [r]))"
    and "Inr ` de_logical u = set (map (logical_task E) (rs @ [r]))"
proof -
  have "l \<noteq> []"
    using assms(2) VaneLogicalTaskIdentity_nonempty by (simp add: logical_task_def)
  moreover have logical: "Inr ` de_logical d = set (map (logical_task E) rs)"
    using assms(3) by (simp add: decode_inv_def)
  then have "l \<in> de_logical d \<longleftrightarrow> Inr l \<in> set (map (logical_task E) rs)"
    by auto
  ultimately show "de_duplicate u = [] \<longrightarrow> distinct (map (logical_task E) (rs @ [r]))"
    using assms by (auto simp: decode_inv_def noted_def)
  show "Inr ` de_logical u = set (map (logical_task E) (rs @ [r]))"
    using logical assms(1,2) by (simp add: noted_def)
qed

lemma decode_inv_result:
  assumes "decode_result E info tp expected r d = (Inr (), d')" "decode_inv E tp expected rs d"
  shows "decode_inv E tp expected (rs @ [r]) d'"
proof -
  obtain l u where l: "logical_task E r = Inr l" and u: "noted r l d u"
    and fr: "tr_fragments r = [] \<and> d' = u \<or>
      (\<exists>f. tr_fragments r = [f] \<and> decode_fragment E tp expected r f u = (Inr (), d'))"
    using decode_result_ok [OF assms(1)] by blast
  note dup = decode_inv_noted [OF u l assms(2)]
  have step: "de_messages d' = de_messages d @ result_messages E r \<and>
    decodable E (de_canonical d) (result_messages E r) \<and>
    de_canonical d' = set (canonicals E (result_messages E r)) \<union> de_canonical d \<and>
    unat (de_row_count d') = unat (de_row_count d) + result_rows r \<and>
    (de_duplicate d', de_logical d') = (de_duplicate u, de_logical u) \<and>
    (\<forall>fr \<in> set (tr_fragments r). accepted E tp expected r fr)"
    using fr
  proof (elim disjE exE conjE)
    assume "tr_fragments r = []" "d' = u"
    then show ?thesis using u by (simp add: noted_def result_messages_def result_rows_def decodable_def)
  next
    fix f assume f: "tr_fragments r = [f]" "decode_fragment E tp expected r f u = (Inr (), d')"
    show ?thesis using u f(1) decode_fragment_ok [OF f(2)] by (simp add: noted_def result_messages_def result_rows_def)
  qed
  have "decodable E {} (de_messages d')"
    using assms(2) step unfolding decode_inv_def decodable_def by auto
  then show ?thesis
    using assms(2) dup step unfolding decode_inv_def by (simp add: Un_commute)
qed

lemma decode_inv_results:
  assumes "decode_results E info tp expected rs d = (Inr (), d')" "decode_inv E tp expected rs0 d"
  shows "decode_inv E tp expected (rs0 @ rs) d' \<and> de_duplicate d' = []"
  using assms
proof (induction rs arbitrary: rs0 d)
  case (Cons r rs)
  then obtain u where "decode_result E info tp expected r d = (Inr (), u)"
    "decode_results E info tp expected rs u = (Inr (), d')"
    by (auto elim!: bindPE)
  then show ?case
    using Cons.IH [of u "rs0 @ [r]"] decode_inv_result Cons.prems(2) by fastforce
qed (auto split: if_splits)

lemma DecodeCommitResults_ok:
  assumes "DecodeCommitResults E info tp results decoding_start = (Inr (), d)"
  obtains expected where "SerializeTransport E tp = Inr expected" "decode_inv E tp expected results d"
    "distinct (map (logical_task E) results)"
proof -
  obtain expected where "SerializeTransport E tp = Inr expected"
    "decode_results E info tp expected results decoding_start = (Inr (), d)"
    using assms by (auto simp: DecodeCommitResults_def elim!: bindPE)
  then show thesis
    using that decode_inv_results [OF _ decode_inv_start, of E info tp expected results d]
    unfolding decode_inv_def by (metis append_Nil)
qed

section \<open>What workers return is accepted\<close>

text \<open>One worker: its task, what it returned, and the messages and rows it held when it was finalized.\<close>

record 'm worker_run =
  wr_task :: DistributedWriteTaskContext
  wr_result :: DistributedWriteTaskResult
  wr_messages :: "'m option list"
  wr_rows :: idx_t

definition worker_output :: "('w, 'm, 'd) env \<Rightarrow> DistributedExtensionWriteInfo \<Rightarrow> 'm worker_run \<Rightarrow> bool" where
  "worker_output E info x \<longleftrightarrow> (\<exists>s0 ops s t. worker_start E info (wr_task x) s0 \<and>
     worker_reach E (wr_task x) s0 ops s \<and>
     PaimonDistributedInsertFinalize E (wr_task x) s = (Inr (tr_fragments (wr_result x)), t) \<and>
     tr_capability (wr_result x) = wi_capability info \<and> tr_fragment_codec (wr_result x) = wi_fragment_codec info \<and>
     tr_query_id (wr_result x) = tk_query_id (wr_task x) \<and>
     tr_task_attempt_id (wr_result x) = tk_task_attempt_id (wr_task x) \<and>
     wr_messages x = g_messages (wk_global s) \<and> wr_rows x = g_row_count (wk_global s))"

text \<open>The sizes the formats can carry: 32-bit string lengths, and the codec's limit of an \<open>int\<close>.\<close>

definition portable :: "('w, 'm, 'd) env \<Rightarrow> PaimonDistributedInsertTransport \<Rightarrow> 'm worker_run \<Rightarrow> bool" where
  "portable E tp x \<longleftrightarrow> transport_typed tp \<and> str_ok (tk_query_id (wr_task x)) \<and>
     str_ok (tk_task_attempt_id (wr_task x)) \<and> str_ok (WorkerCommitUser E tp (wr_task x)) \<and>
     0 < CurrentVersion E \<and> CurrentVersion E < 2 ^ 31 \<and>
     (\<forall>b. SerializeList E (wr_messages x) = Inr b \<longrightarrow> b \<noteq> [] \<and> length b < 2 ^ 31) \<and>
     (\<forall>b. SerializeTransport E tp = Inr b \<longrightarrow> str_ok b) \<and> length (wr_messages x) < 2 ^ 64"

lemma portable_count: "portable E tp x \<Longrightarrow> unat (of_nat (length (wr_messages x)) :: idx_t) = length (wr_messages x)"
  by (simp add: portable_def unat_of_nat)

lemma Finalize_fragments:
  assumes "PaimonDistributedInsertFinalize E task s = (Inr frs, t)"
  shows "ValidateTask E (wk_global s) task = Inr ()"
    and "g_messages (wk_global s) = [] \<Longrightarrow> frs = [] \<and> g_row_count (wk_global s) = 0"
    and "g_messages (wk_global s) \<noteq> [] \<Longrightarrow> g_row_count (wk_global s) \<noteq> 0 \<and>
      (\<exists>tb mb. SerializeList E (g_messages (wk_global s)) = Inr mb \<and>
        SerializeTransport E (g_transport (wk_global s)) = Inr tb \<and>
        frs = [worker_fragment E (wk_global s) task (worker_envelope E (wk_global s) task tb mb)])"
  using assms
  by (auto simp: PaimonDistributedInsertFinalize_def Let_def elim!: bindPE split: if_splits sum.splits)

lemma worker_output_facts:
  assumes "worker_output E info x" "DeserializeTransport E (wi_worker_bind_data info) = Inr tp"
  obtains g where "g_transport g = tp" "g_writer_commit_user g = WorkerCommitUser E tp (wr_task x)"
    "g_messages g = wr_messages x" "g_row_count g = wr_rows x"
    "tk_query_id (wr_task x) \<noteq> []" "tk_task_attempt_id (wr_task x) \<noteq> []"
    "is_ok (logical_task E (wr_result x))"
    "wr_messages x = [] \<Longrightarrow> tr_fragments (wr_result x) = [] \<and> wr_rows x = 0"
    "wr_messages x \<noteq> [] \<Longrightarrow> wr_rows x \<noteq> 0 \<and> (\<exists>tb mb. SerializeList E (wr_messages x) = Inr mb \<and>
      SerializeTransport E tp = Inr tb \<and>
      tr_fragments (wr_result x) = [worker_fragment E g (wr_task x) (worker_envelope E g (wr_task x) tb mb)])"
proof -
  obtain s0 ops s t where start: "worker_start E info (wr_task x) s0" and run: "worker_reach E (wr_task x) s0 ops s"
    and fin: "PaimonDistributedInsertFinalize E (wr_task x) s = (Inr (tr_fragments (wr_result x)), t)"
    and x: "tr_query_id (wr_result x) = tk_query_id (wr_task x)"
      "tr_task_attempt_id (wr_result x) = tk_task_attempt_id (wr_task x)"
      "wr_messages x = g_messages (wk_global s)" "wr_rows x = g_row_count (wk_global s)"
    using assms(1) unfolding worker_output_def by blast
  note init = InitializeGlobal_fields [OF start [unfolded worker_start_def, THEN conjunct1]]
  have g: "g_transport (wk_global s) = tp" "g_writer_commit_user (wk_global s) = WorkerCommitUser E tp (wr_task x)"
    using frozen_reach [OF run] init(7,8) assms(2) by (simp_all add: frozen_def Let_def)
  obtain l where l: "VaneLogicalTaskIdentity E (tk_query_id (wr_task x)) (tk_task_attempt_id (wr_task x)) = Inr l"
    using Finalize_fragments(1) [OF fin] by (auto simp: ValidateTask_def res_bind_Inr)
  then have ids: "tk_query_id (wr_task x) \<noteq> []" "tk_task_attempt_id (wr_task x) \<noteq> []"
    by (auto simp: VaneLogicalTaskIdentity_def Let_def split: if_splits)
  show thesis
    using that [OF g x(3,4) [symmetric] ids] Finalize_fragments(2,3) [OF fin] l x g
    by (simp add: logical_task_def)
qed

lemma worker_envelope_accepted:
  assumes "serde_laws E" "vane_laws E" "portable E tp x" "SerializeTransport E tp = Inr tb"
    and "SerializeList E (wr_messages x) = Inr mb" "wr_messages x \<noteq> []" "wr_rows x \<noteq> 0"
    and g: "g_transport g = tp" "g_writer_commit_user g = WorkerCommitUser E tp (wr_task x)"
      "g_messages g = wr_messages x" "g_row_count g = wr_rows x"
    and "tk_query_id (wr_task x) \<noteq> []" "tk_task_attempt_id (wr_task x) \<noteq> []"
  shows "DeserializeCommitEnvelope E (SerializeCommitEnvelope E (worker_envelope E g (wr_task x) tb mb)) =
    Inr (worker_envelope E g (wr_task x) tb mb)"
proof (rule DeserializeCommitEnvelope_Serialize [OF assms(1)])
  have "ValidateTransport E tp = Inr ()"
    using assms(4) by (auto simp: SerializeTransport_def res_bind_Inr)
  note v = ValidateTransport_facts [OF this]
  have tb: "tb \<noteq> []"
    using DeserializeTransport_Serialize(1) [OF assms(1) _ assms(4)] assms(3) by (simp add: portable_def)
  have count: "of_nat (length (wr_messages x)) \<noteq> (0 :: idx_t)"
    using assms(6) portable_count [OF assms(3)] by (metis length_0_conv unsigned_0)
  show "\<not> envelope_invalid E (worker_envelope E g (wr_task x) tb mb)"
    using v tb count assms by (auto simp: envelope_invalid_def worker_envelope_def portable_def WorkerCommitUser_def)
  show "envelope_typed (worker_envelope E g (wr_task x) tb mb)"
    using assms(3-5) g by (auto simp: envelope_typed_def envelope_items_def worker_envelope_def portable_def
        transport_typed_def transport_items_def str_ok_def)
qed


lemma decode_worker_fragment:
  assumes laws: "serde_laws E" "codec_laws E" "vane_laws E" and out: "worker_output E info x"
    and tp: "DeserializeTransport E (wi_worker_bind_data info) = Inr tp" "SerializeTransport E tp = Inr tb"
    and x: "portable E tp x" "wr_messages x \<noteq> []"
    and d: "decodable E (de_canonical d) (wr_messages x)"
      "ExpectedFragmentId tp (tk_task_attempt_id (wr_task x)) \<notin> de_fragments d"
      "unat (de_row_count d) + unat (wr_rows x) < 2 ^ 64"
  shows "\<exists>fr. tr_fragments (wr_result x) = [fr] \<and> decode_fragment E tp tb (wr_result x) fr d = (Inr (),
    d\<lparr>de_fragments := insert (ExpectedFragmentId tp (tk_task_attempt_id (wr_task x))) (de_fragments d),
      de_canonical := set (canonicals E (wr_messages x)) \<union> de_canonical d,
      de_messages := de_messages d @ wr_messages x, de_row_count := de_row_count d + wr_rows x\<rparr>)"
proof -
  obtain g where g: "g_transport g = tp" "g_writer_commit_user g = WorkerCommitUser E tp (wr_task x)"
      "g_messages g = wr_messages x" "g_row_count g = wr_rows x"
    and ids: "tk_query_id (wr_task x) \<noteq> []" "tk_task_attempt_id (wr_task x) \<noteq> []"
    and nz: "wr_rows x \<noteq> 0" and ex: "\<exists>tb mb. SerializeList E (wr_messages x) = Inr mb \<and>
      SerializeTransport E tp = Inr tb \<and>
      tr_fragments (wr_result x) = [worker_fragment E g (wr_task x) (worker_envelope E g (wr_task x) tb mb)]"
    using worker_output_facts [OF out tp(1)] x(2) by metis
  then obtain mb where mb: "SerializeList E (wr_messages x) = Inr mb"
    and fr: "tr_fragments (wr_result x) = [worker_fragment E g (wr_task x) (worker_envelope E g (wr_task x) tb mb)]"
    using tp(2) by auto
  have rows: "TaskResultRowCount E (wr_result x) = wr_rows x"
    using laws(3) fr g by (simp add: vane_laws_def worker_fragment_def)
  have list: "DeserializeList E (CurrentVersion E) mb = Inr (wr_messages x)"
    using laws(2) mb by (simp add: codec_laws_def)
  have res: "tr_query_id (wr_result x) = tk_query_id (wr_task x)"
    "tr_task_attempt_id (wr_result x) = tk_task_attempt_id (wr_task x)"
    using out by (auto simp: worker_output_def)
  have user: "WorkerCommitUser E tp \<lparr>tk_query_id = tk_query_id (wr_task x),
      tk_task_attempt_id = tk_task_attempt_id (wr_task x)\<rparr> = WorkerCommitUser E tp (wr_task x)"
    by (simp add: WorkerCommitUser_def)
  have "length mb < 2 ^ 31"
    using x(1) mb by (simp add: portable_def)
  moreover have "decode_messages E (wr_messages x) (de_fragments_update
      (insert (ExpectedFragmentId tp (tk_task_attempt_id (wr_task x)))) d) = (Inr (),
    d\<lparr>de_fragments := insert (ExpectedFragmentId tp (tk_task_attempt_id (wr_task x))) (de_fragments d),
      de_canonical := set (canonicals E (wr_messages x)) \<union> de_canonical d,
      de_messages := de_messages d @ wr_messages x\<rparr>)"
    using d(1) by (subst decode_messages_iff) simp
  moreover have "CheckedAdd (de_row_count d) (wr_rows x) = Inr (de_row_count d + wr_rows x)"
    using d(3) by (simp add: CheckedAdd_Inr)
  ultimately show ?thesis
    using fr g res rows list user x(2) d(2) portable_count [OF x(1)]
      worker_envelope_accepted [OF laws(1,3) x(1) tp(2) mb x(2) nz g ids]
    by (simp add: decode_fragment_def worker_fragment_def envelope_matches_def worker_envelope_def)
qed


text \<open>The state \<open>d\<close> has room for the runs \<open>xs\<close> of one query: no identity or message was seen before.\<close>

definition ready :: "('w, 'm, 'd) env \<Rightarrow> PaimonDistributedInsertTransport \<Rightarrow> string \<Rightarrow> 'm worker_run list \<Rightarrow>
    'm decoding \<Rightarrow> bool" where
  "ready E tp q xs d \<longleftrightarrow> de_duplicate d = [] \<and> de_query_id d \<in> {[], q} \<and>
     (\<forall>x \<in> set xs. tk_query_id (wr_task x) = q \<and> tk_task_attempt_id (wr_task x) \<notin> de_attempts d \<and>
       logical_task E (wr_result x) \<notin> Inr ` de_logical d \<and>
       ExpectedFragmentId tp (tk_task_attempt_id (wr_task x)) \<notin> de_fragments d) \<and>
     distinct (map (\<lambda>x. tk_task_attempt_id (wr_task x)) xs) \<and> distinct (map (\<lambda>x. logical_task E (wr_result x)) xs) \<and>
     decodable E (de_canonical d) (concat (map wr_messages xs)) \<and>
     unat (de_row_count d) + (\<Sum>x \<leftarrow> xs. unat (wr_rows x)) < 2 ^ 64"

lemma ExpectedFragmentId_inject [simp]: "ExpectedFragmentId tp a = ExpectedFragmentId tp b \<longleftrightarrow> a = b"
  by (simp add: ExpectedFragmentId_def)

lemma ready_step:
  assumes r: "ready E tp q (x # xs) d" and l: "logical_task E (wr_result x) = Inr l"
    and d': "de_duplicate d' = []" "de_query_id d' \<in> {[], q}"
      "de_attempts d' = insert (tk_task_attempt_id (wr_task x)) (de_attempts d)"
      "de_logical d' = insert l (de_logical d)"
      "de_fragments d' \<subseteq> insert (ExpectedFragmentId tp (tk_task_attempt_id (wr_task x))) (de_fragments d)"
      "de_canonical d' = set (canonicals E (wr_messages x)) \<union> de_canonical d"
      "unat (de_row_count d') = unat (de_row_count d) + unat (wr_rows x)"
  shows "ready E tp q xs d'"
proof -
  have rest: "unat (de_row_count d) + (\<Sum>x \<leftarrow> x # xs. unat (wr_rows x)) < 2 ^ 64"
    "distinct (map (\<lambda>x. tk_task_attempt_id (wr_task x)) (x # xs))"
    "distinct (map (\<lambda>x. logical_task E (wr_result x)) (x # xs))"
    "decodable E (de_canonical d) (concat (map wr_messages (x # xs)))"
    using r unfolding ready_def by blast+
  have old: "tk_query_id (wr_task y) = q \<and> tk_task_attempt_id (wr_task y) \<notin> de_attempts d \<and>
      logical_task E (wr_result y) \<notin> Inr ` de_logical d \<and>
      ExpectedFragmentId tp (tk_task_attempt_id (wr_task y)) \<notin> de_fragments d" if "y \<in> set xs" for y
    using r that by (simp add: ready_def)
  have new: "tk_task_attempt_id (wr_task y) \<noteq> tk_task_attempt_id (wr_task x) \<and> logical_task E (wr_result y) \<noteq> Inr l"
    if "y \<in> set xs" for y
    using rest(2,3) that by (auto simp: image_iff l)
  have "tk_query_id (wr_task y) = q \<and> tk_task_attempt_id (wr_task y) \<notin> de_attempts d' \<and>
      logical_task E (wr_result y) \<notin> Inr ` de_logical d' \<and>
      ExpectedFragmentId tp (tk_task_attempt_id (wr_task y)) \<notin> de_fragments d'" if "y \<in> set xs" for y
    using old [OF that] new [OF that] d'(3-5) by auto
  moreover have "decodable E (de_canonical d) (wr_messages x @ concat (map wr_messages xs))"
    using rest(4) by simp
  then have "decodable E (de_canonical d') (concat (map wr_messages xs))"
    unfolding d'(6) by (rule decodable_append)
  moreover have "unat (de_row_count d') + (\<Sum>x \<leftarrow> xs. unat (wr_rows x)) < 2 ^ 64"
    unfolding d'(7) using rest(1) by (simp only: list.map sum_list.Cons add.assoc)
  moreover have "distinct (map (\<lambda>x. tk_task_attempt_id (wr_task x)) xs)" "distinct (map (\<lambda>x. logical_task E (wr_result x)) xs)"
    using rest(2,3) by (simp_all only: list.map distinct.simps simp_thms)
  ultimately show ?thesis
    using d'(1,2) unfolding ready_def by blast
qed

lemma decode_worker_result:
  assumes laws: "serde_laws E" "codec_laws E" "vane_laws E" and out: "worker_output E info x"
    and tp: "DeserializeTransport E (wi_worker_bind_data info) = Inr tp" "SerializeTransport E tp = Inr tb"
    and x: "portable E tp x" "TaskResultValidate E (wr_result x) = Inr ()" and r: "ready E tp q (x # xs) d"
  shows "\<exists>d'. decode_result E info tp tb (wr_result x) d = (Inr (), d') \<and> ready E tp q xs d' \<and>
    de_messages d' = de_messages d @ wr_messages x \<and> unat (de_row_count d') = unat (de_row_count d) + unat (wr_rows x)"
proof -
  have res: "tr_capability (wr_result x) = wi_capability info" "tr_fragment_codec (wr_result x) = wi_fragment_codec info"
    "tr_query_id (wr_result x) = tk_query_id (wr_task x)" "tr_task_attempt_id (wr_result x) = tk_task_attempt_id (wr_task x)"
    using out by (auto simp: worker_output_def)
  obtain l where l: "logical_task E (wr_result x) = Inr l"
    and empty: "wr_messages x = [] \<Longrightarrow> tr_fragments (wr_result x) = [] \<and> wr_rows x = 0"
    using worker_output_facts [OF out tp(1)] by (metis is_ok_simps(1) obj_sumE)
  define u where "u = (de_attempts_update (insert (tk_task_attempt_id (wr_task x)))
      (if de_query_id d = [] then d\<lparr>de_query_id := q\<rparr> else d))
      \<lparr>de_logical := insert l (de_logical d), de_duplicate := []\<rparr>"
  let ?tail = "case tr_fragments (wr_result x) of
       [] \<Rightarrow> checkP (TaskResultRowCount E (wr_result x) \<noteq> 0 \<or> TaskResultByteCount E (wr_result x) \<noteq> 0)
          (InvalidInputException ''Empty task result has non-zero counts'')
     | [fragment] \<Rightarrow> decode_fragment E tp tb (wr_result x) fragment
     | _ \<Rightarrow> throwP (InvalidInputException ''at most one commit fragment'')"
  have run: "decode_result E info tp tb (wr_result x) d = ?tail u"
    using res x(2) r l
    by (cases "de_query_id d = []") (auto simp: decode_result_def ready_def logical_task_def u_def)
  show ?thesis
  proof (cases "wr_messages x = []")
    case True
    then have "?tail u = (Inr (), u)"
      using empty laws(3) by (simp add: vane_laws_def)
    moreover have "ready E tp q xs u"
      by (rule ready_step [OF r l]) (use r True empty in \<open>auto simp: u_def ready_def\<close>)
    ultimately show ?thesis
      using run True empty by (simp add: u_def)
  next
    case False
    have "decodable E (de_canonical u) (wr_messages x)"
      "ExpectedFragmentId tp (tk_task_attempt_id (wr_task x)) \<notin> de_fragments u"
      "unat (de_row_count u) + unat (wr_rows x) < 2 ^ 64"
      using r decodable_append(2) [of E "de_canonical d" "wr_messages x" "concat (map wr_messages xs)"]
      by (simp_all add: ready_def u_def)
    from decode_worker_fragment [OF laws out tp x(1) False this] obtain d' where
      "?tail u = (Inr (), d')" and d': "d' = u\<lparr>de_fragments := insert (ExpectedFragmentId tp
        (tk_task_attempt_id (wr_task x))) (de_fragments u),
        de_canonical := set (canonicals E (wr_messages x)) \<union> de_canonical u,
        de_messages := de_messages u @ wr_messages x, de_row_count := de_row_count u + wr_rows x\<rparr>"
      by auto
    moreover have rows: "unat (de_row_count d') = unat (de_row_count d) + unat (wr_rows x)"
      using r by (simp add: ready_def u_def d' unat_plus_if')
    moreover have "ready E tp q xs d'"
      by (rule ready_step [OF r l]) (use r rows in \<open>auto simp: u_def d' ready_def\<close>)
    ultimately show ?thesis
      using run by (simp add: u_def)
  qed
qed


lemma decode_worker_results:
  assumes laws: "serde_laws E" "codec_laws E" "vane_laws E"
    and tp: "DeserializeTransport E (wi_worker_bind_data info) = Inr tp" "SerializeTransport E tp = Inr tb"
    and xs: "\<And>x. x \<in> set xs \<Longrightarrow> worker_output E info x \<and> portable E tp x \<and> TaskResultValidate E (wr_result x) = Inr ()"
    and r: "ready E tp q xs d"
  shows "\<exists>d'. decode_results E info tp tb (map wr_result xs) d = (Inr (), d') \<and>
    de_messages d' = de_messages d @ concat (map wr_messages xs) \<and>
    unat (de_row_count d') = unat (de_row_count d) + (\<Sum>x \<leftarrow> xs. unat (wr_rows x))"
  using xs r
proof (induction xs arbitrary: d)
  case Nil
  then show ?case by (simp add: ready_def)
next
  case (Cons x xs)
  have x: "worker_output E info x" "portable E tp x" "TaskResultValidate E (wr_result x) = Inr ()"
    using Cons.prems(1) [of x] by simp_all
  obtain d' where "decode_result E info tp tb (wr_result x) d = (Inr (), d')" "ready E tp q xs d'"
    "de_messages d' = de_messages d @ wr_messages x" "unat (de_row_count d') = unat (de_row_count d) + unat (wr_rows x)"
    using decode_worker_result [OF laws x(1) tp x(2,3) Cons.prems(2)] by blast
  then show ?case
    using Cons.IH [of d'] Cons.prems(1) by auto
qed

end
