(* ===== verification/Write_Correct.thy ===== *)
theory Write_Correct
  imports Coordinator_Correct Commit_Decode
begin

text \<open>
  The properties of a distributed write as a whole: the coordinator of
  \<^verbatim>\<open>src/src/paimon_storage/paimon_distributed_insert.cpp\<close> together with the workers.
\<close>

section \<open>Locking\<close>

lemma lock_parts [lock_intros]:
  "disciplined h (LoadTargetState E ident)" "disciplined h (generate_uuid E)"
  "disciplined h (ValidateTargetBaseline E)" "disciplined h (ValidateCTASTargetAbsent E)"
  "disciplined h (CapturePreparedCTASTarget E)" "disciplined h GetCoordinatorCatalog"
  "disciplined h (CreateCommitter E tp os u b)" "disciplined h (RefreshEntry E p n)"
  by (intro emits_disciplined emits_intros unlocked_simps)+

lemma lock_BestEffortAbort [lock_intros]: "disciplined h (BestEffortAbortMessages E tp os u ms)"
  unfolding BestEffortAbortMessages_def AbortMessages_def
  by (intro emits_disciplined emits_intros unlocked_simps)

lemma lock_CreateTable [lock_intros]: "disciplined False (SchemaEntry_CreateTable E p base)"
  unfolding SchemaEntry_CreateTable_def status_or_throw_def Let_def by (intro lock_intros) simp_all

lemma lock_Initialize [lock_intros]: "disciplined False (InitializeDistributedWrite E types)"
  unfolding InitializeDistributedWrite_def initialize_ctas_def initialize_insert_def Let_def
  by (intro lock_intros; simp)

lemma lock_finalize_locked [lock_intros]: "disciplined False (finalize_locked E tp os d)"
proof (rule disciplinedI)
  fix s
  have pre: "disciplined True (finalize_precommit E tp os d)"
    unfolding finalize_precommit_def by (intro lock_intros)
  have com: "disciplined True (finalize_commit E tp d c)" for c
    unfolding finalize_commit_def Let_def by (intro lock_intros) simp_all
  obtain q u where p: "finalize_precommit E tp os d (snd (record_event EvLock s)) = (q, u)" by fastforce
  obtain evs where evs: "sys_trace u = rev evs @ EvLock # sys_trace s" "lock_run True evs = Some True"
    using disciplinedE [OF pre p] by auto
  have unlock: "lock_run False (EvLock # evs @ [EvUnlock]) = Some False"
    using evs(2) by (simp add: lock_run_append)
  consider e where "q = Inl e" | "q = Inr None" | c where "q = Inr (Some c)"
    by (metis not_Some_eq obj_sumE)
  then show "\<exists>evs. sys_trace (snd (finalize_locked E tp os d s)) = rev evs @ sys_trace s \<and> lock_run False evs = Some False"
  proof cases
    case 1
    let ?abort = "bindP (BestEffortAbortMessages E tp os (coordinator_commit_user tp) (de_messages d)) (\<lambda>_. throwP e) ::
      (_, idx_t) proc"
    obtain r v where a: "?abort (snd (record_event EvUnlock u)) = (r, v)" by fastforce
    have "disciplined False ?abort"
      by (intro lock_intros)
    from disciplinedE [OF this a] obtain evs' where
      "sys_trace v = rev evs' @ EvUnlock # sys_trace u" "lock_run False evs' = Some False" by auto
    moreover have "snd (finalize_locked E tp os d s) = v"
      using 1 p a by (simp add: finalize_locked_def)
    ultimately show ?thesis
      using evs unlock
      by (intro exI [of _ "(EvLock # evs @ [EvUnlock]) @ evs'"]) (simp add: lock_run_append)
  next
    case 2
    then show ?thesis
      using p evs unlock by (intro exI [of _ "EvLock # evs @ [EvUnlock]"]) (simp add: finalize_locked_def)
  next
    case 3
    obtain r v where c: "finalize_commit E tp d c u = (r, v)" by fastforce
    from disciplinedE [OF com c] obtain evs' where
      "sys_trace v = rev evs' @ sys_trace u" "lock_run True evs' = Some True" by auto
    then show ?thesis
      using 3 p c evs
      by (intro exI [of _ "EvLock # evs @ evs' @ [EvUnlock]"]) (simp add: finalize_locked_def lock_run_append)
  qed
qed

text \<open>A commit is issued only when the first part of the critical section succeeded.\<close>

lemma finalize_locked_commit:
  assumes "finalize_locked E tp os d s = (r, t)" "EvCommit c commits \<in> set (decisions (sys_trace t))"
    and "EvCommit c commits \<notin> set (decisions (sys_trace s))"
  shows "\<exists>c u. finalize_precommit E tp os d (snd (record_event EvLock s)) = (Inr (Some c), u)"
proof -
  obtain q u where p: "finalize_precommit E tp os d (snd (record_event EvLock s)) = (q, u)" by fastforce
  note same = finalize_precommit_decisions(1) [OF p]
  consider e where "q = Inl e" | "q = Inr None" | c where "q = Inr (Some c)"
    by (metis not_Some_eq obj_sumE)
  then show ?thesis
  proof cases
    case 1
    obtain q' v where a: "BestEffortAbortMessages E tp os (coordinator_commit_user tp) (de_messages d)
        (snd (record_event EvUnlock u)) = (q', v)" by fastforce
    note b = BestEffortAbort_decisions [OF a]
    have "t = v"
      using assms(1) p 1 a b by (simp add: finalize_locked_def)
    then show ?thesis
      using assms(2,3) b same by (auto split: if_splits)
  next
    case 2
    then have "sys_trace t = EvUnlock # sys_trace u"
      using assms(1) p by (auto simp: finalize_locked_def)
    then show ?thesis using assms(2,3) same by simp
  qed (use p in blast)
qed

lemma lock_run_coord: "disciplined False (run_coord E op)"
  by (cases op) (simp_all only: run_coord_def coord_op.case voidP_def SetDistributedWriteContext_def
    GetExtensionWriteTaskProvider_def WritePlan_def ValidateDistributedWrite_def PrepareDistributedWrite_def
    FinalizeDistributedWrite_def AbortDistributedWrite_def, (intro lock_intros; simp)+)

section \<open>Properties of the coordinator\<close>

text \<open>
  C2. A distributed write commits at most once and never undoes what it may have committed: after any
  sequence of calls, with any results and any failures, the events that decide about commit
  messages are abort requests followed by at most one commit, after which nothing is requested.
\<close>

theorem coordinator_commits_once:
  assumes "coord_reach E s0 ops s" and "decisions (sys_trace s0) = []"
  shows "\<exists>cs ms. decisions (sys_trace s) = cs @ map EvAbortRequest ms \<and>
    (cs = [] \<or> (\<exists>c commits. cs = [EvCommit c commits]))"
proof -
  have "decisions (sys_trace s0) = [] @ map EvAbortRequest []"
    using assms(2) by simp
  then have "commit_inv s0"
    unfolding commit_inv_def by blast
  from commit_inv_reach [OF assms(1) this] show ?thesis
    unfolding commit_inv_def by blast
qed

text \<open>
  C3. A finalization that returns commits exactly what the selected workers produced, in one commit
  under the identifier of the operation: no message is missing, none is null, none occurs twice,
  no logical task is selected twice, and the row count returned is the sum of the workers' counts.
  Without messages nothing is committed.
\<close>

theorem Finalize_commits_selected:
  assumes "FinalizeDistributedWrite E results s = (Inr n, t)"
  shows "\<exists>tp c. GetCoordinatorTransport E (co_insert s) = Inr tp \<and>
    (let ms = concat (map (result_messages E) results) in
      decisions (sys_trace t) =
        (if ms = [] then [] else [EvCommit c [(tp_commit_identifier tp, ms)]]) @ decisions (sys_trace s) \<and>
      None \<notin> set ms \<and> distinct (canonicals E ms)) \<and>
    unat n = (\<Sum>r \<leftarrow> results. result_rows r) \<and> distinct (map (logical_task E) results)"
proof -
  obtain tp os where a: "admitted E (co_insert s) tp os"
    using Finalize_refused [OF assms] by blast
  obtain q d where q: "decode_for E (co_insert s) tp results = (q, d)" by fastforce
  have run: "finalize_body E tp os (q, d) (set_started s) = (Inr n, t)"
    using Finalize_admitted [OF a] assms q by simp
  have "\<exists>c. q = Inr () \<and> n = de_row_count d \<and> decisions (sys_trace t) =
      (if de_messages d = [] then [] else [EvCommit c [(tp_commit_identifier tp, de_messages d)]]) @ decisions (sys_trace s)"
    using run by (cases rule: finalize_body_cases) (auto simp: set_started_def)
  moreover from this obtain info where "DecodeCommitResults E info tp results decoding_start = (Inr (), d)"
    using q by (auto simp: decode_for_def split: sum.splits)
  then obtain expected where "decode_inv E tp expected results d" "distinct (map (logical_task E) results)"
    by (rule DecodeCommitResults_ok)
  moreover have "GetCoordinatorTransport E (co_insert s) = Inr tp"
    using a by (simp add: admitted_def)
  ultimately show ?thesis
    unfolding decode_inv_def decodable_def Let_def by auto
qed

text \<open>
  C15. A finalization that was let in and fails leaves nothing behind unnoticed: either the commit had been
  issued, for everything decoded, and then no abort is requested since its outcome is unknown; or
  no commit was issued, and the abort of exactly the messages decoded so far was requested.
\<close>

theorem Finalize_failure_cleans_up:
  assumes "FinalizeDistributedWrite E results s = (Inl e, t)" and "admitted E (co_insert s) tp os"
    and "decode_for E (co_insert s) tp results = (q, d)"
  shows "(\<exists>c. q = Inr () \<and> de_messages d \<noteq> [] \<and> decisions (sys_trace t) =
      EvCommit c [(tp_commit_identifier tp, de_messages d)] # decisions (sys_trace s)) \<or>
    decisions (sys_trace t) = request (de_messages d) @ decisions (sys_trace s)"
proof -
  have "finalize_body E tp os (q, d) (set_started s) = (Inl e, t)"
    using Finalize_admitted [OF assms(2)] assms(1,3) by simp
  then show ?thesis
    by (cases rule: finalize_body_cases) (auto simp: set_started_def)
qed

text \<open>
  C16. The commit is issued only against the table the workers wrote for: when a finalization issues one,
  the target was read again inside the critical section, just before, and had the identity, path,
  schema, and latest snapshot recorded when the write was planned.
\<close>

theorem Finalize_checks_baseline:
  assumes "FinalizeDistributedWrite E results s = (r, t)" and "EvCommit c commits \<in> set (decisions (sys_trace t))"
    and "EvCommit c commits \<notin> set (decisions (sys_trace s))"
  shows "\<exists>cur u. LoadTargetState E (ins_table_identifier (co_insert s)) (snd (record_event EvLock (set_started s))) = (Inr cur, u) \<and>
    tg_table_uuid cur = ins_table_uuid (co_insert s) \<and> tg_table_path cur = ins_table_path (co_insert s) \<and>
    tg_schema_id cur = ins_schema_id (co_insert s) \<and> tg_table_schema_json cur = ins_table_schema_json (co_insert s) \<and>
    tg_has_snapshot cur = ins_has_snapshot (co_insert s) \<and> tg_snapshot_id cur = ins_snapshot_id (co_insert s)"
proof -
  have "sys_trace t = sys_trace s" if "\<nexists>tp os. admitted E (co_insert s) tp os"
    using Finalize_refused [OF assms(1) that] by (auto simp: set_started_def)
  then obtain tp os where a: "admitted E (co_insert s) tp os"
    using assms(2,3) by metis
  obtain q d where q: "decode_for E (co_insert s) tp results = (q, d)" by fastforce
  have run: "finalize_body E tp os (q, d) (set_started s) = (r, t)"
    using Finalize_admitted [OF a] assms(1) q by simp
  then have "q = Inr () \<and> de_messages d \<noteq> []"
    using assms(2,3) by (cases rule: finalize_body_cases) (auto simp: set_started_def split: if_splits)
  then have "finalize_locked E tp os d (set_started s) = (r, t)"
    using run by (simp add: finalize_body_def)
  then obtain c' u where "finalize_precommit E tp os d (snd (record_event EvLock (set_started s))) = (Inr (Some c'), u)"
    using finalize_locked_commit assms(2,3) by (fastforce simp: set_started_def)
  then show ?thesis
    by (auto simp: finalize_precommit_def ValidateTargetBaseline_def GetCoordinatorCatalog_def set_started_def
        elim!: bindPE split: if_splits)
qed

text \<open>
  C17. The catalog mutex is used correctly by every call of the coordinator, from any state and on every
  way out: it is never taken while held, it is released at the end, and tables are created and
  commits issued only while it is held.
\<close>

theorem coordinator_lock_discipline:
  "\<exists>evs. sys_trace (snd (run_coord E op s)) = rev evs @ sys_trace s \<and> lock_run False evs = Some False"
  using lock_run_coord [of E op] unfolding disciplined_def by blast

section \<open>Workers and coordinator together\<close>

lemma decode_workers:
  assumes "serde_laws E" "codec_laws E" "vane_laws E"
    and "ResolveWriteInfo E (ins_write_plan i) = Inr info" "ValidateResolvedInfo info tp = Inr ()"
    and "DeserializeTransport E (wi_worker_bind_data info) = Inr tp"
    and "\<And>x. x \<in> set xs \<Longrightarrow> worker_output E info x \<and> portable E tp x \<and> TaskResultValidate E (wr_result x) = Inr ()"
    and "ready E tp q xs decoding_start"
  shows "\<exists>d. decode_for E i tp (map wr_result xs) = (Inr (), d) \<and> de_messages d = concat (map wr_messages xs) \<and>
    unat (de_row_count d) = (\<Sum>x \<leftarrow> xs. unat (wr_rows x))"
proof -
  obtain tb where tb: "SerializeTransport E tp = Inr tb"
    using DeserializeTransport_valid [OF assms(6)] by (simp add: SerializeTransport_def)
  obtain d where "decode_results E info tp tb (map wr_result xs) decoding_start = (Inr (), d)"
    "de_messages d = concat (map wr_messages xs)" "unat (de_row_count d) = (\<Sum>x \<leftarrow> xs. unat (wr_rows x))"
    using decode_worker_results [OF assms(1-3,6) tb assms(7,8)] by (auto simp: decoding_start_def)
  then show ?thesis
    using assms(4,5) tb by (simp add: decode_for_def DecodeCommitResults_def)
qed

text \<open>
  C1. End to end: when the coordinator is given the results of workers that ran the plan it handed out,
  for distinct tasks of one query, it decodes all of them. If it returns, it has committed exactly
  the messages the workers held, in one commit, and the count is the total of their rows; if it
  fails, either that commit was issued or the abort of all these messages was requested.
\<close>

theorem distributed_write_end_to_end:
  assumes "serde_laws E" and "codec_laws E" and "vane_laws E" and "admitted E (co_insert s) tp os"
    and "ResolveWriteInfo E (ins_write_plan (co_insert s)) = Inr info" and "ValidateResolvedInfo info tp = Inr ()"
    and "wi_worker_bind_data info = wp_worker_bind_data (ins_write_plan (co_insert s))"
    and "\<And>x. x \<in> set xs \<Longrightarrow> worker_output E info x \<and> portable E tp x \<and> TaskResultValidate E (wr_result x) = Inr ()"
    and "\<And>x. x \<in> set xs \<Longrightarrow> tk_query_id (wr_task x) = q"
    and "distinct (map (\<lambda>x. tk_task_attempt_id (wr_task x)) xs)" and "distinct (map (\<lambda>x. logical_task E (wr_result x)) xs)"
    and "decodable E {} (concat (map wr_messages xs))" and "(\<Sum>x \<leftarrow> xs. unat (wr_rows x)) < 2 ^ 64"
    and "FinalizeDistributedWrite E (map wr_result xs) s = (r, t)"
  shows "let ms = concat (map wr_messages xs);
      committed = (\<lambda>c. decisions (sys_trace t) = EvCommit c [(tp_commit_identifier tp, ms)] # decisions (sys_trace s))
    in case r of
      Inr n \<Rightarrow> unat n = (\<Sum>x \<leftarrow> xs. unat (wr_rows x)) \<and>
        (if ms = [] then decisions (sys_trace t) = decisions (sys_trace s) else (\<exists>c. committed c))
    | Inl e \<Rightarrow> (\<exists>c. committed c) \<or> decisions (sys_trace t) = request ms @ decisions (sys_trace s)"
proof -
  have "DeserializeTransport E (wi_worker_bind_data info) = Inr tp"
    using assms(4,7) by (auto simp: admitted_def GetCoordinatorTransport_def res_bind_Inr split: if_splits)
  moreover have "ready E tp q xs decoding_start"
    using assms(9-13) by (simp add: ready_def decoding_start_def)
  ultimately obtain d where d: "decode_for E (co_insert s) tp (map wr_result xs) = (Inr (), d)"
    "de_messages d = concat (map wr_messages xs)" "unat (de_row_count d) = (\<Sum>x \<leftarrow> xs. unat (wr_rows x))"
    using decode_workers [OF assms(1-3,5,6) _ assms(8)] by blast
  have "finalize_body E tp os (Inr (), d) (set_started s) = (r, t)"
    using Finalize_admitted [OF assms(4)] assms(14) d(1) by simp
  then show ?thesis
    using d(2,3)
    by (cases rule: finalize_body_cases) (auto simp: set_started_def Let_def split: sum.splits)
qed

end
