(* ===== verification/Write_Demo.thy ===== *)
theory Write_Demo
  imports Write_Correct
begin

text \<open>
  A complete distributed INSERT on the instance \<open>demo_env\<close>: planning, preparation, the worker run of
  \<open>Dist_Worker\<close> and finalization. It shows that the hypotheses of the properties can be met.
\<close>

definition demo_coord :: "(nat, nat) coord" where
  "demo_coord = \<lparr>sys_world = 0, sys_trace = [], cat_path = ''/data'', cat_access_mode = READ_WRITE,
     cat_attached_options = [], cat_schemas = \<lparr>sset_inited = True, sset_entries = [(''db'', 0)]\<rparr>,
     cat_heap = (\<lambda>_. new_schema_entry ''db''), cat_next = 1,
     co_insert = new_insert (Some 0) None \<lparr>id_database = ''db'', id_table = ''t''\<rparr> [(''file.format'', ''orc'')]
       [''p''] [[demo_type, demo_type]] True\<rparr>"

definition demo_planned :: "(nat, nat) coord" where
  "demo_planned = snd (GetExtensionWriteTaskProvider demo_env demo_coord)"

definition demo_prepared :: "(nat, nat) coord" where
  "demo_prepared = snd (PrepareDistributedWrite demo_env demo_planned)"

definition demo_result :: DistributedWriteTaskResult where
  "demo_result = \<lparr>tr_capability = wi_capability demo_info, tr_fragment_codec = wi_fragment_codec demo_info,
     tr_query_id = ''q'', tr_task_attempt_id = ''q.0.1.0'', tr_fragments = [demo_fragment]\<rparr>"

definition demo_target :: PaimonDistributedTargetState where
  "demo_target = \<lparr>tg_table_uuid = ''table-uuid'', tg_table_path = ''/data/db.db/t'',
     tg_table_schema_json = ''schema'', tg_schema_id = 0, tg_append_only = True, tg_has_snapshot = True,
     tg_snapshot_id = 7, tg_field_names = [''p'', ''v''], tg_field_types = [demo_type, demo_type],
     tg_part_keys = [''p''], tg_primary_keys = [], tg_table_options = [(''null-name'', ''null'')],
     tg_null_part_name = ''null''\<rparr>"

lemma demo_LoadTargetState:
  "LoadTargetState demo_env ident s = (Inr demo_target, s\<lparr>sys_trace :=
     EvRead ''GetTable'' # EvRead ''ListSnapshots'' # EvRead ''LoadTableSchema'' # EvRead ''GetTableLocation'' #
     EvRead ''GetTable'' # EvRead ''TableExists'' # sys_trace s\<rparr>)"
  by (simp add: LoadTargetState_def LoadTableUUID_def demo_calls demo_schema_def demo_data_schema_def value_or_io_def
      null_partition_name_def demo_keys_def demo_target_def)

definition demo_insert :: PhysicalPaimonInsert where
  "demo_insert = (new_insert (Some 0) None \<lparr>id_database = ''db'', id_table = ''t''\<rparr> [(''file.format'', ''orc'')]
       [''p''] [[demo_type, demo_type]] True)
     \<lparr>ins_operation_id := ''u-id'', ins_commit_identifier := 4, ins_portable_options := [(''file.format'', ''orc'')],
      ins_table_uuid := ''table-uuid'', ins_table_path := ''/data/db.db/t'', ins_table_schema_json := ''schema'',
      ins_schema_fingerprint := replicate 32 CHR ''a'', ins_schema_id := 0, ins_append_only := True,
      ins_has_snapshot := True, ins_snapshot_id := 7, ins_input_types := [demo_type, demo_type],
      ins_input_names := [''p'', ''v''], ins_primary_keys := [], ins_table_options := [(''null-name'', ''null'')],
      ins_null_part_name := ''null'',
      ins_write_plan := \<lparr>wp_extension_name = ''paimon'', wp_operator_name = ''insert'',
        wp_worker_bind_data = demo_bytes (transport_items demo_transport)\<rparr>,
      ins_target_initialized := True, ins_worker_plan_selected := True\<rparr>"

lemma demo_transport_eq: "coordinator_transport WK_INSERT demo_insert = demo_transport"
  by (simp add: coordinator_transport_def demo_insert_def new_insert_def demo_transport_def)

lemma demo_SerializeTransport:
  "SerializeTransport demo_env demo_transport = Inr (demo_bytes (transport_items demo_transport))"
  using demo_transport_ok by (simp add: SerializeTransport_def)

lemma demo_provider:
  "fst (GetExtensionWriteTaskProvider demo_env demo_coord) = Inr () \<and>
   co_insert demo_planned = demo_insert \<and> decisions (sys_trace demo_planned) = [] \<and>
   cat_access_mode demo_planned = READ_WRITE"
proof -
  have id: "CreateCommitIdentifier demo_env ''u-id'' = 4"
    by (simp add: CreateCommitIdentifier_def)
  have port: "GetPortableWriteOptions demo_env [(''file.format'', ''orc'')] = [(''file.format'', ''orc'')]"
    by (simp add: GetPortableWriteOptions_def demo_keys_def map_emplace_def)
  show ?thesis
    unfolding demo_planned_def
    by (simp add: GetExtensionWriteTaskProvider_def demo_coord_def new_insert_def InitializeDistributedWrite_def
      generate_uuid_def id port initialize_insert_def with_mutex_def demo_LoadTargetState demo_target_def
      SchemaFingerprint_def coordinator_transport_def expected_kind_def WriteOperatorName_def
      PAIMON_DISTRIBUTED_INSERT_OPERATOR_def demo_SerializeTransport [unfolded demo_transport_def]
      demo_transport_def demo_insert_def)
qed

lemma demo_shape: "ValidateCoordinatorShape demo_env demo_insert = Inr ()" "GetCoordinatorTransport demo_env demo_insert = Inr demo_transport"
proof -
  have d: "DeserializeTransport demo_env (demo_bytes (transport_items demo_transport)) = Inr demo_transport"
    "demo_bytes (transport_items demo_transport) \<noteq> []"
    using DeserializeTransport_Serialize [OF demo_serde_laws demo_transport_ok(2) demo_SerializeTransport] by simp_all
  have p: "wp_worker_bind_data (ins_write_plan demo_insert) = demo_bytes (transport_items demo_transport)"
    "expected_kind demo_insert = WK_INSERT"
    by (simp_all add: demo_insert_def expected_kind_def new_insert_def)
  show t: "GetCoordinatorTransport demo_env demo_insert = Inr demo_transport"
    using d p by (simp add: GetCoordinatorTransport_def demo_transport_eq)
  show "ValidateCoordinatorShape demo_env demo_insert = Inr ()"
    using d p t unfolding ValidateCoordinatorShape_def
    by (simp add: demo_insert_def new_insert_def PAIMON_DISTRIBUTED_INSERT_OPERATOR_def)
qed

lemma demo_baseline:
  assumes "co_insert s = demo_insert\<lparr>ins_prepare_started := a, ins_target_prepared := b, ins_finalize_started := c\<rparr>"
    and "cat_access_mode s = READ_WRITE"
  shows "ValidateTargetBaseline demo_env s = (Inr (), snd (LoadTargetState demo_env (ins_table_identifier demo_insert) s))"
  using assms by (simp add: ValidateTargetBaseline_def GetCoordinatorCatalog_def demo_LoadTargetState demo_target_def
      same_target_def demo_insert_def new_insert_def)

lemma demo_prepare:
  "fst (PrepareDistributedWrite demo_env demo_planned) = Inr () \<and>
   co_insert demo_prepared = demo_insert\<lparr>ins_prepare_started := True, ins_target_prepared := True\<rparr> \<and>
   decisions (sys_trace demo_prepared) = [] \<and> cat_access_mode demo_prepared = READ_WRITE"
proof -
  have i: "co_insert demo_planned = demo_insert" "cat_access_mode demo_planned = READ_WRITE"
    "decisions (sys_trace demo_planned) = []"
    using demo_provider by simp_all
  let ?s = "(co_insert_update (\<lambda>i. i\<lparr>ins_prepare_started := True\<rparr>) demo_planned)"
  have b: "ValidateTargetBaseline demo_env (?s\<lparr>sys_trace := tr\<rparr>) =
      (Inr (), snd (LoadTargetState demo_env (ins_table_identifier demo_insert) (?s\<lparr>sys_trace := tr\<rparr>)))" for tr
    by (rule demo_baseline [where a = True and b = False and c = False])
      (simp_all add: i, simp add: demo_insert_def new_insert_def)
  have f: "\<not> ins_prepare_started demo_insert" "ins_info demo_insert = None"
    by (simp_all add: demo_insert_def new_insert_def)
  show ?thesis
    unfolding demo_prepared_def
    using i f b by (simp add: PrepareDistributedWrite_def demo_shape with_mutex_def demo_LoadTargetState)
qed

definition demo_run :: "nat worker_run" where
  "demo_run = \<lparr>wr_task = demo_task, wr_result = demo_result, wr_messages = [Some (sys_world demo_sunk)], wr_rows = 3\<rparr>"

lemma demo_worker_output: "worker_output demo_env demo_info demo_run"
proof -
  have "wr_messages demo_run = g_messages (wk_global demo_combined)" "wr_rows demo_run = g_row_count (wk_global demo_combined)"
    by (simp_all add: demo_run_def demo_combined_eq)
  moreover have "PaimonDistributedInsertFinalize demo_env (wr_task demo_run) demo_combined =
      (Inr (tr_fragments (wr_result demo_run)), demo_finished)"
    using demo_Finalize by (simp add: demo_run_def demo_result_def)
  moreover have "worker_start demo_env demo_info (wr_task demo_run) demo_worker"
    "worker_reach demo_env (wr_task demo_run) demo_worker [OpInit 0, OpSink 0 demo_chunk, OpCombine 0] demo_combined"
    using demo_start demo_reach_combined by (simp_all add: demo_run_def)
  moreover have "tr_capability (wr_result demo_run) = wi_capability demo_info"
    "tr_fragment_codec (wr_result demo_run) = wi_fragment_codec demo_info"
    "tr_query_id (wr_result demo_run) = tk_query_id (wr_task demo_run)"
    "tr_task_attempt_id (wr_result demo_run) = tk_task_attempt_id (wr_task demo_run)"
    by (simp_all add: demo_run_def demo_result_def demo_task_def)
  ultimately show ?thesis
    unfolding worker_output_def by blast
qed

lemma demo_world: "sys_world demo_sunk = 1"
proof -
  have w: "keeps sys_world (WritePaimonChunk demo_env h c part)" for h c part
    by (simp add: keeps_def WritePaimonChunk_def Let_def call_io_def call_def value_or_io_def bindP_def demo_ok_def)
  have g: "keeps sys_world (write_groups demo_env h pk input groups)" for h pk input groups
  proof (induction groups)
    case (Cons x groups)
    then show ?case
      by (cases x) (simp only: write_groups.simps, intro keeps_bindP w)
  qed (simp add: keeps_def)
  have "keeps sys_world (PaimonDistributedInsertSink demo_env demo_task 0 demo_chunk)"
    unfolding PaimonDistributedInsertSink_def add_local_rows_def by (intro w g keeps_bindP keeps_pure keeps_if keeps_case_option keeps_simple keeps_modifyP; simp)
  from keepsD [OF this demo_sunk_eq(1)] show ?thesis
    by (simp add: demo_opened_eq)
qed

lemma length_enc [simp]: "length (enc_nat n) = Suc n"
  by (induction n) simp_all

lemma demo_lengths:
  "length (enc_list (enc_via demo_opt_nat enc_nat) [Some (sys_world demo_sunk)]) < 2 ^ 31"
  "enc_list (enc_via demo_opt_nat enc_nat) [Some (sys_world demo_sunk)] \<noteq> []"
  "length (demo_bytes (transport_items demo_transport)) < 2 ^ 32"
  by (simp_all add: enc_list_def enc_via_def demo_opt_nat_def demo_world demo_bytes_def transport_items_def
    demo_transport_def enc_str_def enc_char_def enc_int_def enc_word_def enc_bool_def enc_type_def enc_pair_def
    demo_type_def lt_id_num_def lt_ids_def pt_num_def pt_ids_def PAIMON_DISTRIBUTED_WRITE_PROTOCOL_VERSION_def
    write_kind_byte_def)

lemma demo_portable: "portable demo_env demo_transport demo_run"
  using demo_transport_ok(2) demo_lengths demo_SerializeTransport
  by (auto simp: portable_def demo_run_def demo_task_def str_ok_def WorkerCommitUser_def CompactUUID_def
    AttemptDigest_def demo_transport_def demo_SerializeList_def)

definition demo_committed :: "(nat, nat) coord" where
  "demo_committed = snd (FinalizeDistributedWrite demo_env [demo_result] demo_prepared)"

lemma demo_admitted: "\<exists>os. admitted demo_env (co_insert demo_prepared) demo_transport os"
proof -
  have "ValidateCoordinatorShape demo_env (co_insert demo_prepared) = ValidateCoordinatorShape demo_env demo_insert"
    "GetCoordinatorTransport demo_env (co_insert demo_prepared) = GetCoordinatorTransport demo_env demo_insert"
    using demo_prepare
    by (simp_all add: ValidateCoordinatorShape_def GetCoordinatorTransport_def expected_kind_def coordinator_transport_def)
  moreover have "\<not> ins_finalize_started (co_insert demo_prepared)" "ins_target_prepared (co_insert demo_prepared)"
    using demo_prepare by (simp_all add: demo_insert_def new_insert_def)
  moreover have "is_ok (BuildRuntimeOptions demo_env demo_transport None)"
    by (simp add: BuildRuntimeOptions_def GetPaimonOptions_def metastore_options_def format_option_def
        secret_options_def snapshot_options_def Let_def demo_ctx_def)
  ultimately show ?thesis
    using demo_shape by (cases "BuildRuntimeOptions demo_env demo_transport None") (auto simp: admitted_def)
qed

lemma demo_resolve:
  "ResolveWriteInfo demo_env (ins_write_plan (co_insert demo_prepared)) = Inr demo_info"
  "ValidateResolvedInfo demo_info demo_transport = Inr ()"
  "wi_worker_bind_data demo_info = wp_worker_bind_data (ins_write_plan (co_insert demo_prepared))"
  using demo_prepare
  by (simp_all add: demo_info_def demo_insert_def ValidateResolvedInfo_def WriteOperatorName_def demo_transport_def
    PAIMON_DISTRIBUTED_INSERT_OPERATOR_def PAIMON_DISTRIBUTED_WRITE_FRAGMENT_CODEC_def
    PAIMON_DISTRIBUTED_WRITE_PROTOCOL_VERSION_def)

lemma demo_decodable: "decodable demo_env {} (concat (map wr_messages [demo_run]))"
  by (simp add: decodable_def demo_run_def)

lemma demo_decoded:
  "\<exists>d. decode_for demo_env (co_insert demo_prepared) demo_transport [demo_result] = (Inr (), d) \<and>
    de_messages d = [Some 1] \<and> de_row_count d = 3"
proof -
  have tp: "DeserializeTransport demo_env (wi_worker_bind_data demo_info) = Inr demo_transport"
    using DeserializeTransport_Serialize(2) [OF demo_serde_laws demo_transport_ok(2) demo_SerializeTransport]
    by (simp add: demo_info_def)
  have r: "ready demo_env demo_transport ''q'' [demo_run] decoding_start"
    using demo_decodable by (simp add: ready_def decoding_start_def demo_run_def demo_task_def)
  have x: "worker_output demo_env demo_info x \<and> portable demo_env demo_transport x \<and>
      TaskResultValidate demo_env (wr_result x) = Inr ()" if "x \<in> set [demo_run]" for x
    using that demo_worker_output demo_portable by simp
  show ?thesis
    using decode_workers [OF demo_serde_laws demo_codec_laws demo_vane_laws demo_resolve(1,2) tp x r]
    by (auto simp: demo_run_def demo_world word_unat_eq_iff)
qed

lemma demo_commit: "FinalizeDistributedWrite demo_env [demo_result] demo_prepared = (Inr 3, demo_committed)"
  "\<exists>c. decisions (sys_trace demo_committed) = [EvCommit c [(4, [Some 1])]]"
proof -
  obtain os where a: "admitted demo_env (co_insert demo_prepared) demo_transport os"
    using demo_admitted by blast
  obtain d where d: "decode_for demo_env (co_insert demo_prepared) demo_transport [demo_result] = (Inr (), d)"
    "de_messages d = [Some 1]" "de_row_count d = 3"
    using demo_decoded by blast
  have b: "ValidateTargetBaseline demo_env ((set_started demo_prepared)\<lparr>sys_trace := tr\<rparr>) = (Inr (),
      snd (LoadTargetState demo_env (ins_table_identifier demo_insert) ((set_started demo_prepared)\<lparr>sys_trace := tr\<rparr>)))" for tr
    by (rule demo_baseline [where a = True and b = True and c = True])
      (use demo_prepare in \<open>simp_all add: set_started_def\<close>)
  have ok: "fst (finalize_locked demo_env demo_transport os d (set_started demo_prepared)) = Inr 3"
    using b d(2,3) by (simp add: finalize_locked_def finalize_precommit_def demo_LoadTargetState CreateCommitter_def
      Let_def demo_calls call_io_def call_def demo_fresh_def demo_ok_def value_or_io_def bindP_def finalize_commit_def)
  then obtain u where u: "finalize_locked demo_env demo_transport os d (set_started demo_prepared) = (Inr 3, u)"
    by (rule fst_InrE)
  then show run: "FinalizeDistributedWrite demo_env [demo_result] demo_prepared = (Inr 3, demo_committed)"
    using Finalize_admitted [OF a, of "[demo_result]"] d(1) by (simp add: finalize_body_def demo_committed_def)
  then have "u = demo_committed"
    using Finalize_admitted [OF a, of "[demo_result]"] d(1) u by (simp add: finalize_body_def)
  with u show "\<exists>c. decisions (sys_trace demo_committed) = [EvCommit c [(4, [Some 1])]]"
    using d(2,3) demo_prepare
    by (cases rule: finalize_locked_cases) (auto simp: set_started_def demo_transport_def)
qed

text \<open>A second result that does not carry the capability of the plan: decoding fails after the first.\<close>

definition demo_foreign :: DistributedWriteTaskResult where
  "demo_foreign = demo_result\<lparr>tr_capability := (tr_capability demo_result)\<lparr>cap_name := ''other''\<rparr>\<rparr>"

definition demo_failed :: "(nat, nat) coord" where
  "demo_failed = snd (FinalizeDistributedWrite demo_env [demo_result, demo_foreign] demo_prepared)"

lemma demo_decode_foreign:
  "\<exists>e d. decode_for demo_env (co_insert demo_prepared) demo_transport [demo_result, demo_foreign] = (Inl e, d) \<and>
    de_messages d = [Some 1]"
proof -
  obtain d where "decode_results demo_env demo_info demo_transport (demo_bytes (transport_items demo_transport))
      [demo_result] decoding_start = (Inr (), d)" and m: "de_messages d = [Some 1]"
    using demo_decoded demo_resolve demo_SerializeTransport by (auto simp: decode_for_def DecodeCommitResults_def)
  then have "decode_result demo_env demo_info demo_transport (demo_bytes (transport_items demo_transport))
      demo_result decoding_start = (Inr (), d)"
    by (auto elim!: bindPE split: if_splits)
  moreover have "fst (decode_result demo_env demo_info demo_transport (demo_bytes (transport_items demo_transport))
      demo_foreign d) \<noteq> Inr ()" "snd (decode_result demo_env demo_info demo_transport
      (demo_bytes (transport_items demo_transport)) demo_foreign d) = d"
    by (simp_all add: decode_result_def demo_foreign_def demo_result_def demo_info_def)
  ultimately show ?thesis
    using m demo_resolve demo_SerializeTransport
    by (cases "decode_result demo_env demo_info demo_transport (demo_bytes (transport_items demo_transport)) demo_foreign d";
      cases "fst (decode_result demo_env demo_info demo_transport (demo_bytes (transport_items demo_transport)) demo_foreign d)")
      (simp_all add: decode_for_def DecodeCommitResults_def)
qed

section \<open>Witnesses\<close>

theorem distributed_write_end_to_end_witness:
  "\<exists>c. decisions (sys_trace demo_committed) = [EvCommit c [(4, [Some 1])]]"
proof -
  obtain os where a: "admitted demo_env (co_insert demo_prepared) demo_transport os"
    using demo_admitted by blast
  have fin: "FinalizeDistributedWrite demo_env (map wr_result [demo_run]) demo_prepared = (Inr 3, demo_committed)"
    using demo_commit(1) by (simp add: demo_run_def)
  have x: "worker_output demo_env demo_info x \<and> portable demo_env demo_transport x \<and>
      TaskResultValidate demo_env (wr_result x) = Inr ()" "tk_query_id (wr_task x) = ''q''" if "x \<in> set [demo_run]" for x
    using that demo_worker_output demo_portable by (simp_all add: demo_run_def demo_task_def)
  have "distinct (map (\<lambda>x. tk_task_attempt_id (wr_task x)) [demo_run])"
    "distinct (map (\<lambda>x. logical_task demo_env (wr_result x)) [demo_run])"
    "(\<Sum>x \<leftarrow> [demo_run]. unat (wr_rows x)) < 2 ^ 64"
    by (simp_all add: demo_run_def)
  from distributed_write_end_to_end [OF demo_serde_laws demo_codec_laws demo_vane_laws a demo_resolve x this(1,2)
      demo_decodable this(3) fin]
  show ?thesis
    using demo_prepare by (simp add: demo_run_def demo_world demo_transport_def)
qed

theorem coordinator_commits_once_witness:
  "\<exists>cs ms. decisions (sys_trace demo_committed) = cs @ map EvAbortRequest ms \<and>
    (cs = [] \<or> (\<exists>c commits. cs = [EvCommit c commits]))"
proof -
  have run: "run_coord demo_env CoProvider demo_coord = (Inr (), demo_planned)"
    "run_coord demo_env CoPrepare demo_planned = (Inr (), demo_prepared)"
    "run_coord demo_env (CoFinalize [demo_result]) demo_prepared = (Inr (), demo_committed)"
    using demo_provider demo_prepare
    by (simp_all add: run_coord_def demo_commit demo_planned_def [symmetric] demo_prepared_def [symmetric] prod_eq_iff)
  have "decisions (sys_trace demo_coord) = []"
    by (simp add: demo_coord_def)
  from coordinator_commits_once [OF coord_reach.step [OF coord_reach.step [OF coord_reach.step [OF coord_reach.start
      run(1)] run(2)] run(3)] this] show ?thesis .
qed

theorem Finalize_commits_selected_witness:
  "\<exists>tp c. GetCoordinatorTransport demo_env (co_insert demo_prepared) = Inr tp \<and>
    (let ms = concat (map (result_messages demo_env) [demo_result]) in
      decisions (sys_trace demo_committed) =
        (if ms = [] then [] else [EvCommit c [(tp_commit_identifier tp, ms)]]) @ decisions (sys_trace demo_prepared) \<and>
      None \<notin> set ms \<and> distinct (canonicals demo_env ms)) \<and>
    unat (3 :: idx_t) = (\<Sum>r \<leftarrow> [demo_result]. result_rows r) \<and> distinct (map (logical_task demo_env) [demo_result])"
  by (rule Finalize_commits_selected [OF demo_commit(1)])

theorem Finalize_checks_baseline_witness:
  "\<exists>cur u. LoadTargetState demo_env (ins_table_identifier (co_insert demo_prepared))
      (snd (record_event EvLock (set_started demo_prepared))) = (Inr cur, u) \<and>
    tg_table_uuid cur = ins_table_uuid (co_insert demo_prepared) \<and> tg_table_path cur = ins_table_path (co_insert demo_prepared) \<and>
    tg_schema_id cur = ins_schema_id (co_insert demo_prepared) \<and>
    tg_table_schema_json cur = ins_table_schema_json (co_insert demo_prepared) \<and>
    tg_has_snapshot cur = ins_has_snapshot (co_insert demo_prepared) \<and>
    tg_snapshot_id cur = ins_snapshot_id (co_insert demo_prepared)"
proof -
  obtain c where "decisions (sys_trace demo_committed) = [EvCommit c [(4, [Some 1])]]"
    using demo_commit(2) by blast
  then show ?thesis
    using Finalize_checks_baseline [OF demo_commit(1), of c "[(4, [Some 1])]"] demo_prepare by simp
qed

theorem Finalize_failure_cleans_up_witness:
  "decisions (sys_trace demo_failed) = [EvAbortRequest [Some 1]]"
proof -
  obtain e d where d: "decode_for demo_env (co_insert demo_prepared) demo_transport [demo_result, demo_foreign] = (Inl e, d)"
    "de_messages d = [Some 1]"
    using demo_decode_foreign by blast
  obtain os where a: "admitted demo_env (co_insert demo_prepared) demo_transport os"
    using demo_admitted by blast
  obtain q u where b: "BestEffortAbortMessages demo_env demo_transport os (coordinator_commit_user demo_transport)
      [Some 1] (set_started demo_prepared) = (q, u)" by fastforce
  have "FinalizeDistributedWrite demo_env [demo_result, demo_foreign] demo_prepared = (Inl e, demo_failed)"
    using Finalize_admitted [OF a, of "[demo_result, demo_foreign]"] d b BestEffortAbort_decisions [OF b]
    by (simp add: finalize_body_def demo_failed_def)
  from Finalize_failure_cleans_up [OF this a d(1)] show ?thesis
    using d demo_prepare by simp
qed

end
