(* ===== verification/Plan_Correct.thy ===== *)
theory Plan_Correct
  imports Write_Demo
begin

text \<open>
  Planning and preparation of a distributed write: the plan handed to the workers is the one the
  coordinator accepts later, and a CTAS freezes exactly the definition it then creates.
\<close>

section \<open>The definition of a CTAS\<close>

lemma GetCreatePrimaryKeys_eq:
  "GetCreatePrimaryKeys names cs r = res_bind (create_primary_keys names cs) (\<lambda>ks. Inr (r @ ks))"
proof (induction names cs arbitrary: r rule: create_primary_keys.induct)
  case (3 names primary index ks cs)
  then show ?case
    by (cases index; cases "create_primary_keys names cs"; cases "vector_at names (the index)") auto
qed auto

lemma GetCreateTableOptions_eq: "GetCreateTableOptions os r = create_options os r"
  by (induction os r rule: create_options.induct) auto

section \<open>Initialisation\<close>

lemma initialize_ctas_ok:
  assumes "initialize_ctas E types base s = (Inr (), t)"
  shows "ins_input_types (co_insert t) = types" "ins_input_types (co_insert t) = map snd (ci_columns base)"
    "ins_input_names (co_insert t) = map fst (ci_columns base)"
    "create_primary_keys (map fst (ci_columns base)) (ci_constraints base) = Inr (ins_primary_keys (co_insert t))"
    "create_options (ci_options base) [] = Inr (ins_table_options (co_insert t))"
    "(ins_info (co_insert t), ins_children (co_insert t), ins_part_keys (co_insert t)) =
      (ins_info (co_insert s), ins_children (co_insert s), ins_part_keys (co_insert s))"
  using assms
  by (auto simp: initialize_ctas_def GetCreatePrimaryKeys_eq GetCreateTableOptions_eq call_def res_bind_Inr
      elim!: bindPE split: if_splits sum.splits prod.splits)

lemma initialize_insert_ok:
  assumes "initialize_insert E types s = (Inr (), t)"
  shows "ins_input_types (co_insert t) = types"
    "(ins_info (co_insert t), ins_children (co_insert t), ins_part_keys (co_insert t)) =
      (ins_info (co_insert s), ins_children (co_insert s), ins_part_keys (co_insert s))"
proof -
  obtain r u where m: "bindP (getP co_insert) (\<lambda>i. bindP (LoadTargetState E (ins_table_identifier i)) (\<lambda>target.
     if types \<noteq> tg_field_types target then throwP (InvalidInputException ''INSERT input schema'')
     else if ins_part_keys i \<noteq> tg_part_keys target then throwP (InternalException ''INSERT partition keys'')
     else set_insert (\<lambda>i. i\<lparr>ins_table_uuid := tg_table_uuid target, ins_table_path := tg_table_path target,
       ins_table_schema_json := tg_table_schema_json target,
       ins_schema_fingerprint := SchemaFingerprint E (tg_table_schema_json target),
       ins_schema_id := tg_schema_id target, ins_append_only := tg_append_only target,
       ins_has_snapshot := tg_has_snapshot target, ins_snapshot_id := tg_snapshot_id target,
       ins_input_types := types, ins_input_names := tg_field_names target,
       ins_primary_keys := tg_primary_keys target, ins_table_options := tg_table_options target,
       ins_null_part_name := tg_null_part_name target\<rparr>)))
     (snd (record_event EvLock s)) = (Inr (), u)" and t: "t = snd (record_event EvUnlock u)"
    using assms unfolding initialize_insert_def with_mutex_def by (auto split: prod.splits)
  have k: "keeps co_insert (LoadTargetState E ident)" for ident
    by (intro keeps_intros) simp
  show "ins_input_types (co_insert t) = types"
    using m t by (auto elim!: bindPE split: if_splits)
  show "(ins_info (co_insert t), ins_children (co_insert t), ins_part_keys (co_insert t)) =
      (ins_info (co_insert s), ins_children (co_insert s), ins_part_keys (co_insert s))"
    using m t by (auto dest!: keepsD [OF k] elim!: bindPE split: if_splits)
qed

text \<open>\<open>InitializeDistributedWrite\<close> in three steps: identify the operation, load the target, publish the plan.\<close>

definition identified :: "('w, 'm, 'd) env \<Rightarrow> ('w, 'm) coord \<Rightarrow> ('w, 'm) coord" where
  "identified E s = (case GenerateUUID E (sys_world s) of (operation_id, w) \<Rightarrow>
     co_insert_update (\<lambda>i. i\<lparr>ins_operation_id := operation_id,
       ins_commit_identifier := CreateCommitIdentifier E operation_id,
       ins_portable_options := GetPortableWriteOptions E (ins_paimon_options i)\<rparr>) (s\<lparr>sys_world := w\<rparr>))"

definition publish_plan :: "('w, 'm, 'd) env \<Rightarrow> PaimonDistributedWriteKind \<Rightarrow> ('w, 'm, unit) coordP" where
  "publish_plan E kind =
     bindP (getP co_insert) (\<lambda>j.
     bindP (liftP (WriteOperatorName kind)) (\<lambda>name.
     bindP (set_insert (\<lambda>i. i\<lparr>ins_write_plan := (ins_write_plan i)\<lparr>wp_extension_name := ''paimon'',
       wp_operator_name := name\<rparr>\<rparr>)) (\<lambda>_.
     bindP (liftP (SerializeTransport E (coordinator_transport kind j))) (\<lambda>bytes.
     set_insert (\<lambda>i. i\<lparr>ins_write_plan := (ins_write_plan i)\<lparr>wp_worker_bind_data := bytes\<rparr>,
       ins_target_initialized := True\<rparr>)))))"

lemma Initialize_split:
  "InitializeDistributedWrite E types s =
     (if ins_target_initialized (co_insert s) then (Inl (InternalException ''initialized more than once''), s)
      else if ins_schema (co_insert s) = None then (Inl (InternalException ''requires a coordinator schema entry''), s)
      else bindP (case ins_info (co_insert s) of
             Some base \<Rightarrow> initialize_ctas E types base
           | None \<Rightarrow> initialize_insert E types) (\<lambda>_. publish_plan E (expected_kind (co_insert s))) (identified E s))"
  by (cases "GenerateUUID E (sys_world s)")
    (simp add: InitializeDistributedWrite_def publish_plan_def identified_def generate_uuid_def Let_def)

lemma publish_plan_ok:
  assumes "publish_plan E kind v = (Inr (), t)"
  shows "\<exists>name bytes. WriteOperatorName kind = Inr name \<and>
    SerializeTransport E (coordinator_transport kind (co_insert v)) = Inr bytes \<and>
    co_insert t = (co_insert v)\<lparr>ins_write_plan := (ins_write_plan (co_insert v))\<lparr>wp_extension_name := ''paimon'',
      wp_operator_name := name, wp_worker_bind_data := bytes\<rparr>, ins_target_initialized := True\<rparr>"
  using assms
  by (cases "WriteOperatorName kind"; cases "SerializeTransport E (coordinator_transport kind (co_insert v))")
    (auto simp: publish_plan_def)

lemma Initialize_ok:
  assumes "InitializeDistributedWrite E types s = (Inr (), t)"
  shows "ins_target_initialized (co_insert t)" "ins_input_types (co_insert t) = types"
    "wp_extension_name (ins_write_plan (co_insert t)) = ''paimon''"
    "WriteOperatorName (expected_kind (co_insert t)) = Inr (wp_operator_name (ins_write_plan (co_insert t)))"
    "SerializeTransport E (coordinator_transport (expected_kind (co_insert t)) (co_insert t)) =
      Inr (wp_worker_bind_data (ins_write_plan (co_insert t)))"
    "(ins_info (co_insert t), ins_children (co_insert t), ins_part_keys (co_insert t)) =
      (ins_info (co_insert s), ins_children (co_insert s), ins_part_keys (co_insert s))"
    "ins_info (co_insert s) = Some base \<Longrightarrow>
      create_primary_keys (map fst (ci_columns base)) (ci_constraints base) = Inr (ins_primary_keys (co_insert t)) \<and>
      create_options (ci_options base) [] = Inr (ins_table_options (co_insert t)) \<and>
      ins_input_names (co_insert t) = map fst (ci_columns base) \<and> types = map snd (ci_columns base)"
proof -
  define u where "u = identified E s"
  obtain v where init: "(case ins_info (co_insert s) of Some base \<Rightarrow> initialize_ctas E types base
       | None \<Rightarrow> initialize_insert E types) u = (Inr (), v)"
    and pub: "publish_plan E (expected_kind (co_insert s)) v = (Inr (), t)"
    using assms by (auto simp: Initialize_split u_def elim!: bindPE split: if_splits)
  obtain name bytes where name: "WriteOperatorName (expected_kind (co_insert s)) = Inr name"
    and bytes: "SerializeTransport E (coordinator_transport (expected_kind (co_insert s)) (co_insert v)) = Inr bytes"
    and t: "co_insert t = (co_insert v)\<lparr>ins_write_plan := (ins_write_plan (co_insert v))\<lparr>wp_extension_name := ''paimon'',
      wp_operator_name := name, wp_worker_bind_data := bytes\<rparr>, ins_target_initialized := True\<rparr>"
    using publish_plan_ok [OF pub] by blast
  have u: "(ins_info (co_insert u), ins_children (co_insert u), ins_part_keys (co_insert u)) =
      (ins_info (co_insert s), ins_children (co_insert s), ins_part_keys (co_insert s))"
    by (simp add: u_def identified_def split: prod.split)
  have v: "ins_input_types (co_insert v) = types"
    "(ins_info (co_insert v), ins_children (co_insert v), ins_part_keys (co_insert v)) =
      (ins_info (co_insert s), ins_children (co_insert s), ins_part_keys (co_insert s))"
    using init u by (auto split: option.splits dest: initialize_ctas_ok initialize_insert_ok)
  have same: "expected_kind (co_insert t) = expected_kind (co_insert s)"
    "coordinator_transport k (co_insert t) = coordinator_transport k (co_insert v)" for k
    using v(2) t by (simp_all add: expected_kind_def coordinator_transport_def)
  show "ins_target_initialized (co_insert t)" "ins_input_types (co_insert t) = types"
    "wp_extension_name (ins_write_plan (co_insert t)) = ''paimon''"
    "WriteOperatorName (expected_kind (co_insert t)) = Inr (wp_operator_name (ins_write_plan (co_insert t)))"
    "SerializeTransport E (coordinator_transport (expected_kind (co_insert t)) (co_insert t)) =
      Inr (wp_worker_bind_data (ins_write_plan (co_insert t)))"
    "(ins_info (co_insert t), ins_children (co_insert t), ins_part_keys (co_insert t)) =
      (ins_info (co_insert s), ins_children (co_insert s), ins_part_keys (co_insert s))"
    using v t name bytes unfolding same by simp_all
  show "create_primary_keys (map fst (ci_columns base)) (ci_constraints base) = Inr (ins_primary_keys (co_insert t)) \<and>
      create_options (ci_options base) [] = Inr (ins_table_options (co_insert t)) \<and>
      ins_input_names (co_insert t) = map fst (ci_columns base) \<and> types = map snd (ci_columns base)"
    if "ins_info (co_insert s) = Some base"
    using init t that by (auto dest: initialize_ctas_ok)
qed

text \<open>What the provider leaves in the plan.\<close>

lemma Provider_published:
  assumes "GetExtensionWriteTaskProvider E s = (Inr (), t)" and "\<not> ins_target_initialized (co_insert s)"
    and "\<not> ins_worker_plan_selected (co_insert s)"
  shows "wp_extension_name (ins_write_plan (co_insert t)) = ''paimon''"
    "WriteOperatorName (expected_kind (co_insert t)) = Inr (wp_operator_name (ins_write_plan (co_insert t)))"
    "SerializeTransport E (coordinator_transport (expected_kind (co_insert t)) (co_insert t)) =
      Inr (wp_worker_bind_data (ins_write_plan (co_insert t)))"
    "ins_target_initialized (co_insert t)" "ins_worker_plan_selected (co_insert t)"
    "ins_children (co_insert t) = [ins_input_types (co_insert t)]"
proof -
  obtain u where one: "length (ins_children (co_insert s)) = 1"
    and init: "InitializeDistributedWrite E (hd (ins_children (co_insert s))) s = (Inr (), u)"
    and t: "t = co_insert_update (\<lambda>i. i\<lparr>ins_worker_plan_selected := True\<rparr>) u"
    using assms by (auto simp: GetExtensionWriteTaskProvider_def elim!: bindPE split: if_splits)
  note i = Initialize_ok [OF init]
  have same: "expected_kind (co_insert t) = expected_kind (co_insert u)"
    "coordinator_transport k (co_insert t) = coordinator_transport k (co_insert u)" for k
    using t by (simp_all add: expected_kind_def coordinator_transport_def)
  show "wp_extension_name (ins_write_plan (co_insert t)) = ''paimon''"
    "WriteOperatorName (expected_kind (co_insert t)) = Inr (wp_operator_name (ins_write_plan (co_insert t)))"
    "SerializeTransport E (coordinator_transport (expected_kind (co_insert t)) (co_insert t)) =
      Inr (wp_worker_bind_data (ins_write_plan (co_insert t)))"
    "ins_target_initialized (co_insert t)" "ins_worker_plan_selected (co_insert t)"
    using i(1,3,4,5) t unfolding same by simp_all
  show "ins_children (co_insert t) = [ins_input_types (co_insert t)]"
    using i(2,6) t one by (cases "ins_children (co_insert s)") auto
qed

section \<open>Properties\<close>

text \<open>
  C18. The plan a coordinator hands out is one it accepts: after the task provider has been asked for, and
  the target is append-only, \<open>WritePlan\<close> succeeds, and the bind data it carries is read by a worker as
  exactly the target the coordinator holds.
\<close>

theorem Provider_plan_accepted:
  assumes "serde_laws E" and "GetExtensionWriteTaskProvider E s = (Inr (), t)"
    and "\<not> ins_target_initialized (co_insert s)" and "\<not> ins_worker_plan_selected (co_insert s)"
    and "ins_append_only (co_insert t)"
    and "transport_typed (coordinator_transport (expected_kind (co_insert t)) (co_insert t))"
  shows "WritePlan E t = (Inr (ins_write_plan (co_insert t)), t) \<and>
    DeserializeTransport E (wp_worker_bind_data (ins_write_plan (co_insert t))) =
      Inr (coordinator_transport (expected_kind (co_insert t)) (co_insert t))"
proof -
  note p = Provider_published [OF assms(2-4)]
  note d = DeserializeTransport_Serialize [OF assms(1,6) p(3)]
  have "GetCoordinatorTransport E (co_insert t) = Inr (coordinator_transport (expected_kind (co_insert t)) (co_insert t))"
    using d(2) by (simp add: GetCoordinatorTransport_def)
  moreover have "wp_operator_name (ins_write_plan (co_insert t)) = (if ins_info (co_insert t) = None
      then PAIMON_DISTRIBUTED_INSERT_OPERATOR else PAIMON_DISTRIBUTED_CTAS_OPERATOR)"
    using p(2) by (auto simp: expected_kind_def WriteOperatorName_def split: if_splits)
  ultimately have "ValidateCoordinatorShape E (co_insert t) = Inr ()"
    using assms(5) p d(1) by (simp add: ValidateCoordinatorShape_def)
  then show ?thesis
    using d(2) by (simp add: WritePlan_def)
qed

theorem Provider_plan_accepted_witness:
  "WritePlan demo_env demo_planned = (Inr (ins_write_plan demo_insert), demo_planned) \<and>
    DeserializeTransport demo_env (wp_worker_bind_data (ins_write_plan demo_insert)) = Inr demo_transport"
proof -
  have i: "co_insert demo_planned = demo_insert" "expected_kind demo_insert = WK_INSERT" "ins_append_only demo_insert"
    using demo_provider by (simp_all add: expected_kind_def demo_insert_def new_insert_def)
  have p: "GetExtensionWriteTaskProvider demo_env demo_coord = (Inr (), demo_planned)"
    using demo_provider by (simp add: demo_planned_def prod_eq_iff)
  have "\<not> ins_target_initialized (co_insert demo_coord)" "\<not> ins_worker_plan_selected (co_insert demo_coord)"
    by (simp_all add: demo_coord_def new_insert_def)
  then show ?thesis
    using Provider_plan_accepted [OF demo_serde_laws p] i demo_transport_ok(2) demo_transport_eq by simp
qed

text \<open>
  C19. A distributed CTAS freezes the definition it creates: after initialisation, the primary keys, table
  options, partition keys and columns the coordinator holds (and hashes into the schema fingerprint
  of the workers) are those of the request that \<open>CreateTable\<close> sends to the catalog.
\<close>

theorem CTAS_definition_frozen:
  assumes "InitializeDistributedWrite E types s = (Inr (), t)" and "ins_info (co_insert s) = Some base"
    and "create_partition_keys (ci_partition_keys base) = Inr (ins_part_keys (co_insert s))"
    and "create_table_request E base = Inr req"
  shows "ct_primary_keys req = ins_primary_keys (co_insert t) \<and> ct_options req = ins_table_options (co_insert t) \<and>
    ct_partition_keys req = ins_part_keys (co_insert t) \<and>
    ToArrowSchema E (ins_input_types (co_insert t)) (ins_input_names (co_insert t)) = Inr (ct_schema req)"
  using Initialize_ok [OF assms(1)] assms(2-4)
  by (auto simp: create_table_request_def res_bind_Inr)

section \<open>A CTAS on an instance\<close>

definition demo_ctas_env :: "(nat, nat, string) env" where
  "demo_ctas_env = demo_env\<lparr>TableExists := (\<lambda>_ w. (Inr (2 \<le> w), w)), GetTable := (\<lambda>_. demo_ok (Some ''db.t'')),
     ListSnapshots := (\<lambda>_. demo_ok []), CatalogCreateTable := (\<lambda>_ _. demo_fresh (\<lambda>_. ())),
     LoadTableSchema := (\<lambda>_. demo_ok (Some (demo_schema\<lparr>ts_data := Some (demo_data_schema
       \<lparr>dsc_Options := [(''file.format'', ''orc'')]\<rparr>)\<rparr>)))\<rparr>"

lemma demo_ctas_fields [simp]:
  "TableExists demo_ctas_env = (\<lambda>_ w. (Inr (2 \<le> w), w))" "GetTable demo_ctas_env = (\<lambda>_. demo_ok (Some ''db.t''))"
  "ListSnapshots demo_ctas_env = (\<lambda>_. demo_ok [])"
  "CatalogCreateTable demo_ctas_env = (\<lambda>_ _. demo_fresh (\<lambda>_. ()))"
  "LoadTableSchema demo_ctas_env = (\<lambda>_. demo_ok (Some (demo_schema\<lparr>ts_data := Some (demo_data_schema
       \<lparr>dsc_Options := [(''file.format'', ''orc'')]\<rparr>)\<rparr>)))"
  "GenerateUUID demo_ctas_env = GenerateUUID demo_env" "FullName demo_ctas_env = FullName demo_env"
  "GetTableLocation demo_ctas_env = GetTableLocation demo_env" "UUID_STRING_SIZE demo_ctas_env = UUID_STRING_SIZE demo_env"
  "UUIDParses demo_ctas_env = UUIDParses demo_env" "MD5Hex demo_ctas_env = MD5Hex demo_env"
  "OptionKeys demo_ctas_env = OptionKeys demo_env" "HashBytes demo_ctas_env = HashBytes demo_env"
  "PopulateArrowTableSchema demo_ctas_env = PopulateArrowTableSchema demo_env"
  "ToArrowSchema demo_ctas_env = ToArrowSchema demo_env" "StringUtil demo_ctas_env = StringUtil demo_env"
  "sd_bytes demo_ctas_env = sd_bytes demo_env"
  by (simp_all only: demo_ctas_env_def, simp_all)

definition demo_base :: CreateTableInfo where
  "demo_base = \<lparr>ci_schema = ''db'', ci_table = ''t'', ci_columns = [(''p'', demo_type), (''v'', demo_type)],
     ci_constraints = [OtherConstraint], ci_partition_keys = [PE_COLUMN_REF ''p''], ci_sort_keys = [],
     ci_options = [(''file.format'', PE_COLUMN_REF ''orc'')], ci_on_conflict = ERROR_ON_CONFLICT\<rparr>"

definition demo_ctas :: "(nat, nat) coord" where
  "demo_ctas = demo_coord\<lparr>co_insert := new_insert (Some 0) (Some demo_base) \<lparr>id_database = ''db'', id_table = ''t''\<rparr>
     [(''file.format'', ''orc'')] [''p''] [[demo_type, demo_type]] True\<rparr>"

definition demo_ctas_planned :: "(nat, nat) coord" where
  "demo_ctas_planned = snd (InitializeDistributedWrite demo_ctas_env [demo_type, demo_type] demo_ctas)"

definition demo_request :: CreateTableRequest where
  "demo_request = \<lparr>ct_schema = \<lparr>as_children = [(''p'', ''i''), (''v'', ''i'')]\<rparr>, ct_partition_keys = [''p''],
     ct_primary_keys = [], ct_options = [(''file.format'', ''orc'')], ct_ignore_if_exists = False\<rparr>"

definition demo_ctas_insert :: PhysicalPaimonInsert where
  "demo_ctas_insert = (new_insert (Some 0) (Some demo_base) \<lparr>id_database = ''db'', id_table = ''t''\<rparr>
     [(''file.format'', ''orc'')] [''p''] [[demo_type, demo_type]] True)
     \<lparr>ins_operation_id := ''u-id'', ins_commit_identifier := 4, ins_portable_options := [(''file.format'', ''orc'')],
      ins_input_names := [''p'', ''v''], ins_input_types := [demo_type, demo_type], ins_primary_keys := [],
      ins_table_options := [(''file.format'', ''orc'')], ins_append_only := True, ins_table_uuid := ''db.t'',
      ins_table_path := ''/data/db.db/t'', ins_schema_id := 0, ins_has_snapshot := False, ins_snapshot_id := 0,
      ins_null_part_name := ''__DEFAULT_PARTITION__'', ins_schema_fingerprint := replicate 32 CHR ''a''\<rparr>"

lemma demo_create_request: "create_table_request demo_ctas_env demo_base = Inr demo_request"
  by (simp add: create_table_request_def demo_base_def demo_request_def)

lemma demo_ctas_init:
  "InitializeDistributedWrite demo_ctas_env [demo_type, demo_type] demo_ctas = (Inr (), demo_ctas_planned)"
proof -
  have id: "CreateCommitIdentifier demo_ctas_env ''u-id'' = 4"
    by (simp add: CreateCommitIdentifier_def)
  have port: "GetPortableWriteOptions demo_ctas_env [(''file.format'', ''orc'')] = [(''file.format'', ''orc'')]"
    by (simp add: GetPortableWriteOptions_def demo_keys_def map_emplace_def)
  let ?u = "identified demo_ctas_env demo_ctas"
  have i: "co_insert demo_ctas = new_insert (Some 0) (Some demo_base) \<lparr>id_database = ''db'', id_table = ''t''\<rparr>
     [(''file.format'', ''orc'')] [''p''] [[demo_type, demo_type]] True"
    by (simp add: demo_ctas_def)
  have u: "co_insert ?u = (co_insert demo_ctas)\<lparr>ins_operation_id := ''u-id'', ins_commit_identifier := 4,
      ins_portable_options := [(''file.format'', ''orc'')]\<rparr>"
    by (simp add: identified_def id port i new_insert_def)
  have "\<exists>v. initialize_ctas demo_ctas_env [demo_type, demo_type] demo_base ?u = (Inr (), v) \<and>
      co_insert v = demo_ctas_insert"
    using u by (simp add: initialize_ctas_def demo_base_def ValidateCTASDefinition_def call_def demo_ok_def i new_insert_def
      null_partition_name_def demo_keys_def PlannedSchemaFingerprint_def SchemaFingerprint_def demo_ctas_insert_def)
  then obtain v where v: "initialize_ctas demo_ctas_env [demo_type, demo_type] demo_base ?u = (Inr (), v)"
    "co_insert v = demo_ctas_insert" by blast
  have "is_ok (SerializeTransport demo_ctas_env (coordinator_transport WK_CTAS demo_ctas_insert))"
    by (simp add: SerializeTransport_def ValidateTransport_def coordinator_transport_def demo_ctas_insert_def
      new_insert_def IsCanonicalUUID_def WriteOperatorName_def demo_type_def IsPortableWriteOption_def demo_keys_def)
  then obtain bytes where bytes: "SerializeTransport demo_ctas_env (coordinator_transport WK_CTAS demo_ctas_insert) = Inr bytes"
    by (metis is_ok_simps(1) obj_sumE)
  have "\<exists>w. publish_plan demo_ctas_env WK_CTAS v = (Inr (), w)"
    by (simp add: publish_plan_def WriteOperatorName_def v(2) bytes)
  then have "\<exists>w. InitializeDistributedWrite demo_ctas_env [demo_type, demo_type] demo_ctas = (Inr (), w)"
    using v(1) by (simp add: Initialize_split i new_insert_def expected_kind_def)
  then show ?thesis
    by (auto simp: demo_ctas_planned_def)
qed

theorem CTAS_definition_frozen_witness:
  "ins_primary_keys (co_insert demo_ctas_planned) = [] \<and>
   ins_table_options (co_insert demo_ctas_planned) = [(''file.format'', ''orc'')] \<and>
   ins_part_keys (co_insert demo_ctas_planned) = [''p''] \<and>
   ToArrowSchema demo_ctas_env (ins_input_types (co_insert demo_ctas_planned)) (ins_input_names (co_insert demo_ctas_planned)) =
     Inr (ct_schema demo_request)"
proof -
  have "ins_info (co_insert demo_ctas) = Some demo_base"
    "create_partition_keys (ci_partition_keys demo_base) = Inr (ins_part_keys (co_insert demo_ctas))"
    by (simp_all add: demo_ctas_def new_insert_def demo_base_def)
  from CTAS_definition_frozen [OF demo_ctas_init this demo_create_request] show ?thesis
    by (simp add: demo_request_def)
qed

end
