(* ===== verification/Dist_Scan.thy ===== *)
theory Dist_Scan
  imports Dist_Transport Paimon_Scan
begin

text \<open>
  Component \<^verbatim>\<open>src/src/paimon_storage/paimon_distributed_scan.cpp\<close>: a scan planned on a coordinator and
  executed by workers. The coordinator's bind data travels in a serialized plan, the splits travel in
  envelopes of their own, and a worker accepts an assignment of splits only when every envelope matches
  its bind.

  Paimon's split codec is part of \<open>scan_api\<close>. \<open>DistributedScanSplit\<close> is Vane's type. A null pointer to
  bind data is \<open>None\<close>; a serializer is the list of what is written to it.
\<close>

record DistributedScanSplit =
  sp_split_id :: string
  sp_payload :: string
  sp_estimated_cardinality :: "idx_t option"
  sp_estimated_bytes :: "idx_t option"

section \<open>Constants and data\<close>

definition PAIMON_DISTRIBUTED_SCAN_PROTOCOL_VERSION :: "32 word" where
  "PAIMON_DISTRIBUTED_SCAN_PROTOCOL_VERSION = 1"

datatype PaimonDistributedBindKind = BK_COORDINATOR | BK_WORKER

definition bind_kind_byte :: "PaimonDistributedBindKind \<Rightarrow> 8 word" where
  "bind_kind_byte k = (case k of BK_COORDINATOR \<Rightarrow> 1 | BK_WORKER \<Rightarrow> 2)"

record PaimonDistributedSplitEnvelope =
  se_split_set_id :: string
  se_split_id :: string
  se_has_snapshot :: bool
  se_snapshot_id :: int
  se_schema_id :: int
  se_paimon_split :: string
  se_has_estimated_cardinality :: bool
  se_estimated_cardinality :: idx_t
  se_has_estimated_bytes :: bool
  se_estimated_bytes :: idx_t

record PaimonDistributedBindTransport =
  bt_path :: PaimonTablePath
  bt_table_data_path :: string
  bt_table_schema_json :: string
  bt_schema_id :: int
  bt_append_only :: bool
  bt_return_types :: "LogicalType list"
  bt_return_names :: "string list"
  bt_part_keys :: "string list"
  bt_portable_options :: options
  bt_split_set_id :: string

record PaimonDistributedSplitEstimates =
  es_has_cardinality :: bool
  es_cardinality :: idx_t
  es_has_bytes :: bool
  es_bytes :: idx_t

section \<open>Estimates\<close>

definition IsCanonicalSplitId :: "string \<Rightarrow> bool" where
  "IsCanonicalSplitId split_id =
     (if split_id = [] \<or> (length split_id > 1 \<and> hd split_id = CHR ''0'') then False
      else list_all (\<lambda>c. \<not> (c < CHR ''0'' \<or> c > CHR ''9'')) split_id)"

text \<open>\<open>None\<close> when the value is not added; the total is then left as it was.\<close>

definition TryAddEstimate :: "int \<Rightarrow> idx_t \<Rightarrow> idx_t option" where
  "TryAddEstimate value tot =
     (if value < 0 then None
      else let unsigned_value = word_of_int value
           in if unsigned_value \<ge> idx_max \<or> tot \<ge> idx_max - unsigned_value then None
              else Some (tot + unsigned_value))"

text \<open>One of the two accumulators of the loop over the files: whether it is valid, and its total.\<close>

definition add_estimate :: "int \<Rightarrow> bool \<times> idx_t \<Rightarrow> bool \<times> idx_t" where
  "add_estimate value acc =
     (if fst acc then (case TryAddEstimate value (snd acc) of None \<Rightarrow> (False, snd acc) | Some t \<Rightarrow> (True, t))
      else acc)"

definition no_estimates :: PaimonDistributedSplitEstimates where
  "no_estimates = \<lparr>es_has_cardinality = False, es_cardinality = 0, es_has_bytes = False, es_bytes = 0\<rparr>"

text \<open>\<open>Split_FileList\<close> is the list of (size, rows) of the files of a data split or of the data split of an indexed one.\<close>

definition GetSplitEstimates :: "('w, 'p, 's) scan_api \<Rightarrow> 's \<Rightarrow> bool \<Rightarrow> PaimonDistributedSplitEstimates" where
  "GetSplitEstimates S split append_only =
     (case Split_FileList S split of
        None \<Rightarrow> no_estimates
      | Some files \<Rightarrow>
          (let bytes = fold (\<lambda>f. add_estimate (fst f)) files (True, 0);
               cardinality = fold (\<lambda>f. add_estimate (snd f)) files (append_only, 0)
           in \<lparr>es_has_cardinality = (fst cardinality \<and> \<not> Split_IsIndexed S split), es_cardinality = snd cardinality,
               es_has_bytes = fst bytes, es_bytes = snd bytes\<rparr>))"

section \<open>Split envelopes\<close>

definition split_items :: "PaimonDistributedSplitEnvelope \<Rightarrow> witem list" where
  "split_items e =
     [WProp 1 ''protocol_version'' (PU32 PAIMON_DISTRIBUTED_SCAN_PROTOCOL_VERSION),
      WProp 2 ''split_set_id'' (PStr (se_split_set_id e)),
      WProp 3 ''split_id'' (PStr (se_split_id e)),
      WProp 4 ''has_snapshot'' (PBool (se_has_snapshot e)),
      WProp 5 ''snapshot_id'' (PI64 (if se_has_snapshot e then se_snapshot_id e else 0)),
      WProp 6 ''schema_id'' (PI64 (se_schema_id e)),
      WProp 7 ''paimon_split'' (PStr (se_paimon_split e)),
      WProp 8 ''has_estimated_cardinality'' (PBool (se_has_estimated_cardinality e)),
      WProp 9 ''estimated_cardinality'' (PIdx (if se_has_estimated_cardinality e then se_estimated_cardinality e else 0)),
      WProp 10 ''has_estimated_bytes'' (PBool (se_has_estimated_bytes e)),
      WProp 11 ''estimated_bytes'' (PIdx (if se_has_estimated_bytes e then se_estimated_bytes e else 0))]"

definition SerializeSplitEnvelope :: "('w, 'm, 'd) env \<Rightarrow> PaimonDistributedSplitEnvelope \<Rightarrow> string" where
  "SerializeSplitEnvelope E e = sd_bytes E (split_items e)"

definition split_invalid :: "PaimonDistributedSplitEnvelope \<Rightarrow> bool" where
  "split_invalid e \<longleftrightarrow> se_split_set_id e = [] \<or> \<not> IsCanonicalSplitId (se_split_id e) \<or> se_schema_id e < 0 \<or>
     (se_has_snapshot e \<and> se_snapshot_id e < 0) \<or> se_paimon_split e = [] \<or>
     (se_has_estimated_cardinality e \<and> se_estimated_cardinality e = idx_max) \<or>
     (se_has_estimated_bytes e \<and> se_estimated_bytes e = idx_max)"

definition split_non_canonical :: "PaimonDistributedSplitEnvelope \<Rightarrow> bool" where
  "split_non_canonical e \<longleftrightarrow> (\<not> se_has_snapshot e \<and> se_snapshot_id e \<noteq> 0) \<or>
     (\<not> se_has_estimated_cardinality e \<and> se_estimated_cardinality e \<noteq> 0) \<or>
     (\<not> se_has_estimated_bytes e \<and> se_estimated_bytes e \<noteq> 0)"

definition DeserializeSplitEnvelope :: "('w, 'm, 'd) env \<Rightarrow> string \<Rightarrow> PaimonDistributedSplitEnvelope res" where
  "DeserializeSplitEnvelope E payload =
     (if payload = [] then Inl (SerializationException ''empty split'')
      else res_bind (sd_begin E payload) (\<lambda>d. fst (
        bindP (read_u32 E 1 ''protocol_version'') (\<lambda>protocol_version.
        if protocol_version \<noteq> PAIMON_DISTRIBUTED_SCAN_PROTOCOL_VERSION
        then throwP (SerializationException ''unsupported protocol version'')
        else
        bindP (read_str E 2 ''split_set_id'') (\<lambda>split_set_id.
        bindP (read_str E 3 ''split_id'') (\<lambda>split_id.
        bindP (read_bool E 4 ''has_snapshot'') (\<lambda>has_snapshot.
        bindP (read_i64 E 5 ''snapshot_id'') (\<lambda>snapshot_id.
        bindP (read_i64 E 6 ''schema_id'') (\<lambda>schema_id.
        bindP (read_str E 7 ''paimon_split'') (\<lambda>paimon_split.
        bindP (read_bool E 8 ''has_estimated_cardinality'') (\<lambda>has_cardinality.
        bindP (read_idx E 9 ''estimated_cardinality'') (\<lambda>cardinality.
        bindP (read_bool E 10 ''has_estimated_bytes'') (\<lambda>has_bytes.
        bindP (read_idx E 11 ''estimated_bytes'') (\<lambda>bytes.
        bindP (sd_end E) (\<lambda>_.
        let result = \<lparr>se_split_set_id = split_set_id, se_split_id = split_id, se_has_snapshot = has_snapshot,
              se_snapshot_id = snapshot_id, se_schema_id = schema_id, se_paimon_split = paimon_split,
              se_has_estimated_cardinality = has_cardinality, se_estimated_cardinality = cardinality,
              se_has_estimated_bytes = has_bytes, se_estimated_bytes = bytes\<rparr>
        in if split_invalid result then throwP (SerializationException ''invalid identity or payload state'')
           else if split_non_canonical result then throwP (SerializationException ''non-canonical absent state'')
           else retP result)))))))))))) d)))"

section \<open>The bind in transit\<close>

definition IsPortableOption :: "('w, 'm, 'd) env \<Rightarrow> string \<Rightarrow> bool" where
  "IsPortableOption E key \<longleftrightarrow> key = key_MANIFEST_FORMAT (OptionKeys E) \<or> key = key_FILE_FORMAT (OptionKeys E) \<or>
     key = key_SCAN_SNAPSHOT_ID (OptionKeys E) \<or> key = key_SCAN_TIMESTAMP_MILLIS (OptionKeys E)"

definition GetPortableOptions :: "('w, 'm, 'd) env \<Rightarrow> options \<Rightarrow> options" where
  "GetPortableOptions E opts =
     fold (\<lambda>key result. case map_of opts key of None \<Rightarrow> result | Some v \<Rightarrow> map_emplace key v result)
       [key_MANIFEST_FORMAT (OptionKeys E), key_FILE_FORMAT (OptionKeys E),
        key_SCAN_SNAPSHOT_ID (OptionKeys E), key_SCAN_TIMESTAMP_MILLIS (OptionKeys E)] []"

definition ScanValidateTransport :: "('w, 'm, 'd) env \<Rightarrow> PaimonDistributedBindTransport \<Rightarrow> unit res" where
  "ScanValidateTransport E t =
     (if dbname (bt_path t) = [] \<or> tablename (bt_path t) = [] \<or> bt_table_data_path t = [] \<or>
         bt_table_schema_json t = [] \<or> bt_schema_id t < 0 \<or> bt_return_types t = [] \<or>
         length (bt_return_types t) \<noteq> length (bt_return_names t) \<or> bt_split_set_id t = []
      then Inl (SerializationException ''incomplete portable state'')
      else if list_ex (\<lambda>(ty, name). lt_id ty = LT_INVALID \<or> name = []) (zip (bt_return_types t) (bt_return_names t))
      then Inl (SerializationException ''invalid output schema'')
      else if \<not> valid_part_keys (set (bt_return_names t)) (bt_part_keys t) {}
      then Inl (SerializationException ''invalid partition key'')
      else if list_ex (\<lambda>(k, v). \<not> IsPortableOption E k \<or> v = []) (bt_portable_options t)
      then Inl (SerializationException ''non-portable option'')
      else if map_of (bt_portable_options t) (key_SCAN_SNAPSHOT_ID (OptionKeys E)) \<noteq> None \<and>
        map_of (bt_portable_options t) (key_SCAN_TIMESTAMP_MILLIS (OptionKeys E)) \<noteq> None
      then Inl (SerializationException ''conflicting snapshot options'')
      else Inr ())"

definition ScanSerializeTransport :: "PaimonDistributedBindTransport \<Rightarrow> witem list" where
  "ScanSerializeTransport t =
     [WProp 1 ''warehouse'' (PStr (warehouse (bt_path t))),
      WProp 2 ''database'' (PStr (dbname (bt_path t))),
      WProp 3 ''table'' (PStr (tablename (bt_path t))),
      WProp 4 ''table_data_path'' (PStr (bt_table_data_path t)),
      WProp 5 ''table_schema_json'' (PStr (bt_table_schema_json t)),
      WProp 6 ''schema_id'' (PI64 (bt_schema_id t)),
      WProp 7 ''append_only'' (PBool (bt_append_only t)),
      WProp 8 ''return_types'' (PTypes (bt_return_types t)),
      WProp 9 ''return_names'' (PStrs (bt_return_names t)),
      WProp 10 ''portable_options'' (PMap (bt_portable_options t)),
      WProp 11 ''split_set_id'' (PStr (bt_split_set_id t)),
      WProp 12 ''part_keys'' (PStrs (bt_part_keys t))]"

definition ScanDeserializeTransport :: "('w, 'm, 'd) env \<Rightarrow> ('d, PaimonDistributedBindTransport) proc" where
  "ScanDeserializeTransport E =
     bindP (read_str E 1 ''warehouse'') (\<lambda>house.
     bindP (read_str E 2 ''database'') (\<lambda>database.
     bindP (read_str E 3 ''table'') (\<lambda>table.
     bindP (read_str E 4 ''table_data_path'') (\<lambda>table_data_path.
     bindP (read_str E 5 ''table_schema_json'') (\<lambda>table_schema_json.
     bindP (read_i64 E 6 ''schema_id'') (\<lambda>schema_id.
     bindP (read_bool E 7 ''append_only'') (\<lambda>append_only.
     bindP (read_types E 8 ''return_types'') (\<lambda>return_types.
     bindP (read_strs E 9 ''return_names'') (\<lambda>return_names.
     bindP (read_map E 10 ''portable_options'') (\<lambda>portable_options.
     bindP (read_str E 11 ''split_set_id'') (\<lambda>split_set_id.
     bindP (read_strs E 12 ''part_keys'') (\<lambda>part_keys.
     retP \<lparr>bt_path = \<lparr>warehouse = house, dbname = database, tablename = table\<rparr>,
       bt_table_data_path = table_data_path, bt_table_schema_json = table_schema_json, bt_schema_id = schema_id,
       bt_append_only = append_only, bt_return_types = return_types, bt_return_names = return_names,
       bt_part_keys = part_keys, bt_portable_options = portable_options, bt_split_set_id = split_set_id\<rparr>))))))))))))"

definition transport_base :: "('w, 'm, 'd) env \<Rightarrow> ('p, 's) PaimonScanBindData \<Rightarrow> PaimonDistributedBindTransport" where
  "transport_base E bind =
     (let state = bd_distributed bind
      in \<lparr>bt_path = bd_path bind, bt_table_data_path = bd_table_data_path bind,
          bt_table_schema_json = bd_table_schema_json bind, bt_schema_id = ds_schema_id state,
          bt_append_only = ds_append_only state, bt_return_types = ds_return_types state,
          bt_return_names = ds_return_names state, bt_part_keys = bd_part_keys bind,
          bt_portable_options = (if ds_portable_options state = [] then GetPortableOptions E (bd_paimon_options bind)
            else ds_portable_options state),
          bt_split_set_id = ds_split_set_id state\<rparr>)"

definition GetTransportBase :: "('w, 'm, 'd) env \<Rightarrow> ('p, 's) PaimonScanBindData \<Rightarrow> PaimonDistributedBindTransport res" where
  "GetTransportBase E bind =
     res_bind (ScanValidateTransport E (transport_base E bind)) (\<lambda>_. Inr (transport_base E bind))"

definition bind_kind_of :: "PaimonDistributedScanPhase \<Rightarrow> PaimonDistributedBindKind res" where
  "bind_kind_of phase =
     (case phase of
        COORDINATOR \<Rightarrow> Inr BK_COORDINATOR
      | DISTRIBUTED_COORDINATOR \<Rightarrow> Inr BK_COORDINATOR
      | WORKER_TEMPLATE \<Rightarrow> Inr BK_WORKER
      | WORKER_ASSIGNED \<Rightarrow> Inl (SerializationException ''assigned splits''))"

definition PaimonDistributedScanSerialize :: "('w, 'm, 'd) env \<Rightarrow> ('p, 's) PaimonScanBindData option \<Rightarrow> witem list res" where
  "PaimonDistributedScanSerialize E bind_data =
     (case bind_data of
        None \<Rightarrow> Inl (SerializationException ''empty bind data'')
      | Some bind \<Rightarrow>
          res_bind (bind_kind_of (ds_phase (bd_distributed bind))) (\<lambda>bind_kind.
          res_bind (GetTransportBase E bind) (\<lambda>transport.
          res_bind (ScanValidateTransport E transport) (\<lambda>_.
          Inr (WProp 1 ''bind_kind'' (PU8 (bind_kind_byte bind_kind)) # WObjBegin 2 ''scan_bind'' #
            ScanSerializeTransport transport @ [WObjEnd])))))"

definition received_bind :: "PaimonDistributedBindKind \<Rightarrow> PaimonDistributedBindTransport \<Rightarrow> options \<Rightarrow>
    ('p, 's) PaimonScanBindData" where
  "received_bind bind_kind t local_options = empty_bind\<lparr>
     bd_path := bt_path t, bd_table_data_path := bt_table_data_path t, bd_table_schema_json := bt_table_schema_json t,
     bd_part_keys := bt_part_keys t,
     bd_paimon_options := map_put_all (bt_portable_options t) local_options,
     bd_distributed := initial_scan_state\<lparr>
       ds_schema_id := bt_schema_id t, ds_append_only := bt_append_only t, ds_return_types := bt_return_types t,
       ds_return_names := bt_return_names t, ds_portable_options := bt_portable_options t,
       ds_split_set_id := bt_split_set_id t,
       ds_phase := (if bind_kind = BK_COORDINATOR then DISTRIBUTED_COORDINATOR else WORKER_TEMPLATE)\<rparr>\<rparr>"

definition PaimonDistributedScanDeserialize :: "('w, 'm, 'd) env \<Rightarrow> ('d, ('p, 's) PaimonScanBindData) proc" where
  "PaimonDistributedScanDeserialize E =
     bindP (read_u8 E 1 ''bind_kind'') (\<lambda>bind_kind_value.
     bindP (checkP (bind_kind_value \<noteq> bind_kind_byte BK_COORDINATOR \<and> bind_kind_value \<noteq> bind_kind_byte BK_WORKER)
       (SerializationException ''invalid kind'')) (\<lambda>_.
     bindP (sd_obj_begin E 2 ''scan_bind'') (\<lambda>_.
     bindP (ScanDeserializeTransport E) (\<lambda>transport.
     bindP (sd_obj_end E) (\<lambda>_.
     let bind_kind = (if bind_kind_value = bind_kind_byte BK_COORDINATOR then BK_COORDINATOR else BK_WORKER) in
     bindP (liftP (ScanValidateTransport E transport)) (\<lambda>_.
     bindP (liftP (GetPaimonOptions (StringUtil E) (OptionKeys E) (Context E) (bt_table_data_path transport) [])) (\<lambda>local_options.
     retP (received_bind bind_kind transport local_options))))))))"

section \<open>Planning\<close>

definition RequireDistributedScanBindData :: "('p, 's) PaimonScanBindData option \<Rightarrow> ('p, 's) PaimonScanBindData res" where
  "RequireDistributedScanBindData bind_data =
     (case bind_data of None \<Rightarrow> Inl (InvalidInputException ''requires bind data'') | Some bind \<Rightarrow> Inr bind)"

text \<open>\<open>optional_idx\<close> refuses the largest index, which it uses for absence.\<close>

definition optional_idx :: "bool \<Rightarrow> idx_t \<Rightarrow> idx_t option res" where
  "optional_idx valid v =
     (if \<not> valid then Inr None
      else if v = idx_max then Inl (InternalException ''optional_idx'') else Inr (Some v))"

definition new_envelope :: "'s PaimonDistributedScanState \<Rightarrow> int option \<Rightarrow> nat \<Rightarrow> string \<Rightarrow>
    PaimonDistributedSplitEstimates \<Rightarrow> PaimonDistributedSplitEnvelope" where
  "new_envelope state snapshot_id split_index serialized_split estimates =
     \<lparr>se_split_set_id = ds_split_set_id state, se_split_id = nat_to_string split_index,
      se_has_snapshot = (snapshot_id \<noteq> None),
      se_snapshot_id = (case snapshot_id of None \<Rightarrow> 0 | Some i \<Rightarrow> i), se_schema_id = ds_schema_id state,
      se_paimon_split = serialized_split,
      se_has_estimated_cardinality = es_has_cardinality estimates, se_estimated_cardinality = es_cardinality estimates,
      se_has_estimated_bytes = es_has_bytes estimates, se_estimated_bytes = es_bytes estimates\<rparr>"

definition plan_split :: "('w, 'm, 'd) env \<Rightarrow> ('w, 'p, 's) scan_api \<Rightarrow> 's PaimonDistributedScanState \<Rightarrow> int option \<Rightarrow>
    nat \<Rightarrow> 's option \<Rightarrow> DistributedScanSplit res" where
  "plan_split E S state snapshot_id split_index paimon_split =
     (case paimon_split of
        None \<Rightarrow> Inl (InvalidInputException ''planned an empty split'')
      | Some split \<Rightarrow>
          (case Split_Serialize S split of
             Inl st \<Rightarrow> Inl (InvalidInputException (st_text st))
           | Inr serialized_split \<Rightarrow>
               let envelope = new_envelope state snapshot_id split_index serialized_split
                 (GetSplitEstimates S split (ds_append_only state))
               in res_bind (optional_idx (se_has_estimated_cardinality envelope) (se_estimated_cardinality envelope)) (\<lambda>cardinality.
                  res_bind (optional_idx (se_has_estimated_bytes envelope) (se_estimated_bytes envelope)) (\<lambda>bytes.
                  Inr \<lparr>sp_split_id = se_split_id envelope, sp_payload = SerializeSplitEnvelope E envelope,
                    sp_estimated_cardinality = cardinality, sp_estimated_bytes = bytes\<rparr>))))"

fun plan_splits :: "('w, 'm, 'd) env \<Rightarrow> ('w, 'p, 's) scan_api \<Rightarrow> 's PaimonDistributedScanState \<Rightarrow> int option \<Rightarrow>
    nat \<Rightarrow> 's option list \<Rightarrow> DistributedScanSplit list res" where
  "plan_splits E S state snapshot_id i [] = Inr []"
| "plan_splits E S state snapshot_id i (x # xs) =
     res_bind (plan_split E S state snapshot_id i x) (\<lambda>d.
     res_bind (plan_splits E S state snapshot_id (Suc i) xs) (\<lambda>ds. Inr (d # ds)))"

definition PaimonPlanDistributedScanSplits :: "('w, 'm, 'd) env \<Rightarrow> ('w, 'p, 's) scan_api \<Rightarrow>
    ('p, 's) PaimonScanBindData option \<Rightarrow> ('w, 'm, 'z, DistributedScanSplit list) sysP" where
  "PaimonPlanDistributedScanSplits E S bind_data =
     bindP (liftP (RequireDistributedScanBindData bind_data)) (\<lambda>bind.
     if ds_phase (bd_distributed bind) \<noteq> DISTRIBUTED_COORDINATOR \<or> ds_split_set_id (bd_distributed bind) = []
     then throwP (InvalidInputException ''requires a coordinator bind'')
     else bindP (PaimonCreateDistributedScanPlan S bind) (\<lambda>plan.
       case plan of
         None \<Rightarrow> throwP (InvalidInputException ''empty plan'')
       | Some p \<Rightarrow>
           bindP (checkP (pl_SnapshotId p = None \<and> pl_Splits p \<noteq> []) (InvalidInputException ''no snapshot identity'')) (\<lambda>_.
           liftP (plan_splits E S (bd_distributed bind) (pl_SnapshotId p) 0 (pl_Splits p)))))"

section \<open>The worker\<close>

definition worker_bind :: "('p, 's) PaimonScanBindData \<Rightarrow> ('p, 's) PaimonScanBindData" where
  "worker_bind source =
     (let state = bd_distributed source
      in empty_bind\<lparr>
        bd_path := bd_path source, bd_table_data_path := bd_table_data_path source,
        bd_table_schema_json := bd_table_schema_json source, bd_paimon_options := ds_portable_options state,
        bd_part_keys := bd_part_keys source,
        bd_distributed := initial_scan_state\<lparr>ds_phase := WORKER_TEMPLATE, ds_split_set_id := ds_split_set_id state,
          ds_schema_id := ds_schema_id state, ds_append_only := ds_append_only state,
          ds_return_types := ds_return_types state, ds_return_names := ds_return_names state,
          ds_portable_options := ds_portable_options state\<rparr>\<rparr>)"

definition PaimonCreateDistributedWorkerBind :: "('p, 's) PaimonScanBindData option \<Rightarrow> ('p, 's) PaimonScanBindData res" where
  "PaimonCreateDistributedWorkerBind bind_data =
     res_bind (RequireDistributedScanBindData bind_data) (\<lambda>source.
     if ds_phase (bd_distributed source) \<noteq> DISTRIBUTED_COORDINATOR \<or> ds_split_set_id (bd_distributed source) = []
     then Inl (InvalidInputException ''requires a coordinator bind'')
     else Inr (worker_bind source))"

definition ValidateEnvelopeIdentity :: "PaimonDistributedSplitEnvelope \<Rightarrow> 's PaimonDistributedScanState \<Rightarrow> unit res" where
  "ValidateEnvelopeIdentity e state =
     throw_if (se_split_set_id e \<noteq> ds_split_set_id state \<or> se_schema_id e \<noteq> ds_schema_id state)
       (SerializationException ''identity mismatch'')"

definition metadata_differs :: "PaimonDistributedSplitEnvelope \<Rightarrow> DistributedScanSplit \<Rightarrow> bool" where
  "metadata_differs e split \<longleftrightarrow> se_split_id e \<noteq> sp_split_id split \<or>
     se_has_estimated_cardinality e \<noteq> (sp_estimated_cardinality split \<noteq> None) \<or>
     se_has_estimated_bytes e \<noteq> (sp_estimated_bytes split \<noteq> None) \<or>
     (se_has_estimated_cardinality e \<and> Some (se_estimated_cardinality e) \<noteq> sp_estimated_cardinality split) \<or>
     (se_has_estimated_bytes e \<and> Some (se_estimated_bytes e) \<noteq> sp_estimated_bytes split)"

text \<open>
  One split: \<open>seen\<close> is the set of identifiers so far, \<open>snap\<close> the snapshot of the assignment, \<open>None\<close> before
  the first split.
\<close>

definition accept_split :: "('w, 'm, 'd) env \<Rightarrow> ('w, 'p, 's) scan_api \<Rightarrow> 's PaimonDistributedScanState \<Rightarrow> string set \<Rightarrow>
    int option \<Rightarrow> DistributedScanSplit \<Rightarrow> (int \<times> 's) res" where
  "accept_split E S state seen snap split =
     (if \<not> IsCanonicalSplitId (sp_split_id split) \<or> sp_payload split = [] \<or> sp_split_id split \<in> seen
      then Inl (InvalidInputException ''invalid or duplicate split'')
      else res_bind (DeserializeSplitEnvelope E (sp_payload split)) (\<lambda>envelope.
        res_bind (ValidateEnvelopeIdentity envelope state) (\<lambda>_.
        if \<not> se_has_snapshot envelope then Inl (InvalidInputException ''no snapshot identity'')
        else if snap \<noteq> None \<and> snap \<noteq> Some (se_snapshot_id envelope)
        then Inl (InvalidInputException ''inconsistent snapshot identities'')
        else if metadata_differs envelope split then Inl (InvalidInputException ''metadata does not match'')
        else case Split_Deserialize S (se_paimon_split envelope) of
            Inl st \<Rightarrow> Inl (InvalidInputException (st_text st))
          | Inr None \<Rightarrow> Inl (InvalidInputException ''empty split'')
          | Inr (Some s) \<Rightarrow> Inr (se_snapshot_id envelope, s))))"

fun accept_splits :: "('w, 'm, 'd) env \<Rightarrow> ('w, 'p, 's) scan_api \<Rightarrow> 's PaimonDistributedScanState \<Rightarrow> string set \<Rightarrow>
    int option \<Rightarrow> DistributedScanSplit list \<Rightarrow> (int option \<times> 's list) res" where
  "accept_splits E S state seen snap [] = Inr (snap, [])"
| "accept_splits E S state seen snap (x # xs) =
     res_bind (accept_split E S state seen snap x) (\<lambda>(id, s).
     res_bind (accept_splits E S state (insert (sp_split_id x) seen) (Some id) xs) (\<lambda>(snap', ss).
     Inr (snap', s # ss)))"

definition PaimonApplyDistributedScanSplits :: "('w, 'm, 'd) env \<Rightarrow> ('w, 'p, 's) scan_api \<Rightarrow> DistributedScanSplit list \<Rightarrow>
    (('p, 's) PaimonScanBindData option, unit) proc" where
  "PaimonApplyDistributedScanSplits E S splits =
     bindP (getP id) (\<lambda>worker_bind_data.
     case worker_bind_data of
       None \<Rightarrow> throwP (InvalidInputException ''requires worker bind data'')
     | Some bind \<Rightarrow>
         let state = bd_distributed bind in
         if ds_phase state \<noteq> WORKER_TEMPLATE then throwP (InvalidInputException ''unassigned worker bind'')
         else bindP (liftP (accept_splits E S state {} None splits)) (\<lambda>(snap, assigned_splits).
           modifyP (map_option (\<lambda>bind. bind\<lparr>bd_distributed := (bd_distributed bind)\<lparr>
             ds_assigned_splits := assigned_splits, ds_has_snapshot := (snap \<noteq> None),
             ds_snapshot_id := (case snap of None \<Rightarrow> 0 | Some i \<Rightarrow> i), ds_phase := WORKER_ASSIGNED\<rparr>\<rparr>))))"

end
