(* ===== verification/Dist_Scan_Correct.thy ===== *)
theory Dist_Scan_Correct
  imports Dist_Scan Scan_Correct
begin

text \<open>
  The distributed scan: the wire formats of binds and splits, the estimates, and that what a coordinator
  plans is what the workers together are assigned.
\<close>

section \<open>Estimates\<close>

lemma unat_idx_max: "unat idx_max = 2 ^ 64 - 1"
  by (simp add: unsigned_minus_1_eq_mask mask_eq_exp_minus_1)

lemma unat_of_int64: "0 \<le> v \<Longrightarrow> v \<le> int64_max \<Longrightarrow> unat (word_of_int v :: idx_t) = nat v"
  by (simp add: unsigned_of_int take_bit_int_eq_self)

lemma TryAddEstimate_iff:
  assumes "v \<le> int64_max"
  shows "TryAddEstimate v tot = Some t \<longleftrightarrow> 0 \<le> v \<and> unat tot + nat v < 2 ^ 64 - 1 \<and> t = tot + word_of_int v"
proof (cases "v < 0")
  case False
  define u where "u = (word_of_int v :: idx_t)"
  have u: "unat u = nat v"
    using assms False by (simp add: u_def unat_of_int64)
  have s: "unat (idx_max - u) = 2 ^ 64 - 1 - nat v"
    using unsigned_less [where 'a = nat, of u] by (simp add: unat_sub_if' unat_idx_max u)
  have "u \<ge> idx_max \<or> tot \<ge> idx_max - u \<longleftrightarrow> \<not> unat tot + nat v < 2 ^ 64 - 1"
    using u s unsigned_less [where 'a = nat, of u] unat_idx_max by (simp add: word_le_nat_alt) linarith
  with False show ?thesis
    by (auto simp: TryAddEstimate_def u_def [symmetric])
qed (simp add: TryAddEstimate_def)

text \<open>What an accumulator of the loop says: valid exactly when nothing was negative and the total fits.\<close>

definition exact_total :: "int list \<Rightarrow> bool \<Rightarrow> nat \<Rightarrow> bool \<times> idx_t \<Rightarrow> bool" where
  "exact_total vs ok start acc \<longleftrightarrow>
     (fst acc \<longleftrightarrow> ok \<and> (\<forall>v \<in> set vs. 0 \<le> v) \<and> start + (\<Sum>v \<leftarrow> vs. nat v) < 2 ^ 64 - 1) \<and>
     (fst acc \<longrightarrow> unat (snd acc) = start + (\<Sum>v \<leftarrow> vs. nat v))"

lemma fold_add_estimate:
  assumes "\<forall>v \<in> set vs. v \<le> int64_max" "unat tot < 2 ^ 64 - 1"
  shows "exact_total vs ok (unat tot) (fold add_estimate vs (ok, tot))"
  using assms
proof (induction vs arbitrary: ok tot)
  case (Cons v vs)
  have stuck: "fold add_estimate vs (False, x) = (False, x)" for x
    by (induction vs) (simp_all add: add_estimate_def)
  show ?case
  proof (cases "ok \<and> TryAddEstimate v tot \<noteq> None")
    case True
    then have t: "TryAddEstimate v tot = Some (tot + word_of_int v)" "0 \<le> v" "unat tot + nat v < 2 ^ 64 - 1"
      using Cons.prems(1) TryAddEstimate_iff [of v tot] by auto
    moreover have "unat (tot + word_of_int v) = unat tot + nat v"
      using t Cons.prems(1) by (simp add: unat_plus_if' unat_of_int64)
    ultimately show ?thesis
      using True Cons.IH [of "tot + word_of_int v" ok] Cons.prems(1)
      by (auto simp: exact_total_def add_estimate_def)
  next
    case False
    then have "\<not> ok \<or> v < 0 \<or> \<not> unat tot + nat v < 2 ^ 64 - 1"
      using Cons.prems(1) TryAddEstimate_iff [of v tot "tot + word_of_int v"] by auto
    moreover have "add_estimate v (ok, tot) = (False, tot)"
      using False by (auto simp: add_estimate_def split: option.splits)
    ultimately show ?thesis
      by (auto simp: exact_total_def stuck)
  qed
qed (simp add: exact_total_def)

definition int64_files :: "('w, 'p, 's) scan_api \<Rightarrow> 's \<Rightarrow> bool" where
  "int64_files S split \<longleftrightarrow> (\<forall>files. Split_FileList S split = Some files \<longrightarrow>
     (\<forall>(size, rows) \<in> set files. size \<le> int64_max \<and> rows \<le> int64_max))"

lemma GetSplitEstimates_totals:
  assumes "int64_files S split" "Split_FileList S split = Some files"
  shows "exact_total (map fst files) True 0 (es_has_bytes (GetSplitEstimates S split a), es_bytes (GetSplitEstimates S split a))"
    and "\<exists>c. exact_total (map snd files) a 0 (c, es_cardinality (GetSplitEstimates S split a)) \<and>
      es_has_cardinality (GetSplitEstimates S split a) = (c \<and> \<not> Split_IsIndexed S split)"
proof -
  have r: "\<forall>v \<in> set (map fst files). v \<le> int64_max" "\<forall>v \<in> set (map snd files). v \<le> int64_max"
    using assms by (auto simp: int64_files_def)
  have m: "fold (\<lambda>f. add_estimate (g f)) files acc = fold add_estimate (map g files) acc" for g acc
    by (simp add: fold_map comp_def)
  show "exact_total (map fst files) True 0 (es_has_bytes (GetSplitEstimates S split a), es_bytes (GetSplitEstimates S split a))"
    using fold_add_estimate [OF r(1), of 0 True] assms(2) by (simp add: GetSplitEstimates_def m Let_def)
  show "\<exists>c. exact_total (map snd files) a 0 (c, es_cardinality (GetSplitEstimates S split a)) \<and>
      es_has_cardinality (GetSplitEstimates S split a) = (c \<and> \<not> Split_IsIndexed S split)"
    using fold_add_estimate [OF r(2), of 0 a] assms(2)
    by (intro exI [of _ "fst (fold add_estimate (map snd files) (a, 0))"]) (simp add: GetSplitEstimates_def m Let_def)
qed

lemma GetSplitEstimates_not_max:
  assumes "int64_files S split"
  shows "es_has_bytes (GetSplitEstimates S split a) \<Longrightarrow> es_bytes (GetSplitEstimates S split a) \<noteq> idx_max"
    and "es_has_cardinality (GetSplitEstimates S split a) \<Longrightarrow> es_cardinality (GetSplitEstimates S split a) \<noteq> idx_max"
proof -
  consider "Split_FileList S split = None" | files where "Split_FileList S split = Some files" by fastforce
  then have "(es_has_bytes (GetSplitEstimates S split a) \<longrightarrow> es_bytes (GetSplitEstimates S split a) \<noteq> idx_max) \<and>
    (es_has_cardinality (GetSplitEstimates S split a) \<longrightarrow> es_cardinality (GetSplitEstimates S split a) \<noteq> idx_max)"
  proof cases
    case 1
    then show ?thesis by (simp add: GetSplitEstimates_def no_estimates_def)
  next
    case 2
    have "x \<noteq> idx_max" if "exact_total vs ok 0 (True, x)" for vs ok x
      using that unat_idx_max by (auto simp: exact_total_def)
    with GetSplitEstimates_totals [OF assms 2, of a] show ?thesis by metis
  qed
  then show "es_has_bytes (GetSplitEstimates S split a) \<Longrightarrow> es_bytes (GetSplitEstimates S split a) \<noteq> idx_max"
    "es_has_cardinality (GetSplitEstimates S split a) \<Longrightarrow> es_cardinality (GetSplitEstimates S split a) \<noteq> idx_max" by auto
qed

section \<open>Split envelopes\<close>

definition split_typed :: "PaimonDistributedSplitEnvelope \<Rightarrow> bool" where
  "split_typed e \<longleftrightarrow> list_all witem_ok (split_items e)"

text \<open>What absent values are written as.\<close>

definition canonical_split :: "PaimonDistributedSplitEnvelope \<Rightarrow> PaimonDistributedSplitEnvelope" where
  "canonical_split e = e\<lparr>se_snapshot_id := (if se_has_snapshot e then se_snapshot_id e else 0),
     se_estimated_cardinality := (if se_has_estimated_cardinality e then se_estimated_cardinality e else 0),
     se_estimated_bytes := (if se_has_estimated_bytes e then se_estimated_bytes e else 0)\<rparr>"

lemma canonical_split_items [simp]: "split_items (canonical_split e) = split_items e"
  by (simp add: split_items_def canonical_split_def)

lemma read_canonical_split:
  assumes "serde_laws E" "split_typed e" "\<not> split_invalid e" "\<not> split_non_canonical e"
  shows "SerializeSplitEnvelope E e \<noteq> []" "DeserializeSplitEnvelope E (SerializeSplitEnvelope E e) = Inr e"
proof -
  obtain d d' where bytes: "sd_bytes E (split_items e) \<noteq> []"
      "sd_begin E (sd_bytes E (split_items e)) = Inr d" and rb: "reads_back E (split_items e) d d'"
      and fin: "fst (sd_end E d') = Inr ()"
    using serde_lawsE assms(1,2) unfolding split_typed_def by metis
  have absent: "(if se_has_snapshot e then se_snapshot_id e else 0) = se_snapshot_id e"
    "(if se_has_estimated_cardinality e then se_estimated_cardinality e else 0) = se_estimated_cardinality e"
    "(if se_has_estimated_bytes e then se_estimated_bytes e else 0) = se_estimated_bytes e"
    using assms(4) by (auto simp: split_non_canonical_def)
  show "SerializeSplitEnvelope E e \<noteq> []" using bytes(1) by (simp add: SerializeSplitEnvelope_def)
  show "DeserializeSplitEnvelope E (SerializeSplitEnvelope E e) = Inr e"
    using rb fin unfolding SerializeSplitEnvelope_def split_items_def absent DeserializeSplitEnvelope_def
    using bytes unfolding split_items_def absent
    using assms(3,4) by (cases e, cases "sd_end E d'") (clarsimp simp: Let_def)
qed

lemma DeserializeSplitEnvelope_Serialize:
  assumes "serde_laws E" "split_typed e" "\<not> split_invalid e"
  shows "SerializeSplitEnvelope E e \<noteq> []"
    and "DeserializeSplitEnvelope E (SerializeSplitEnvelope E e) = Inr (canonical_split e)"
proof -
  have ok: "\<not> split_invalid (canonical_split e)" "\<not> split_non_canonical (canonical_split e)" "split_typed (canonical_split e)"
    "SerializeSplitEnvelope E (canonical_split e) = SerializeSplitEnvelope E e"
    using assms(2,3)
    by (simp_all add: split_invalid_def split_typed_def SerializeSplitEnvelope_def)
      (auto simp: canonical_split_def split_non_canonical_def split_invalid_def split: if_splits)
  show "SerializeSplitEnvelope E e \<noteq> []"
    and "DeserializeSplitEnvelope E (SerializeSplitEnvelope E e) = Inr (canonical_split e)"
    using read_canonical_split [OF assms(1) ok(3,1,2)] ok(4) by simp_all
qed

interpretation split_envelope: wire_format
  "\<lambda>e. serde_laws E \<and> split_typed e \<and> \<not> split_invalid e \<and> \<not> split_non_canonical e"
  "\<lambda>e. Inr (SerializeSplitEnvelope E e)" "DeserializeSplitEnvelope E" for E
  by unfold_locales (simp add: read_canonical_split)

section \<open>Binds\<close>

definition bind_typed :: "('w, 'm, 'd) env \<Rightarrow> ('p, 's) PaimonScanBindData \<Rightarrow> bool" where
  "bind_typed E bind \<longleftrightarrow> list_all witem_ok (ScanSerializeTransport (transport_base E bind))"

definition serialized_bind :: "('w, 'm, 'd) env \<Rightarrow> ('p, 's) PaimonScanBindData \<Rightarrow> string res" where
  "serialized_bind E bind = res_bind (PaimonDistributedScanSerialize E (Some bind)) (\<lambda>items. Inr (sd_bytes E items))"

definition deserialized_bind :: "('w, 'm, 'd) env \<Rightarrow> string \<Rightarrow> ('p, 's) PaimonScanBindData res" where
  "deserialized_bind E bytes = res_bind (sd_begin E bytes) (\<lambda>d. fst (PaimonDistributedScanDeserialize E d))"

lemma ScanDeserializeTransport_reads:
  assumes "reads_back E (ScanSerializeTransport t @ rest) d d'"
  shows "\<exists>e. ScanDeserializeTransport E d = (Inr t, e) \<and> reads_back E rest e d'"
  using assms unfolding ScanSerializeTransport_def ScanDeserializeTransport_def
  by (cases t, cases "bt_path t") clarsimp

lemma bind_kind_bytes [simp]:
  "bind_kind_byte BK_COORDINATOR = 1" "bind_kind_byte BK_WORKER = 2"
  by (simp_all add: bind_kind_byte_def)

lemma deserialized_serialized:
  assumes "serde_laws E" "bind_typed E bind" "bind_kind_of (ds_phase (bd_distributed bind)) = Inr k"
    and valid: "ScanValidateTransport E (transport_base E bind) = Inr ()"
    and opts: "GetPaimonOptions (StringUtil E) (OptionKeys E) (Context E) (bd_table_data_path bind) [] = Inr local_options"
  shows "\<exists>bytes. serialized_bind E bind = Inr bytes \<and> bytes \<noteq> [] \<and>
    deserialized_bind E bytes = Inr (received_bind k (transport_base E bind) local_options)"
proof -
  let ?t = "transport_base E bind"
  let ?items = "WProp 1 ''bind_kind'' (PU8 (bind_kind_byte k)) # WObjBegin 2 ''scan_bind'' #
            ScanSerializeTransport ?t @ [WObjEnd]"
  have s: "PaimonDistributedScanSerialize E (Some bind) = Inr ?items"
    using assms by (simp add: PaimonDistributedScanSerialize_def GetTransportBase_def)
  have "list_all witem_ok ?items"
    using assms(2) by (simp add: bind_typed_def)
  then obtain d d' where bytes: "sd_bytes E ?items \<noteq> []" "sd_begin E (sd_bytes E ?items) = Inr d"
    and rb: "reads_back E ?items d d'"
    using serde_lawsE [OF assms(1)] by metis
  obtain d1 d2 where r: "sd_read E 1 ''bind_kind'' TU8 d = (Inr (PU8 (bind_kind_byte k)), d1)"
      "sd_obj_begin E 2 ''scan_bind'' d1 = (Inr (), d2)" "reads_back E (ScanSerializeTransport ?t @ [WObjEnd]) d2 d'"
    using rb by auto
  obtain d3 d4 where "ScanDeserializeTransport E d2 = (Inr ?t, d3)" "sd_obj_end E d3 = (Inr (), d4)"
    using ScanDeserializeTransport_reads [OF r(3)] by auto
  moreover have "bt_table_data_path ?t = bd_table_data_path bind"
    by (simp add: transport_base_def Let_def)
  ultimately have "fst (PaimonDistributedScanDeserialize E d) = Inr (received_bind k ?t local_options)"
    using r(1,2) valid opts by (cases k) (auto simp: PaimonDistributedScanDeserialize_def Let_def)
  with s bytes show ?thesis
    by (simp add: serialized_bind_def deserialized_bind_def)
qed

section \<open>Planned splits\<close>

text \<open>Paimon reads back the splits it serialized.\<close>

definition split_codec_laws :: "('w, 'p, 's) scan_api \<Rightarrow> bool" where
  "split_codec_laws S \<longleftrightarrow> (\<forall>s b. Split_Serialize S s = Inr b \<longrightarrow> b \<noteq> [] \<and> Split_Deserialize S b = Inr (Some s))"

text \<open>What the C++ types hold, for a plan.\<close>

definition plan_typed :: "('w, 'p, 's) scan_api \<Rightarrow> 's Plan \<Rightarrow> bool" where
  "plan_typed S plan \<longleftrightarrow> length (pl_Splits plan) < 2 ^ 64 \<and>
     (\<forall>i. pl_SnapshotId plan = Some i \<longrightarrow> 0 \<le> i \<and> i \<le> int64_max) \<and>
     (\<forall>s. Some s \<in> set (pl_Splits plan) \<longrightarrow> int64_files S s \<and> (\<forall>b. Split_Serialize S s = Inr b \<longrightarrow> str_ok b))"

lemma length_nat_to_string: "n < 10 ^ k \<Longrightarrow> length (nat_to_string n) \<le> max 1 k"
proof (induction n arbitrary: k rule: nat_to_string.induct)
  case (1 n)
  show ?case
  proof (cases "n < 10")
    case False
    then obtain k' where k: "k = Suc k'" using 1(2) by (cases k) auto
    then have "n div 10 < 10 ^ k'" using 1(2) by (simp add: less_mult_imp_div_less mult.commute)
    moreover have "k' \<noteq> 0" using False k 1(2) by (cases k') auto
    ultimately show ?thesis
      using 1(1) [OF False, of k'] False k by (subst nat_to_string.simps) auto
  qed (simp add: nat_to_string.simps [of n])
qed

lemma str_ok_index: "n < 2 ^ 64 \<Longrightarrow> str_ok (nat_to_string n)"
  using length_nat_to_string [of n 20] by (simp add: str_ok_def)

lemma IsCanonicalSplitId_index [simp]: "IsCanonicalSplitId (nat_to_string n)"
proof (cases "n = 0")
  case False
  with nat_to_string_digits [of n] show ?thesis
    by (auto simp: IsCanonicalSplitId_def list_all_iff not_less)
qed (use nat_to_string_digits [of 0] in \<open>simp add: IsCanonicalSplitId_def\<close>)

lemma plan_splits_nth:
  assumes "plan_splits E S state snap i xs = Inr ds"
  shows "length ds = length xs \<and> (\<forall>k < length xs. plan_split E S state snap (i + k) (xs ! k) = Inr (ds ! k))"
  using assms
proof (induction xs arbitrary: i ds)
  case (Cons x xs)
  then obtain d ds' where d: "plan_split E S state snap i x = Inr d" "plan_splits E S state snap (Suc i) xs = Inr ds'"
    "ds = d # ds'"
    by (auto simp: res_bind_Inr)
  show ?case
    using Cons.IH [OF d(2)] d(1,3) by (auto simp: less_Suc_eq_0_disj)
qed simp

lemma optional_idx_ok: "(v \<Longrightarrow> x \<noteq> idx_max) \<Longrightarrow> optional_idx v x = Inr (if v then Some x else None)"
  by (simp add: optional_idx_def)

text \<open>A planned split is accepted by every worker of the same split set, and is the split planned.\<close>

lemma accept_planned:
  assumes laws: "serde_laws E" "split_codec_laws S"
    and state: "ds_split_set_id state \<noteq> []" "str_ok (ds_split_set_id state)" "0 \<le> ds_schema_id state" "ds_schema_id state \<le> int64_max"
    and worker: "ds_split_set_id wstate = ds_split_set_id state" "ds_schema_id wstate = ds_schema_id state"
    and snap: "0 \<le> snapshot" "snapshot \<le> int64_max"
    and s: "int64_files S s" "\<And>b. Split_Serialize S s = Inr b \<Longrightarrow> str_ok b" "k < 2 ^ 64"
    and planned: "plan_split E S state (Some snapshot) k (Some s) = Inr d"
    and fresh: "nat_to_string k \<notin> seen" "seen_snapshot \<in> {None, Some snapshot}"
  shows "sp_split_id d = nat_to_string k" "accept_split E S wstate seen seen_snapshot d = Inr (snapshot, s)"
proof -
  obtain b where b: "Split_Serialize S s = Inr b" "b \<noteq> []" "Split_Deserialize S b = Inr (Some s)" "str_ok b"
    using planned laws(2) s(2) by (auto simp: plan_split_def split_codec_laws_def split: sum.splits)
  define e where "e = new_envelope state (Some snapshot) k b (GetSplitEstimates S s (ds_append_only state))"
  note nm = GetSplitEstimates_not_max [OF s(1), of "ds_append_only state"]
  have d: "d = \<lparr>sp_split_id = nat_to_string k, sp_payload = SerializeSplitEnvelope E e,
      sp_estimated_cardinality = (if se_has_estimated_cardinality e then Some (se_estimated_cardinality e) else None),
      sp_estimated_bytes = (if se_has_estimated_bytes e then Some (se_estimated_bytes e) else None)\<rparr>"
    using planned b(1) nm by (auto simp: plan_split_def Let_def optional_idx_ok new_envelope_def e_def)
  have e: "split_typed e" "\<not> split_invalid e"
    using b state snap s(3) nm by (auto simp: e_def new_envelope_def split_typed_def split_items_def split_invalid_def str_ok_index)
  note rt = DeserializeSplitEnvelope_Serialize [OF laws(1) e]
  have "se_snapshot_id (canonical_split e) = snapshot" "se_paimon_split (canonical_split e) = b"
    "ValidateEnvelopeIdentity (canonical_split e) wstate = Inr ()" "se_has_snapshot (canonical_split e)"
    "\<not> metadata_differs (canonical_split e) d"
    using worker by (auto simp: canonical_split_def e_def new_envelope_def ValidateEnvelopeIdentity_def throw_if_def
        metadata_differs_def d)
  then show "accept_split E S wstate seen seen_snapshot d = Inr (snapshot, s)"
    using rt fresh b(3) by (auto simp: accept_split_def d)
  show "sp_split_id d = nat_to_string k" by (simp add: d)
qed

section \<open>Assignments\<close>

text \<open>The splits with the indices \<open>ks\<close>, planned together, are accepted together and in this order.\<close>

lemma accept_planned_splits:
  assumes laws: "serde_laws E" "split_codec_laws S"
    and state: "ds_split_set_id state \<noteq> []" "str_ok (ds_split_set_id state)" "0 \<le> ds_schema_id state" "ds_schema_id state \<le> int64_max"
    and worker: "ds_split_set_id wstate = ds_split_set_id state" "ds_schema_id wstate = ds_schema_id state"
    and plan: "plan_typed S plan" "pl_SnapshotId plan = Some snapshot"
      "plan_splits E S state (Some snapshot) 0 (pl_Splits plan) = Inr ds"
    and ks: "distinct ks" "set ks \<subseteq> {..<length ds}" "nat_to_string ` set ks \<inter> seen = {}" "seen_snapshot \<in> {None, Some snapshot}"
  shows "accept_splits E S wstate seen seen_snapshot (map ((!) ds) ks) =
    Inr (if ks = [] then seen_snapshot else Some snapshot, map (\<lambda>k. the (pl_Splits plan ! k)) ks)"
  using ks
proof (induction ks arbitrary: seen seen_snapshot)
  case (Cons k ks)
  have k: "k < length (pl_Splits plan)" "plan_split E S state (Some snapshot) k (pl_Splits plan ! k) = Inr (ds ! k)"
    using plan_splits_nth [OF plan(3)] Cons.prems(2) by auto
  then obtain s where s: "pl_Splits plan ! k = Some s"
    by (auto simp: plan_split_def split: option.splits)
  have typed: "int64_files S s" "\<And>b. Split_Serialize S s = Inr b \<Longrightarrow> str_ok b" "k < 2 ^ 64" "0 \<le> snapshot" "snapshot \<le> int64_max"
    using plan(1,2) k(1) s nth_mem [OF k(1)] by (auto simp: plan_typed_def)
  note a = accept_planned [OF laws state worker typed(4,5,1,2,3) k(2) [unfolded s], of seen seen_snapshot]
  have "nat_to_string ` set ks \<inter> insert (nat_to_string k) seen = {}"
    using Cons.prems by auto
  then show ?case
    using Cons.prems a s Cons.IH [of "insert (nat_to_string k) seen" "Some snapshot"] by auto
qed simp

lemma Apply_accepted:
  assumes "ds_phase (bd_distributed bind) = WORKER_TEMPLATE"
    and "accept_splits E S (bd_distributed bind) {} None splits = Inr (snap, ss)"
  shows "\<exists>bind'. PaimonApplyDistributedScanSplits E S splits (Some bind) = (Inr (), Some bind') \<and>
    bd_distributed bind' = (bd_distributed bind)\<lparr>ds_assigned_splits := ss, ds_has_snapshot := (snap \<noteq> None),
      ds_snapshot_id := (case snap of None \<Rightarrow> 0 | Some i \<Rightarrow> i), ds_phase := WORKER_ASSIGNED\<rparr>"
  using assms by (simp add: PaimonApplyDistributedScanSplits_def Let_def)

section \<open>From the coordinator to the workers\<close>

text \<open>What comes off the wire is valid and in one of the two phases.\<close>

lemma received_binds:
  assumes "PaimonDistributedScanDeserialize E d = (Inr bind, d')"
  obtains k t opts where "bind = received_bind k t opts" "ScanValidateTransport E t = Inr ()"
  using assms by (auto simp: PaimonDistributedScanDeserialize_def Let_def elim!: bindPE split: if_splits)

lemma ScanValidateTransport_facts:
  assumes "ScanValidateTransport E t = Inr ()"
  shows "bt_split_set_id t \<noteq> []" "0 \<le> bt_schema_id t"
    and "\<And>k v. (k, v) \<in> set (bt_portable_options t) \<Longrightarrow> IsPortableOption E k"
  using assms by (auto simp: ScanValidateTransport_def list_ex_iff split: if_splits)

definition pushed :: "'p option \<Rightarrow> options list \<Rightarrow> ('p, 's) PaimonScanBindData \<Rightarrow> ('p, 's) PaimonScanBindData" where
  "pushed predicate filters bind = bind\<lparr>bd_predicates := predicate, bd_part_filters := filters\<rparr>"

lemma GetPortableOptions_empty [simp]: "GetPortableOptions E [] = []"
  by (simp add: GetPortableOptions_def)

lemma transport_of_worker [simp]:
  "transport_base E (worker_bind (pushed p fs (received_bind k t opts))) = t"
  by (cases t) (simp add: transport_base_def worker_bind_def received_bind_def pushed_def Let_def empty_bind_def
    initial_scan_state_def)

lemma received_fields [simp]:
  "bd_distributed (pushed p fs bind) = bd_distributed bind"
  "ds_split_set_id (bd_distributed (received_bind k t opts)) = bt_split_set_id t"
  "ds_schema_id (bd_distributed (received_bind k t opts)) = bt_schema_id t"
  "ds_phase (bd_distributed (received_bind k t opts)) = (if k = BK_COORDINATOR then DISTRIBUTED_COORDINATOR else WORKER_TEMPLATE)"
  "ds_phase (bd_distributed (worker_bind bind)) = WORKER_TEMPLATE"
  "bd_table_data_path (worker_bind bind) = bd_table_data_path bind"
  by (simp_all add: pushed_def received_bind_def worker_bind_def Let_def)

text \<open>The bind of the workers: created from the coordinator's, sent and received.\<close>

definition worker_received :: "('w, 'm, 'd) env \<Rightarrow> ('p, 's) PaimonScanBindData \<Rightarrow> ('p, 's) PaimonScanBindData res" where
  "worker_received E bind =
     res_bind (PaimonCreateDistributedWorkerBind (Some bind)) (\<lambda>template.
     res_bind (serialized_bind E template) (deserialized_bind E))"

lemma worker_received_ok:
  assumes "serde_laws E" "bind_typed E (worker_bind bind)"
    and bind: "bind = pushed p fs (received_bind BK_COORDINATOR t opts)" "ScanValidateTransport E t = Inr ()"
    and opts: "GetPaimonOptions (StringUtil E) (OptionKeys E) (Context E) (bd_table_data_path bind) [] = Inr local_options"
  shows "worker_received E bind = Inr (received_bind BK_WORKER t local_options)"
proof -
  have c: "PaimonCreateDistributedWorkerBind (Some bind) = Inr (worker_bind bind)"
    using ScanValidateTransport_facts(1) [OF bind(2)]
    by (simp add: PaimonCreateDistributedWorkerBind_def RequireDistributedScanBindData_def bind(1))
  have t: "transport_base E (worker_bind bind) = t" by (simp add: bind(1))
  have "bind_kind_of (ds_phase (bd_distributed (worker_bind bind))) = Inr BK_WORKER"
    by (simp add: bind_kind_of_def)
  from deserialized_serialized [OF assms(1,2) this] t bind(2) opts c show ?thesis
    by (auto simp: worker_received_def)
qed

text \<open>
  What the planning, and the workers that received their bind, have to do with each other: the facts
  both properties below rest on.
\<close>

lemma workers_assigned:
  assumes laws: "serde_laws E" "split_codec_laws S"
    and bind: "bind = pushed p fs (received_bind BK_COORDINATOR t opts)" "ScanValidateTransport E t = Inr ()"
    and typed: "bind_typed E (worker_bind bind)" "plan_typed S plan"
    and plan: "PaimonCreateDistributedScanPlan S bind s = (Inr (Some plan), s')"
      "PaimonPlanDistributedScanSplits E S (Some bind) s = (Inr ds, s'')"
    and worker: "worker_received E bind = Inr wb" and k: "distinct ks" "set ks \<subseteq> {..<length ds}"
    and opts: "GetPaimonOptions (StringUtil E) (OptionKeys E) (Context E) (bd_table_data_path bind) [] = Inr local_options"
  shows "length ds = length (pl_Splits plan)"
    and "None \<notin> set (pl_Splits plan)"
    and "\<exists>wb'. PaimonApplyDistributedScanSplits E S (map ((!) ds) ks) (Some wb) = (Inr (), Some wb') \<and>
      ds_phase (bd_distributed wb') = WORKER_ASSIGNED \<and>
      ds_assigned_splits (bd_distributed wb') = map (\<lambda>k. the (pl_Splits plan ! k)) ks \<and>
      (ks \<noteq> [] \<longrightarrow> pl_SnapshotId plan = Some (ds_snapshot_id (bd_distributed wb')))"
proof -
  note vt = ScanValidateTransport_facts [OF bind(2)]
  have w: "wb = received_bind BK_WORKER t local_options"
    using worker_received_ok [OF laws(1) typed(1) bind opts] worker by simp
  have ds: "plan_splits E S (bd_distributed bind) (pl_SnapshotId plan) 0 (pl_Splits plan) = Inr ds"
    and snap: "pl_SnapshotId plan = None \<Longrightarrow> pl_Splits plan = []"
    using plan vt(1) by (auto simp: PaimonPlanDistributedScanSplits_def RequireDistributedScanBindData_def bind(1)
        elim!: bindPE split: if_splits)
  note nth = plan_splits_nth [OF ds]
  then show "length ds = length (pl_Splits plan)" by simp
  show "None \<notin> set (pl_Splits plan)"
  proof
    assume "None \<in> set (pl_Splits plan)"
    then obtain i where "i < length (pl_Splits plan)" "pl_Splits plan ! i = None" by (auto simp: in_set_conv_nth)
    with nth show False by (auto simp: plan_split_def)
  qed
  have tt: "str_ok (bt_split_set_id t)" "bt_schema_id t \<le> int64_max"
    using typed(1) by (simp_all add: bind_typed_def ScanSerializeTransport_def bind(1))
  have phase: "ds_phase (bd_distributed wb) = WORKER_TEMPLATE" by (simp add: w)
  show "\<exists>wb'. PaimonApplyDistributedScanSplits E S (map ((!) ds) ks) (Some wb) = (Inr (), Some wb') \<and>
      ds_phase (bd_distributed wb') = WORKER_ASSIGNED \<and>
      ds_assigned_splits (bd_distributed wb') = map (\<lambda>k. the (pl_Splits plan ! k)) ks \<and>
      (ks \<noteq> [] \<longrightarrow> pl_SnapshotId plan = Some (ds_snapshot_id (bd_distributed wb')))"
  proof (cases "pl_SnapshotId plan")
    case None
    then have "ks = []" using snap nth k(2) by (cases ks) auto
    then show ?thesis
      using Apply_accepted [OF phase, of E S "[]" None "[]"] by auto
  next
    case (Some i)
    have "accept_splits E S (bd_distributed wb) {} None (map ((!) ds) ks) =
        Inr (if ks = [] then None else Some i, map (\<lambda>k. the (pl_Splits plan ! k)) ks)"
      by (rule accept_planned_splits [OF laws _ _ _ _ _ _ typed(2) Some ds [unfolded Some] k])
        (use vt tt in \<open>simp_all add: w bind(1)\<close>)
    from Apply_accepted [OF phase this] show ?thesis
      using Some by (auto split: if_splits)
  qed
qed

lemma indices_partition:
  assumes "mset (concat ws) = mset [0..<length xs]"
  shows "mset (concat (map (map ((!) xs)) ws)) = mset xs"
    and "w \<in> set ws \<Longrightarrow> distinct w \<and> set w \<subseteq> {..<length xs}"
proof -
  have "mset (concat (map (map f) ws)) = image_mset f (mset (concat ws))" for f :: "nat \<Rightarrow> 'a"
    by (simp add: map_concat [symmetric])
  then show "mset (concat (map (map ((!) xs)) ws)) = mset xs"
    using assms by (metis map_nth mset_map)
  have "distinct (concat ws)" "set (concat ws) = {..<length xs}"
    using assms mset_eq_imp_distinct_iff [OF assms] mset_eq_setD [OF assms] by (simp_all add: lessThan_atLeast0)
  then show "w \<in> set ws \<Longrightarrow> distinct w \<and> set w \<subseteq> {..<length xs}"
    by (auto simp: distinct_concat_iff)
qed

end
