(* ===== verification/Dist_Scan_Props.thy ===== *)
theory Dist_Scan_Props
  imports Dist_Scan_Correct
begin

text \<open>
  The properties of the distributed scan, and a small instance of the scan interface on which their
  witnesses run: a coordinator plans two splits, two workers read one each.
\<close>

section \<open>An instance\<close>

text \<open>
  The world of a worker: 0 before its reader is opened, \<open>2 n + 1\<close> when the reader of split \<open>n\<close> holds its only
  batch, \<open>2 n + 2\<close> when the batch has been read.
\<close>

definition tiny_batch :: "nat \<Rightarrow> ArrowBatch" where
  "tiny_batch n = \<lparr>ab_schema = Some \<lparr>as_children = []\<rparr>,
     ab_array = Some \<lparr>aa_length = int n, aa_n_children = 1, aa_children = [[]]\<rparr>\<rparr>"

definition tiny_content :: "nat option \<Rightarrow> ArrowBatch list" where
  "tiny_content sp = (case sp of None \<Rightarrow> [] | Some n \<Rightarrow> [tiny_batch n])"

definition tiny_pending :: "nat \<Rightarrow> nat \<Rightarrow> ArrowBatch list" where
  "tiny_pending w h = (if odd w \<and> h = 0 then [tiny_batch (w div 2)] else [])"

definition tiny_error :: paimon_status where
  "tiny_error = \<lparr>st_text = ''closed'', st_exist = False, st_not_exist = False\<rparr>"

definition tiny_scan_api :: "(nat, nat, nat) scan_api" where
  "tiny_scan_api = \<lparr>EndsWith = (\<lambda>_ _. True), DB_SUFFIX = ''.db'', CatalogCreate = (\<lambda>_ _ w. (Inr (), w)),
     ScanContext_Finish = (\<lambda>_ w. (Inr (), w)), TableScan_Create = (\<lambda>_ w. (Inr (), w)),
     CreatePlan = (\<lambda>_ w. (Inr (Some \<lparr>pl_SnapshotId = Some 7, pl_Splits = [Some 1, Some 2]\<rparr>), w)),
     ReadContext_Finish = (\<lambda>_ w. (Inr (), w)), TableRead_Create = (\<lambda>_ w. (Inr (), w)),
     CreateReader = (\<lambda>_ sp w. case sp of None \<Rightarrow> (Inl tiny_error, w)
       | Some n \<Rightarrow> if w = 0 then (Inr 0, 2 * n + 1) else (Inl tiny_error, w)),
     Reader_NextBatch = (\<lambda>h w. if odd w \<and> h = 0 then (Inr (Some (tiny_batch (w div 2))), w + 1) else (Inr None, w)),
     CreateCountReader = (\<lambda>_ _ w. (Inr 0, w)), CountRows = (\<lambda>_ w. (Inr 0, w)),
     CreatePickedFieldFilter = (\<lambda>p _. Inr (Some p)), IsRowIdColumnId = (\<lambda>c. c = idx_max), STANDARD_VECTOR_SIZE = 8,
     ColumnArrowToDuckDB = (\<lambda>_ vs n. Inr (take n vs)), Split_Serialize = (\<lambda>n. Inr (replicate (Suc n) CHR ''s'')),
     Split_Deserialize = (\<lambda>s. Inr (Some (length s - 1))), Split_FileList = (\<lambda>n. Some [(int n, 3)]),
     Split_IsIndexed = (\<lambda>_. False)\<rparr>"

lemma tiny_reader_laws: "reader_laws tiny_scan_api (\<lambda>_. tiny_content) tiny_pending (\<lambda>w. if w = 0 then {} else {0})"
  by (auto simp: reader_laws_def same_readers_def tiny_scan_api_def tiny_pending_def tiny_content_def fun_eq_iff
      split: option.splits if_splits)

lemma tiny_codec_laws: "split_codec_laws tiny_scan_api"
  by (auto simp: split_codec_laws_def tiny_scan_api_def)

definition tiny_transport :: PaimonDistributedBindTransport where
  "tiny_transport = \<lparr>bt_path = \<lparr>warehouse = ''/w'', dbname = ''db'', tablename = ''t''\<rparr>, bt_table_data_path = ''/w/db.db/t'',
     bt_table_schema_json = ''schema'', bt_schema_id = 0, bt_append_only = True, bt_return_types = [demo_type],
     bt_return_names = [''p''], bt_part_keys = [''p''], bt_portable_options = [(''file.format'', ''orc'')],
     bt_split_set_id = ''u-id''\<rparr>"

lemma tiny_transport_ok: "ScanValidateTransport demo_env tiny_transport = Inr ()"
  by (simp add: ScanValidateTransport_def tiny_transport_def demo_type_def IsPortableOption_def demo_keys_def)

definition tiny_plan :: "nat Plan" where
  "tiny_plan = \<lparr>pl_SnapshotId = Some 7, pl_Splits = [Some 1, Some 2]\<rparr>"

lemma tiny_plan_typed: "plan_typed tiny_scan_api tiny_plan"
  by (auto simp: plan_typed_def tiny_plan_def int64_files_def tiny_scan_api_def str_ok_def)

definition tiny_options :: options where
  "tiny_options = [(''batch'', ''8''), (''fs'', ''local'')]"

lemma tiny_GetPaimonOptions:
  "GetPaimonOptions demo_string_util demo_keys demo_ctx path [] = Inr tiny_options" if "hd path = CHR ''/''"
proof -
  have "to_string 8 = ''8''" by code_simp
  with that show ?thesis
    by (cases path) (simp_all add: GetPaimonOptions_def metastore_options_def format_option_def secret_options_def
      demo_ctx_def snapshot_options_def file_system_option_def is_oss_path_def is_s3_path_def demo_string_util_def
      demo_keys_def tiny_options_def map_emplace_def)
qed

definition tiny_bind :: "(nat, nat) PaimonScanBindData" where
  "tiny_bind = pushed (Some 5) [[(''p'', ''1'')]] (received_bind BK_COORDINATOR tiny_transport tiny_options)"

lemma tiny_bind_typed: "bind_typed demo_env (worker_bind tiny_bind)"
  by (simp add: bind_typed_def tiny_bind_def ScanSerializeTransport_def tiny_transport_def str_ok_def)

definition tiny_start :: "(nat, nat) sys" where
  "tiny_start = \<lparr>sys_world = 0, sys_trace = []\<rparr>"

lemma tiny_create_plan:
  "\<exists>t. PaimonCreateDistributedScanPlan tiny_scan_api tiny_bind tiny_start = (Inr (Some tiny_plan), t)"
  by (simp add: PaimonCreateDistributedScanPlan_def CreatePaimonScanPlan_def call_io_def call_def value_or_io_def
      tiny_scan_api_def tiny_plan_def)

lemma tiny_planned:
  "\<exists>ds t. PaimonPlanDistributedScanSplits demo_env tiny_scan_api (Some tiny_bind) tiny_start = (Inr ds, t) \<and> length ds = 2"
proof -
  obtain t where t: "PaimonCreateDistributedScanPlan tiny_scan_api tiny_bind tiny_start = (Inr (Some tiny_plan), t)"
    using tiny_create_plan by blast
  have p: "\<exists>d. plan_split demo_env tiny_scan_api st snap k (Some n) = Inr d" if "n < 100" for st :: "nat PaimonDistributedScanState" and snap k n
  proof -
    have "int64_files tiny_scan_api n"
      using that by (simp add: int64_files_def tiny_scan_api_def)
    note nm = GetSplitEstimates_not_max [OF this, of "ds_append_only st"]
    then show ?thesis
      by (simp add: plan_split_def tiny_scan_api_def new_envelope_def optional_idx_ok Let_def)
  qed
  obtain d1 where d1: "plan_split demo_env tiny_scan_api (bd_distributed tiny_bind) (Some 7) 0 (Some 1) = Inr d1"
    using p [of 1] by fastforce
  obtain d2 where d2: "plan_split demo_env tiny_scan_api (bd_distributed tiny_bind) (Some 7) 1 (Some 2) = Inr d2"
    using p [of 2] by fastforce
  have "ds_phase (bd_distributed tiny_bind) = DISTRIBUTED_COORDINATOR" "ds_split_set_id (bd_distributed tiny_bind) \<noteq> []"
    by (simp_all add: tiny_bind_def tiny_transport_def)
  with t d1 d2 show ?thesis
    by (simp add: PaimonPlanDistributedScanSplits_def RequireDistributedScanBindData_def tiny_plan_def)
qed

section \<open>What a worker reads\<close>

text \<open>
  The batches \<open>bs\<close> are those a worker with bind \<open>wb\<close> delivers when it is assigned \<open>ds\<close> and runs its scan of the columns
  \<open>columns\<close> to the end, with any threads in any order. It reads under \<open>worker_context wb columns\<close>.
\<close>

inductive worker_reads :: "('w, 'm, 'd) env \<Rightarrow> ('w, 'p, 's) scan_api \<Rightarrow> ('p, 's) PaimonScanBindData \<Rightarrow> idx_t list \<Rightarrow>
    DistributedScanSplit list \<Rightarrow> ArrowBatch list \<Rightarrow> bool" for E S wb columns ds where
  "PaimonApplyDistributedScanSplits E S ds (Some wb) = (Inr (), Some wb') \<Longrightarrow>
   PaimonScanInitGlobal S wb' columns (u :: ('w, 'm) sys) = (Inr (sn_global s0), u') \<Longrightarrow>
   scan_run E S wb' columns s0 threads bs outs s \<Longrightarrow>
   threads \<noteq> [] \<Longrightarrow> length (gs_splits (sn_global s0)) + length threads < 2 ^ 64 \<Longrightarrow>
   (\<forall>i \<in> set threads. ls_exhausted (sn_locals s i)) \<Longrightarrow> worker_reads E S wb columns ds bs"

definition worker_context :: "('p, 's) PaimonScanBindData \<Rightarrow> idx_t list \<Rightarrow> 'p ReadContext" where
  "worker_context wb columns = \<lparr>rx_path = bd_table_data_path wb, rx_options = bd_paimon_options wb,
     rx_table_schema = bd_table_schema_json wb, rx_field_ids = Some (map unat columns), rx_predicate = Some None,
     rx_predicate_filter = Some False\<rparr>"

lemma Apply_changes_state_only:
  "PaimonApplyDistributedScanSplits E S ds (Some wb) = (Inr (), Some wb') \<Longrightarrow> \<exists>st. wb' = wb\<lparr>bd_distributed := st\<rparr>"
  by (auto simp: PaimonApplyDistributedScanSplits_def Let_def elim!: bindPE split: if_splits prod.splits)

lemma worker_global:
  assumes "PaimonScanInitGlobal S wb columns u = (Inr g, u')" "ds_phase (bd_distributed wb) = WORKER_ASSIGNED"
  shows "gs_splits g = map Some (ds_assigned_splits (bd_distributed wb))" "gs_split_index g = 0"
    and "bd_predicates wb = None \<Longrightarrow> scan_reads wb g columns = worker_context wb columns"
  using assms by (auto simp: PaimonScanInitGlobal_def scan_reads_def worker_context_def read_context_def new_local_def
      picked_predicate_def elim!: bindPE)

lemma worker_reads_assigned:
  assumes "reader_laws S content pending opened" "worker_reads E S wb columns ds bs"
    and "bd_predicates wb = None" and "\<exists>wb'. PaimonApplyDistributedScanSplits E S ds (Some wb) = (Inr (), Some wb') \<and>
      ds_phase (bd_distributed wb') = WORKER_ASSIGNED \<and> ds_assigned_splits (bd_distributed wb') = ss"
  shows "mset bs = mset (concat (map (content (worker_context wb columns)) (map Some ss)))"
  using assms(2)
proof (cases rule: worker_reads.cases)
  case (1 wb' u s0 u' threads outs s)
  have a: "ds_phase (bd_distributed wb') = WORKER_ASSIGNED" "ds_assigned_splits (bd_distributed wb') = ss"
    using 1(1) assms(4) by auto
  note g = worker_global [OF 1(2) a(1)]
  obtain st where "wb' = wb\<lparr>bd_distributed := st\<rparr>"
    using Apply_changes_state_only [OF 1(1)] by blast
  then have "scan_reads wb' (sn_global s0) columns = worker_context wb columns"
    using g(3) assms(3) by (simp add: worker_context_def)
  then show ?thesis
    using scan_run_complete(1) [OF assms(1) 1(3) g(2) 1(5,4)] 1(6) g(1) a(2) by simp
qed

text \<open>All workers together; \<open>ws\<close> are the indices of the splits each is given.\<close>

lemma workers_assigned_all:
  assumes "serde_laws E" and "split_codec_laws S"
    and "PaimonDistributedScanDeserialize E d = (Inr received, d')" and "bind = pushed predicate filters received"
    and "ds_phase (bd_distributed received) = DISTRIBUTED_COORDINATOR"
    and "bind_typed E (worker_bind bind)" and "plan_typed S plan"
    and "PaimonCreateDistributedScanPlan S bind s = (Inr (Some plan), s')"
    and "PaimonPlanDistributedScanSplits E S (Some bind) s = (Inr ds, s'')"
    and "GetPaimonOptions (StringUtil E) (OptionKeys E) (Context E) (bd_table_data_path bind) [] = Inr local_options"
    and "mset (concat ws) = mset [0..<length ds]"
  shows "\<exists>wb. worker_received E bind = Inr wb \<and> bd_predicates wb = None \<and>
    (\<forall>w \<in> set ws. \<exists>wb'. PaimonApplyDistributedScanSplits E S (map ((!) ds) w) (Some wb) = (Inr (), Some wb') \<and>
      ds_phase (bd_distributed wb') = WORKER_ASSIGNED \<and>
      map Some (ds_assigned_splits (bd_distributed wb')) = map ((!) (pl_Splits plan)) w \<and>
      (w \<noteq> [] \<longrightarrow> pl_SnapshotId plan = Some (ds_snapshot_id (bd_distributed wb')))) \<and>
    mset (concat (map (map ((!) (pl_Splits plan))) ws)) = mset (pl_Splits plan)"
proof -
  obtain k t opts where r: "received = received_bind k t opts" "ScanValidateTransport E t = Inr ()"
    using received_binds [OF assms(3)] .
  have b: "bind = pushed predicate filters (received_bind BK_COORDINATOR t opts)"
    using assms(4,5) r(1) by (cases k) simp_all
  obtain wb where wb: "worker_received E bind = Inr wb" "bd_predicates wb = None"
    using worker_received_ok [OF assms(1,6) b r(2) assms(10)] by (auto simp: received_bind_def empty_bind_def)
  note each = workers_assigned [OF assms(1,2) b r(2) assms(6,7,8,9) wb(1) _ _ assms(10)]
  have len: "length ds = length (pl_Splits plan)" and none: "None \<notin> set (pl_Splits plan)"
    using each(1,2) [of "[]"] by simp_all
  note parts = indices_partition [OF assms(11) [unfolded len]]
  have "\<exists>wb'. PaimonApplyDistributedScanSplits E S (map ((!) ds) w) (Some wb) = (Inr (), Some wb') \<and>
      ds_phase (bd_distributed wb') = WORKER_ASSIGNED \<and>
      map Some (ds_assigned_splits (bd_distributed wb')) = map ((!) (pl_Splits plan)) w \<and>
      (w \<noteq> [] \<longrightarrow> pl_SnapshotId plan = Some (ds_snapshot_id (bd_distributed wb')))" if w: "w \<in> set ws" for w
  proof -
    have "Some (the (pl_Splits plan ! k)) = pl_Splits plan ! k" if "k \<in> set w" for k
    proof -
      have "pl_Splits plan ! k \<in> set (pl_Splits plan)" using parts(2) [OF w] that by auto
      with none show ?thesis by (cases "pl_Splits plan ! k") auto
    qed
    with each(3) [of w] parts(2) [OF w] len show ?thesis by (auto simp: comp_def)
  qed
  with wb parts(1) show ?thesis by blast
qed

section \<open>Properties\<close>

text \<open>
  C12. What the coordinator plans is what the workers are assigned: when the planned splits are divided among
  workers, in whatever way and order, every worker that received the bind accepts its share, is assigned
  exactly the splits planned at its indices, in order, all under the snapshot of the plan; and together
  the workers are assigned each planned split exactly once.
\<close>

theorem distributed_scan_assignment:
  assumes "serde_laws E" and "split_codec_laws S"
    and "PaimonDistributedScanDeserialize E d = (Inr received, d')" and "bind = pushed predicate filters received"
    and "ds_phase (bd_distributed received) = DISTRIBUTED_COORDINATOR"
    and "bind_typed E (worker_bind bind)" and "plan_typed S plan"
    and "PaimonCreateDistributedScanPlan S bind s = (Inr (Some plan), s')"
    and "PaimonPlanDistributedScanSplits E S (Some bind) s = (Inr ds, s'')"
    and "GetPaimonOptions (StringUtil E) (OptionKeys E) (Context E) (bd_table_data_path bind) [] = Inr local_options"
    and "mset (concat ws) = mset [0..<length ds]"
  shows "\<exists>wb. worker_received E bind = Inr wb \<and>
    (\<forall>w \<in> set ws. \<exists>wb'. PaimonApplyDistributedScanSplits E S (map ((!) ds) w) (Some wb) = (Inr (), Some wb') \<and>
      ds_phase (bd_distributed wb') = WORKER_ASSIGNED \<and>
      map Some (ds_assigned_splits (bd_distributed wb')) = map ((!) (pl_Splits plan)) w \<and>
      (w \<noteq> [] \<longrightarrow> pl_SnapshotId plan = Some (ds_snapshot_id (bd_distributed wb')))) \<and>
    mset (concat (map (map ((!) (pl_Splits plan))) ws)) = mset (pl_Splits plan)"
  using workers_assigned_all [OF assms] by blast

text \<open>The facts about the instance that its witnesses need.\<close>

lemma tiny_received:
  "\<exists>d d' received. PaimonDistributedScanDeserialize demo_env d = (Inr received, d') \<and>
    tiny_bind = pushed (Some 5) [[(''p'', ''1'')]] received \<and> ds_phase (bd_distributed received) = DISTRIBUTED_COORDINATOR"
proof -
  let ?b = "received_bind BK_COORDINATOR tiny_transport tiny_options :: (nat, nat) PaimonScanBindData"
  have t: "transport_base demo_env ?b = tiny_transport"
    by (simp add: transport_base_def received_bind_def tiny_transport_def Let_def empty_bind_def initial_scan_state_def)
  have typed: "bind_typed demo_env ?b"
    unfolding bind_typed_def t by (simp add: ScanSerializeTransport_def tiny_transport_def str_ok_def)
  have k: "bind_kind_of (ds_phase (bd_distributed ?b)) = Inr BK_COORDINATOR"
    by (simp add: bind_kind_of_def)
  have opts: "GetPaimonOptions (StringUtil demo_env) (OptionKeys demo_env) (Context demo_env) (bd_table_data_path ?b) [] = Inr tiny_options"
    by (simp add: tiny_GetPaimonOptions received_bind_def tiny_transport_def)
  obtain bytes where "deserialized_bind demo_env bytes = Inr ?b"
    using deserialized_serialized [OF demo_serde_laws typed k _ opts] tiny_transport_ok unfolding t by blast
  then obtain d d' where "PaimonDistributedScanDeserialize demo_env d = (Inr ?b, d')"
    unfolding deserialized_bind_def by (elim res_bindE fst_InrE)
  then show ?thesis
    by (intro exI [of _ d] exI [of _ d'] exI [of _ ?b]) (simp add: tiny_bind_def)
qed

lemma tiny_local_options:
  "GetPaimonOptions (StringUtil demo_env) (OptionKeys demo_env) (Context demo_env) (bd_table_data_path tiny_bind) [] = Inr tiny_options"
  by (simp add: tiny_GetPaimonOptions tiny_bind_def pushed_def received_bind_def tiny_transport_def)

theorem distributed_scan_assignment_witness:
  "\<exists>wb ds s. PaimonPlanDistributedScanSplits demo_env tiny_scan_api (Some tiny_bind) tiny_start = (Inr ds, s) \<and>
    worker_received demo_env tiny_bind = Inr wb \<and>
    (\<exists>wb'. PaimonApplyDistributedScanSplits demo_env tiny_scan_api [ds ! 1] (Some wb) = (Inr (), Some wb') \<and>
      ds_assigned_splits (bd_distributed wb') = [2] \<and> ds_snapshot_id (bd_distributed wb') = 7)"
proof -
  obtain d d' received where r: "PaimonDistributedScanDeserialize demo_env d = (Inr received, d')"
    "tiny_bind = pushed (Some 5) [[(''p'', ''1'')]] received" "ds_phase (bd_distributed received) = DISTRIBUTED_COORDINATOR"
    using tiny_received by blast
  obtain t where t: "PaimonCreateDistributedScanPlan tiny_scan_api tiny_bind tiny_start = (Inr (Some tiny_plan), t)"
    using tiny_create_plan by blast
  obtain ds u where ds: "PaimonPlanDistributedScanSplits demo_env tiny_scan_api (Some tiny_bind) tiny_start = (Inr ds, u)"
    "length ds = 2" using tiny_planned by blast
  have ws: "mset (concat [[1], [0]]) = mset [0..<length ds]"
    by (simp add: ds(2) upt_rec numeral_2_eq_2)
  from distributed_scan_assignment [OF demo_serde_laws tiny_codec_laws r tiny_bind_typed tiny_plan_typed t ds(1)
      tiny_local_options ws] ds(1)
  show ?thesis by (auto simp: tiny_plan_def)
qed

text \<open>
  C4. A distributed scan reads every batch of the table's plan exactly once: when the planned splits are divided
  among workers and every worker runs its scan of the same columns to the end, with whatever threads, the batches
  the workers deliver are together those that reading the planned splits under the workers' common read context
  returns, none lost and none twice.
\<close>

theorem distributed_scan_reads_once:
  assumes "serde_laws E" and "split_codec_laws S"
    and "PaimonDistributedScanDeserialize E d = (Inr received, d')" and "bind = pushed predicate filters received"
    and "ds_phase (bd_distributed received) = DISTRIBUTED_COORDINATOR"
    and "bind_typed E (worker_bind bind)" and "plan_typed S plan"
    and "PaimonCreateDistributedScanPlan S bind s = (Inr (Some plan), s')"
    and "PaimonPlanDistributedScanSplits E S (Some bind) s = (Inr ds, s'')"
    and "GetPaimonOptions (StringUtil E) (OptionKeys E) (Context E) (bd_table_data_path bind) [] = Inr local_options"
    and "mset (concat ws) = mset [0..<length ds]"
    and "reader_laws S content pending opened" and "worker_received E bind = Inr wb"
    and "list_all2 (\<lambda>w bs. worker_reads E S wb columns (map ((!) ds) w) bs) ws bss"
  shows "mset (concat bss) = mset (concat (map (content (worker_context wb columns)) (pl_Splits plan)))"
proof -
  let ?content = "content (worker_context wb columns)"
  note all = workers_assigned_all [OF assms(1-11)]
  have "mset bs = mset (concat (map ?content (map ((!) (pl_Splits plan)) w)))"
    if w: "w \<in> set ws" "worker_reads E S wb columns (map ((!) ds) w) bs" for w bs
  proof -
    obtain wb' where "PaimonApplyDistributedScanSplits E S (map ((!) ds) w) (Some wb) = (Inr (), Some wb')"
      "ds_phase (bd_distributed wb') = WORKER_ASSIGNED"
      "map Some (ds_assigned_splits (bd_distributed wb')) = map ((!) (pl_Splits plan)) w"
      using all w(1) assms(13) by auto
    moreover have "bd_predicates wb = None" using all assms(13) by auto
    ultimately show ?thesis
      using worker_reads_assigned [OF assms(12) w(2), of "ds_assigned_splits (bd_distributed wb')"] by metis
  qed
  note each = this
  have "mset (concat bss) = mset (concat (map ?content (concat (map (map ((!) (pl_Splits plan))) ws))))"
    using assms(14) each
  proof (induction ws bss rule: list_all2_induct)
    case (Cons w ws bs bss)
    then show ?case by simp
  qed simp
  moreover have "mset (concat (map ?content xs)) = mset (concat (map ?content ys))" if "mset xs = mset ys" for xs ys
    using that by (metis mset_map mset_concat sum_mset_sum_list)
  ultimately show ?thesis using all by metis
qed

text \<open>One worker of the instance: one thread, which reads the only batch and then meets the end.\<close>

definition tiny_st :: "string \<Rightarrow> nat \<Rightarrow> nat \<Rightarrow> idx_t \<Rightarrow> PaimonScanLocalState \<Rightarrow> nat event list \<Rightarrow> (nat, nat, nat, nat) scan" where
  "tiny_st path n w idx l tr = \<lparr>sys_world = w, sys_trace = tr, sn_global = \<lparr>gs_splits = [Some n], gs_split_index = idx,
     gs_path = path, gs_arrow_table = \<lparr>arrow_names = [], arrow_types = []\<rparr>, gs_predicates = None,
     gs_distributed_worker = True\<rparr>, sn_locals = (\<lambda>_. new_local [])(0 := l)\<rparr>"

lemma tiny_st_fields [simp]:
  "sys_world (tiny_st path n w idx l tr) = w" "sn_locals (tiny_st path n w idx l tr) 0 = l"
  "sys_trace (tiny_st path n w idx l tr) = tr"
  "gs_splits (sn_global (tiny_st path n w idx l tr)) = [Some n]"
  "gs_split_index (sn_global (tiny_st path n w idx l tr)) = idx"
  "gs_distributed_worker (sn_global (tiny_st path n w idx l tr))"
  "(tiny_st path n w idx l tr)\<lparr>sys_world := w', sys_trace := tr'\<rparr> = tiny_st path n w' idx l tr'"
  "(tiny_st path n w idx l tr)\<lparr>sys_trace := tr'\<rparr> = tiny_st path n w idx l tr'"
  "sn_locals_update (\<lambda>L. L(0 := f (L 0))) (tiny_st path n w idx l tr) = tiny_st path n w idx (f l) tr"
  "sn_global_update (\<lambda>g. g\<lparr>gs_split_index := gs_split_index g + 1\<rparr>) (tiny_st path n w idx l tr) = tiny_st path n w (idx + 1) l tr"
  by (simp_all add: tiny_st_def)

definition tiny_local :: "bool \<Rightarrow> bool \<Rightarrow> PaimonScanLocalState" where
  "tiny_local chunk done = \<lparr>ls_read_column_ids = [], ls_reader = Some 0, ls_exhausted = done, ls_chunk = chunk\<rparr>"

lemmas tiny_run = call_io_def call_def value_or_io_def tiny_scan_api_def tiny_local_def

lemma tiny_init:
  "\<exists>tr'. PaimonScanInitLocal tiny_scan_api wb [] 0 (tiny_st path n 0 0 (new_local []) tr) =
     (Inr (), tiny_st path n (2 * n + 1) 1 (tiny_local False False) tr')"
  by (auto simp: PaimonScanInitLocal_def NextSplit_def new_local_def tiny_run) (auto simp: tiny_st_def new_local_def)

lemma tiny_release:
  "\<exists>tr'. ReleaseCurrentBatch 0 (tiny_st path n w idx (tiny_local c e) tr) = (Inr (), tiny_st path n w idx (tiny_local False e) tr')"
  by (cases c) (auto simp: ReleaseCurrentBatch_def tiny_local_def)

lemma tiny_first:
  "\<exists>tr'. NextBatch tiny_scan_api wb 0 (Suc m) (tiny_st path n (2 * n + 1) 1 (tiny_local False False) tr) =
     (Inr (Some (tiny_batch n)), tiny_st path n (2 * n + 2) 1 (tiny_local False False) tr')"
proof -
  obtain tr' where "ReleaseCurrentBatch 0 (tiny_st path n (2 * n + 2) 1 (tiny_local False False) (EvRead ''NextBatch'' # tr)) =
      (Inr (), tiny_st path n (2 * n + 2) 1 (tiny_local False False) tr')"
    using tiny_release by blast
  then show ?thesis by (auto simp: tiny_run)
qed

lemma tiny_reader:
  "Reader_NextBatch tiny_scan_api h w = (if odd w \<and> h = 0 then (Inr (Some (tiny_batch (w div 2))), w + 1) else (Inr None, w))"
  by (simp add: tiny_scan_api_def)

lemma tiny_no_split:
  "NextSplit tiny_scan_api wb 0 (tiny_st path n w 1 (tiny_local False False) tr) =
     (Inr False, tiny_st path n w 2 (tiny_local False True) tr)"
proof -
  have "(1 :: idx_t) + 1 = 2" by simp
  then show ?thesis by (simp add: NextSplit_def tiny_local_def del: one_add_one)
qed

lemma tiny_last:
  "\<exists>tr'. NextBatch tiny_scan_api wb 0 (Suc m) (tiny_st path n (2 * n + 2) 1 (tiny_local True False) tr) =
     (Inr None, tiny_st path n (2 * n + 2) 2 (tiny_local False True) tr')"
proof -
  obtain tr' where "ReleaseCurrentBatch 0 (tiny_st path n (2 * n + 2) 1 (tiny_local True False) (EvRead ''NextBatch'' # tr)) =
      (Inr (), tiny_st path n (2 * n + 2) 1 (tiny_local False False) tr')"
    using tiny_release by blast
  then show ?thesis using tiny_no_split [of wb path n "2 * n + 2" tr']
    by (auto simp: call_io_def call_def value_or_io_def tiny_local_def tiny_reader bindP_def)
qed

lemma tiny_emit:
  "\<exists>out tr'. emit_batch demo_env tiny_scan_api 0 0 (tiny_batch n) (tiny_st path k w idx (tiny_local False False) tr) =
     (Inr out, tiny_st path k w idx (tiny_local True False) tr')"
  by (auto simp: emit_batch_def check_worker_batch_def tiny_batch_def rethrowP_def tiny_run)

lemma tiny_worker_reads:
  assumes app: "PaimonApplyDistributedScanSplits demo_env tiny_scan_api ds (Some (received_bind k t opts)) = (Inr (), Some wb')"
    and assigned: "ds_phase (bd_distributed wb') = WORKER_ASSIGNED" "ds_assigned_splits (bd_distributed wb') = [n]"
  shows "worker_reads demo_env tiny_scan_api (received_bind k t opts) [] ds [tiny_batch n]"
proof -
  let ?st = "tiny_st (bd_table_data_path wb') n" and ?scan = "PaimonScan demo_env tiny_scan_api wb' (length ([] :: idx_t list)) 0"
  let ?run = "scan_run demo_env tiny_scan_api wb' [] (?st 0 0 (new_local []) []) [0]"
  have len: "length [Some n] + 2 = Suc (Suc (Suc 0))" by simp
  obtain st where "wb' = (received_bind k t opts)\<lparr>bd_distributed := st\<rparr>"
    using Apply_changes_state_only [OF app] by blast
  then have "bd_predicates wb' = None" "bd_debug_expected_splits wb' = None"
    by (simp_all add: received_bind_def empty_bind_def)
  then have g: "PaimonScanInitGlobal tiny_scan_api wb' [] tiny_start = (Inr (sn_global (?st 0 0 (new_local []) [])), tiny_start)"
    using assigned by (simp add: PaimonScanInitGlobal_def picked_predicate_def tiny_st_def)
  obtain t1 where i: "PaimonScanInitLocal tiny_scan_api wb' [] 0 (?st 0 0 (new_local []) []) =
      (Inr (), ?st (2 * n + 1) 1 (tiny_local False False) t1)"
    using tiny_init by blast
  have r1: "?run [] [] (?st (2 * n + 1) 1 (tiny_local False False) t1)"
    using run_init [OF run_start _ i] by simp
  obtain t2 where b: "NextBatch tiny_scan_api wb' 0 (Suc (Suc (Suc 0))) (?st (2 * n + 1) 1 (tiny_local False False) t1) =
      (Inr (Some (tiny_batch n)), ?st (2 * n + 2) 1 (tiny_local False False) t2)"
    using tiny_first by blast
  moreover obtain o2 t3 where "emit_batch demo_env tiny_scan_api 0 0 (tiny_batch n) (?st (2 * n + 2) 1 (tiny_local False False) t2) =
      (Inr o2, ?st (2 * n + 2) 1 (tiny_local True False) t3)"
    using tiny_emit by blast
  ultimately have "?scan (?st (2 * n + 1) 1 (tiny_local False False) t1) = (Inr o2, ?st (2 * n + 2) 1 (tiny_local True False) t3)"
    "scan_batch tiny_scan_api wb' 0 (?st (2 * n + 1) 1 (tiny_local False False) t1) = [tiny_batch n]"
    by (simp_all add: PaimonScan_def scan_batch_def len del: NextBatch.simps)
  with run_scan [OF r1] have r2: "?run [tiny_batch n] [o2] (?st (2 * n + 2) 1 (tiny_local True False) t3)"
    by fastforce
  obtain t4 where "NextBatch tiny_scan_api wb' 0 (Suc (Suc (Suc 0))) (?st (2 * n + 2) 1 (tiny_local True False) t3) =
      (Inr None, ?st (2 * n + 2) 2 (tiny_local False True) t4)"
    using tiny_last by blast
  then have "?scan (?st (2 * n + 2) 1 (tiny_local True False) t3) =
      (Inr \<lparr>oc_cardinality = 0, oc_columns = []\<rparr>, ?st (2 * n + 2) 2 (tiny_local False True) t4)"
    "scan_batch tiny_scan_api wb' 0 (?st (2 * n + 2) 1 (tiny_local True False) t3) = []"
    by (simp_all add: PaimonScan_def scan_batch_def len del: NextBatch.simps)
  with run_scan [OF r2] have "\<exists>outs. ?run [tiny_batch n] outs (?st (2 * n + 2) 2 (tiny_local False True) t4)"
    by fastforce
  then show ?thesis
    using worker_reads.intros [OF app g] by (auto simp: tiny_local_def)
qed

theorem distributed_scan_reads_once_witness:
  "\<exists>ds s wb. PaimonPlanDistributedScanSplits demo_env tiny_scan_api (Some tiny_bind) tiny_start = (Inr ds, s) \<and>
    worker_received demo_env tiny_bind = Inr wb \<and>
    worker_reads demo_env tiny_scan_api wb [] [ds ! 1] [tiny_batch 2] \<and> worker_reads demo_env tiny_scan_api wb [] [ds ! 0] [tiny_batch 1] \<and>
    mset [tiny_batch 2, tiny_batch 1] = mset (concat (map tiny_content [Some 1, Some 2]))"
proof -
  obtain d d' received where r: "PaimonDistributedScanDeserialize demo_env d = (Inr received, d')"
    "tiny_bind = pushed (Some 5) [[(''p'', ''1'')]] received" "ds_phase (bd_distributed received) = DISTRIBUTED_COORDINATOR"
    using tiny_received by blast
  obtain t where t: "PaimonCreateDistributedScanPlan tiny_scan_api tiny_bind tiny_start = (Inr (Some tiny_plan), t)"
    using tiny_create_plan by blast
  obtain ds u where ds: "PaimonPlanDistributedScanSplits demo_env tiny_scan_api (Some tiny_bind) tiny_start = (Inr ds, u)"
    "length ds = 2" using tiny_planned by blast
  have ws: "mset (concat [[1], [0]]) = mset [0..<length ds]"
    by (simp add: ds(2) upt_rec numeral_2_eq_2)
  note hyps = demo_serde_laws tiny_codec_laws r tiny_bind_typed tiny_plan_typed t ds(1) tiny_local_options ws
  define wb :: "(nat, nat) PaimonScanBindData" where "wb = received_bind BK_WORKER tiny_transport tiny_options"
  have wb: "worker_received demo_env tiny_bind = Inr wb"
    unfolding wb_def using worker_received_ok [OF demo_serde_laws tiny_bind_typed tiny_bind_def tiny_transport_ok tiny_local_options] .
  have reads: "worker_reads demo_env tiny_scan_api wb [] [ds ! 1] [tiny_batch 2]" "worker_reads demo_env tiny_scan_api wb [] [ds ! 0] [tiny_batch 1]"
    using workers_assigned_all [OF hyps] wb tiny_worker_reads unfolding wb_def by (auto simp: tiny_plan_def)
  from distributed_scan_reads_once [OF hyps tiny_reader_laws wb, of "[]" "[[tiny_batch 2], [tiny_batch 1]]"] reads ds(1) wb
  show ?thesis by (auto simp: tiny_plan_def)
qed

text \<open>
  The envelope of a split survives the wire with what it leaves out set to zero, and nothing else changes: a
  reader accepts every valid envelope, and sending what was read gives the same bytes again.
\<close>

theorem split_envelope_roundtrip:
  assumes "serde_laws E" and "split_typed e" and "\<not> split_invalid e"
  shows "DeserializeSplitEnvelope E (SerializeSplitEnvelope E e) = Inr (canonical_split e) \<and>
    SerializeSplitEnvelope E (canonical_split e) = SerializeSplitEnvelope E e \<and>
    (\<not> split_non_canonical e \<longrightarrow> canonical_split e = e)"
proof -
  have "\<not> split_non_canonical e \<Longrightarrow> canonical_split e = e"
    by (cases e) (auto simp: canonical_split_def split_non_canonical_def)
  with DeserializeSplitEnvelope_Serialize [OF assms] show ?thesis
    by (simp add: SerializeSplitEnvelope_def)
qed

definition tiny_envelope :: PaimonDistributedSplitEnvelope where
  "tiny_envelope = \<lparr>se_split_set_id = ''u-id'', se_split_id = ''10'', se_has_snapshot = True, se_snapshot_id = 7, se_schema_id = 0,
     se_paimon_split = ''ss'', se_has_estimated_cardinality = False, se_estimated_cardinality = 5,
     se_has_estimated_bytes = True, se_estimated_bytes = 9\<rparr>"

theorem split_envelope_roundtrip_witness:
  "DeserializeSplitEnvelope demo_env (SerializeSplitEnvelope demo_env tiny_envelope) =
    Inr (tiny_envelope\<lparr>se_estimated_cardinality := 0\<rparr>)"
proof -
  have "split_typed tiny_envelope" "\<not> split_invalid tiny_envelope"
    by (simp_all add: split_typed_def split_items_def split_invalid_def tiny_envelope_def str_ok_def IsCanonicalSplitId_def
        less_char_def)
  from split_envelope_roundtrip [OF demo_serde_laws this] show ?thesis
    by (simp add: canonical_split_def tiny_envelope_def)
qed

text \<open>
  C38. The estimates of a split never wrap: bytes are reported exactly when no file size is negative and the sizes
  sum to less than the largest index, and then they are that sum; rows likewise, but only for append-only tables
  and splits that are not indexed.
\<close>

theorem GetSplitEstimates_exact:
  assumes "int64_files S split" and "Split_FileList S split = Some files"
  shows "(es_has_bytes (GetSplitEstimates S split append_only) \<longleftrightarrow>
      (\<forall>f \<in> set files. 0 \<le> fst f) \<and> (\<Sum>f \<leftarrow> files. nat (fst f)) < 2 ^ 64 - 1) \<and>
    (es_has_bytes (GetSplitEstimates S split append_only) \<longrightarrow>
      unat (es_bytes (GetSplitEstimates S split append_only)) = (\<Sum>f \<leftarrow> files. nat (fst f))) \<and>
    (es_has_cardinality (GetSplitEstimates S split append_only) \<longleftrightarrow> append_only \<and> \<not> Split_IsIndexed S split \<and>
      (\<forall>f \<in> set files. 0 \<le> snd f) \<and> (\<Sum>f \<leftarrow> files. nat (snd f)) < 2 ^ 64 - 1) \<and>
    (es_has_cardinality (GetSplitEstimates S split append_only) \<longrightarrow>
      unat (es_cardinality (GetSplitEstimates S split append_only)) = (\<Sum>f \<leftarrow> files. nat (snd f)))"
  using GetSplitEstimates_totals [OF assms, of append_only] by (auto simp: exact_total_def comp_def)

theorem GetSplitEstimates_exact_witness:
  "es_has_bytes (GetSplitEstimates tiny_scan_api 4 True) \<and> unat (es_bytes (GetSplitEstimates tiny_scan_api 4 True)) = 4 \<and>
    unat (es_cardinality (GetSplitEstimates tiny_scan_api 4 True)) = 3"
  using GetSplitEstimates_exact [of tiny_scan_api 4 "[(4, 3)]" True]
  by (simp add: int64_files_def tiny_scan_api_def)

text \<open>
  C36. A bind survives the wire in all that a distributed scan needs: path, schema, output, partition keys, identity
  and portable options arrive unchanged; a worker's bind stays one, a coordinator's becomes a distributed one; and
  what must not travel is gone: predicates, partition filters and the debugging check.
\<close>

theorem scan_bind_roundtrip:
  fixes bind :: "('p, 's) PaimonScanBindData"
  assumes "serde_laws E" and "bind_typed E bind" and "ds_phase (bd_distributed bind) \<noteq> WORKER_ASSIGNED"
    and "ScanValidateTransport E (transport_base E bind) = Inr ()"
    and "GetPaimonOptions (StringUtil E) (OptionKeys E) (Context E) (bd_table_data_path bind) [] = Inr local_options"
  shows "\<exists>bytes (received :: ('p, 's) PaimonScanBindData). serialized_bind E bind = Inr bytes \<and>
    deserialized_bind E bytes = Inr received \<and> bd_path received = bd_path bind \<and> bd_table_data_path received = bd_table_data_path bind \<and>
    bd_table_schema_json received = bd_table_schema_json bind \<and> bd_part_keys received = bd_part_keys bind \<and>
    ds_split_set_id (bd_distributed received) = ds_split_set_id (bd_distributed bind) \<and>
    ds_schema_id (bd_distributed received) = ds_schema_id (bd_distributed bind) \<and>
    ds_append_only (bd_distributed received) = ds_append_only (bd_distributed bind) \<and>
    ds_return_types (bd_distributed received) = ds_return_types (bd_distributed bind) \<and>
    ds_return_names (bd_distributed received) = ds_return_names (bd_distributed bind) \<and>
    ds_portable_options (bd_distributed received) = bt_portable_options (transport_base E bind) \<and>
    ds_phase (bd_distributed received) =
      (if ds_phase (bd_distributed bind) = WORKER_TEMPLATE then WORKER_TEMPLATE else DISTRIBUTED_COORDINATOR) \<and>
    bd_predicates received = None \<and> bd_part_filters received = [] \<and> bd_debug_expected_splits received = None"
proof -
  obtain k where k: "bind_kind_of (ds_phase (bd_distributed bind)) = Inr k" "k = BK_WORKER \<longleftrightarrow> ds_phase (bd_distributed bind) = WORKER_TEMPLATE"
    using assms(3) by (cases "ds_phase (bd_distributed bind)") (auto simp: bind_kind_of_def)
  obtain bytes where b: "serialized_bind E bind = Inr bytes"
    "deserialized_bind E bytes = Inr (received_bind k (transport_base E bind) local_options :: ('p, 's) PaimonScanBindData)"
    using deserialized_serialized [OF assms(1,2) k(1) assms(4,5)] by blast
  show ?thesis
    by (intro exI conjI, rule b(1), rule b(2))
      (use k(2) in \<open>cases k; simp add: received_bind_def transport_base_def Let_def empty_bind_def initial_scan_state_def\<close>)+
qed

theorem scan_bind_roundtrip_witness:
  "\<exists>bytes received. serialized_bind demo_env (worker_bind tiny_bind) = Inr bytes \<and> deserialized_bind demo_env bytes = Inr received \<and>
    bd_table_data_path (received :: (nat, nat) PaimonScanBindData) = ''/w/db.db/t'' \<and>
    ds_phase (bd_distributed received) = WORKER_TEMPLATE"
proof -
  have "transport_base demo_env (worker_bind tiny_bind) = tiny_transport"
    by (simp add: tiny_bind_def)
  then show ?thesis
    using scan_bind_roundtrip [OF demo_serde_laws tiny_bind_typed, of tiny_options] tiny_transport_ok tiny_local_options
    by (auto simp: tiny_bind_def pushed_def received_bind_def tiny_transport_def)
qed

text \<open>
  C32. No credentials travel with a plan: whatever the options of the bind, and wherever they came from, the only map a
  serialized bind contains has portable keys with values, and at most one of the two snapshot options.
\<close>

theorem scan_bind_only_portable:
  assumes "PaimonDistributedScanSerialize E bind_data = Inr items" and "WProp i tag (PMap m) \<in> set items"
  shows "(\<forall>(k, v) \<in> set m. IsPortableOption E k \<and> v \<noteq> []) \<and>
    (map_of m (key_SCAN_SNAPSHOT_ID (OptionKeys E)) = None \<or> map_of m (key_SCAN_TIMESTAMP_MILLIS (OptionKeys E)) = None)"
proof -
  obtain t where t: "ScanValidateTransport E t = Inr ()" "WProp i tag (PMap m) \<in> set (ScanSerializeTransport t)"
    using assms by (auto simp: PaimonDistributedScanSerialize_def GetTransportBase_def elim!: res_bindE split: option.splits)
  then have "m = bt_portable_options t"
    by (simp add: ScanSerializeTransport_def)
  with t(1) show ?thesis
    by (auto simp: ScanValidateTransport_def list_ex_iff split: if_splits)
qed

theorem scan_bind_only_portable_witness:
  "\<exists>items. PaimonDistributedScanSerialize demo_env (Some (worker_bind tiny_bind)) = Inr items \<and>
    WProp 10 ''portable_options'' (PMap [(''file.format'', ''orc'')]) \<in> set items \<and> IsPortableOption demo_env ''file.format''"
proof -
  have "\<exists>items. PaimonDistributedScanSerialize demo_env (Some (worker_bind tiny_bind)) = Inr items \<and>
    WProp 10 ''portable_options'' (PMap [(''file.format'', ''orc'')]) \<in> set items"
    using tiny_transport_ok
    by (simp add: PaimonDistributedScanSerialize_def GetTransportBase_def tiny_bind_def bind_kind_of_def)
      (simp add: ScanSerializeTransport_def tiny_transport_def)
  then obtain items where "PaimonDistributedScanSerialize demo_env (Some (worker_bind tiny_bind)) = Inr items"
    "WProp 10 ''portable_options'' (PMap [(''file.format'', ''orc'')]) \<in> set items"
    by blast
  with scan_bind_only_portable [OF this] show ?thesis by auto
qed

lemma accept_splits_length:
  "accept_splits E S state seen snap ds = Inr (snap', ss) \<Longrightarrow>
    length ss = length ds \<and> distinct (map sp_split_id ds) \<and> set (map sp_split_id ds) \<inter> seen = {}"
proof (induction ds arbitrary: seen snap ss)
  case (Cons x ds)
  then obtain i s ss' where "accept_split E S state seen snap x = Inr (i, s)"
    "accept_splits E S state (insert (sp_split_id x) seen) (Some i) ds = Inr (snap', ss')" "ss = s # ss'"
    by (auto elim!: res_bindE split: prod.splits)
  with Cons.IH [OF this(2)] show ?case
    by (auto simp: accept_split_def split: if_splits)
qed simp

text \<open>
  C31. An assignment is all or nothing, and happens once: a call that throws leaves the bind as it was; a call that returns
  has accepted every split, with distinct identifiers, and no later call is accepted.
\<close>

theorem Apply_all_or_nothing:
  assumes "PaimonApplyDistributedScanSplits E S ds bind = (r, bind')"
  shows "case r of Inl e \<Rightarrow> bind' = bind
    | Inr _ \<Rightarrow> \<exists>b. bind' = Some b \<and> ds_phase (bd_distributed b) = WORKER_ASSIGNED \<and>
        length (ds_assigned_splits (bd_distributed b)) = length ds \<and> distinct (map sp_split_id ds) \<and>
        (\<forall>ds'. PaimonApplyDistributedScanSplits E S ds' bind' =
          (Inl (InvalidInputException ''unassigned worker bind''), bind'))"
proof (cases bind)
  case (Some b)
  obtain q where q: "accept_splits E S (bd_distributed b) {} None ds = q" by simp
  show ?thesis
    using assms Some q accept_splits_length [of E S "bd_distributed b" "{}" None ds]
    by (cases q) (auto simp: PaimonApplyDistributedScanSplits_def Let_def bindP_def split: if_splits prod.splits)
qed (use assms in \<open>auto simp: PaimonApplyDistributedScanSplits_def\<close>)

lemma tiny_applied:
  "\<exists>split b. PaimonApplyDistributedScanSplits demo_env tiny_scan_api [split]
      (Some (received_bind BK_WORKER tiny_transport tiny_options)) = (Inr (), Some b)"
proof -
  obtain d d' received where r: "PaimonDistributedScanDeserialize demo_env d = (Inr received, d')"
    "tiny_bind = pushed (Some 5) [[(''p'', ''1'')]] received" "ds_phase (bd_distributed received) = DISTRIBUTED_COORDINATOR"
    using tiny_received by blast
  obtain t where t: "PaimonCreateDistributedScanPlan tiny_scan_api tiny_bind tiny_start = (Inr (Some tiny_plan), t)"
    using tiny_create_plan by blast
  obtain ds u where ds: "PaimonPlanDistributedScanSplits demo_env tiny_scan_api (Some tiny_bind) tiny_start = (Inr ds, u)"
    "length ds = 2" using tiny_planned by blast
  have ws: "mset (concat [[1], [0]]) = mset [0..<length ds]"
    by (simp add: ds(2) upt_rec numeral_2_eq_2)
  have "worker_received demo_env tiny_bind = Inr (received_bind BK_WORKER tiny_transport tiny_options)"
    using worker_received_ok [OF demo_serde_laws tiny_bind_typed tiny_bind_def tiny_transport_ok tiny_local_options] .
  with workers_assigned_all [OF demo_serde_laws tiny_codec_laws r tiny_bind_typed tiny_plan_typed t ds(1) tiny_local_options ws]
  show ?thesis by fastforce
qed

theorem Apply_all_or_nothing_witness:
  "\<exists>split b. PaimonApplyDistributedScanSplits demo_env tiny_scan_api [split]
      (Some (received_bind BK_WORKER tiny_transport tiny_options)) = (Inr (), Some b) \<and>
    PaimonApplyDistributedScanSplits demo_env tiny_scan_api [split] (Some b) =
      (Inl (InvalidInputException ''unassigned worker bind''), Some b)"
  using tiny_applied Apply_all_or_nothing by fastforce

end
