(* ===== verification/Native_Insert.thy ===== *)
theory Native_Insert
  imports Dist_Worker Dist_Coordinator
begin

text \<open>
  Component \<^verbatim>\<open>src/src/paimon_storage/paimon_insert.cpp\<close>: the insert that runs inside one DuckDB process, the
  sink and source methods of \<open>PhysicalPaimonInsert\<close>. One writer per thread, one list of commit messages,
  one commit at the end.

  The state extends the catalog's by the global sink state and one local state per thread. The source has its own
  loops that group rows by partition, modelled here as they are written (\<open>native_group_rows\<close> and its helpers);
  \<open>Native_Correct\<close> proves them equal to the distributed worker's. \<open>slice_chunk\<close>, DuckDB's \<open>DataChunk::Slice\<close>, is shared.
  A null commit message is \<open>None\<close>.
\<close>

section \<open>State\<close>

record 'm PaimonInsertGlobalState =
  ng_next_write_id :: "32 word"
  ng_all_commit_messages :: "'m option list"
  ng_table_path :: string
  ng_insert_count :: idx_t
  ng_finished :: bool
  ng_part_key_names :: "string list"
  ng_part_col_idxs :: "nat list"
  ng_null_part_name :: string

record PaimonInsertLocalState =
  nl_writer :: "nat option"
  nl_local_count :: idx_t

record ('w, 'm) native = "('w, 'm) catalog" +
  nt_global :: "'m PaimonInsertGlobalState"
  nt_locals :: "nat \<Rightarrow> PaimonInsertLocalState"

type_synonym ('w, 'm, 'a) nativeP = "(('w, 'm) native, 'a) proc"

definition new_global :: "'m PaimonInsertGlobalState" where
  "new_global = \<lparr>ng_next_write_id = 0, ng_all_commit_messages = [], ng_table_path = [], ng_insert_count = 0,
     ng_finished = False, ng_part_key_names = [], ng_part_col_idxs = [], ng_null_part_name = ''__DEFAULT_PARTITION__''\<rparr>"

abbreviation set_ng :: "('m PaimonInsertGlobalState \<Rightarrow> 'm PaimonInsertGlobalState) \<Rightarrow> ('w, 'm, unit) nativeP" where
  "set_ng f \<equiv> modifyP (nt_global_update f)"

abbreviation set_nl :: "nat \<Rightarrow> (PaimonInsertLocalState \<Rightarrow> PaimonInsertLocalState) \<Rightarrow> ('w, 'm, unit) nativeP" where
  "set_nl i f \<equiv> modifyP (nt_locals_update (\<lambda>L. L(i := f (L i))))"

section \<open>Sink states\<close>

fun part_field_indexes :: "string list \<Rightarrow> string list \<Rightarrow> nat list res" where
  "part_field_indexes field_names [] = Inr []"
| "part_field_indexes field_names (k # ks) =
     (case find_index k field_names of
        None \<Rightarrow> Inl (IOException ''Partition key not found in Paimon table schema'')
      | Some i \<Rightarrow> res_bind (part_field_indexes field_names ks) (\<lambda>is. Inr (i # is)))"

definition partition_state :: "('w, 'm, 'd) env \<Rightarrow> PhysicalPaimonInsert \<Rightarrow> TableSchema option \<Rightarrow>
    'm PaimonInsertGlobalState \<Rightarrow> 'm PaimonInsertGlobalState res" where
  "partition_state E ins table_schema state =
     (case table_schema of
        None \<Rightarrow> Inl (IOException ''Failed to resolve Paimon data schema'')
      | Some ts \<Rightarrow>
          (case ts_data ts of
             None \<Rightarrow> Inl (IOException ''Failed to resolve Paimon data schema'')
           | Some data_schema \<Rightarrow>
               res_bind (part_field_indexes (ts_FieldNames ts) (ins_part_keys ins)) (\<lambda>idxs.
               Inr (state\<lparr>ng_null_part_name :=
                   (case map_of (dsc_Options data_schema) (key_PARTITION_DEFAULT_NAME (OptionKeys E)) of
                      None \<Rightarrow> ng_null_part_name state | Some name \<Rightarrow> name),
                 ng_part_key_names := ins_part_keys ins, ng_part_col_idxs := idxs\<rparr>))))"

definition create_target :: "('w, 'm, 'd) env \<Rightarrow> PhysicalPaimonInsert \<Rightarrow> ('w, 'm, 'z, unit) catP" where
  "create_target E ins =
     (case ins_info ins of
        None \<Rightarrow> retP ()
      | Some base \<Rightarrow>
          (case ins_schema ins of
             None \<Rightarrow> throwP (UndefinedBehaviour ''null schema'')
           | Some p \<Rightarrow> bindP (SchemaEntry_CreateTable E p base) (\<lambda>_. retP ())))"

definition GetGlobalSinkState :: "('w, 'm, 'd) env \<Rightarrow> PhysicalPaimonInsert \<Rightarrow>
    ('w, 'm, 'z, 'm PaimonInsertGlobalState) catP" where
  "GetGlobalSinkState E ins =
     bindP (create_target E ins) (\<lambda>_.
     bindP (call_io (EvRead ''GetTableLocation'') (GetTableLocation E (ins_table_identifier ins))) (\<lambda>table_path.
     let state = new_global\<lparr>ng_table_path := table_path\<rparr> in
     if ins_part_keys ins = [] then retP state
     else bindP (call_io (EvRead ''LoadTableSchema'') (LoadTableSchema E (ins_table_identifier ins))) (\<lambda>table_schema.
          liftP (partition_state E ins table_schema state))))"

definition native_write_context :: "PhysicalPaimonInsert \<Rightarrow> 'm PaimonInsertGlobalState \<Rightarrow> WriteContext" where
  "native_write_context ins g = \<lparr>wc_table_path = ng_table_path g, wc_commit_user = ''duckdb'',
     wc_write_id = sint (ng_next_write_id g), wc_streaming = False, wc_options = ins_paimon_options ins\<rparr>"

text \<open>\<open>fetch_add\<close> returns the old value and wraps at \<open>2 ^ 32\<close>, also when the call then throws.\<close>

definition GetLocalSinkState :: "('w, 'm, 'd) env \<Rightarrow> PhysicalPaimonInsert \<Rightarrow> nat \<Rightarrow> ('w, 'm, unit) nativeP" where
  "GetLocalSinkState E ins i =
     bindP (getP (\<lambda>s. native_write_context ins (nt_global s))) (\<lambda>wc.
     bindP (set_ng (\<lambda>g. g\<lparr>ng_next_write_id := ng_next_write_id g + 1\<rparr>)) (\<lambda>_.
     bindP (call_io (EvRead ''write context'') (FinishWriteContext E wc)) (\<lambda>_.
     bindP (call_io (EvOpenWriter wc) (FileStoreWrite_Create E wc)) (\<lambda>h.
     set_nl i (\<lambda>_. \<lparr>nl_writer = Some h, nl_local_count = 0\<rparr>)))))"

section \<open>Sink\<close>

definition native_batch :: "DataChunk \<Rightarrow> options \<Rightarrow> RecordBatch" where
  "native_batch chunk part = \<lparr>rb_props = None, rb_chunk = chunk, rb_partition = part,
     rb_bucket = (if part = [] then None else Some 0)\<rparr>"

definition WriteChunkWithPartition :: "('w, 'm, 'd) env \<Rightarrow> nat \<Rightarrow> DataChunk \<Rightarrow> options \<Rightarrow> ('w, 'm, 'z, unit) sysP" where
  "WriteChunkWithPartition E h chunk part =
     bindP (call_io (EvRead ''record batch'') (FinishRecordBatch E (native_batch chunk part))) (\<lambda>_.
     call_io (EvWrite h (native_batch chunk part)) (Writer_Write E h (native_batch chunk part)))"

text \<open>\<open>key.push_back(...)\<close> for each partition column.\<close>

definition native_partition_key :: "string \<Rightarrow> nat list \<Rightarrow> Value list \<Rightarrow> string list" where
  "native_partition_key null_part_name part_idxs row =
     fold (\<lambda>c key. key @ [if val_null (row ! c) then null_part_name else val_to_string (row ! c)]) part_idxs []"

text \<open>\<open>auto entry = partition_groups.emplace(key, {}); entry.first->second.push_back(row)\<close> for the rows in order.\<close>

definition native_group_rows :: "(Value list \<Rightarrow> string list) \<Rightarrow> Value list list \<Rightarrow> (string list, nat list) omap" where
  "native_group_rows key rows =
     fold (\<lambda>r groups. let k = key (rows ! r); emplaced = map_emplace k [] groups in
         case map_of emplaced k of None \<Rightarrow> emplaced | Some entry \<Rightarrow> map_put k (entry @ [r]) emplaced)
       [0..<length rows] []"

text \<open>\<open>partition[part_names[i]] = key_values[i]\<close> for each partition key.\<close>

definition native_partition :: "string list \<Rightarrow> string list \<Rightarrow> options" where
  "native_partition part_names key_values = fold (\<lambda>(n, v) partition. map_put n v partition) (zip part_names key_values) []"

fun write_partitions :: "('w, 'm, 'd) env \<Rightarrow> nat \<Rightarrow> string list \<Rightarrow> DataChunk \<Rightarrow>
    (string list \<times> nat list) list \<Rightarrow> ('w, 'm, 'z, unit) sysP" where
  "write_partitions E h part_names chunk [] = retP ()"
| "write_partitions E h part_names chunk ((key, rows) # groups) =
     bindP (WriteChunkWithPartition E h (slice_chunk chunk rows) (native_partition part_names key)) (\<lambda>_.
     write_partitions E h part_names chunk groups)"

text \<open>\<open>chunk.data\<close> is a checked vector; the counter is a plain \<open>idx_t\<close>.\<close>

definition Sink :: "('w, 'm, 'd) env \<Rightarrow> nat \<Rightarrow> DataChunk \<Rightarrow> ('w, 'm, unit) nativeP" where
  "Sink E i chunk =
     bindP (getP nt_global) (\<lambda>g.
     bindP (getP (\<lambda>s. nl_writer (nt_locals s i))) (\<lambda>writer.
     case writer of
       None \<Rightarrow> throwP (UndefinedBehaviour ''null writer'')
     | Some h \<Rightarrow>
         bindP (checkP (list_ex (\<lambda>c. c \<ge> length (dc_types chunk)) (ng_part_col_idxs g))
           (InternalException ''vector index'')) (\<lambda>_.
         bindP (if ng_part_col_idxs g = [] then WriteChunkWithPartition E h chunk []
                else write_partitions E h (ng_part_key_names g) chunk
                  (native_group_rows (native_partition_key (ng_null_part_name g) (ng_part_col_idxs g)) (dc_rows chunk))) (\<lambda>_.
         set_nl i (\<lambda>l. l\<lparr>nl_local_count := nl_local_count l + of_nat (length (dc_rows chunk))\<rparr>)))))"

section \<open>Combine, finalize and the source\<close>

definition close_writer :: "('w, 'm, 'd) env \<Rightarrow> nat \<Rightarrow> nat \<Rightarrow> ('w, 'm, unit) nativeP" where
  "close_writer E i h =
     bindP (call_io (EvClose h) (Writer_Close E h)) (\<lambda>_. set_nl i (\<lambda>l. l\<lparr>nl_writer := None\<rparr>))"

definition Combine :: "('w, 'm, 'd) env \<Rightarrow> nat \<Rightarrow> ('w, 'm, unit) nativeP" where
  "Combine E i =
     bindP (getP (\<lambda>s. nt_locals s i)) (\<lambda>l.
     case nl_writer l of
       None \<Rightarrow> throwP (UndefinedBehaviour ''null writer'')
     | Some h \<Rightarrow>
         if nl_local_count l = 0 then close_writer E i h
         else bindP (call_io (EvPrepare h) (Writer_PrepareCommit E h None)) (\<lambda>local_messages.
              bindP (record_event (EvPrepared h local_messages)) (\<lambda>_.
              bindP (close_writer E i h) (\<lambda>_.
              set_ng (\<lambda>g. g\<lparr>ng_insert_count := ng_insert_count g + nl_local_count l,
                ng_all_commit_messages := ng_all_commit_messages g @ local_messages\<rparr>)))))"

definition native_commit_context :: "PhysicalPaimonInsert \<Rightarrow> 'm PaimonInsertGlobalState \<Rightarrow> CommitContext" where
  "native_commit_context ins g = \<lparr>cc_table_path = ng_table_path g, cc_commit_user = ''duckdb'',
     cc_options = ins_paimon_options ins, cc_check_conflict = None\<rparr>"

definition Finalize :: "('w, 'm, 'd) env \<Rightarrow> PhysicalPaimonInsert \<Rightarrow> ('w, 'm, unit) nativeP" where
  "Finalize E ins =
     bindP (getP nt_global) (\<lambda>g.
     if ng_all_commit_messages g = [] then retP ()
     else with_mutex (
       bindP (call_io (EvRead ''commit context'') (FinishCommitContext E (native_commit_context ins g))) (\<lambda>_.
       bindP (call_io (EvOpenCommitter (native_commit_context ins g)) (FileStoreCommit_Create E (native_commit_context ins g))) (\<lambda>committer.
       call_io (EvNativeCommit committer (ng_all_commit_messages g)) (Committer_Commit E committer (ng_all_commit_messages g))))))"

text \<open>\<open>None\<close> is \<open>FINISHED\<close>; the count goes through \<open>Value::BIGINT\<close>, a signed 64-bit integer.\<close>

definition GetDataInternal :: "('w, 'm, int option) nativeP" where
  "GetDataInternal =
     bindP (getP nt_global) (\<lambda>g.
     if ng_finished g then retP None
     else bindP (set_ng (\<lambda>g. g\<lparr>ng_finished := True\<rparr>)) (\<lambda>_. retP (Some (sint (ng_insert_count g)))))"

end
