(* ===== verification/Native_Correct.thy ===== *)
theory Native_Correct
  imports Native_Insert Coordinator_Correct
begin

text \<open>
  The native insert: what a sink writes, and that a run commits exactly what its threads prepared, once,
  and counts every row.
\<close>

section \<open>What a sink writes\<close>

text \<open>The loops of the native sink compute what the distributed worker's do.\<close>

lemma native_partition_key_eq: "native_partition_key = partition_key"
proof -
  have "fold (\<lambda>c key. key @ [f c]) cs key = key @ map f cs" for f :: "nat \<Rightarrow> string" and cs key
    by (induction cs arbitrary: key) auto
  then show ?thesis
    by (simp add: fun_eq_iff native_partition_key_def partition_key_def)
qed

lemma map_put_map_put [simp]: "map_put k v (map_put k w m) = map_put k v m"
  by (induction m) auto

lemma native_group_rows_eq: "native_group_rows = group_rows"
proof -
  have "(let emplaced = map_emplace k [] groups in
        case map_of emplaced k of None \<Rightarrow> emplaced | Some entry \<Rightarrow> map_put k (entry @ [r]) emplaced) =
      map_put k ((case map_of groups k of None \<Rightarrow> [] | Some rs \<Rightarrow> rs) @ [r]) groups"
    for k :: "string list" and r :: nat and groups
    by (auto simp: map_emplace_def Let_def split: option.split)
  then show ?thesis
    by (simp add: fun_eq_iff native_group_rows_def group_rows_def Let_def)
qed

lemma native_partition_eq: "native_partition = partition_map"
  by (simp add: fun_eq_iff native_partition_def partition_map_def map_put_all_def)

definition native_batches :: "'m PaimonInsertGlobalState \<Rightarrow> DataChunk \<Rightarrow> RecordBatch list" where
  "native_batches g chunk = (if ng_part_col_idxs g = [] then [native_batch chunk []]
     else map (\<lambda>(key, rows). native_batch (slice_chunk chunk rows) (native_partition (ng_part_key_names g) key))
       (native_group_rows (native_partition_key (ng_null_part_name g) (ng_part_col_idxs g)) (dc_rows chunk)))"

lemma WriteChunkWithPartition_ok:
  assumes "WriteChunkWithPartition E h chunk part s = (Inr x, t)"
  shows "batches (sys_trace t) = batches (sys_trace s) @ [(h, native_batch chunk part)]"
  using assms by (auto simp: WriteChunkWithPartition_def dest!: call_io_ok(1) elim!: bindPE)

lemma write_partitions_ok:
  "write_partitions E h part_names chunk groups s = (Inr x, t) \<Longrightarrow>
   batches (sys_trace t) = batches (sys_trace s) @
     map (\<lambda>(key, rows). (h, native_batch (slice_chunk chunk rows) (native_partition part_names key))) groups"
proof (induction groups arbitrary: s)
  case (Cons g groups)
  then show ?case
    by (cases g) (auto dest!: WriteChunkWithPartition_ok elim!: bindPE)
qed simp

lemma keeps_native_writes [keeps_intros]:
  assumes "\<And>s w tr. f (s\<lparr>sys_world := w, sys_trace := tr\<rparr>) = f s"
  shows "keeps f (WriteChunkWithPartition E h chunk part)" and "keeps f (write_partitions E h part_names chunk groups)"
proof -
  show w: "keeps f (WriteChunkWithPartition E h chunk part)" for chunk part
    unfolding WriteChunkWithPartition_def by (intro keeps_intros assms)
  show "keeps f (write_partitions E h part_names chunk groups)"
  proof (induction groups)
    case (Cons g groups)
    then show ?case
      by (cases g) (simp only: write_partitions.simps, intro keeps_intros w)
  qed (simp only: write_partitions.simps keeps_pure)
qed

lemma native_writes_ok:
  assumes "(if ng_part_col_idxs g = [] then WriteChunkWithPartition E h chunk []
     else write_partitions E h (ng_part_key_names g) chunk
       (native_group_rows (native_partition_key (ng_null_part_name g) (ng_part_col_idxs g)) (dc_rows chunk))) s = (Inr x, u)"
  shows "batches (sys_trace u) = batches (sys_trace s) @ map (Pair h) (native_batches g chunk)"
    and "nt_global u = nt_global s" and "nt_locals u = nt_locals s"
proof -
  show "batches (sys_trace u) = batches (sys_trace s) @ map (Pair h) (native_batches g chunk)"
    using assms by (auto simp: native_batches_def dest!: WriteChunkWithPartition_ok write_partitions_ok split: if_splits)
  have "keeps (\<lambda>s. (nt_global s, nt_locals s)) (WriteChunkWithPartition E h chunk [])"
    "keeps (\<lambda>s. (nt_global s, nt_locals s)) (write_partitions E h pk chunk gs)" for pk gs
    by (intro keeps_intros; simp)+
  then show "nt_global u = nt_global s" "nt_locals u = nt_locals s"
    using assms keepsD by (fastforce split: if_splits)+
qed

lemma native_Sink_ok:
  assumes "Sink E i chunk s = (Inr x, t)"
  shows "\<exists>h. nl_writer (nt_locals s i) = Some h \<and>
    batches (sys_trace t) = batches (sys_trace s) @ map (Pair h) (native_batches (nt_global s) chunk) \<and>
    nt_global t = nt_global s \<and> nt_locals t = (nt_locals s)(i := (nt_locals s i)\<lparr>nl_local_count :=
      nl_local_count (nt_locals s i) + of_nat (length (dc_rows chunk))\<rparr>)"
proof -
  let ?g = "nt_global s"
  let ?w = "\<lambda>h. if ng_part_col_idxs ?g = [] then WriteChunkWithPartition E h chunk []
     else write_partitions E h (ng_part_key_names ?g) chunk
       (native_group_rows (native_partition_key (ng_null_part_name ?g) (ng_part_col_idxs ?g)) (dc_rows chunk))"
  obtain h u y where h: "nl_writer (nt_locals s i) = Some h" and w: "?w h s = (Inr y, u)"
    and t: "t = nt_locals_update (\<lambda>L. L(i := (L i)\<lparr>nl_local_count := nl_local_count (L i) + of_nat (length (dc_rows chunk))\<rparr>)) u"
    using assms by (auto simp: Sink_def split: option.splits if_splits elim!: bindPE)
  show ?thesis
    using h native_writes_ok [OF w] t by auto
qed

section \<open>What a run prepares and commits\<close>

definition prepared_messages :: "'m event list \<Rightarrow> 'm option list" where
  "prepared_messages tr = concat (rev (List.map_filter (\<lambda>ev. case ev of EvPrepared h ms \<Rightarrow> Some ms | _ \<Rightarrow> None) tr))"

definition native_commits :: "'m event list \<Rightarrow> 'm option list list" where
  "native_commits tr = rev (List.map_filter (\<lambda>ev. case ev of EvNativeCommit h ms \<Rightarrow> Some ms | _ \<Rightarrow> None) tr)"

definition plain :: "'m event \<Rightarrow> bool" where
  "plain ev \<longleftrightarrow> (case ev of EvPrepared h ms \<Rightarrow> False | EvNativeCommit h ms \<Rightarrow> False | _ \<Rightarrow> True)"

lemma plain_simps [simp]:
  "plain (EvRead x)" "plain (EvOpenWriter wc)" "plain (EvWrite h b)" "plain (EvPrepare h)" "plain (EvClose h)"
  "plain EvLock" "plain EvUnlock" "plain (EvOpenCommitter cc)" "\<not> plain (EvPrepared h ms)" "\<not> plain (EvNativeCommit h ms)"
  "plain (EvCreateTable i r)"
  by (simp_all add: plain_def)

lemma prepared_simps [simp]:
  "prepared_messages [] = []" "native_commits [] = []"
  "prepared_messages (EvPrepared h ms # tr) = prepared_messages tr @ ms" "native_commits (EvPrepared h ms # tr) = native_commits tr"
  "prepared_messages (EvNativeCommit h ms # tr) = prepared_messages tr"
  "native_commits (EvNativeCommit h ms # tr) = native_commits tr @ [ms]"
  by (simp_all add: prepared_messages_def native_commits_def map_filter_simps)

lemma prepared_plain [simp]:
  "plain ev \<Longrightarrow> prepared_messages (ev # tr) = prepared_messages tr" "plain ev \<Longrightarrow> native_commits (ev # tr) = native_commits tr"
  by (auto simp: prepared_messages_def native_commits_def map_filter_simps plain_def split: event.splits)

lemma prepared_plains:
  "list_all plain evs \<Longrightarrow> prepared_messages (evs @ tr) = prepared_messages tr \<and> native_commits (evs @ tr) = native_commits tr"
  by (induction evs) auto

definition account :: "'m event list \<Rightarrow> 'm option list \<times> 'm option list list" where
  "account tr = (prepared_messages tr, native_commits tr)"

lemma account_emits: "emits plain m \<Longrightarrow> m s = (r, t) \<Longrightarrow> account (sys_trace t) = account (sys_trace s)"
proof -
  assume e: "emits plain m" "m s = (r, t)"
  then obtain evs where "sys_trace t = evs @ sys_trace s" "list_all plain evs" by (elim emitsE)
  then show "account (sys_trace t) = account (sys_trace s)"
    using prepared_plains [of evs "sys_trace s"] by (simp add: account_def)
qed

lemma emits_native_writes [emits_intros]:
  "emits plain (WriteChunkWithPartition E h chunk part)" "emits plain (write_partitions E h names chunk groups)"
proof -
  show w: "emits plain (WriteChunkWithPartition E h chunk part)" for chunk part
    unfolding WriteChunkWithPartition_def by (intro emits_intros; simp)
  show "emits plain (write_partitions E h names chunk groups)"
  proof (induction groups)
    case (Cons g groups)
    then show ?case
      by (cases g) (simp only: write_partitions.simps, intro emits_intros w)
  qed (simp only: write_partitions.simps emits_pure)
qed

lemma emits_native:
  "emits plain (Sink E i chunk)" "emits plain (GetLocalSinkState E ins i)"
  unfolding Sink_def GetLocalSinkState_def by (intro emits_intros; simp)+

datatype native_op = NInit nat | NSink nat DataChunk | NCombine nat

definition run_native :: "('w, 'm, 'd) env \<Rightarrow> PhysicalPaimonInsert \<Rightarrow> native_op \<Rightarrow> ('w, 'm, unit) nativeP" where
  "run_native E ins op = (case op of NInit i \<Rightarrow> GetLocalSinkState E ins i | NSink i chunk \<Rightarrow> Sink E i chunk | NCombine i \<Rightarrow> Combine E i)"

text \<open>
  A run without exceptions; a thread is initialised once. A \<open>Combine\<close> is one step: in the code only its last part, which
  appends the messages, is under the lock, so the order of appends is the order of these steps.
\<close>

inductive native_run :: "('w, 'm, 'd) env \<Rightarrow> PhysicalPaimonInsert \<Rightarrow> ('w, 'm) native \<Rightarrow> native_op list \<Rightarrow>
    ('w, 'm) native \<Rightarrow> bool" for E ins s0 where
  native_start: "native_run E ins s0 [] s0"
| native_step: "native_run E ins s0 ops s \<Longrightarrow> (\<forall>i. op = NInit i \<longrightarrow> NInit i \<notin> set ops) \<Longrightarrow>
    run_native E ins op s = (Inr (), t) \<Longrightarrow> native_run E ins s0 (ops @ [op]) t"

definition native_rows :: "native_op list \<Rightarrow> nat" where
  "native_rows ops = (\<Sum>op \<leftarrow> ops. case op of NSink i chunk \<Rightarrow> length (dc_rows chunk) | _ \<Rightarrow> 0)"

text \<open>Rows counted by threads that have not been combined.\<close>

definition open_count :: "PaimonInsertLocalState \<Rightarrow> idx_t" where
  "open_count l = (if nl_writer l = None then 0 else nl_local_count l)"

definition uncombined :: "native_op list \<Rightarrow> ('w, 'm) native \<Rightarrow> idx_t" where
  "uncombined ops s = (\<Sum>i \<in> {i. NInit i \<in> set ops}. open_count (nt_locals s i))"

definition native_inv :: "native_op list \<Rightarrow> ('w, 'm) native \<Rightarrow> bool" where
  "native_inv ops s \<longleftrightarrow>
     account (sys_trace s) = (ng_all_commit_messages (nt_global s), []) \<and> \<not> ng_finished (nt_global s) \<and>
     (\<forall>i. NInit i \<notin> set ops \<longrightarrow> nl_writer (nt_locals s i) = None) \<and>
     ng_insert_count (nt_global s) + uncombined ops s = of_nat (native_rows ops)"

lemma finite_native [simp]: "finite {i. NInit i \<in> set ops}"
  by (rule finite_subset [of _ "(\<lambda>op. case op of NInit i \<Rightarrow> i | _ \<Rightarrow> 0) ` set ops"]) (auto simp: image_iff, force)

lemma native_rows_snoc [simp]: "native_rows (ops @ [op]) = native_rows ops + (case op of NSink i chunk \<Rightarrow> length (dc_rows chunk) | _ \<Rightarrow> 0)"
  by (simp add: native_rows_def)

lemma uncombined_upd:
  assumes "NInit i \<in> set ops" "nt_locals t = (nt_locals s)(i := l)"
  shows "uncombined ops t + open_count (nt_locals s i) = uncombined ops s + open_count l"
  using sum_upd [of "{i. NInit i \<in> set ops}" i "\<lambda>i. open_count (nt_locals t i)" "\<lambda>i. open_count (nt_locals s i)"] assms
  by (simp add: uncombined_def)

lemma uncombined_init:
  assumes "NInit i \<notin> set ops" "nt_locals t = (nt_locals s)(i := l)" "nl_local_count l = 0"
  shows "uncombined (ops @ [NInit i]) t = uncombined ops s"
proof -
  have "{j. NInit j \<in> set (ops @ [NInit i])} = insert i {j. NInit j \<in> set ops}" by auto
  moreover have "(\<Sum>j \<in> {j. NInit j \<in> set ops}. open_count (nt_locals t j)) = uncombined ops s"
    using assms(1,2) unfolding uncombined_def by (intro sum.cong) auto
  ultimately show ?thesis
    using assms by (simp add: uncombined_def open_count_def)
qed

lemma uncombined_other: "(\<And>i. op \<noteq> NInit i) \<Longrightarrow> uncombined (ops @ [op]) s = uncombined ops s"
  unfolding uncombined_def by (intro sum.cong) auto

lemma GetLocalSinkState_ok:
  assumes "GetLocalSinkState E ins i s = (Inr x, t)"
  shows "\<exists>h. nt_global t = (nt_global s)\<lparr>ng_next_write_id := ng_next_write_id (nt_global s) + 1\<rparr> \<and>
    nt_locals t = (nt_locals s)(i := \<lparr>nl_writer = Some h, nl_local_count = 0\<rparr>)"
  using assms by (fastforce simp: GetLocalSinkState_def call_io_def call_def value_or_io_def elim!: bindPE split: prod.splits sum.splits)

lemma native_Combine_ok:
  assumes "Combine E i s = (Inr x, t)"
  shows "\<exists>h ms. nl_writer (nt_locals s i) = Some h \<and> nt_locals t = (nt_locals s)(i := (nt_locals s i)\<lparr>nl_writer := None\<rparr>) \<and>
    nt_global t = (nt_global s)\<lparr>ng_insert_count := ng_insert_count (nt_global s) + nl_local_count (nt_locals s i),
      ng_all_commit_messages := ng_all_commit_messages (nt_global s) @ ms\<rparr> \<and>
    account (sys_trace t) = (prepared_messages (sys_trace s) @ ms, native_commits (sys_trace s))"
proof (cases "nl_local_count (nt_locals s i) = 0")
  case True
  then show ?thesis
    using assms by (fastforce simp: Combine_def close_writer_def call_io_def call_def value_or_io_def account_def
        elim!: bindPE split: prod.splits sum.splits option.splits)
next
  case False
  then show ?thesis
    using assms by (fastforce simp: Combine_def close_writer_def call_io_def call_def value_or_io_def account_def
        elim!: bindPE split: prod.splits sum.splits option.splits)
qed

lemma native_inv_step:
  assumes inv: "native_inv ops s" and new: "\<forall>i. op = NInit i \<longrightarrow> NInit i \<notin> set ops" and run: "run_native E ins op s = (Inr (), t)"
  shows "native_inv (ops @ [op]) t"
proof (cases op)
  case (NInit i)
  then have r: "GetLocalSinkState E ins i s = (Inr (), t)" using run by (simp add: run_native_def)
  show ?thesis
    using inv new GetLocalSinkState_ok [OF r] account_emits [OF emits_native(2) r] uncombined_init [of i ops t s]
    by (auto simp: native_inv_def NInit)
next
  case (NSink i chunk)
  then have r: "Sink E i chunk s = (Inr (), t)" using run by (simp add: run_native_def)
  define l where "l = (nt_locals s i)\<lparr>nl_local_count := nl_local_count (nt_locals s i) + of_nat (length (dc_rows chunk))\<rparr>"
  obtain h where h: "nl_writer (nt_locals s i) = Some h" "nt_global t = nt_global s" "nt_locals t = (nt_locals s)(i := l)"
    using native_Sink_ok [OF r] unfolding l_def by blast
  have "NInit i \<in> set ops" using inv h(1) by (auto simp: native_inv_def)
  from uncombined_upd [OF this h(3)] show ?thesis
    using inv h account_emits [OF emits_native(1) r]
    by (auto simp: native_inv_def NSink uncombined_other open_count_def l_def algebra_simps)
next
  case (NCombine i)
  then have r: "Combine E i s = (Inr (), t)" using run by (simp add: run_native_def)
  obtain h ms where h: "nl_writer (nt_locals s i) = Some h" "nt_locals t = (nt_locals s)(i := (nt_locals s i)\<lparr>nl_writer := None\<rparr>)"
    "nt_global t = (nt_global s)\<lparr>ng_insert_count := ng_insert_count (nt_global s) + nl_local_count (nt_locals s i),
      ng_all_commit_messages := ng_all_commit_messages (nt_global s) @ ms\<rparr>"
    "account (sys_trace t) = (prepared_messages (sys_trace s) @ ms, native_commits (sys_trace s))"
    using native_Combine_ok [OF r] by blast
  have "NInit i \<in> set ops" using inv h(1) by (auto simp: native_inv_def)
  from uncombined_upd [OF this h(2)]
  have "uncombined ops s = uncombined ops t + nl_local_count (nt_locals s i)"
    using h(1) by (simp add: open_count_def)
  then show ?thesis
    using inv h by (auto simp: native_inv_def NCombine uncombined_other account_def algebra_simps)
qed

section \<open>From the global sink state to the commit\<close>

text \<open>The start of an insert: the global sink state is made and no thread has a writer yet.\<close>

definition native_begin :: "('w, 'm, 'd) env \<Rightarrow> PhysicalPaimonInsert \<Rightarrow> ('w, 'm) native \<Rightarrow> ('w, 'm) native \<Rightarrow> bool" where
  "native_begin E ins c s0 \<longleftrightarrow> sys_trace c = [] \<and> (\<exists>g u. GetGlobalSinkState E ins c = (Inr g, u) \<and>
     s0 = u\<lparr>nt_global := g, nt_locals := (\<lambda>_. \<lparr>nl_writer = None, nl_local_count = 0\<rparr>)\<rparr>)"

lemma GetGlobalSinkState_ok:
  assumes "GetGlobalSinkState E ins s = (Inr g, u)"
  shows "ng_all_commit_messages g = []" "ng_insert_count g = 0" "\<not> ng_finished g"
  using assms
  by (auto simp: GetGlobalSinkState_def Let_def partition_state_def new_global_def res_bind_Inr elim!: bindPE
      split: if_splits option.splits)

lemma emits_GetGlobalSinkState: "emits plain (GetGlobalSinkState E ins)"
  unfolding GetGlobalSinkState_def create_target_def SchemaEntry_CreateTable_def status_or_throw_def Let_def
  by (intro emits_intros; simp)

lemma native_inv_begin:
  assumes "native_begin E ins c s0"
  shows "native_inv [] s0"
proof -
  obtain g u where g: "GetGlobalSinkState E ins c = (Inr g, u)" and c: "sys_trace c = []"
    and s0: "s0 = u\<lparr>nt_global := g, nt_locals := (\<lambda>_. \<lparr>nl_writer = None, nl_local_count = 0\<rparr>)\<rparr>"
    using assms by (auto simp: native_begin_def)
  show ?thesis
    using account_emits [OF emits_GetGlobalSinkState g] GetGlobalSinkState_ok [OF g] c
    by (simp add: native_inv_def s0 account_def uncombined_def native_rows_def)
qed

lemma native_inv_run:
  assumes "native_run E ins s0 ops s" "native_inv [] s0"
  shows "native_inv ops s"
  using assms by (induction rule: native_run.induct) (auto intro: native_inv_step)

lemma keeps_native_Finalize: "keeps (\<lambda>s. (nt_global s, nt_locals s)) (Finalize E ins)"
  unfolding Finalize_def by (intro keeps_intros; simp)

lemma native_Finalize_ok:
  assumes "Finalize E ins s = (Inr x, t)"
  defines "ms \<equiv> ng_all_commit_messages (nt_global s)"
  shows "account (sys_trace t) = (prepared_messages (sys_trace s),
      native_commits (sys_trace s) @ (if ms = [] then [] else [ms]))"
proof (cases "ms = []")
  case False
  then show ?thesis
    using assms(1)
    by (auto simp: Finalize_def account_def ms_def dest!: with_mutex_run call_io_ok(1) elim!: bindPE)
qed (use assms in \<open>simp add: Finalize_def account_def\<close>)

text \<open>The partition columns are fixed by the global sink state; no step of a run changes them.\<close>

definition native_parts :: "('w, 'm) native \<Rightarrow> string list \<times> nat list \<times> string" where
  "native_parts s = (ng_part_key_names (nt_global s), ng_part_col_idxs (nt_global s), ng_null_part_name (nt_global s))"

lemma native_parts_run: "native_run E ins s0 ops s \<Longrightarrow> native_parts s = native_parts s0"
proof (induction rule: native_run.induct)
  case (native_step ops s op t)
  have "native_parts t = native_parts s"
  proof (cases op)
    case (NCombine i)
    then show ?thesis
      using native_step.hyps(3) native_Combine_ok [of E i s "()" t] by (auto simp: run_native_def native_parts_def)
  qed (use native_step.hyps(3) GetLocalSinkState_ok native_Sink_ok in \<open>(fastforce simp: run_native_def native_parts_def)+\<close>)
  with native_step.IH show ?case by simp
qed simp

text \<open>The schema that \<open>GetGlobalSinkState\<close> loads, after it has created the table and looked its location up.\<close>

definition loaded_schema :: "('w, 'm, 'd) env \<Rightarrow> PhysicalPaimonInsert \<Rightarrow> ('w, 'm) native \<Rightarrow> TableSchema option res" where
  "loaded_schema E ins c = fst (bindP (create_target E ins) (\<lambda>_.
     bindP (call_io (EvRead ''GetTableLocation'') (GetTableLocation E (ins_table_identifier ins))) (\<lambda>_.
     call_io (EvRead ''LoadTableSchema'') (LoadTableSchema E (ins_table_identifier ins)))) c)"

lemma native_begin_no_keys:
  "native_begin E ins c s0 \<Longrightarrow> ins_part_keys ins = [] \<Longrightarrow> ng_part_col_idxs (nt_global s0) = []"
  by (auto simp: native_begin_def GetGlobalSinkState_def Let_def new_global_def elim!: bindPE)

lemma native_begin_keys:
  assumes "native_begin E ins c s0" and "ins_part_keys ins \<noteq> []" and "loaded_schema E ins c = Inr (Some ts)"
    and "ts_data ts = Some ds"
  shows "\<exists>idxs. part_field_indexes (ts_FieldNames ts) (ins_part_keys ins) = Inr idxs \<and>
    native_parts s0 = (ins_part_keys ins, idxs, null_partition_name E (dsc_Options ds))"
  using assms
  by (auto simp: native_begin_def GetGlobalSinkState_def loaded_schema_def Let_def partition_state_def res_bind_Inr bindP_def
      new_global_def native_parts_def null_partition_name_def split: prod.splits sum.splits option.splits)

text \<open>\<open>std::find\<close> over the field names and over the input names give the same columns.\<close>

lemma part_col_indexes_field_indexes: "part_field_indexes names keys = Inr idxs \<Longrightarrow> part_col_indexes names keys = Inr idxs"
  by (induction keys arbitrary: idxs) (auto simp: res_bind_Inr simp del: find_index_None split: option.splits)

lemma native_batches_eq:
  assumes "native_parts s = (tp_part_keys tp, idxs, tp_null_part_name tp)" and "g_transport g = tp" and "g_part_col_idxs g = idxs"
  shows "native_batches (nt_global s) chunk = map (\<lambda>b. b\<lparr>rb_props := None\<rparr>) (sink_batches g chunk)"
  using assms by (simp add: native_parts_def native_batches_def sink_batches_def native_batch_def batch_of_def
      native_partition_key_eq native_group_rows_eq native_partition_eq case_prod_beta')

lemma native_batches_whole:
  assumes "ng_part_col_idxs (nt_global s) = []" and "g_part_col_idxs g = []"
  shows "native_batches (nt_global s) chunk = map (\<lambda>b. b\<lparr>rb_props := None\<rparr>) (sink_batches g chunk)"
  using assms by (simp add: native_batches_def sink_batches_def native_batch_def batch_of_def)

end
