(* ===== verification/Native_Props.thy ===== *)
theory Native_Props
  imports Native_Correct
begin

text \<open>
  The properties of the native insert, and a run of it on \<open>demo_env\<close> that shows their hypotheses hold.
\<close>

section \<open>A run\<close>

definition demo_native_insert :: PhysicalPaimonInsert where
  "demo_native_insert = new_insert (Some 0) None \<lparr>id_database = ''db'', id_table = ''t''\<rparr> [(''file.format'', ''orc'')]
     [''p''] [[demo_type, demo_type]] True"

definition demo_native_global :: "nat PaimonInsertGlobalState" where
  "demo_native_global = new_global\<lparr>ng_table_path := ''/data/db.db/t'', ng_part_key_names := [''p''],
     ng_part_col_idxs := [0], ng_null_part_name := ''null''\<rparr>"

definition demo_native :: "(nat, nat) native" where
  "demo_native = \<lparr>sys_world = 0, sys_trace = [], cat_path = ''/data'', cat_access_mode = READ_WRITE,
     cat_attached_options = [], cat_schemas = \<lparr>sset_inited = True, sset_entries = [(''db'', 0)]\<rparr>,
     cat_heap = (\<lambda>_. new_schema_entry ''db''), cat_next = 1, nt_global = new_global,
     nt_locals = (\<lambda>_. \<lparr>nl_writer = None, nl_local_count = 0\<rparr>)\<rparr>"

definition demo_native_start :: "(nat, nat) native" where
  "demo_native_start = demo_native\<lparr>sys_trace := [EvRead ''LoadTableSchema'', EvRead ''GetTableLocation''],
     nt_global := demo_native_global\<rparr>"

definition demo_native_opened :: "(nat, nat) native" where
  "demo_native_opened = snd (GetLocalSinkState demo_env demo_native_insert 0 demo_native_start)"

definition demo_native_sunk :: "(nat, nat) native" where
  "demo_native_sunk = snd (Sink demo_env 0 demo_chunk demo_native_opened)"

definition demo_native_combined :: "(nat, nat) native" where
  "demo_native_combined = snd (Combine demo_env 0 demo_native_sunk)"

definition demo_native_final :: "(nat, nat) native" where
  "demo_native_final = snd (Finalize demo_env demo_native_insert demo_native_combined)"

lemma demo_native_global_eq:
  "GetGlobalSinkState demo_env demo_native_insert demo_native =
    (Inr demo_native_global, demo_native\<lparr>sys_trace := [EvRead ''LoadTableSchema'', EvRead ''GetTableLocation'']\<rparr>)"
proof -
  have "partition_state demo_env demo_native_insert (Some demo_schema) (new_global\<lparr>ng_table_path := ''/data/db.db/t''\<rparr>)
      = Inr demo_native_global"
    by (simp add: partition_state_def demo_schema_def demo_data_schema_def demo_keys_def demo_native_global_def
        demo_native_insert_def new_insert_def)
  then show ?thesis
    by (simp add: GetGlobalSinkState_def create_target_def demo_calls Let_def)
      (simp add: demo_native_insert_def new_insert_def demo_calls bindP_def demo_native_def)
qed

lemma demo_native_begin: "native_begin demo_env demo_native_insert demo_native demo_native_start"
  unfolding native_begin_def demo_native_global_eq
  by (simp add: demo_native_start_def demo_native_def)

lemma demo_native_opened_eq:
  "GetLocalSinkState demo_env demo_native_insert 0 demo_native_start = (Inr (), demo_native_opened)"
  "nt_locals demo_native_opened = (\<lambda>_. \<lparr>nl_writer = None, nl_local_count = 0\<rparr>)(0 := \<lparr>nl_writer = Some 0, nl_local_count = 0\<rparr>)"
  "nt_global demo_native_opened = demo_native_global\<lparr>ng_next_write_id := 1\<rparr>" "sys_world demo_native_opened = 1"
  "sys_trace demo_native_opened = [EvOpenWriter (native_write_context demo_native_insert demo_native_global),
     EvRead ''write context'', EvRead ''LoadTableSchema'', EvRead ''GetTableLocation'']"
  by (simp_all add: demo_native_opened_def GetLocalSinkState_def demo_calls demo_native_start_def demo_native_def
      demo_native_global_def new_global_def)

lemma demo_native_write:
  "WriteChunkWithPartition demo_env h chunk part s =
    (Inr (), s\<lparr>sys_trace := EvWrite h (native_batch chunk part) # EvRead ''record batch'' # sys_trace s\<rparr>)"
  by (simp add: WriteChunkWithPartition_def demo_calls)

lemma demo_native_groups:
  "native_group_rows (native_partition_key ''null'' [0]) (dc_rows demo_chunk) = [([''a''], [1]), ([''b''], [0, 2])]"
  by code_simp

lemma demo_native_sunk_eq:
  "Sink demo_env 0 demo_chunk demo_native_opened = (Inr (), demo_native_sunk)"
  "nt_locals demo_native_sunk = (\<lambda>_. \<lparr>nl_writer = None, nl_local_count = 0\<rparr>)(0 := \<lparr>nl_writer = Some 0, nl_local_count = 3\<rparr>)"
  "nt_global demo_native_sunk = demo_native_global\<lparr>ng_next_write_id := 1\<rparr>" "sys_world demo_native_sunk = 1"
proof -
  have g: "ng_part_col_idxs demo_native_global = [0]" "ng_part_key_names demo_native_global = [''p'']"
    "ng_null_part_name demo_native_global = ''null''"
    by (simp_all add: demo_native_global_def)
  have c: "length (dc_types demo_chunk) = 2" "length (dc_rows demo_chunk) = 3"
    by (simp_all add: demo_chunk_def)
  note eqs = Sink_def demo_native_opened_eq g c demo_native_groups demo_native_write
  show "Sink demo_env 0 demo_chunk demo_native_opened = (Inr (), demo_native_sunk)"
    unfolding demo_native_sunk_def by (simp add: eqs)
  show "nt_locals demo_native_sunk = (\<lambda>_. \<lparr>nl_writer = None, nl_local_count = 0\<rparr>)(0 := \<lparr>nl_writer = Some 0, nl_local_count = 3\<rparr>)"
    "nt_global demo_native_sunk = demo_native_global\<lparr>ng_next_write_id := 1\<rparr>" "sys_world demo_native_sunk = 1"
    unfolding demo_native_sunk_def by (simp_all add: eqs)
qed

lemma demo_native_combined_eq:
  "Combine demo_env 0 demo_native_sunk = (Inr (), demo_native_combined)"
  "nt_locals demo_native_combined = (\<lambda>_. \<lparr>nl_writer = None, nl_local_count = 0\<rparr>)(0 := \<lparr>nl_writer = None, nl_local_count = 3\<rparr>)"
  "nt_global demo_native_combined = demo_native_global\<lparr>ng_next_write_id := 1, ng_insert_count := 3, ng_all_commit_messages := [Some 1]\<rparr>"
  unfolding demo_native_combined_def
  by (simp_all add: Combine_def close_writer_def record_event_def demo_native_sunk_eq demo_calls)
    (simp_all add: demo_native_global_def new_global_def)

definition demo_native_ops :: "native_op list" where
  "demo_native_ops = [NInit 0, NSink 0 demo_chunk, NCombine 0]"

lemma demo_native_run: "native_run demo_env demo_native_insert demo_native_start demo_native_ops demo_native_combined"
proof -
  have "native_run demo_env demo_native_insert demo_native_start ((([] @ [NInit 0]) @ [NSink 0 demo_chunk]) @ [NCombine 0]) demo_native_combined"
    using demo_native_opened_eq(1) demo_native_sunk_eq(1) demo_native_combined_eq(1)
    by (intro native_step) (auto simp: run_native_def native_start)
  then show ?thesis by (simp add: demo_native_ops_def)
qed

lemma demo_native_run_opened: "native_run demo_env demo_native_insert demo_native_start [NInit 0] demo_native_opened"
  using native_step [OF native_start, of "NInit 0" demo_env demo_native_insert demo_native_start demo_native_opened]
    demo_native_opened_eq(1) by (simp add: run_native_def)

lemma demo_loaded_schema: "loaded_schema demo_env demo_native_insert demo_native = Inr (Some demo_schema)"
  by (simp add: loaded_schema_def create_target_def demo_calls)
    (simp add: demo_native_insert_def new_insert_def demo_calls bindP_def demo_native_def)

lemma demo_native_Finalize:
  "Finalize demo_env demo_native_insert demo_native_combined = (Inr (), demo_native_final)"
  "nt_global demo_native_final = nt_global demo_native_combined"
  unfolding demo_native_final_def
  by (simp_all add: Finalize_def with_mutex_def record_event_def demo_native_combined_eq demo_calls bindP_def)

section \<open>Properties\<close>

text \<open>
  C9. A native insert commits once: after a run in which no thread failed, \<open>Finalize\<close> hands every message that
  some thread's \<open>PrepareCommit\<close> returned to one \<open>Commit\<close> call, in the order they were prepared and each
  exactly as often as it was prepared; when no thread prepared a message it commits nothing. The run may
  interleave the calls of any number of threads; a \<open>Combine\<close> call is one step of it, so the order is the one in which the
  \<open>Combine\<close> calls take effect.
\<close>

theorem native_insert_commits_once:
  assumes "native_begin E ins c s0" and "native_run E ins s0 ops s" and "Finalize E ins s = (Inr (), t)"
  shows "native_commits (sys_trace t) =
    (if prepared_messages (sys_trace t) = [] then [] else [prepared_messages (sys_trace t)])"
  using native_inv_run [OF assms(2) native_inv_begin [OF assms(1)]] native_Finalize_ok [OF assms(3)]
  by (simp add: native_inv_def account_def)

theorem native_insert_commits_once_witness:
  "native_commits (sys_trace demo_native_final) =
    (if prepared_messages (sys_trace demo_native_final) = [] then [] else [prepared_messages (sys_trace demo_native_final)])
   \<and> prepared_messages (sys_trace demo_native_final) = [Some 1]"
proof
  show "native_commits (sys_trace demo_native_final) =
    (if prepared_messages (sys_trace demo_native_final) = [] then [] else [prepared_messages (sys_trace demo_native_final)])"
    by (rule native_insert_commits_once [OF demo_native_begin demo_native_run demo_native_Finalize(1)])
  show "prepared_messages (sys_trace demo_native_final) = [Some 1]"
    using native_inv_run [OF demo_native_run native_inv_begin [OF demo_native_begin]]
      native_Finalize_ok [OF demo_native_Finalize(1)]
    by (simp add: native_inv_def account_def demo_native_combined_eq)
qed

text \<open>
  C10. The insert reports its rows: when every thread has been combined, the operator's source returns the
  number of rows of all chunks sunk by all threads (below \<open>2 ^ 63\<close>, the range of \<open>BIGINT\<close>), and reports it
  once: the next call is finished.
\<close>

theorem native_insert_reports_rows:
  assumes "native_begin E ins c s0" and "native_run E ins s0 ops s" and "Finalize E ins s = (Inr (), t)"
    and "\<And>i. nl_writer (nt_locals s i) = None" and "native_rows ops < 2 ^ 63"
  shows "\<exists>u. GetDataInternal t = (Inr (Some (int (native_rows ops))), u) \<and> GetDataInternal u = (Inr None, u)"
proof -
  have inv: "native_inv ops s"
    by (rule native_inv_run [OF assms(2) native_inv_begin [OF assms(1)]])
  have "nt_global t = nt_global s"
    using keepsD [OF keeps_native_Finalize assms(3)] by simp
  moreover have "uncombined ops s = 0"
    using assms(4) by (simp add: uncombined_def open_count_def)
  moreover have "sint (of_int (int (native_rows ops)) :: idx_t) = int (native_rows ops)"
    using assms(5) by (subst sint_sbintrunc', intro signed_take_bit_int_eq_self) simp_all
  ultimately show ?thesis
    using inv by (simp add: GetDataInternal_def native_inv_def)
qed

theorem native_insert_reports_rows_witness:
  "\<exists>u. GetDataInternal demo_native_final = (Inr (Some (int (native_rows demo_native_ops))), u) \<and>
     GetDataInternal u = (Inr None, u) \<and> native_rows demo_native_ops = 3"
proof -
  have "native_rows demo_native_ops = 3"
    by (simp add: native_rows_def demo_native_ops_def demo_chunk_def)
  moreover have "nl_writer (nt_locals demo_native_combined i) = None" for i
    by (simp add: demo_native_combined_eq)
  ultimately show ?thesis
    using native_insert_reports_rows [OF demo_native_begin demo_native_run demo_native_Finalize(1)] by simp
qed

text \<open>
  C11. The native and the distributed sink write the same data. Take a native insert that has run from its
  global sink state to any state, and a distributed worker in any state its callbacks reach; the two insert into the same
  partition columns, and the schema the native insert loaded at its start has the column names and the null
  partition name of the worker's transport. A chunk that both sinks accept is then cut into the same record batches,
  with the same rows, partitions and buckets, in the same order, although the two files resolve the columns, form the keys and
  group the rows in loops of their own. The batches differ in the Arrow export options only, which the native sink leaves to the
  client context.
\<close>

theorem native_distributed_same_batches:
  assumes "native_begin E ins c s0" and "native_run E ins s0 ops s"
    and "worker_start E' info task w0" and "worker_reach E' task w0 ops' s'"
    and "ins_part_keys ins = tp_part_keys (g_transport (wk_global w0))"
    and "ins_part_keys ins \<noteq> [] \<Longrightarrow> \<exists>ts ds. loaded_schema E ins c = Inr (Some ts) \<and> ts_data ts = Some ds \<and>
      ts_FieldNames ts = tp_input_names (g_transport (wk_global w0)) \<and>
      null_partition_name E (dsc_Options ds) = tp_null_part_name (g_transport (wk_global w0))"
    and "Sink E i chunk s = (Inr (), t)" and "PaimonDistributedInsertSink E' task j chunk s' = (Inr (), t')"
  shows "\<exists>h h' bs. batches (sys_trace t') = batches (sys_trace s') @ map (Pair h') bs \<and>
    batches (sys_trace t) = batches (sys_trace s) @ map (Pair h) (map (\<lambda>b. b\<lparr>rb_props := None\<rparr>) bs)"
proof -
  have g: "g_transport (wk_global s') = g_transport (wk_global w0)" and wf: "worker_wf (wk_global s')"
    using frozen_reach [OF assms(4)] worker_wf_reach [OF assms(3,4)] by (simp_all add: frozen_def Let_def)
  have parts: "native_parts s = native_parts s0"
    by (rule native_parts_run [OF assms(2)])
  have "native_batches (nt_global s) chunk = map (\<lambda>b. b\<lparr>rb_props := None\<rparr>) (sink_batches (wk_global s') chunk)"
  proof (cases "ins_part_keys ins = []")
    case True
    then show ?thesis
      using native_begin_no_keys [OF assms(1) True] parts worker_wf_no_keys [OF wf] assms(5) g
      by (intro native_batches_whole) (simp_all add: native_parts_def)
  next
    case False
    then show ?thesis
      using assms(5,6) native_begin_keys [OF assms(1) False] parts wf g
      by (fastforce intro!: native_batches_eq simp: worker_wf_def dest: part_col_indexes_field_indexes)
  qed
  then show ?thesis
    using native_Sink_ok [OF assms(7)] Sink_ok [OF assms(8)] by metis
qed

theorem native_distributed_same_batches_witness:
  "\<exists>h h' bs. batches (sys_trace demo_sunk) = batches (sys_trace demo_opened) @ map (Pair h') bs \<and>
    batches (sys_trace demo_native_sunk) =
      batches (sys_trace demo_native_opened) @ map (Pair h) (map (\<lambda>b. b\<lparr>rb_props := None\<rparr>) bs)"
proof (rule native_distributed_same_batches [OF demo_native_begin demo_native_run_opened demo_start demo_reach(1)
      _ _ demo_native_sunk_eq(1) demo_sunk_eq(1)])
  show "ins_part_keys demo_native_insert = tp_part_keys (g_transport (wk_global demo_worker))"
    by (simp add: demo_native_insert_def new_insert_def demo_worker_def demo_transport_def)
  show "\<exists>ts ds. loaded_schema demo_env demo_native_insert demo_native = Inr (Some ts) \<and> ts_data ts = Some ds \<and>
      ts_FieldNames ts = tp_input_names (g_transport (wk_global demo_worker)) \<and>
      null_partition_name demo_env (dsc_Options ds) = tp_null_part_name (g_transport (wk_global demo_worker))"
    by (simp add: demo_loaded_schema null_partition_name_def demo_schema_def demo_data_schema_def demo_keys_def
        demo_worker_def demo_transport_def)
qed

end
