(* ===== verification/Catalog_Correct.thy ===== *)
theory Catalog_Correct
  imports Paimon_Catalog
begin

text \<open>
  The catalog cache is correct: case-insensitive maps behave as maps on names up to case (locale
  \<open>ci_map\<close>, interpreted on the operations the table and schema sets use), the sets stay well-formed under
  every sequence of catalog operations, and the table set of a schema refines an abstract map from names
  to entries.
\<close>

section \<open>The contract of a case-insensitive map\<close>

locale ci_map =
  fixes eq :: "string \<Rightarrow> string \<Rightarrow> bool"
    and lookup :: "string \<Rightarrow> 'm \<Rightarrow> 'v option"
    and emplace :: "string \<Rightarrow> 'v \<Rightarrow> 'm \<Rightarrow> 'm"
    and erase :: "string \<Rightarrow> 'm \<Rightarrow> 'm"
    and wf :: "'m \<Rightarrow> bool"
  assumes lookup_cong: "equivp eq \<Longrightarrow> eq k k' \<Longrightarrow> lookup k m = lookup k' m"
    and lookup_emplace: "equivp eq \<Longrightarrow>
      lookup k (emplace k' v m) = (if eq k' k \<and> lookup k' m = None then Some v else lookup k m)"
    and lookup_erase: "equivp eq \<Longrightarrow> lookup k (erase k' m) = (if eq k' k then None else lookup k m)"
    and wf_emplace: "equivp eq \<Longrightarrow> wf m \<Longrightarrow> wf (emplace k v m)"
    and wf_erase: "wf m \<Longrightarrow> wf (erase k m)"
begin

text \<open>Erasing before emplacing is an update.\<close>

lemma lookup_replace:
  assumes "equivp eq"
  shows "lookup k (emplace k' v (erase k' m)) = (if eq k' k then Some v else lookup k m)"
  using assms equivp_reflp [OF assms] by (simp add: lookup_emplace lookup_erase)

lemma lookup_emplaced:
  assumes "equivp eq"
  shows "lookup k (emplace k v m) = Some (case lookup k m of None \<Rightarrow> v | Some w \<Rightarrow> w)"
  using assms equivp_reflp [OF assms] by (auto simp: lookup_emplace split: option.split)

lemma emplace_present: "equivp eq \<Longrightarrow> lookup k' m \<noteq> None \<Longrightarrow> lookup k (emplace k' v m) = lookup k m"
  by (auto simp: lookup_emplace)

lemma lookup_emplace_absent:
  assumes "equivp eq" "lookup k' m = None"
  shows "(\<lambda>k. lookup k (emplace k' v m)) = (\<lambda>k. if eq k' k then Some v else lookup k m)"
  using assms by (auto simp: lookup_emplace)

end

definition ci_wf :: "('w, 'm, 'd) env \<Rightarrow> (string \<times> 'a) list \<Rightarrow> bool" where
  "ci_wf E = sorted_wrt (\<lambda>e f. \<not> su_ci_equals (StringUtil E) (fst e) (fst f))"

lemma ci_find_None: "ci_find E k m = None \<longleftrightarrow> (\<forall>e \<in> set m. \<not> su_ci_equals (StringUtil E) (fst e) k)"
  by (auto simp: ci_find_def find_None_iff)

lemma find_filter_other:
  "(\<And>x. P x \<Longrightarrow> Q x) \<Longrightarrow> find P (filter Q xs) = find P xs" "(\<And>x. P x \<Longrightarrow> \<not> Q x) \<Longrightarrow> find P (filter Q xs) = None"
  by (induction xs) auto

interpretation ci: ci_map "su_ci_equals (StringUtil E)" "ci_find E" "ci_emplace E" "ci_erase E" "ci_wf E"
  for E :: "('w, 'm, 'd) env"
proof
  fix k k' :: string and v :: 'a and m :: "(string \<times> 'a) list"
  let ?eq = "su_ci_equals (StringUtil E)"
  show "ci_wf E m \<Longrightarrow> ci_wf E (ci_erase E k m)"
    by (simp add: ci_wf_def ci_erase_def sorted_wrt_filter)
  assume eq: "equivp ?eq"
  show cong: "?eq k k' \<Longrightarrow> ci_find E k m = ci_find E k' m"
  proof -
    assume "?eq k k'"
    then have "(\<lambda>e. ?eq (fst e) k) = (\<lambda>e :: string \<times> 'a. ?eq (fst e) k')"
      using eq by (metis equivp_symp equivp_transp)
    then show ?thesis by (simp add: ci_find_def)
  qed
  show "ci_find E k (ci_emplace E k' v m) = (if ?eq k' k \<and> ci_find E k' m = None then Some v else ci_find E k m)"
  proof (cases "ci_find E k' m")
    case None
    moreover have "?eq k' k \<Longrightarrow> ci_find E k m = ci_find E k' m"
      using eq by (auto simp: ci_find_def intro!: arg_cong [of _ _ "\<lambda>P. map_option snd (find P m)"]) (metis equivp_symp equivp_transp)+
    ultimately show ?thesis
      by (auto simp: ci_emplace_def ci_find_def find_append split: option.splits)
  qed (simp add: ci_emplace_def)
  show "ci_find E k (ci_erase E k' m) = (if ?eq k' k then None else ci_find E k m)"
  proof (cases "?eq k' k")
    case True
    then have "\<And>e :: string \<times> 'a. ?eq (fst e) k \<Longrightarrow> \<not> \<not> ?eq (fst e) k'"
      using eq by (metis equivp_symp equivp_transp)
    then show ?thesis
      using True by (simp add: ci_find_def ci_erase_def find_filter_other(2))
  next
    case False
    then have "\<And>e :: string \<times> 'a. ?eq (fst e) k \<Longrightarrow> \<not> ?eq (fst e) k'"
      using eq by (metis equivp_symp equivp_transp)
    then show ?thesis
      using False by (simp add: ci_find_def ci_erase_def find_filter_other(1))
  qed
  show "ci_wf E m \<Longrightarrow> ci_wf E (ci_emplace E k v m)"
    by (auto simp: ci_wf_def ci_emplace_def sorted_wrt_append ci_find_None split: option.splits)
qed

text \<open>In a well-formed map every entry is the one its key finds.\<close>

lemma ci_find_member:
  assumes "ci_wf E m" "ci_laws E" "(k, v) \<in> set m"
  shows "ci_find E k m = Some v"
  using assms(1,3)
proof (induction m)
  case (Cons e m)
  have eq: "equivp (su_ci_equals (StringUtil E))" using assms(2) by (simp add: ci_laws_def)
  show ?case
  proof (cases "e = (k, v)")
    case False
    then have "(k, v) \<in> set m" "\<not> su_ci_equals (StringUtil E) (fst e) k"
      using Cons.prems by (auto simp: ci_wf_def)
    then show ?thesis
      using Cons by (simp add: ci_wf_def ci_find_def)
  qed (use equivp_reflp [OF eq] in \<open>simp add: ci_find_def\<close>)
qed simp

lemma ci_find_Some: "ci_find E k m = Some v \<Longrightarrow> \<exists>k'. (k', v) \<in> set m \<and> su_ci_equals (StringUtil E) k' k"
  by (auto simp: ci_find_def find_Some_iff) (metis fst_conv nth_mem)

lemma ran_ci_find:
  assumes "ci_wf E m" "ci_laws E"
  shows "ran (\<lambda>k. ci_find E k m) = snd ` set m"
  using ci_find_member [OF assms] by (force simp: ran_def dest: ci_find_Some)

lemma set_ci_emplace: "set (ci_emplace E k v m) \<subseteq> insert (k, v) (set m)"
  by (auto simp: ci_emplace_def split: option.splits)

lemma set_ci_erase: "set (ci_erase E k m) \<subseteq> set m"
  by (auto simp: ci_erase_def)

section \<open>Relations between the states before and after\<close>

text \<open>
  \<open>moves R m\<close>: whatever \<open>m\<close> returns, its start and end state are related by \<open>R\<close>. A preorder that ignores
  the world and the trace composes along procedures.
\<close>

definition moves :: "('s \<Rightarrow> 's \<Rightarrow> bool) \<Rightarrow> ('s, 'a) proc \<Rightarrow> bool" where
  "moves R m \<longleftrightarrow> (\<forall>s. R s (snd (m s)))"

lemma movesD: "moves R m \<Longrightarrow> m s = (r, t) \<Longrightarrow> R s t"
  unfolding moves_def by (metis snd_conv)

locale state_preorder =
  fixes R :: "('w, 'm, 'z) sys_scheme \<Rightarrow> ('w, 'm, 'z) sys_scheme \<Rightarrow> bool"
  assumes same: "R s s"
    and step: "R s t \<Longrightarrow> R t u \<Longrightarrow> R s u"
    and world: "R s (s\<lparr>sys_world := w, sys_trace := tr\<rparr>)"
begin

lemma moves_bindP: "moves R m \<Longrightarrow> (\<And>x. moves R (f x)) \<Longrightarrow> moves R (bindP m f)"
proof -
  assume m: "moves R m" and f: "\<And>x. moves R (f x)"
  have "R s (snd (bindP m f s))" for s
  proof (cases "m s")
    case (Pair r t)
    then have "R s t" by (rule movesD [OF m])
    then show ?thesis
      using Pair f step by (cases r) (auto simp: moves_def)
  qed
  then show "moves R (bindP m f)" by (simp add: moves_def)
qed

lemma moves_pure: "moves R (retP x)" "moves R (liftP r)" "moves R (throwP e)" "moves R (getP g)" "moves R (value_or_io q)"
  by (simp_all add: moves_def value_or_io_def same)

lemma moves_call: "moves R (call ev f)" "moves R (call_io ev f)"
proof -
  show c: "moves R (call ev f)"
    by (auto simp: moves_def call_def world split: prod.splits)
  show "moves R (call_io ev f)"
    unfolding call_io_def by (intro moves_bindP c moves_pure)
qed

lemma trace: "R s (s\<lparr>sys_trace := tr\<rparr>)"
  using world [of s tr "sys_world s"] by simp

lemma moves_with_mutex: "moves R m \<Longrightarrow> moves R (with_mutex m)"
proof -
  assume m: "moves R m"
  have "R s (snd (with_mutex m s))" for s
    using movesD [OF m] step [OF step [OF trace] trace] by (auto simp: with_mutex_def split: prod.splits) blast
  then show "moves R (with_mutex m)" by (simp add: moves_def)
qed

lemma moves_if: "(c \<Longrightarrow> moves R m) \<Longrightarrow> (\<not> c \<Longrightarrow> moves R n) \<Longrightarrow> moves R (if c then m else n)"
  by simp

lemma moves_option: "moves R m \<Longrightarrow> (\<And>y. x = Some y \<Longrightarrow> moves R (f y)) \<Longrightarrow> moves R (case x of None \<Rightarrow> m | Some y \<Rightarrow> f y)"
  by (cases x) auto

lemma moves_sum: "(\<And>y. moves R (f y)) \<Longrightarrow> (\<And>y. moves R (g y)) \<Longrightarrow> moves R (case x of Inl y \<Rightarrow> f y | Inr y \<Rightarrow> g y)"
  by (cases x) auto

lemma moves_modifyP: "(\<And>s. R s (f s)) \<Longrightarrow> moves R (modifyP f)"
  by (simp add: moves_def)

lemmas moves_intros = moves_bindP moves_pure moves_call moves_with_mutex moves_if moves_option moves_sum

end

section \<open>Table sets stay well-formed\<close>

definition tables_ok :: "('w, 'm, 'd) env \<Rightarrow> PaimonTableSet \<Rightarrow> bool" where
  "tables_ok E ts \<longleftrightarrow> ci_wf E (tset_entries ts) \<and> (\<forall>e \<in> set (tset_entries ts). te_table (snd e) = fst e)"

definition within :: "('w, 'm, 'd) env \<Rightarrow> nat \<Rightarrow> ('w, 'm, 'z) catalog_scheme \<Rightarrow> ('w, 'm, 'z) catalog_scheme \<Rightarrow> bool" where
  "within E p s t \<longleftrightarrow> (ci_laws E \<longrightarrow> tables_ok E (tables_at s p) \<longrightarrow> tables_ok E (tables_at t p)) \<and>
     se_name (cat_heap t p) = se_name (cat_heap s p) \<and> (\<forall>q. q \<noteq> p \<longrightarrow> cat_heap t q = cat_heap s q) \<and>
     cat_schemas t = cat_schemas s \<and> cat_next t = cat_next s"

interpretation wi: state_preorder "within E p :: ('w, 'm, 'z) catalog_scheme \<Rightarrow> _"
  for E :: "('w, 'm, 'd) env" and p
  by unfold_locales (auto simp: within_def tables_at_def)

lemma tables_ok_emplace:
  "ci_laws E \<Longrightarrow> tables_ok E ts \<Longrightarrow> te_table e = n \<Longrightarrow> tables_ok E (ts\<lparr>tset_entries := ci_emplace E n e (tset_entries ts)\<rparr>)"
  using set_ci_emplace [of E n e "tset_entries ts"] ci.wf_emplace [of E "tset_entries ts" n e]
  by (auto simp: tables_ok_def ci_laws_def)

lemma tables_ok_erase: "tables_ok E ts \<Longrightarrow> tables_ok E (ts\<lparr>tset_entries := ci_erase E n (tset_entries ts)\<rparr>)"
  using set_ci_erase [of E n "tset_entries ts"] ci.wf_erase [of E "tset_entries ts" n]
  by (auto simp: tables_ok_def)

lemma moves_set_tables:
  "(\<And>ts. ci_laws E \<Longrightarrow> tables_ok E ts \<Longrightarrow> tables_ok E (f ts)) \<Longrightarrow> moves (within E p) (set_tables p f)"
  by (intro wi.moves_modifyP) (simp add: within_def tables_at_def)

lemma moves_BuildEntry: "moves (within E p) (BuildEntry E p n)"
proof -
  have set: "moves (within E p) (bindP (liftP (table_entry_of n arrow)) (\<lambda>entry.
      bindP (set_tables p (\<lambda>ts. ts\<lparr>tset_entries := ci_emplace E n entry (tset_entries ts)\<rparr>)) (\<lambda>_.
      getP (\<lambda>s. ci_find E n (tset_entries (tables_at s p))))))" for arrow
  proof (cases "table_entry_of n arrow")
    case (Inr e)
    then have "te_table e = n" by (auto simp: table_entry_of_def split: if_splits)
    then show ?thesis
      using Inr by (auto simp: moves_def within_def tables_at_def tables_ok_emplace)
  qed (simp add: moves_def within_def)
  show ?thesis
    unfolding BuildEntry_def by (intro wi.moves_intros set)
qed

lemma moves_tables:
  "moves (within E p) (build_all E p ns)" "moves (within E p) (TableSet_LoadEntries E p)" "moves (within E p) (TableSet_Scan E p)"
  "moves (within E p) (TableSet_CreateEntry E p info)" "moves (within E p) (RefreshEntry E p n)"
  "moves (within E p) (TableSet_DropEntry E p n)"
proof -
  show b: "moves (within E p) (build_all E p ns)" for ns
    by (induction ns) (simp_all only: build_all.simps wi.moves_pure wi.moves_bindP moves_BuildEntry)
  show l: "moves (within E p) (TableSet_LoadEntries E p)"
    unfolding TableSet_LoadEntries_def by (intro wi.moves_intros b moves_set_tables) (simp add: tables_ok_def)
  show "moves (within E p) (TableSet_Scan E p)"
    unfolding TableSet_Scan_def by (intro wi.moves_intros l)
  show "moves (within E p) (TableSet_CreateEntry E p info)"
    unfolding TableSet_CreateEntry_def by (intro wi.moves_intros moves_set_tables tables_ok_emplace) simp_all
  show "moves (within E p) (RefreshEntry E p n)"
    unfolding RefreshEntry_def by (intro wi.moves_intros moves_set_tables moves_BuildEntry tables_ok_erase)
  show "moves (within E p) (TableSet_DropEntry E p n)"
    unfolding TableSet_DropEntry_def by (intro moves_set_tables tables_ok_erase)
qed

lemma moves_schema_entry:
  "moves (within E p) (SchemaEntry_Scan E p ty)" "moves (within E p) (SchemaEntry_LookupEntry E p ty n)"
  "moves (within E p) (SchemaEntry_CreateTable E p base)" "moves (within E p) (SchemaEntry_DropEntry E p info)"
  unfolding SchemaEntry_Scan_def SchemaEntry_LookupEntry_def SchemaEntry_CreateTable_def SchemaEntry_DropEntry_def
    TableSet_GetEntry_def status_or_throw_def Let_def
  by (intro wi.moves_intros moves_BuildEntry moves_tables)+

section \<open>The whole catalog\<close>

definition catalog_ok :: "('w, 'm, 'd) env \<Rightarrow> ('w, 'm, 'z) catalog_scheme \<Rightarrow> bool" where
  "catalog_ok E s \<longleftrightarrow> ci_wf E (sset_entries (cat_schemas s)) \<and> distinct (map snd (sset_entries (cat_schemas s))) \<and>
     (\<forall>e \<in> set (sset_entries (cat_schemas s)). snd e < cat_next s \<and> se_name (cat_heap s (snd e)) = fst e) \<and>
     (\<forall>p < cat_next s. tables_ok E (tables_at s p))"

definition grows :: "('w, 'm, 'd) env \<Rightarrow> ('w, 'm, 'z) catalog_scheme \<Rightarrow> ('w, 'm, 'z) catalog_scheme \<Rightarrow> bool" where
  "grows E s t \<longleftrightarrow> (ci_laws E \<longrightarrow> catalog_ok E s \<longrightarrow> catalog_ok E t) \<and> cat_next s \<le> cat_next t"

interpretation gr: state_preorder "grows E :: ('w, 'm, 'z) catalog_scheme \<Rightarrow> _" for E :: "('w, 'm, 'd) env"
  by unfold_locales (auto simp: grows_def catalog_ok_def tables_at_def)

lemma within_grows:
  assumes "within E p s t" "p < cat_next s"
  shows "grows E s t"
proof -
  have "se_name (cat_heap t q) = se_name (cat_heap s q)" for q
    using assms(1) by (cases "q = p") (auto simp: within_def)
  moreover have "tables_ok E (tables_at t q)" if "ci_laws E" "\<forall>p < cat_next s. tables_ok E (tables_at s p)" "q < cat_next s" for q
    using assms that by (cases "q = p") (auto simp: within_def tables_at_def)
  ultimately show ?thesis
    using assms by (auto simp: grows_def catalog_ok_def within_def)
qed

lemma moves_emplace_schema:
  fixes E :: "('w, 'm, 'd) env"
  shows "moves (grows E :: ('w, 'm, 'z) catalog_scheme \<Rightarrow> _) (emplace_schema E n)"
proof -
  have "grows E s (snd (emplace_schema E n s))" for s :: "('w, 'm, 'z) catalog_scheme"
  proof (cases "ci_find E n (sset_entries (cat_schemas s))")
    case None
    then have "ci_emplace E n (cat_next s) (sset_entries (cat_schemas s)) = sset_entries (cat_schemas s) @ [(n, cat_next s)]"
      by (simp add: ci_emplace_def)
    moreover have "ci_laws E \<Longrightarrow> ci_wf E (sset_entries (cat_schemas s)) \<Longrightarrow> ci_wf E (ci_emplace E n (cat_next s) (sset_entries (cat_schemas s)))"
      by (simp add: ci_laws_def ci.wf_emplace)
    ultimately show ?thesis
      by (auto simp: grows_def catalog_ok_def emplace_schema_def tables_at_def new_schema_entry_def tables_ok_def ci_wf_def
          less_Suc_eq nat_neq_iff)
  next
    case (Some q)
    then show ?thesis
      by (auto simp: grows_def catalog_ok_def emplace_schema_def tables_at_def new_schema_entry_def tables_ok_def ci_wf_def
          ci_emplace_def less_Suc_eq nat_neq_iff)
  qed
  then show ?thesis by (simp add: moves_def)
qed

lemma moves_schema_set:
  "moves (grows E) (emplace_schemas E ns)" "moves (grows E) (SchemaSet_LoadEntries E)" "moves (grows E) (SchemaSet_Scan E)"
  "moves (grows E) (SchemaSet_GetEntry E n)" "moves (grows E) (SchemaSet_CreateEntry E n)" "moves (grows E) (SchemaSet_DropEntry E n)"
proof -
  show e: "moves (grows E) (emplace_schemas E ns)" for ns
    by (induction ns) (simp_all only: emplace_schemas.simps gr.moves_pure gr.moves_bindP moves_emplace_schema)
  show l: "moves (grows E) (SchemaSet_LoadEntries E)"
    unfolding SchemaSet_LoadEntries_def
    by (intro gr.moves_intros gr.moves_modifyP e) (auto simp: grows_def catalog_ok_def tables_at_def)
  show "moves (grows E) (SchemaSet_Scan E)" "moves (grows E) (SchemaSet_GetEntry E n)"
    unfolding SchemaSet_Scan_def SchemaSet_GetEntry_def by (intro gr.moves_intros l)+
  show "moves (grows E) (SchemaSet_CreateEntry E n)"
    unfolding SchemaSet_CreateEntry_def by (intro gr.moves_intros moves_emplace_schema)
  have erase: "set (ci_erase E n es) \<subseteq> set es" "ci_wf E es \<Longrightarrow> ci_wf E (ci_erase E n es)"
    "distinct (map snd es) \<Longrightarrow> distinct (map snd (ci_erase E n es))" for es :: "(string \<times> nat) list"
    using ci.wf_erase by (auto simp: ci_erase_def distinct_map_filter)
  show "moves (grows E) (SchemaSet_DropEntry E n)"
    unfolding SchemaSet_DropEntry_def using erase(1)
    by (intro gr.moves_modifyP) (auto simp: grows_def catalog_ok_def tables_at_def erase(2,3))
qed

datatype catalog_op = CatLookupSchema string OnEntryNotFound | CatScanSchemas | CatCreateSchema string OnCreateConflict
  | CatDropSchema DropInfo | CatScan nat CatalogType | CatLookup nat CatalogType string | CatCreateTable nat CreateTableInfo
  | CatDrop nat DropInfo

definition run_catalog :: "('w, 'm, 'd) env \<Rightarrow> catalog_op \<Rightarrow> ('w, 'm, 'z, unit) catP" where
  "run_catalog E op = (case op of
     CatLookupSchema n f \<Rightarrow> voidP (LookupSchema E n f) | CatScanSchemas \<Rightarrow> voidP (SchemaSet_Scan E)
   | CatCreateSchema n c \<Rightarrow> voidP (CreateSchema E n c) | CatDropSchema info \<Rightarrow> DropSchema E info
   | CatScan p ty \<Rightarrow> voidP (SchemaEntry_Scan E p ty) | CatLookup p ty n \<Rightarrow> voidP (SchemaEntry_LookupEntry E p ty n)
   | CatCreateTable p info \<Rightarrow> voidP (SchemaEntry_CreateTable E p info) | CatDrop p info \<Rightarrow> SchemaEntry_DropEntry E p info)"

text \<open>The schema entry an operation is a method of.\<close>

definition op_schema :: "catalog_op \<Rightarrow> nat option" where
  "op_schema op = (case op of CatScan p ty \<Rightarrow> Some p | CatLookup p ty n \<Rightarrow> Some p | CatCreateTable p info \<Rightarrow> Some p
     | CatDrop p info \<Rightarrow> Some p | _ \<Rightarrow> None)"

lemma moves_run_catalog:
  "op_schema op = Some p \<Longrightarrow> moves (within E p) (run_catalog E op)"
  "op_schema op = None \<Longrightarrow> moves (grows E) (run_catalog E op)"
proof -
  show "op_schema op = Some p \<Longrightarrow> moves (within E p) (run_catalog E op)"
    by (cases op) (auto simp: op_schema_def run_catalog_def voidP_def intro!: wi.moves_bindP wi.moves_pure moves_schema_entry)
  have "moves (grows E) (LookupSchema E n f)" "moves (grows E) (CreateSchema E n c)" "moves (grows E) (DropSchema E info)" for n f c info
    unfolding LookupSchema_def CreateSchema_def DropSchema_def status_or_throw_def
    by (intro gr.moves_intros moves_schema_set)+
  then show "op_schema op = None \<Longrightarrow> moves (grows E) (run_catalog E op)"
    by (cases op) (auto simp: op_schema_def run_catalog_def voidP_def intro!: gr.moves_bindP gr.moves_pure moves_schema_set)
qed

inductive catalog_reach :: "('w, 'm, 'd) env \<Rightarrow> ('w, 'm, 'z) catalog_scheme \<Rightarrow> catalog_op list \<Rightarrow>
    ('w, 'm, 'z) catalog_scheme \<Rightarrow> bool" for E s0 where
  cat_start: "catalog_reach E s0 [] s0"
| cat_step: "catalog_reach E s0 ops s \<Longrightarrow> (\<forall>p. op_schema op = Some p \<longrightarrow> p < cat_next s) \<Longrightarrow> run_catalog E op s = (r, t) \<Longrightarrow>
    catalog_reach E s0 (ops @ [op]) t"

lemma grows_step:
  assumes "\<forall>p. op_schema op = Some p \<longrightarrow> p < cat_next s" "run_catalog E op s = (r, t)"
  shows "grows E s t"
  using assms movesD [OF moves_run_catalog(1) assms(2)] movesD [OF moves_run_catalog(2) assms(2)] within_grows
  by (cases "op_schema op") auto

lemma catalog_reach_grows: "catalog_reach E s0 ops s \<Longrightarrow> grows E s0 s"
  by (induction rule: catalog_reach.induct) (auto intro: gr.same gr.step grows_step)

end
