(* ===== verification/Catalog_Props.thy ===== *)
theory Catalog_Props
  imports Catalog_Correct
begin

text \<open>
  The table set of a schema as an implementation of a map from names, equal up to case, to entries: the
  abstract specification, the refinement, and the invariant of the whole catalog.
\<close>

section \<open>The abstract cache\<close>

type_synonym cache = "string \<Rightarrow> PaimonTableEntry option"

definition cached :: "('w, 'm, 'd) env \<Rightarrow> ('w, 'm, 'z) catalog_scheme \<Rightarrow> nat \<Rightarrow> cache" where
  "cached E s p = (\<lambda>k. ci_find E k (tset_entries (tables_at s p)))"

definition put_name :: "('w, 'm, 'd) env \<Rightarrow> string \<Rightarrow> PaimonTableEntry \<Rightarrow> cache \<Rightarrow> cache" where
  "put_name E n e a = (\<lambda>k. if su_ci_equals (StringUtil E) n k then Some e else a k)"

definition del_name :: "('w, 'm, 'd) env \<Rightarrow> string \<Rightarrow> cache \<Rightarrow> cache" where
  "del_name E n a = (\<lambda>k. if su_ci_equals (StringUtil E) n k then None else a k)"

datatype table_op = TLookup string | TScan | TCreate CreateTableInfo | TDrop DropInfo

definition run_table :: "('w, 'm, 'd) env \<Rightarrow> nat \<Rightarrow> table_op \<Rightarrow> ('w, 'm, 'z, PaimonTableEntry list) catP" where
  "run_table E p op = (case op of
     TLookup n \<Rightarrow> bindP (SchemaEntry_LookupEntry E p TABLE_ENTRY n) (\<lambda>e. retP (case e of None \<Rightarrow> [] | Some e \<Rightarrow> [e]))
   | TScan \<Rightarrow> SchemaEntry_Scan E p TABLE_ENTRY
   | TCreate info \<Rightarrow> bindP (SchemaEntry_CreateTable E p info) (\<lambda>e. retP (case e of None \<Rightarrow> [] | Some e \<Rightarrow> [e]))
   | TDrop info \<Rightarrow> bindP (SchemaEntry_DropEntry E p info) (\<lambda>_. retP []))"

text \<open>
  What the cache promises, for each operation, its result and the cache before and after:
  a lookup answers from the cache when it can and otherwise remembers what it loads; a created table is
  remembered as it was read back; a dropped one is forgotten under every spelling; a failed operation
  changes nothing, except that a create may have forgotten the name; a scan only adds.
\<close>

fun cache_spec :: "('w, 'm, 'd) env \<Rightarrow> table_op \<Rightarrow> cache \<Rightarrow> PaimonTableEntry list res \<Rightarrow> cache \<Rightarrow> bool" where
  "cache_spec E (TLookup n) a r a' = (case a n of
     Some e \<Rightarrow> r = Inr [e] \<and> a' = a
   | None \<Rightarrow> (\<exists>e. r = Inr [e] \<and> te_table e = n \<and> a' = put_name E n e a) \<or> ((\<exists>x. r = Inl x) \<or> r = Inr []) \<and> a' = a)"
| "cache_spec E (TCreate info) a r a' = (case r of
     Inl x \<Rightarrow> a' = a \<or> a' = del_name E (ci_table info) a
   | Inr es \<Rightarrow> (\<exists>e. es = [e] \<and> te_table e = ci_table info \<and> a' = put_name E (ci_table info) e a) \<or>
        es = [] \<and> a' = del_name E (ci_table info) a)"
| "cache_spec E (TDrop info) a r a' = (case r of
     Inl x \<Rightarrow> a' = a | Inr es \<Rightarrow> es = [] \<and> a' = del_name E (di_name info) a)"
| "cache_spec E TScan a r a' = (a \<subseteq>\<^sub>m a' \<and> (\<forall>es. r = Inr es \<longrightarrow> set es = ran a'))"

section \<open>The operations on the abstract cache\<close>

lemma put_name_present:
  assumes "ci_laws E" "cached E s p n = Some e"
  shows "put_name E n e (cached E s p) = cached E s p"
proof
  fix k
  show "put_name E n e (cached E s p) k = cached E s p k"
    using assms ci.lookup_cong [of E n k "tset_entries (tables_at s p)"] by (simp add: put_name_def cached_def ci_laws_def)
qed

lemma BuildEntry_present:
  "cached E s p n = Some e \<Longrightarrow> BuildEntry E p n s = (Inr (Some e), s)"
  by (simp add: BuildEntry_def cached_def tables_at_def)

lemma cached_emplace:
  assumes "ci_laws E" "cached E s p n = None"
  shows "cached E (snd (set_tables p (\<lambda>ts. ts\<lparr>tset_entries := ci_emplace E n e (tset_entries ts)\<rparr>) s)) p = put_name E n e (cached E s p)"
  using assms ci.lookup_emplace_absent [of E n "tset_entries (tables_at s p)" e]
  by (auto simp: cached_def put_name_def tables_at_def ci_laws_def)

lemma cached_erase:
  assumes "ci_laws E"
  shows "cached E (snd (set_tables p (\<lambda>ts. ts\<lparr>tset_entries := ci_erase E n (tset_entries ts)\<rparr>) s)) p = del_name E n (cached E s p)"
  using assms by (simp add: cached_def del_name_def tables_at_def ci_laws_def ci.lookup_erase)

lemma cached_world [simp]:
  "cached E (s\<lparr>sys_world := w\<rparr>) p = cached E s p" "cached E (s\<lparr>sys_trace := tr\<rparr>) p = cached E s p"
  by (simp_all add: cached_def tables_at_def)

lemma cached_put_same: "ci_laws E \<Longrightarrow> put_name E n e a n = Some e"
  by (simp add: put_name_def ci_laws_def equivp_reflp)

lemma bindP_liftP_case: "bindP (liftP q) f s = (case q of Inl e \<Rightarrow> (Inl e, s) | Inr x \<Rightarrow> f x s)"
  by (simp add: bindP_def split: sum.splits)

lemma bindP_call_case:
  "bindP (call ev g) f s = (case g (sys_world s) of (r, w) \<Rightarrow> f r (s\<lparr>sys_world := w, sys_trace := ev # sys_trace s\<rparr>))"
  by (simp add: bindP_def call_def split: prod.splits)

lemma BuildEntry_absent:
  fixes E :: "('w, 'm, 'd) env" and s :: "('w, 'm, 'z) catalog_scheme"
  assumes laws: "ci_laws E" and none: "cached E s p n = None" and run: "BuildEntry E p n s = (r, t)"
  shows "(\<exists>e. r = Inr (Some e) \<and> te_table e = n \<and> cached E t p = put_name E n e (cached E s p)) \<or>
    ((\<exists>x. r = Inl x) \<or> r = Inr None) \<and> cached E t p = cached E s p"
proof -
  have put: "(\<exists>e. r = Inr (Some e) \<and> te_table e = n \<and> cached E t p = put_name E n e (cached E s p)) \<or>
    (\<exists>x. r = Inl x) \<and> cached E t p = cached E s p"
    if "bindP (liftP (table_entry_of n arrow)) (\<lambda>entry.
      bindP (set_tables p (\<lambda>ts. ts\<lparr>tset_entries := ci_emplace E n entry (tset_entries ts)\<rparr>)) (\<lambda>_.
      getP (\<lambda>s. ci_find E n (tset_entries (tables_at s p))))) u = (r, t)" and u: "cached E u p = cached E s p"
    for arrow and u :: "('w, 'm, 'z) catalog_scheme"
  proof (cases "table_entry_of n arrow")
    case (Inr e)
    have e: "te_table e = n" using Inr by (auto simp: table_entry_of_def split: if_splits)
    have "r = Inr (cached E t p n)" "t = snd (set_tables p (\<lambda>ts. ts\<lparr>tset_entries := ci_emplace E n e (tset_entries ts)\<rparr>) u)"
      using that(1) Inr by (auto simp: cached_def)
    then show ?thesis
      using e cached_emplace [OF laws, of u p n e] none u cached_put_same [OF laws] by simp
  qed (use that in auto)
  have c: "ci_find E n (tset_entries (se_tables (cat_heap s p))) = None"
    using none by (simp add: cached_def tables_at_def)
  obtain res w where load: "LoadTableSchema E \<lparr>id_database = se_name (cat_heap s p), id_table = n\<rparr> (sys_world s) = (res, w)"
    by fastforce
  let ?u = "s\<lparr>sys_world := w, sys_trace := EvRead ''LoadTableSchema'' # sys_trace s\<rparr>"
  consider (bad) "((\<exists>x. r = Inl x) \<or> r = Inr None) \<and> t = ?u" | (go) arrow where "bindP (liftP (table_entry_of n arrow)) (\<lambda>entry.
      bindP (set_tables p (\<lambda>ts. ts\<lparr>tset_entries := ci_emplace E n entry (tset_entries ts)\<rparr>)) (\<lambda>_.
      getP (\<lambda>s. ci_find E n (tset_entries (tables_at s p))))) ?u = (r, t)"
    using run by (auto simp: BuildEntry_def c call_def load value_or_io_def bindP_liftP_case split: sum.splits option.splits if_splits)
  then show ?thesis
    using put [of _ ?u] by cases auto
qed

lemma BuildEntry_cases:
  assumes "ci_laws E" "BuildEntry E p n s = (r, t)"
  shows "case r of
     Inr (Some e) \<Rightarrow> cached E t p = put_name E n e (cached E s p) \<and> (cached E s p n = None \<longrightarrow> te_table e = n) \<and>
       (cached E s p n \<noteq> None \<longrightarrow> cached E s p n = Some e)
   | _ \<Rightarrow> cached E t p = cached E s p \<and> cached E s p n = None"
proof (cases "cached E s p n")
  case None
  then show ?thesis
    using BuildEntry_absent [OF assms(1) None assms(2)] by (auto split: sum.splits option.splits)
next
  case (Some e)
  then show ?thesis
    using assms BuildEntry_present [OF Some] put_name_present [OF assms(1) Some] by auto
qed

definition extends :: "('w, 'm, 'd) env \<Rightarrow> nat \<Rightarrow> ('w, 'm, 'z) catalog_scheme \<Rightarrow> ('w, 'm, 'z) catalog_scheme \<Rightarrow> bool" where
  "extends E p s t \<longleftrightarrow> (ci_laws E \<longrightarrow> cached E s p \<subseteq>\<^sub>m cached E t p)"

interpretation ex: state_preorder "extends E p :: ('w, 'm, 'z) catalog_scheme \<Rightarrow> _" for E :: "('w, 'm, 'd) env" and p
  by unfold_locales (auto simp: extends_def intro: map_le_trans)

lemma put_name_extends: "ci_laws E \<Longrightarrow> cached E s p n = None \<Longrightarrow> cached E s p \<subseteq>\<^sub>m put_name E n e (cached E s p)"
  using ci.lookup_cong [of E n _ "tset_entries (tables_at s p)"]
  by (auto simp: map_le_def put_name_def cached_def ci_laws_def)

lemma moves_extends:
  fixes E :: "('w, 'm, 'd) env"
  shows "moves (extends E p :: ('w, 'm, 'z) catalog_scheme \<Rightarrow> _) (BuildEntry E p n)"
    "moves (extends E p :: ('w, 'm, 'z) catalog_scheme \<Rightarrow> _) (build_all E p ns)"
    "moves (extends E p :: ('w, 'm, 'z) catalog_scheme \<Rightarrow> _) (TableSet_LoadEntries E p)"
proof -
  show b: "moves (extends E p :: ('w, 'm, 'z) catalog_scheme \<Rightarrow> _) (BuildEntry E p n)" for n
    unfolding moves_def extends_def
  proof (intro allI impI)
    fix s :: "('w, 'm, 'z) catalog_scheme"
    assume l: "ci_laws E"
    obtain r t where run: "BuildEntry E p n s = (r, t)" by fastforce
    show "cached E s p \<subseteq>\<^sub>m cached E (snd (BuildEntry E p n s)) p"
      using BuildEntry_cases [OF l run] put_name_present [OF l, of s p n] put_name_extends [OF l, of s p n] run
      by (cases "cached E s p n") (auto split: sum.splits option.splits)
  qed
  show bs: "moves (extends E p :: ('w, 'm, 'z) catalog_scheme \<Rightarrow> _) (build_all E p ns)" for ns
    by (induction ns) (simp_all only: build_all.simps ex.moves_pure ex.moves_bindP b)
  have "moves (extends E p :: ('w, 'm, 'z) catalog_scheme \<Rightarrow> _) (set_tables p (\<lambda>ts. ts\<lparr>tset_inited := True\<rparr>))"
    by (intro ex.moves_modifyP) (simp add: extends_def cached_def tables_at_def)
  then show "moves (extends E p :: ('w, 'm, 'z) catalog_scheme \<Rightarrow> _) (TableSet_LoadEntries E p)"
    unfolding TableSet_LoadEntries_def by (intro ex.moves_intros bs)
qed

lemma RefreshEntry_cases:
  assumes "ci_laws E" "RefreshEntry E p n s = (r, t)"
  shows "case r of
     Inr (Some e) \<Rightarrow> cached E t p = put_name E n e (cached E s p) \<and> te_table e = n
   | _ \<Rightarrow> cached E t p = del_name E n (cached E s p)"
proof -
  define u where "u = snd (set_tables p (\<lambda>ts. ts\<lparr>tset_entries := ci_erase E n (tset_entries ts)\<rparr>) s)"
  have run: "BuildEntry E p n u = (r, t)" using assms(2) by (simp add: RefreshEntry_def u_def)
  have u: "cached E u p = del_name E n (cached E s p)" unfolding u_def by (rule cached_erase [OF assms(1)])
  have "cached E u p n = None" using assms(1) by (simp add: u del_name_def ci_laws_def equivp_reflp)
  moreover have "put_name E n e (del_name E n a) = put_name E n e a" for e a
    by (auto simp: put_name_def del_name_def)
  ultimately show ?thesis
    using BuildEntry_cases [OF assms(1) run] u by (auto split: sum.splits option.splits)
qed

lemma lookup_spec:
  assumes "ci_laws E" "run_table E p (TLookup n) s = (r, t)"
  shows "cache_spec E (TLookup n) (cached E s p) r (cached E t p)"
proof -
  obtain q where q: "BuildEntry E p n s = (q, t)" "r = map_sum id (case_option [] (\<lambda>e. [e])) q"
    using assms(2) by (auto simp: run_table_def SchemaEntry_LookupEntry_def CatalogTypeIsSupported_def TableSet_GetEntry_def
        bindP_def split: prod.splits sum.splits)
  show ?thesis
    using BuildEntry_cases [OF assms(1) q(1)] q(2) put_name_present [OF assms(1), of s p n]
    by (cases "cached E s p n") (auto split: sum.splits option.splits)
qed

text \<open>The shape of both mutations: an API call under the mutex, then a change of the cache.\<close>

lemma mutation_cases:
  assumes "bindP (call ev g) (\<lambda>status. bindP (status_or_throw status) (\<lambda>_. k)) s = (q, t)"
  shows "(\<exists>x. q = Inl x \<and> cached E t p = cached E s p) \<or> (\<exists>u. k u = (q, t) \<and> cached E u p = cached E s p)"
proof -
  obtain st w where g: "g (sys_world s) = (st, w)" by fastforce
  let ?u = "s\<lparr>sys_world := w, sys_trace := ev # sys_trace s\<rparr>"
  have u: "cached E ?u p = cached E s p" by simp
  have "bindP (status_or_throw st) (\<lambda>_. k) ?u = (q, t)" using assms by (simp add: bindP_call_case g)
  then have "(\<exists>x. q = Inl x) \<and> t = ?u \<or> k ?u = (q, t)"
    by (cases st) (auto simp: status_or_throw_def split: if_splits)
  then show ?thesis using u by blast
qed

lemma create_spec:
  fixes E :: "('w, 'm, 'd) env" and s :: "('w, 'm, 'z) catalog_scheme"
  assumes "ci_laws E" "run_table E p (TCreate info) s = (r, t)"
  shows "cache_spec E (TCreate info) (cached E s p) r (cached E t p)"
proof -
  obtain q where q: "SchemaEntry_CreateTable E p info s = (q, t)" "r = map_sum id (case_option [] (\<lambda>e. [e])) q"
    using assms(2) by (auto simp: run_table_def bindP_def split: prod.splits sum.splits)
  have "(\<exists>x. q = Inl x \<and> cached E t p = cached E s p) \<or>
    (\<exists>(u :: ('w, 'm, 'z) catalog_scheme) v. RefreshEntry E p (ci_table info) u = (q, v) \<and> cached E u p = cached E s p \<and> cached E t p = cached E v p)"
  proof (cases "ci_on_conflict info = REPLACE_ON_CONFLICT")
    case False
    then obtain u where u: "t = u\<lparr>sys_trace := EvUnlock # sys_trace u\<rparr>" and m:
      "bindP (liftP (create_table_request E info)) (\<lambda>request.
        bindP (call (EvCreateTable \<lparr>id_database = se_name (cat_heap s p), id_table = ci_table info\<rparr> request)
          (CatalogCreateTable E \<lparr>id_database = se_name (cat_heap s p), id_table = ci_table info\<rparr> request)) (\<lambda>status.
        bindP (status_or_throw status) (\<lambda>_. RefreshEntry E p (ci_table info))))
        (s\<lparr>sys_trace := EvLock # sys_trace s\<rparr>) = (q, u)"
      using q(1) by (auto simp: SchemaEntry_CreateTable_def Let_def dest!: with_mutex_run)
    show ?thesis
    proof (cases "create_table_request E info")
      case (Inr req)
      have t: "cached E t p = cached E u p" by (simp add: u)
      show ?thesis
        using mutation_cases [OF m [unfolded Inr bindP_liftP(1)], of E p] unfolding t cached_world by blast
    qed (use m u in auto)
  qed (use q(1) in \<open>auto simp: SchemaEntry_CreateTable_def\<close>)
  then show ?thesis
  proof (elim disjE exE conjE)
    fix u v
    assume "RefreshEntry E p (ci_table info) u = (q, v)" "cached E u p = cached E s p" "cached E t p = cached E v p"
    from RefreshEntry_cases [OF assms(1) this(1)] this(2,3) show ?thesis
      using q(2) by (auto split: sum.splits option.splits)
  qed (use q(2) in simp)
qed

lemma DropEntry_cases:
  assumes "ci_laws E" "TableSet_DropEntry E p n s = (q, t)"
  shows "q = Inr ()" "cached E t p = del_name E n (cached E s p)"
  using assms(2) cached_erase [OF assms(1), of p n s] by (auto simp: TableSet_DropEntry_def)

lemma drop_spec:
  fixes E :: "('w, 'm, 'd) env" and s :: "('w, 'm, 'z) catalog_scheme"
  assumes "ci_laws E" "run_table E p (TDrop info) s = (r, t)"
  shows "cache_spec E (TDrop info) (cached E s p) r (cached E t p)"
proof -
  obtain q where q: "SchemaEntry_DropEntry E p info s = (q, t)" "r = map_sum id (\<lambda>_. []) q"
    using assms(2) by (auto simp: run_table_def bindP_def split: prod.splits sum.splits)
  have "(\<exists>x. q = Inl x \<and> cached E t p = cached E s p) \<or>
    (\<exists>(u :: ('w, 'm, 'z) catalog_scheme) v. TableSet_DropEntry E p (di_name info) u = (q, v) \<and> cached E u p = cached E s p \<and> cached E t p = cached E v p)"
  proof (cases "di_type info = TABLE_ENTRY")
    case True
    then obtain u where u: "t = u\<lparr>sys_trace := EvUnlock # sys_trace u\<rparr>" and m:
      "bindP (call (EvDropTable \<lparr>id_database = se_name (cat_heap s p), id_table = di_name info\<rparr>)
          (CatalogDropTable E \<lparr>id_database = se_name (cat_heap s p), id_table = di_name info\<rparr> (di_if_not_found info = RETURN_NULL)))
        (\<lambda>status. bindP (status_or_throw status) (\<lambda>_. TableSet_DropEntry E p (di_name info)))
        (s\<lparr>sys_trace := EvLock # sys_trace s\<rparr>) = (q, u)"
      using q(1) by (auto simp: SchemaEntry_DropEntry_def Let_def dest!: with_mutex_run)
    have t: "cached E t p = cached E u p" by (simp add: u)
    show ?thesis
      using mutation_cases [OF m, of E p] unfolding t cached_world by blast
  qed (use q(1) in \<open>auto simp: SchemaEntry_DropEntry_def\<close>)
  then show ?thesis
  proof (elim disjE exE conjE)
    fix u v
    assume "TableSet_DropEntry E p (di_name info) u = (q, v)" "cached E u p = cached E s p" "cached E t p = cached E v p"
    with DropEntry_cases [OF assms(1) this(1)] show ?thesis
      using q(2) by simp
  qed (use q(2) in simp)
qed

lemma scan_spec:
  assumes "ci_laws E" "tables_ok E (tables_at s p)" "run_table E p TScan s = (r, t)"
  shows "cache_spec E TScan (cached E s p) r (cached E t p)"
proof -
  obtain q where l: "TableSet_LoadEntries E p s = (q, t)" and r: "r = map_sum id (\<lambda>_. map snd (tset_entries (tables_at t p))) q"
    using assms(3) by (auto simp: run_table_def SchemaEntry_Scan_def CatalogTypeIsSupported_def TableSet_Scan_def bindP_def
        split: prod.splits sum.splits)
  have "tables_ok E (tables_at t p)"
    using movesD [OF moves_tables(2) l] assms(1,2) by (simp add: within_def)
  then have "ran (cached E t p) = snd ` set (tset_entries (tables_at t p))"
    using ran_ci_find [OF _ assms(1)] by (auto simp: cached_def tables_ok_def)
  then show ?thesis
    using movesD [OF moves_extends(3) l] assms(1) r by (cases q) (auto simp: extends_def)
qed

section \<open>Properties\<close>

text \<open>
  C23. The table set of a schema implements a map from table names, equal up to case, to entries: a lookup, a scan,
  a CREATE TABLE and a DROP TABLE, whatever they return, do to the cache exactly what the abstract
  specification allows. A cached name is answered from the cache; a loaded or created table is then found under
  every spelling of its name; a dropped table is found under none; a failed drop or lookup leaves the cache
  alone and a failed create can only forget the name; a scan forgets nothing and returns the whole cache.
  No operation touches the table set of another schema.
\<close>

theorem table_set_refines_cache:
  assumes "ci_laws E" and "tables_ok E (tables_at s p)" and "run_table E p op s = (r, t)"
  shows "cache_spec E op (cached E s p) r (cached E t p) \<and> (\<forall>q. q \<noteq> p \<longrightarrow> tables_at t q = tables_at s q)"
proof
  show "cache_spec E op (cached E s p) r (cached E t p)"
    using assms lookup_spec [of E p] create_spec [of E p] drop_spec [of E p] scan_spec [of E s p]
    by (cases op; simp only:)
  have "moves (within E p) (run_table E p op)"
    by (cases op) (auto simp: run_table_def intro!: wi.moves_bindP wi.moves_pure moves_schema_entry)
  from movesD [OF this assms(3)] show "\<forall>q. q \<noteq> p \<longrightarrow> tables_at t q = tables_at s q"
    by (simp add: within_def tables_at_def)
qed

definition demo_catalog :: "(nat, nat) catalog" where
  "demo_catalog = \<lparr>sys_world = 0, sys_trace = [], cat_path = ''/data'', cat_access_mode = READ_WRITE, cat_attached_options = [],
     cat_schemas = \<lparr>sset_inited = True, sset_entries = [(''db'', 0)]\<rparr>, cat_heap = (\<lambda>_. new_schema_entry ''db''), cat_next = 1\<rparr>"

definition demo_entry :: PaimonTableEntry where
  "demo_entry = \<lparr>te_table = ''t'', te_columns = [(''p'', demo_type), (''v'', demo_type)]\<rparr>"

lemma demo_ci_laws: "ci_laws demo_env"
  by (simp add: ci_laws_def demo_string_util_def identity_equivp)

lemma demo_lookup: "\<exists>t. run_table demo_env 0 (TLookup ''t'') demo_catalog = (Inr [demo_entry], t)"
  by (simp add: run_table_def SchemaEntry_LookupEntry_def CatalogTypeIsSupported_def TableSet_GetEntry_def BuildEntry_def
      demo_catalog_def new_schema_entry_def call_def demo_ok_def demo_schema_def value_or_io_def table_entry_of_def
      tables_at_def ci_find_def ci_emplace_def demo_string_util_def demo_entry_def)

theorem table_set_refines_cache_witness:
  "\<exists>t. run_table demo_env 0 (TLookup ''t'') demo_catalog = (Inr [demo_entry], t) \<and>
    cache_spec demo_env (TLookup ''t'') (cached demo_env demo_catalog 0) (Inr [demo_entry]) (cached demo_env t 0) \<and>
    tables_at t 1 = tables_at demo_catalog 1"
proof -
  obtain t where t: "run_table demo_env 0 (TLookup ''t'') demo_catalog = (Inr [demo_entry], t)"
    using demo_lookup by blast
  have "tables_ok demo_env (tables_at demo_catalog 0)"
    by (simp add: tables_ok_def tables_at_def demo_catalog_def new_schema_entry_def ci_wf_def)
  from table_set_refines_cache [OF demo_ci_laws this t] t show ?thesis by auto
qed

text \<open>
  C24. The catalog stays well-formed: after any sequence of catalog operations from a well-formed catalog, whatever they
  return, no two schemas and no two tables of a schema have names that differ in case only, every schema name
  leads to a live entry of that name and no two names to the same one, and every table entry is kept under its
  own name. Schema entries are never reused.
\<close>

theorem catalog_stays_well_formed:
  assumes "ci_laws E" and "catalog_ok E s0" and "catalog_reach E s0 ops s"
  shows "catalog_ok E s \<and> cat_next s0 \<le> cat_next s"
  using catalog_reach_grows [OF assms(3)] assms(1,2) by (simp add: grows_def)

theorem catalog_stays_well_formed_witness:
  "\<exists>s. catalog_reach demo_env demo_catalog [CatCreateSchema ''new'' ERROR_ON_CONFLICT, CatLookup 1 TABLE_ENTRY ''t''] s \<and>
     catalog_ok demo_env s \<and> cat_next demo_catalog \<le> cat_next s"
proof -
  have ok: "catalog_ok demo_env demo_catalog"
    by (simp add: catalog_ok_def demo_catalog_def tables_ok_def tables_at_def new_schema_entry_def ci_wf_def)
  obtain r s where s: "run_catalog demo_env (CatCreateSchema ''new'' ERROR_ON_CONFLICT) demo_catalog = (r, s)" by fastforce
  obtain q t where t: "run_catalog demo_env (CatLookup 1 TABLE_ENTRY ''t'') s = (q, t)" by fastforce
  have "cat_next s = 2"
    using s by (auto simp: run_catalog_def voidP_def CreateSchema_def with_mutex_def call_def demo_ok_def status_or_throw_def
        SchemaSet_CreateEntry_def emplace_schema_def demo_catalog_def)
  then have "catalog_reach demo_env demo_catalog (([] @ [CatCreateSchema ''new'' ERROR_ON_CONFLICT]) @ [CatLookup 1 TABLE_ENTRY ''t'']) t"
    using s t by (intro cat_step [OF cat_step [OF cat_start]]) (auto simp: op_schema_def)
  then show ?thesis
    using catalog_stays_well_formed [OF demo_ci_laws ok] by fastforce
qed

end
