(* ===== verification/Paimon_Snapshots.thy ===== *)
theory Paimon_Snapshots
  imports Paimon_Scan
begin

text \<open>
  Component \<^verbatim>\<open>src/src/paimon_storage/paimon_snapshots.cpp\<close>: the table function \<open>paimon_snapshots\<close>, one row per
  snapshot of a table. The bind reads the catalog once and keeps the rows; execution hands them out a vector at
  a time; the bound rows travel to another process as one property.

  DuckDB's serialisation of values, its text of a timestamp and Paimon's text of a commit kind are the
  record \<open>snapshots_api\<close>; \<open>'b\<close> is the type of serialised rows.
\<close>

section \<open>Rows\<close>

record 'b snapshots_api =
  CommitKindToString :: "nat \<Rightarrow> string"
  timestamp_text :: "int \<Rightarrow> string"
  WriteRows :: "Value list list \<Rightarrow> 'b"
  ReadRows :: "'b \<Rightarrow> Value list list res"

definition BIGINT :: LogicalType where
  "BIGINT = \<lparr>lt_id = LT_BIGINT, lt_width = 0, lt_scale = 0, lt_internal = PT_INT64\<rparr>"

definition VARCHAR :: LogicalType where
  "VARCHAR = \<lparr>lt_id = LT_VARCHAR, lt_width = 0, lt_scale = 0, lt_internal = PT_OTHER 200\<rparr>"

definition TIMESTAMP :: LogicalType where
  "TIMESTAMP = \<lparr>lt_id = LT_TIMESTAMP, lt_width = 0, lt_scale = 0, lt_internal = PT_INT64\<rparr>"

definition SnapshotTypes :: "LogicalType list" where
  "SnapshotTypes = [BIGINT, BIGINT, VARCHAR, VARCHAR, TIMESTAMP, BIGINT, BIGINT, BIGINT]"

definition snapshot_names :: "string list" where
  "snapshot_names = [''snapshot_id'', ''schema_id'', ''commit_user'', ''commit_kind'', ''commit_time'', ''total_record_count'',
     ''delta_record_count'', ''watermark'']"

text \<open>DuckDB's constructors of values; the fields of other physical types are not read.\<close>

definition Value_null :: "LogicalType \<Rightarrow> Value" where
  "Value_null ty = blank_value\<lparr>val_type := ty, val_null := True, val_to_string := ''NULL''\<rparr>"

definition Value_BIGINT :: "int \<Rightarrow> Value" where
  "Value_BIGINT i = blank_value\<lparr>val_type := BIGINT, val_i64 := i, val_to_string := to_string i\<rparr>"

definition Value_string :: "string \<Rightarrow> Value" where
  "Value_string x = blank_value\<lparr>val_type := VARCHAR, val_get_string := x, val_to_string := x\<rparr>"

definition Value_TIMESTAMP :: "'b snapshots_api \<Rightarrow> int \<Rightarrow> Value" where
  "Value_TIMESTAMP A ts = blank_value\<lparr>val_type := TIMESTAMP, val_timestamp := ts, val_to_string := timestamp_text A ts\<rparr>"

definition optional_count :: "int option \<Rightarrow> Value" where
  "optional_count c = (case c of Some i \<Rightarrow> Value_BIGINT i | None \<Rightarrow> Value_null BIGINT)"

definition snapshot_row :: "'b snapshots_api \<Rightarrow> SnapshotInfo \<Rightarrow> Value list res" where
  "snapshot_row A snapshot = res_bind (i64 (sn_time_millis snapshot * 1000)) (\<lambda>timestamp.
     Inr [Value_BIGINT (sn_snapshot_id snapshot), Value_BIGINT (sn_schema_id snapshot), Value_string (sn_commit_user snapshot),
       Value_string (CommitKindToString A (sn_commit_kind snapshot)), Value_TIMESTAMP A timestamp,
       optional_count (sn_total_record_count snapshot), optional_count (sn_delta_record_count snapshot),
       optional_count (sn_watermark snapshot)])"

fun snapshot_rows :: "'b snapshots_api \<Rightarrow> SnapshotInfo list \<Rightarrow> Value list list res" where
  "snapshot_rows A [] = Inr []"
| "snapshot_rows A (sn # sns) = res_bind (snapshot_row A sn) (\<lambda>row. res_bind (snapshot_rows A sns) (\<lambda>rows. Inr (row # rows)))"

section \<open>Bind data\<close>

record PaimonSnapshotsBindData =
  sb_rows :: "Value list list"

definition Copy :: "PaimonSnapshotsBindData \<Rightarrow> PaimonSnapshotsBindData" where
  "Copy bind = \<lparr>sb_rows = sb_rows bind\<rparr>"

definition Serialize :: "'b snapshots_api \<Rightarrow> PaimonSnapshotsBindData \<Rightarrow> 'b" where
  "Serialize A bind = WriteRows A (sb_rows bind)"

fun check_columns :: "Value list \<Rightarrow> LogicalType list \<Rightarrow> unit res" where
  "check_columns (v # row) (ty # types) =
     (if val_type v \<noteq> ty then Inl (SerializationException ''Paimon snapshot row has an invalid column type'')
      else check_columns row types)"
| "check_columns _ _ = Inr ()"

fun check_rows :: "Value list list \<Rightarrow> unit res" where
  "check_rows [] = Inr ()"
| "check_rows (row # rows) =
     (if length row \<noteq> length SnapshotTypes then Inl (SerializationException ''Paimon snapshot row has an invalid column count'')
      else res_bind (check_columns row SnapshotTypes) (\<lambda>_. check_rows rows))"

definition Deserialize :: "'b snapshots_api \<Rightarrow> 'b \<Rightarrow> PaimonSnapshotsBindData res" where
  "Deserialize A bytes = res_bind (ReadRows A bytes) (\<lambda>rows. res_bind (check_rows rows) (\<lambda>_. Inr \<lparr>sb_rows = rows\<rparr>))"

definition PaimonSnapshotsBind :: "('w, 'm, 'd) env \<Rightarrow> ('w, 'p, 's) scan_api \<Rightarrow> 'b snapshots_api \<Rightarrow> Value list \<Rightarrow> (string \<times> Value) list \<Rightarrow>
    ('w, 'm, 'z, PaimonSnapshotsBindData \<times> LogicalType list \<times> string list) sysP" where
  "PaimonSnapshotsBind E S A inputs options =
     bindP (liftP (Parse (EndsWith S) (DB_SUFFIX S) inputs)) (\<lambda>path.
     bindP (CreatePaimonCatalog E S (warehouse path) options) (\<lambda>_.
     bindP (call_io (EvRead ''ListSnapshots'') (ListSnapshots E \<lparr>id_database = dbname path, id_table = tablename path\<rparr>)) (\<lambda>snapshots.
     bindP (liftP (snapshot_rows A snapshots)) (\<lambda>rows.
     retP (\<lparr>sb_rows = rows\<rparr>, SnapshotTypes, snapshot_names)))))"

section \<open>Execution\<close>

text \<open>\<open>PaimonSnapshotsGlobalState::current_row\<close> is a number; it never passes \<open>rows.size()\<close>.\<close>

definition PaimonSnapshotsInitGlobal :: nat where
  "PaimonSnapshotsInitGlobal = 0"

function execute_loop :: "nat \<Rightarrow> Value list list \<Rightarrow> nat \<Rightarrow> Value list list \<Rightarrow> Value list list \<times> nat" where
  "execute_loop vector_size rows current_row output =
     (if current_row < length rows \<and> length output < vector_size
      then execute_loop vector_size rows (current_row + 1) (output @ [rows ! current_row])
      else (output, current_row))"
  by auto
termination
  by (relation "measure (\<lambda>(v, rows, current_row, output). length rows - current_row)") auto

definition PaimonSnapshotsExecute :: "('w, 'p, 's) scan_api \<Rightarrow> PaimonSnapshotsBindData \<Rightarrow> nat \<Rightarrow> Value list list \<times> nat" where
  "PaimonSnapshotsExecute S bind current_row = execute_loop (STANDARD_VECTOR_SIZE S) (sb_rows bind) current_row []"

section \<open>The rows of a page\<close>

declare execute_loop.simps [simp del]

lemma execute_loop_eq:
  "execute_loop v rows k out = (out @ take (v - length out) (drop k rows), min (max k (length rows)) (k + (v - length out)))"
proof (induction v rows k out rule: execute_loop.induct)
  case (1 v rows k out)
  show ?case
  proof (cases "k < length rows \<and> length out < v")
    case True
    then have "take (v - length out) (drop k rows) = rows ! k # take (v - Suc (length out)) (drop (Suc k) rows)"
      by (metis Cons_nth_drop_Suc Suc_diff_Suc take_Suc_Cons)
    then show ?thesis
      using 1 True by (subst execute_loop.simps) auto
  qed (subst execute_loop.simps, auto)
qed

text \<open>DuckDB calls the function until it returns an empty chunk.\<close>

fun snapshot_pages :: "nat \<Rightarrow> ('w, 'p, 's) scan_api \<Rightarrow> PaimonSnapshotsBindData \<Rightarrow> nat \<Rightarrow> Value list list list option" where
  "snapshot_pages 0 S bind current_row = None"
| "snapshot_pages (Suc fuel) S bind current_row =
     (let (page, next) = PaimonSnapshotsExecute S bind current_row
      in if page = [] then Some [] else map_option (Cons page) (snapshot_pages fuel S bind next))"

lemma snapshot_pages_from:
  assumes "0 < STANDARD_VECTOR_SIZE S" "k \<le> length (sb_rows bind)" "length (sb_rows bind) - k < fuel"
  shows "\<exists>pages. snapshot_pages fuel S bind k = Some pages \<and> concat pages = drop k (sb_rows bind) \<and>
    (\<forall>page \<in> set pages. page \<noteq> [] \<and> length page \<le> STANDARD_VECTOR_SIZE S) \<and>
    (\<forall>page \<in> set (butlast pages). length page = STANDARD_VECTOR_SIZE S)"
  using assms
proof (induction fuel arbitrary: k)
  case (Suc fuel)
  let ?v = "STANDARD_VECTOR_SIZE S" and ?rows = "sb_rows bind"
  have page: "PaimonSnapshotsExecute S bind k = (take ?v (drop k ?rows), min (length ?rows) (k + ?v))"
    using Suc.prems by (simp add: PaimonSnapshotsExecute_def execute_loop_eq)
  show ?case
  proof (cases "k = length ?rows")
    case False
    let ?next = "min (length ?rows) (k + ?v)"
    have "length ?rows - ?next < fuel"
      using Suc.prems False by (simp add: min_def) arith
    then obtain pages where p: "snapshot_pages fuel S bind ?next = Some pages" "concat pages = drop ?next ?rows"
      "\<forall>page \<in> set pages. page \<noteq> [] \<and> length page \<le> ?v" "\<forall>page \<in> set (butlast pages). length page = ?v"
      using Suc.IH [of ?next] Suc.prems by auto
    have "pages \<noteq> [] \<Longrightarrow> length ?rows - k > ?v"
      using p(2,3) by (cases pages) (auto simp: min_def split: if_splits)
    moreover have "take ?v (drop k ?rows) @ drop ?next ?rows = drop k ?rows"
      by (auto simp: min_def) (metis append_take_drop_id drop_drop add.commute)
    ultimately show ?thesis
      using p page Suc.prems False by auto
  qed (use page in simp)
qed simp

end
