(* ===== verification/Snapshots_Props.thy ===== *)
theory Snapshots_Props
  imports Paimon_Snapshots Dist_Scan_Props
begin

text \<open>The properties of the table function \<open>paimon_snapshots\<close>.\<close>

section \<open>Rows\<close>

definition row_of :: "'b snapshots_api \<Rightarrow> SnapshotInfo \<Rightarrow> Value list \<Rightarrow> bool" where
  "row_of A sn row \<longleftrightarrow> map val_type row = SnapshotTypes \<and> val_i64 (row ! 0) = sn_snapshot_id sn \<and> val_i64 (row ! 1) = sn_schema_id sn \<and>
     val_get_string (row ! 2) = sn_commit_user sn \<and> val_get_string (row ! 3) = CommitKindToString A (sn_commit_kind sn) \<and>
     val_timestamp (row ! 4) = sn_time_millis sn * 1000 \<and>
     list_all2 (\<lambda>v c. val_null v = (c = None) \<and> (c \<noteq> None \<longrightarrow> Some (val_i64 v) = c)) (drop 5 row)
       [sn_total_record_count sn, sn_delta_record_count sn, sn_watermark sn]"

lemma optional_count_props:
  "val_type (optional_count c) = BIGINT" "val_null (optional_count c) = (c = None)" "c = Some i \<Longrightarrow> val_i64 (optional_count c) = i"
  by (simp_all add: optional_count_def Value_BIGINT_def Value_null_def blank_value_def split: option.split)

lemma snapshot_row_ok: "snapshot_row A sn = Inr row \<Longrightarrow> row_of A sn row"
  by (auto simp: snapshot_row_def row_of_def res_bind_Inr i64_Inr SnapshotTypes_def optional_count_props Value_BIGINT_def
      Value_string_def Value_TIMESTAMP_def nth_Cons numeral_eq_Suc blank_value_def split: nat.split)

lemma snapshot_rows_ok: "snapshot_rows A sns = Inr rows \<Longrightarrow> list_all2 (row_of A) sns rows"
  by (induction sns arbitrary: rows) (auto simp: res_bind_Inr snapshot_row_ok)

lemma check_columns_Inr: "length row = length types \<Longrightarrow> check_columns row types = Inr () \<longleftrightarrow> map val_type row = types"
  by (induction row types rule: check_columns.induct) auto

lemma check_rows_Inr: "check_rows rows = Inr () \<longleftrightarrow> (\<forall>row \<in> set rows. map val_type row = SnapshotTypes)"
proof (induction rows)
  case (Cons row rows)
  then show ?case
    using check_columns_Inr [of row SnapshotTypes] by (auto simp: res_bind_Inr dest: arg_cong [of _ SnapshotTypes length])
qed simp

lemma Deserialize_typed: "Deserialize A bytes = Inr bind \<Longrightarrow> \<forall>row \<in> set (sb_rows bind). map val_type row = SnapshotTypes"
  using check_rows_Inr by (auto simp: Deserialize_def res_bind_Inr)

section \<open>Properties\<close>

text \<open>
  C30. The rows of \<open>paimon_snapshots\<close> have the types it declares and the contents of the catalog's snapshots, one row per
  snapshot in their order, the commit time in microseconds and NULL for an absent count; a bind that arrives in
  another process is accepted and has the same rows, and no bind with rows of other types is accepted.
\<close>

theorem snapshots_bind_typed:
  assumes "PaimonSnapshotsBind E S A inputs options s = (Inr (bind, types, names), t)"
    and "\<And>rows. ReadRows A (WriteRows A rows) = Inr rows"
  shows "\<exists>ident w w' snapshots. ListSnapshots E ident w = (Inr snapshots, w') \<and> list_all2 (row_of A) snapshots (sb_rows bind) \<and>
    types = SnapshotTypes \<and> length names = length types \<and> Deserialize A (Serialize A bind) = Inr bind \<and>
    (\<forall>bytes received. Deserialize A bytes = Inr received \<longrightarrow> (\<forall>row \<in> set (sb_rows received). map val_type row = types))"
proof -
  obtain ident w w' snapshots where l: "ListSnapshots E ident w = (Inr snapshots, w')"
    and rows: "snapshot_rows A snapshots = Inr (sb_rows bind)" and ret: "types = SnapshotTypes" "names = snapshot_names"
    using assms(1) by (auto simp: PaimonSnapshotsBind_def call_io_def call_def value_or_io_def elim!: bindPE split: prod.splits sum.splits)
  have all: "list_all2 (row_of A) snapshots (sb_rows bind)"
    by (rule snapshot_rows_ok [OF rows])
  moreover have "check_rows (sb_rows bind) = Inr ()"
    using all by (auto simp: check_rows_Inr row_of_def list_all2_conv_all_nth in_set_conv_nth)
  then have "Deserialize A (Serialize A bind) = Inr bind"
    by (simp add: Deserialize_def Serialize_def assms(2))
  moreover have "length snapshot_names = length SnapshotTypes"
    by (simp add: snapshot_names_def SnapshotTypes_def)
  ultimately show ?thesis
    using l unfolding ret
    by (intro exI [of _ ident] exI [of _ w] exI [of _ w'] exI [of _ snapshots]) (simp, metis Deserialize_typed)
qed

definition demo_snapshots_api :: "Value list list snapshots_api" where
  "demo_snapshots_api = \<lparr>CommitKindToString = (\<lambda>_. ''APPEND''), timestamp_text = to_string, WriteRows = id, ReadRows = Inr\<rparr>"

definition demo_inputs :: "Value list" where
  "demo_inputs = [Value_string ''/data'', Value_string ''db'', Value_string ''t'']"

definition demo_snapshots :: PaimonSnapshotsBindData where
  "demo_snapshots = \<lparr>sb_rows = [[Value_BIGINT 7, Value_BIGINT 0, Value_string ''u'', Value_string ''APPEND'',
     Value_TIMESTAMP demo_snapshots_api 1500000, Value_BIGINT 3, Value_null BIGINT, Value_null BIGINT]]\<rparr>"

lemma demo_snapshots_bind:
  "\<exists>t. PaimonSnapshotsBind demo_env tiny_scan_api demo_snapshots_api demo_inputs [] \<lparr>sys_world = 0, sys_trace = []\<rparr> =
     (Inr (demo_snapshots, SnapshotTypes, snapshot_names), t)"
  by (simp add: PaimonSnapshotsBind_def Parse_def demo_inputs_def CreatePaimonCatalog_def GetPaimonOptions_def metastore_options_def
      format_option_def secret_options_def snapshot_options_def demo_ctx_def demo_keys_def call_io_def call_def value_or_io_def
      tiny_scan_api_def demo_ok_def snapshot_row_def i64_def demo_snapshots_def optional_count_def demo_snapshots_api_def)

theorem snapshots_bind_typed_witness:
  "\<exists>ident w w' snapshots. ListSnapshots demo_env ident w = (Inr snapshots, w') \<and>
    list_all2 (row_of demo_snapshots_api) snapshots (sb_rows demo_snapshots) \<and>
    Deserialize demo_snapshots_api (Serialize demo_snapshots_api demo_snapshots) = Inr demo_snapshots"
proof -
  obtain t where run: "PaimonSnapshotsBind demo_env tiny_scan_api demo_snapshots_api demo_inputs [] \<lparr>sys_world = 0, sys_trace = []\<rparr> =
     (Inr (demo_snapshots, SnapshotTypes, snapshot_names), t)"
    using demo_snapshots_bind by blast
  have "ReadRows demo_snapshots_api (WriteRows demo_snapshots_api rows) = Inr rows" for rows
    by (simp add: demo_snapshots_api_def)
  from snapshots_bind_typed [OF run this] show ?thesis by blast
qed

text \<open>
  C29. The function ends and returns every row once: DuckDB, calling it until it returns an empty chunk, makes at most one call
  more than there are rows and gets pages that put together are the bound rows in order; no page is longer than a
  vector and all but the last are full.
\<close>

theorem snapshots_pages_complete:
  assumes "0 < STANDARD_VECTOR_SIZE S"
  shows "\<exists>pages. snapshot_pages (length (sb_rows bind) + 1) S bind PaimonSnapshotsInitGlobal = Some pages \<and>
    concat pages = sb_rows bind \<and> (\<forall>page \<in> set pages. page \<noteq> [] \<and> length page \<le> STANDARD_VECTOR_SIZE S) \<and>
    (\<forall>page \<in> set (butlast pages). length page = STANDARD_VECTOR_SIZE S)"
  using snapshot_pages_from [OF assms, of PaimonSnapshotsInitGlobal bind "length (sb_rows bind) + 1"]
  by (simp add: PaimonSnapshotsInitGlobal_def)

theorem snapshots_pages_complete_witness:
  "\<exists>pages. snapshot_pages (length (sb_rows demo_snapshots) + 1) tiny_scan_api demo_snapshots PaimonSnapshotsInitGlobal = Some pages \<and>
    concat pages = sb_rows demo_snapshots \<and> length (concat pages) = 1"
proof -
  have "0 < STANDARD_VECTOR_SIZE tiny_scan_api" by (simp add: tiny_scan_api_def)
  moreover have "length (sb_rows demo_snapshots) = 1" by (simp add: demo_snapshots_def)
  ultimately show ?thesis
    using snapshots_pages_complete [of tiny_scan_api demo_snapshots] by metis
qed

end
