(* ===== verification/Paimon_Table_Entry.thy ===== *)
theory Paimon_Table_Entry
  imports Paimon_Snapshots Paimon_Catalog
begin

text \<open>
  The remaining entry points of the catalog (under \<^verbatim>\<open>src/src/\<close>): the table entry
  (\<^verbatim>\<open>paimon_storage/paimon_table_entry.cpp\<close>), whose \<open>GetScanFunction\<close> turns a table of an attached catalog into a bound
  \<open>paimon_scan\<close>, with time travel; the transaction manager (\<^verbatim>\<open>paimon_storage/paimon_transaction_manager.cpp\<close>); and the
  construction of secrets (\<^verbatim>\<open>paimon_extension.cpp\<close>).

  DuckDB's \<open>StringUtil::Upper\<close>, its casts and the lookup of the registered function are the record
  \<open>table_api\<close>.
\<close>

section \<open>Table entries\<close>

record AtClause =
  at_unit :: string
  at_value :: Value

record table_api =
  StringUtil_Upper :: "string \<Rightarrow> string"
  CastAs :: "Value \<Rightarrow> LogicalType \<Rightarrow> Value res"
  paimon_scan_registered :: bool

definition GetStatistics :: "nat \<Rightarrow> unit res" where
  "GetStatistics column_id = Inl (NotImplementedException ''GetStatistics not supported yet'')"

text \<open>\<open>param_map[key] = value\<close> on a case-insensitive map.\<close>

definition ci_put :: "('w, 'm, 'd) env \<Rightarrow> string \<Rightarrow> 'a \<Rightarrow> (string \<times> 'a) list \<Rightarrow> (string \<times> 'a) list" where
  "ci_put E k v m = (case ci_find E k m of
     None \<Rightarrow> m @ [(k, v)]
   | Some _ \<Rightarrow> map (\<lambda>e. if su_ci_equals (StringUtil E) (fst e) k then (fst e, v) else e) m)"

definition at_parameters :: "('w, 'm, 'd) env \<Rightarrow> table_api \<Rightarrow> AtClause option \<Rightarrow> (string \<times> Value) list \<Rightarrow>
    (string \<times> Value) list res" where
  "at_parameters E A at_clause param_map = (case at_clause of
     None \<Rightarrow> Inr param_map
   | Some at \<Rightarrow>
       (let unit = StringUtil_Upper A (at_unit at)
        in if unit = ''VERSION''
           then res_bind (CastAs A (at_value at) BIGINT) (\<lambda>v. Inr (ci_put E ''snapshot_from_id'' v param_map))
           else if unit = ''TIMESTAMP''
           then res_bind (CastAs A (at_value at) TIMESTAMP) (\<lambda>v. Inr (ci_put E ''snapshot_from_timestamp'' v param_map))
           else Inl (InvalidInputException ''Unsupported AT unit'')))"

definition GetScanFunction :: "('w, 'm, 'd) env \<Rightarrow> ('w, 'p, 's) scan_api \<Rightarrow> table_api \<Rightarrow> nat \<Rightarrow> string \<Rightarrow> AtClause option \<Rightarrow>
    ('w, 'm, 'z, ('p, 's) PaimonScanBindData) catP" where
  "GetScanFunction E S A schema name at_clause =
     bindP (checkP (\<not> paimon_scan_registered A) (InvalidInputException ''Function paimon_scan not found'')) (\<lambda>_.
     bindP (getP (\<lambda>s. [Value_string (cat_path s), Value_string (se_name (cat_heap s schema)), Value_string name])) (\<lambda>inputs.
     bindP (getP (\<lambda>s. fold (\<lambda>(k, v). ci_put E k v) (cat_attached_options s) [])) (\<lambda>param_map.
     bindP (liftP (at_parameters E A at_clause param_map)) (\<lambda>param_map.
     bindP (PaimonScanBind E S inputs param_map) (\<lambda>(bind_data, types, names).
     retP bind_data)))))"

definition GetVirtualColumns :: "(nat \<times> string) list" where
  "GetVirtualColumns = []"

definition GetRowIdColumns :: "nat list" where
  "GetRowIdColumns = []"

definition GetLogicalWriteTargetIdentity :: "('w, 'm, 'd) env \<Rightarrow> nat \<Rightarrow> string \<Rightarrow> ('w, 'm, 'z, string) catP" where
  "GetLogicalWriteTargetIdentity E schema name =
     bindP (getP (\<lambda>s. \<lparr>id_database = se_name (cat_heap s schema), id_table = name\<rparr>)) (\<lambda>identifier.
     bindP (call_io (EvRead ''GetTable'') (GetTable E identifier)) (\<lambda>table.
     case table of
       None \<Rightarrow> throwP (IOException ''no stable table identity'')
     | Some table_uuid \<Rightarrow>
         if table_uuid = [] then throwP (IOException ''empty table UUID'') else retP table_uuid))"

definition GetLogicalWriteTargetDefinition :: "('w, 'm, 'd) env \<Rightarrow> nat \<Rightarrow> string \<Rightarrow> ('w, 'm, 'z, string) catP" where
  "GetLogicalWriteTargetDefinition E schema name =
     bindP (getP (\<lambda>s. \<lparr>id_database = se_name (cat_heap s schema), id_table = name\<rparr>)) (\<lambda>identifier.
     bindP (call_io (EvRead ''LoadTableSchema'') (LoadTableSchema E identifier)) (\<lambda>table_schema.
     case table_schema of
       None \<Rightarrow> throwP (IOException ''no write target definition'')
     | Some ts \<Rightarrow>
         bindP (value_or_io (ts_GetJsonSchema ts)) (\<lambda>schema_json.
         if schema_json = [] then throwP (IOException ''empty write target definition'')
         else retP (''paimon-write-definition:v1:'' @ MD5Hex E schema_json))))"

section \<open>Transactions\<close>

text \<open>
  The manager owns its live transactions, keyed by address. The address of a new one is the allocator's
  choice, an argument here.
\<close>

record PaimonTransactionManager =
  tm_transactions :: "nat set"

definition StartTransaction :: "nat \<Rightarrow> PaimonTransactionManager \<Rightarrow> nat \<times> PaimonTransactionManager" where
  "StartTransaction result tm = (result, tm\<lparr>tm_transactions := insert result (tm_transactions tm)\<rparr>)"

definition CommitTransaction :: "nat \<Rightarrow> PaimonTransactionManager \<Rightarrow> error option \<times> PaimonTransactionManager" where
  "CommitTransaction transaction tm = (None, tm\<lparr>tm_transactions := tm_transactions tm - {transaction}\<rparr>)"

definition RollbackTransaction :: "nat \<Rightarrow> PaimonTransactionManager \<Rightarrow> PaimonTransactionManager" where
  "RollbackTransaction transaction tm = tm\<lparr>tm_transactions := tm_transactions tm - {transaction}\<rparr>"

definition Checkpoint :: "bool \<Rightarrow> PaimonTransactionManager \<Rightarrow> PaimonTransactionManager" where
  "Checkpoint force tm = tm"

section \<open>Secrets\<close>

text \<open>\<open>CreateSecretInput\<close> has the options the user wrote; \<open>TrySetValue\<close> copies one of them if it is there.\<close>

record CreateSecretInput =
  csi_scope :: "string list"
  csi_provider :: string
  csi_options :: "string \<Rightarrow> Value option"

definition secret_keys :: "string list" where
  "secret_keys = [''endpoint'', ''key_id'', ''secret'', ''session_token'', ''region'', ''profile'', ''path_style_access'']"

definition redact_keys :: "string list" where
  "redact_keys = [''key_id'', ''secret'', ''session_token'']"

definition CreatePaimonSecretFromConfig :: "CreateSecretInput \<Rightarrow> string list \<times> KeyValueSecret \<times> string list" where
  "CreatePaimonSecretFromConfig input =
     (if csi_scope input = [] then [[]] else csi_scope input,
      \<lparr>sec_provider = csi_provider input, sec_try_get = (\<lambda>k. if k \<in> set secret_keys then csi_options input k else None)\<rparr>,
      redact_keys)"

end
