(* ===== verification/Entry_Props.thy ===== *)
theory Entry_Props
  imports Paimon_Table_Entry Dist_Scan_Props
begin

text \<open>
  What a scan of an attached table is bound with: the option map that \<open>GetPaimonOptions\<close> builds, and the
  snapshot an AT clause selects.
\<close>

section \<open>The stages of the option map\<close>

definition plain_key :: "string \<Rightarrow> bool" where
  "plain_key k \<longleftrightarrow> \<not> prefix ''s3.'' k \<and> \<not> prefix ''fs.oss.'' k"

definition option_key_list :: "option_keys \<Rightarrow> string list" where
  "option_key_list ks = [key_METASTORE ks, key_URI ks, key_TOKEN_PROVIDER ks, key_TOKEN ks, key_MANIFEST_FORMAT ks,
     key_FILE_FORMAT ks, key_FILE_SYSTEM ks, key_READ_BATCH_SIZE ks, key_SCAN_SNAPSHOT_ID ks, key_SCAN_TIMESTAMP_MILLIS ks]"

text \<open>Paimon's option names are different, and none is the name of a credential.\<close>

definition option_key_laws :: "option_keys \<Rightarrow> bool" where
  "option_key_laws ks \<longleftrightarrow> distinct (option_key_list ks) \<and> list_all plain_key (option_key_list ks)"

lemma metastore_options_keys:
  assumes "metastore_options su ks opts = Inr m" "k \<notin> {key_METASTORE ks, key_URI ks, key_TOKEN_PROVIDER ks, key_TOKEN ks}"
  shows "map_of m k = None"
proof (cases "TryGetPaimonOptionValue su opts ''metastore''")
  case (Some v)
  then show ?thesis
    using assms by (cases "TryGetPaimonOptionValue su opts ''token''") (auto simp: metastore_options_def Let_def simp del: map_put.simps split: if_split_asm)
qed (use assms in \<open>simp add: metastore_options_def\<close>)

lemma format_option_keys:
  assumes "format_option su opts name supported key m = Inr m'"
  shows "k \<noteq> key \<Longrightarrow> map_of m' k = map_of m k" and "map_of m key = None \<Longrightarrow> map_of m' key = Some f \<Longrightarrow> f \<in> set supported"
  using assms
  by (auto simp: format_option_def GetValidatedFormatOption_def Let_def res_bind_Inr split: option.splits if_splits)

lemma AddOptional_keys: "k \<noteq> option_key \<Longrightarrow> map_of (AddOptionalSecretOption secret sk option_key m) k = map_of m k"
  by (simp add: AddOptionalSecretOption_def split: option.split)

lemma AddRequired_keys:
  "AddRequiredSecretOption secret sk option_key m = Inr m' \<Longrightarrow> k \<noteq> option_key \<Longrightarrow> map_of m' k = map_of m k"
  by (auto simp: AddRequiredSecretOption_def split: option.splits if_splits)

lemma AddOptionals_keys:
  "k \<notin> snd ` set ps \<Longrightarrow> map_of (fold (\<lambda>(sk, key). AddOptionalSecretOption secret sk key) ps m) k = map_of m k"
  by (induction ps arbitrary: m) (auto simp: AddOptional_keys split: prod.splits)

lemma secret_options_keys:
  assumes "secret_options su ctx path m = Inr m'" "plain_key k"
  shows "map_of m' k = map_of m k"
proof -
  have oss: "k \<noteq> ''fs.oss.bucket.'' @ x" "k \<noteq> ''fs.oss.user''" for x
    using assms(2) by (auto simp: plain_key_def)
  have s3: "k \<notin> {''s3.access-key'', ''s3.secret-key'', ''s3.endpoint'', ''s3.session.token'', ''s3.profile'', ''s3.region'',
      ''s3.path-style-access''}"
    using assms(2) by (auto simp: plain_key_def)
  consider "m' = m"
    | kv where "m' = fold (\<lambda>(sk, key). AddOptionalSecretOption kv sk key)
              [(''key_id'', ''s3.access-key''), (''secret'', ''s3.secret-key''), (''endpoint'', ''s3.endpoint''),
               (''session_token'', ''s3.session.token''), (''profile'', ''s3.profile''), (''region'', ''s3.region''),
               (''path_style_access'', ''s3.path-style-access'')] m"
    | kv x y m1 m2 b where "AddRequiredSecretOption kv x (''fs.oss.bucket.'' @ b @ ''.accessKeyId'') (map_put ''fs.oss.user'' ''paimon'' m) = Inr m1"
      "AddRequiredSecretOption kv y (''fs.oss.bucket.'' @ b @ ''.accessKeySecret'') m1 = Inr m2"
      "AddRequiredSecretOption kv ''endpoint'' (''fs.oss.bucket.'' @ b @ ''.endpoint'') m2 = Inr m'"
    using assms(1) by (auto simp: secret_options_def Let_def res_bind_Inr split: option.splits if_splits)
  then show ?thesis
  proof cases
    case 2
    show ?thesis unfolding 2 by (rule AddOptionals_keys) (use s3 in simp)
  next
    case 3
    have "k \<noteq> ''fs.oss.bucket.'' @ b @ z" for z using oss(1) by blast
    then show ?thesis
      using AddRequired_keys [OF 3(3), of k] AddRequired_keys [OF 3(2), of k] AddRequired_keys [OF 3(1), of k] oss(2) by simp
  qed simp
qed

lemma snapshot_options_keys:
  assumes "snapshot_options su ks ctx opts m = Inr m'"
  defines "i \<equiv> TryGetPaimonOptionValue su opts ''snapshot_from_id''"
    and "ts \<equiv> TryGetPaimonOptionValue su opts ''snapshot_from_timestamp''"
  shows "i = None \<or> ts = None" "k \<notin> {key_SCAN_SNAPSHOT_ID ks, key_SCAN_TIMESTAMP_MILLIS ks} \<Longrightarrow> map_of m' k = map_of m k"
    "i = Some x \<Longrightarrow> map_of m' (key_SCAN_SNAPSHOT_ID ks) = Some x"
    "ts = Some y \<Longrightarrow> \<exists>ms. ctx_epoch_ms ctx y = Inr ms \<and> map_of m' (key_SCAN_TIMESTAMP_MILLIS ks) = Some (to_string ms)"
    "i = None \<Longrightarrow> ts = None \<Longrightarrow> m' = m"
    "i = None \<Longrightarrow> key_SCAN_SNAPSHOT_ID ks \<noteq> key_SCAN_TIMESTAMP_MILLIS ks \<Longrightarrow> map_of m' (key_SCAN_SNAPSHOT_ID ks) = map_of m (key_SCAN_SNAPSHOT_ID ks)"
    "ts = None \<Longrightarrow> key_SCAN_SNAPSHOT_ID ks \<noteq> key_SCAN_TIMESTAMP_MILLIS ks \<Longrightarrow> map_of m' (key_SCAN_TIMESTAMP_MILLIS ks) = map_of m (key_SCAN_TIMESTAMP_MILLIS ks)"
  using assms(1) unfolding i_def ts_def
  by (auto simp: snapshot_options_def Let_def res_bind_Inr split: option.splits if_splits)

lemma GetPaimonOptions_stages:
  assumes "GetPaimonOptions su ks ctx path opts = Inr m"
  obtains m1 m2 m3 m4 where "metastore_options su ks opts = Inr m1"
    "format_option su opts ''manifest_format'' supported_manifest_formats (key_MANIFEST_FORMAT ks) m1 = Inr m2"
    "format_option su opts ''file_format'' supported_file_formats (key_FILE_FORMAT ks) m2 = Inr m3"
    "secret_options su ctx path (map_put (key_FILE_SYSTEM ks) (file_system_option su path) m3) = Inr m4"
    "snapshot_options su ks ctx opts (map_emplace (key_READ_BATCH_SIZE ks) (to_string (ctx_vector_size ctx)) m4) = Inr m"
  using assms by (auto simp: GetPaimonOptions_def res_bind_Inr)

lemma snapshot_options_exclusive:
  assumes "snapshot_options su ks ctx opts m = Inr m'" "key_SCAN_SNAPSHOT_ID ks \<noteq> key_SCAN_TIMESTAMP_MILLIS ks"
    "map_of m (key_SCAN_SNAPSHOT_ID ks) = None" "map_of m (key_SCAN_TIMESTAMP_MILLIS ks) = None"
  shows "map_of m' (key_SCAN_SNAPSHOT_ID ks) = None \<or> map_of m' (key_SCAN_TIMESTAMP_MILLIS ks) = None"
  using snapshot_options_keys(1,6,7) [OF assms(1)] assms(2-4) by metis

text \<open>
  C28. The option map of a catalog or scan is complete and valid: it names the file system of the path and reads batches of
  one vector; a manifest or file format in it is a supported one, whatever the user wrote; it selects a snapshot by
  identifier or by time, never both; and credentials change none of it.
\<close>

theorem GetPaimonOptions_valid:
  assumes "GetPaimonOptions su ks ctx path opts = Inr m" and "option_key_laws ks"
  shows "map_of m (key_FILE_SYSTEM ks) = Some (file_system_option su path) \<and>
    map_of m (key_READ_BATCH_SIZE ks) = Some (to_string (ctx_vector_size ctx)) \<and>
    (\<forall>f. map_of m (key_MANIFEST_FORMAT ks) = Some f \<longrightarrow> f \<in> set supported_manifest_formats) \<and>
    (\<forall>f. map_of m (key_FILE_FORMAT ks) = Some f \<longrightarrow> f \<in> set supported_file_formats) \<and>
    (map_of m (key_SCAN_SNAPSHOT_ID ks) = None \<or> map_of m (key_SCAN_TIMESTAMP_MILLIS ks) = None)"
proof -
  obtain m1 m2 m3 m4 where m1: "metastore_options su ks opts = Inr m1"
    and m2: "format_option su opts ''manifest_format'' supported_manifest_formats (key_MANIFEST_FORMAT ks) m1 = Inr m2"
    and m3: "format_option su opts ''file_format'' supported_file_formats (key_FILE_FORMAT ks) m2 = Inr m3"
    and m4: "secret_options su ctx path (map_put (key_FILE_SYSTEM ks) (file_system_option su path) m3) = Inr m4"
    and m5: "snapshot_options su ks ctx opts (map_emplace (key_READ_BATCH_SIZE ks) (to_string (ctx_vector_size ctx)) m4) = Inr m"
    using assms(1) by (rule GetPaimonOptions_stages)
  have "distinct (option_key_list ks)" "distinct (rev (option_key_list ks))" "list_all plain_key (option_key_list ks)"
    using assms(2) by (simp_all add: option_key_laws_def)
  note keys = this [unfolded option_key_list_def, simplified]
  note stages = metastore_options_keys [OF m1] format_option_keys(1) [OF m2] format_option_keys(1) [OF m3] secret_options_keys [OF m4]
    snapshot_options_keys(2) [OF m5]
  have "map_of m4 (key_READ_BATCH_SIZE ks) = None"
    using keys by (simp add: stages)
  then have "map_of m (key_READ_BATCH_SIZE ks) = Some (to_string (ctx_vector_size ctx))"
    using keys by (auto simp: stages)
  moreover have "map_of m (key_FILE_SYSTEM ks) = Some (file_system_option su path)"
    using keys by (simp add: stages)
  moreover have "map_of m (key_MANIFEST_FORMAT ks) = map_of m2 (key_MANIFEST_FORMAT ks)" "map_of m1 (key_MANIFEST_FORMAT ks) = None"
    using keys by (simp_all add: stages)
  then have "f \<in> set supported_manifest_formats" if "map_of m (key_MANIFEST_FORMAT ks) = Some f" for f
    using format_option_keys(2) [OF m2] that by simp
  moreover have "map_of m (key_FILE_FORMAT ks) = map_of m3 (key_FILE_FORMAT ks)" "map_of m2 (key_FILE_FORMAT ks) = None"
    using keys by (simp_all add: stages)
  then have "f \<in> set supported_file_formats" if "map_of m (key_FILE_FORMAT ks) = Some f" for f
    using format_option_keys(2) [OF m3] that by simp
  moreover have "map_of m (key_SCAN_SNAPSHOT_ID ks) = None \<or> map_of m (key_SCAN_TIMESTAMP_MILLIS ks) = None"
    using keys by (intro snapshot_options_exclusive [OF m5]) (simp_all add: stages)
  ultimately show ?thesis by blast
qed

definition demo_oss_ctx :: client_ctx where
  "demo_oss_ctx = demo_ctx\<lparr>ctx_secret := (\<lambda>_. Some \<lparr>sec_provider = ''config'', sec_try_get = (\<lambda>k. Some (Value_string k))\<rparr>)\<rparr>"

definition demo_oss_options :: options where
  "demo_oss_options = (case GetPaimonOptions demo_string_util demo_keys demo_oss_ctx ''oss://b/w'' [(''file_format'', Value_string ''orc'')] of
     Inr m \<Rightarrow> m | Inl e \<Rightarrow> [])"

lemma demo_key_laws: "option_key_laws demo_keys"
  by (simp add: option_key_laws_def option_key_list_def demo_keys_def plain_key_def)

theorem GetPaimonOptions_valid_witness:
  "map_of demo_oss_options ''fs'' = Some ''jindo'' \<and> map_of demo_oss_options ''batch'' = Some (to_string 8) \<and>
    map_of demo_oss_options ''file.format'' = Some ''orc'' \<and> ''orc'' \<in> set supported_file_formats"
proof -
  have run: "GetPaimonOptions demo_string_util demo_keys demo_oss_ctx ''oss://b/w'' [(''file_format'', Value_string ''orc'')] = Inr demo_oss_options"
    and orc: "map_of demo_oss_options ''file.format'' = Some ''orc''"
    by (simp_all add: demo_oss_options_def GetPaimonOptions_def metastore_options_def demo_string_util_def format_option_def
        GetValidatedFormatOption_def Value_string_def supported_file_formats_def secret_options_def demo_oss_ctx_def is_oss_path_def
        is_s3_path_def oss_bucket_def AddRequiredSecretOption_def snapshot_options_def Let_def blank_value_def demo_keys_def)
  have "file_system_option demo_string_util ''oss://b/w'' = ''jindo''" "ctx_vector_size demo_oss_ctx = 8"
    by (simp_all add: file_system_option_def is_oss_path_def demo_string_util_def demo_oss_ctx_def demo_ctx_def)
  then show ?thesis
    using GetPaimonOptions_valid [OF run demo_key_laws] orc by (simp add: demo_keys_def)
qed

section \<open>Time travel\<close>

lemma TryGet_ci_find: "TryGetPaimonOptionValue (StringUtil E) m k = map_option val_to_string (ci_find E k m)"
  by (induction m) (auto simp: ci_find_def)

lemma ci_find_put:
  assumes "ci_laws E"
  shows "ci_find E k (ci_put E k' v m) = (if su_ci_equals (StringUtil E) k' k then Some v else ci_find E k m)"
proof -
  let ?eq = "su_ci_equals (StringUtil E)"
  have eqs: "?eq a a" "?eq a b \<Longrightarrow> ?eq b a" "?eq a b \<Longrightarrow> ?eq b c \<Longrightarrow> ?eq a c" for a b c
    using assms unfolding ci_laws_def by (auto simp: equivp_reflp dest: equivp_symp intro: equivp_transp)
  have iff: "?eq k' k \<Longrightarrow> ?eq a k \<longleftrightarrow> ?eq a k'" "\<not> ?eq k' k \<Longrightarrow> ?eq a k \<Longrightarrow> \<not> ?eq a k'" for a
    using eqs by blast+
  have upd: "map_option snd (find (\<lambda>e. ?eq (fst e) k) (map (\<lambda>e. if ?eq (fst e) k' then (fst e, v) else e) m)) =
      (if ?eq k' k then map_option (\<lambda>_. v) (find (\<lambda>e. ?eq (fst e) k') m) else map_option snd (find (\<lambda>e. ?eq (fst e) k) m))"
  proof (induction m)
    case (Cons e m)
    then show ?case using iff by (cases "?eq k' k") auto
  qed simp
  show ?thesis
  proof (cases "find (\<lambda>e. ?eq (fst e) k') m")
    case None
    then have put: "ci_put E k' v m = m @ [(k', v)]" by (simp add: ci_put_def ci_find_def)
    show ?thesis
    proof (cases "?eq k' k")
      case True
      then have "find (\<lambda>e. ?eq (fst e) k) m = None" using None iff(1) by (simp add: find_None_iff)
      then show ?thesis using True by (simp add: put ci_find_def find_append)
    next
      case False
      then show ?thesis by (simp add: put ci_find_def find_append split: option.split)
    qed
  next
    case (Some e)
    then have "ci_put E k' v m = map (\<lambda>e. if ?eq (fst e) k' then (fst e, v) else e) m" by (simp add: ci_put_def ci_find_def)
    then show ?thesis
      using upd Some by (simp add: ci_find_def)
  qed
qed

lemma ci_find_put_all:
  assumes "ci_laws E"
  shows "ci_find E k (fold (\<lambda>(k, v). ci_put E k v) xs m) = None \<longleftrightarrow> ci_find E k xs = None \<and> ci_find E k m = None"
proof (induction xs arbitrary: m)
  case (Cons x xs)
  have "ci_find E k (x # xs) = None \<longleftrightarrow> \<not> su_ci_equals (StringUtil E) (fst x) k \<and> ci_find E k xs = None"
    by (simp add: ci_find_def)
  then show ?case
    using Cons by (auto simp: ci_find_put [OF assms] case_prod_beta')
qed (simp add: ci_find_def)

text \<open>\<open>returns P m\<close>: what \<open>m\<close> returns satisfies \<open>P\<close>.\<close>

definition returns :: "('a \<Rightarrow> bool) \<Rightarrow> ('s, 'a) proc \<Rightarrow> bool" where
  "returns P m \<longleftrightarrow> (\<forall>s x t. m s = (Inr x, t) \<longrightarrow> P x)"

lemma returnsD: "returns P m \<Longrightarrow> m s = (Inr x, t) \<Longrightarrow> P x"
  by (auto simp: returns_def)

lemma returns_bindP: "returns Q m \<Longrightarrow> (\<And>x. Q x \<Longrightarrow> returns P (f x)) \<Longrightarrow> returns P (bindP m f)"
  unfolding returns_def by (metis bindPE)

lemma returns_liftP: "(\<And>x. r = Inr x \<Longrightarrow> returns P (f x)) \<Longrightarrow> returns P (bindP (liftP r) f)"
  by (cases r) (simp_all, simp add: returns_def)

lemma returns_intros:
  "(\<And>x. returns P (f x)) \<Longrightarrow> returns P (bindP m f)" "P x \<Longrightarrow> returns P (retP x)" "returns P (throwP e)"
  "returns P m1 \<Longrightarrow> (\<And>y. returns P (g y)) \<Longrightarrow> returns P (case q of None \<Rightarrow> m1 | Some y \<Rightarrow> g y)"
proof -
  show "(\<And>x. returns P (f x)) \<Longrightarrow> returns P (bindP m f)"
    by (rule returns_bindP [of "\<lambda>_. True"]) (simp_all add: returns_def)
qed (auto simp: returns_def split: option.splits)

lemma PaimonScanBind_options:
  "returns (\<lambda>(bind, types, names). \<exists>path. GetPaimonOptions (StringUtil E) (OptionKeys E) (Context E) path opts = Inr (bd_paimon_options bind))
    (PaimonScanBind E S inputs opts)"
proof -
  have init: "returns (\<lambda>b. bd_paimon_options b = bd_paimon_options bind) (InitializePaimonDistributedScanBind E bind)"
    for bind :: "('p, 's) PaimonScanBindData"
    by (auto simp: returns_def InitializePaimonDistributedScanBind_def split: if_splits prod.splits)
  have schema: "bd_paimon_options (schema_bind ts bind) = bd_paimon_options bind" for ts and bind :: "('p, 's) PaimonScanBindData"
    by (simp add: schema_bind_def split: option.split)
  show ?thesis
    unfolding PaimonScanBind_def Let_def
    apply (rule returns_liftP)
    apply (rule returns_liftP)
    apply (rule returns_liftP)
    apply (intro returns_bindP [OF init] returns_intros)
    apply (auto simp: schema)
    done
qed

text \<open>
  C26. An AT clause selects the snapshot it names: when a table of an attached catalog is scanned AT a VERSION or TIMESTAMP and
  the scan is bound, its options select the snapshot with that number, or the one at that time in milliseconds, in place of
  any snapshot of the same kind the catalog was attached with. Any other unit is refused, and so is an AT clause on a
  catalog attached with a snapshot of the other kind.
\<close>

theorem at_clause_selects_snapshot:
  assumes "GetScanFunction E S A schema name (Some at) s = (Inr bind, t)" and "ci_laws E"
    and "\<not> su_ci_equals (StringUtil E) ''snapshot_from_id'' ''snapshot_from_timestamp''"
  shows "StringUtil_Upper A (at_unit at) = ''VERSION'' \<and>
      (\<exists>v. CastAs A (at_value at) BIGINT = Inr v \<and>
        map_of (bd_paimon_options bind) (key_SCAN_SNAPSHOT_ID (OptionKeys E)) = Some (val_to_string v)) \<and>
      ci_find E ''snapshot_from_timestamp'' (cat_attached_options s) = None \<or>
    StringUtil_Upper A (at_unit at) = ''TIMESTAMP'' \<and>
      (\<exists>v ms. CastAs A (at_value at) TIMESTAMP = Inr v \<and> ctx_epoch_ms (Context E) (val_to_string v) = Inr ms \<and>
        map_of (bd_paimon_options bind) (key_SCAN_TIMESTAMP_MILLIS (OptionKeys E)) = Some (to_string ms)) \<and>
      ci_find E ''snapshot_from_id'' (cat_attached_options s) = None"
proof -
  let ?attached = "fold (\<lambda>(k, v). ci_put E k v) (cat_attached_options s) []"
  obtain inputs params types names u where params: "at_parameters E A (Some at) ?attached = Inr params"
    and run: "PaimonScanBind E S inputs params s = (Inr (bind, types, names), u)"
    using assms(1) by (auto simp: GetScanFunction_def elim!: bindPE split: if_splits)
  obtain path where "GetPaimonOptions (StringUtil E) (OptionKeys E) (Context E) path params = Inr (bd_paimon_options bind)"
    using returnsD [OF PaimonScanBind_options run] by auto
  then obtain m where "snapshot_options (StringUtil E) (OptionKeys E) (Context E) params m = Inr (bd_paimon_options bind)"
    by (auto simp: GetPaimonOptions_def res_bind_Inr)
  note snap = snapshot_options_keys [OF this, unfolded TryGet_ci_find]
  have other: "\<not> su_ci_equals (StringUtil E) ''snapshot_from_timestamp'' ''snapshot_from_id''"
    using assms(2,3) by (metis ci_laws_def equivp_symp)
  have same: "su_ci_equals (StringUtil E) k k" for k
    using assms(2) by (simp add: ci_laws_def equivp_reflp)
  note look = ci_find_put [OF assms(2)] ci_find_put_all [OF assms(2)]
  consider (v) v where "StringUtil_Upper A (at_unit at) = ''VERSION''" "CastAs A (at_value at) BIGINT = Inr v"
      "params = ci_put E ''snapshot_from_id'' v ?attached"
    | (ts) v where "StringUtil_Upper A (at_unit at) = ''TIMESTAMP''" "CastAs A (at_value at) TIMESTAMP = Inr v"
      "params = ci_put E ''snapshot_from_timestamp'' v ?attached"
    using params by (auto simp: at_parameters_def Let_def res_bind_Inr split: if_splits)
  then show ?thesis
  proof cases
    case v
    then have "ci_find E ''snapshot_from_id'' params = Some v" by (simp add: look same)
    moreover from this have "ci_find E ''snapshot_from_timestamp'' params = None" using snap(1) by simp
    then have "ci_find E ''snapshot_from_timestamp'' (cat_attached_options s) = None"
      using v(3) assms(3) by (simp add: look)
    ultimately show ?thesis using v(1,2) snap(3) by simp
  next
    case ts
    then have "ci_find E ''snapshot_from_timestamp'' params = Some v" by (simp add: look same)
    moreover from this have "ci_find E ''snapshot_from_id'' params = None" using snap(1) by auto
    then have "ci_find E ''snapshot_from_id'' (cat_attached_options s) = None"
      using ts(3) other by (simp add: look)
    ultimately show ?thesis using ts(1,2) snap(4) by auto
  qed
qed

definition demo_table_api :: table_api where
  "demo_table_api = \<lparr>StringUtil_Upper = id, CastAs = (\<lambda>v ty. Inr (v\<lparr>val_type := ty\<rparr>)), paimon_scan_registered = True\<rparr>"

definition demo_attached :: "(nat, nat) catalog" where
  "demo_attached = \<lparr>sys_world = 0, sys_trace = [], cat_path = ''/data'', cat_access_mode = READ_WRITE,
     cat_attached_options = [(''snapshot_from_id'', Value_BIGINT 3)], cat_schemas = \<lparr>sset_inited = True, sset_entries = [(''db'', 0)]\<rparr>,
     cat_heap = (\<lambda>_. new_schema_entry ''db''), cat_next = 1\<rparr>"

definition demo_at :: AtClause where
  "demo_at = \<lparr>at_unit = ''VERSION'', at_value = Value_BIGINT 7\<rparr>"

lemma demo_GetScanFunction:
  "\<exists>bind t. GetScanFunction demo_env tiny_scan_api demo_table_api 0 ''t'' (Some demo_at) demo_attached = (Inr bind, t)"
proof -
  have opts: "GetPaimonOptions demo_string_util demo_keys demo_ctx ''/data'' [(''snapshot_from_id'', v)] =
      Inr (map_put ''snap-id'' (val_to_string v) (map_emplace ''batch'' (to_string 8) (map_put ''fs'' ''local'' [])))" for v
    by (simp add: GetPaimonOptions_def metastore_options_def demo_string_util_def format_option_def secret_options_def demo_ctx_def
        snapshot_options_def demo_keys_def file_system_option_def is_oss_path_def is_s3_path_def)
  show ?thesis
    by (simp add: GetScanFunction_def demo_table_api_def demo_attached_def demo_at_def at_parameters_def ci_put_def ci_find_def
        demo_string_util_def new_schema_entry_def)
      (simp add: PaimonScanBind_def Parse_def Value_string_def blank_value_def expected_splits_option_def CreatePaimonCatalog_def opts
        tiny_scan_api_def call_io_def call_def value_or_io_def demo_ok_def demo_schema_def Let_def
        InitializePaimonDistributedScanBind_def schema_bind_def demo_data_schema_def empty_bind_def initial_scan_state_def bindP_def
        opts [unfolded demo_string_util_def])
qed

theorem at_clause_selects_snapshot_witness:
  "\<exists>bind t. GetScanFunction demo_env tiny_scan_api demo_table_api 0 ''t'' (Some demo_at) demo_attached = (Inr bind, t) \<and>
    map_of (bd_paimon_options bind) ''snap-id'' = Some (to_string 7)"
proof -
  obtain bind t where run: "GetScanFunction demo_env tiny_scan_api demo_table_api 0 ''t'' (Some demo_at) demo_attached = (Inr bind, t)"
    using demo_GetScanFunction by blast
  have "ci_laws demo_env"
    by (simp add: ci_laws_def demo_string_util_def identity_equivp)
  from at_clause_selects_snapshot [OF run this]
  have "map_of (bd_paimon_options bind) (key_SCAN_SNAPSHOT_ID demo_keys) = Some (val_to_string (Value_BIGINT 7))"
    by (simp add: demo_string_util_def demo_table_api_def demo_at_def)
  with run show ?thesis
    by (auto simp: demo_keys_def Value_BIGINT_def)
qed

end
