(* ===== verification/Paimon_Attach.thy ===== *)
theory Paimon_Attach
  imports Paimon_Table_Entry Dist_Coordinator Catalog_Correct
begin

text \<open>
  Attaching a warehouse and the rest of the catalog's interface (under \<^verbatim>\<open>src/src/\<close>): \<open>PaimonCatalog::Attach\<close>, the
  constructors and the accessors of \<^verbatim>\<open>paimon_storage/paimon_catalog.cpp\<close> and \<^verbatim>\<open>include/paimon_catalog.hpp\<close>, and the
  methods of the catalog, of \<^verbatim>\<open>paimon_storage/paimon_schema_entry.cpp\<close> and of \<^verbatim>\<open>paimon_storage/paimon_table_entry.cpp\<close>
  that only throw or return a constant. With them every method of the three classes is an operation of the model, and
  \<open>attached_run\<close> is any sequence of them.
\<close>

section \<open>Attaching\<close>

text \<open>
  \<open>AttachOptions\<close> is passed by reference and \<open>SetReadOnlyDatabase\<close> marks the database: both are state. The
  mark is what DuckDB consults before it lets a statement change a database.
\<close>

record AttachInfo =
  ai_path :: string
  ai_options :: "(string \<times> Value) list"

record ('w, 'm) attaching = "('w, 'm) sys" +
  db_read_only :: bool
  opt_access_mode :: AccessMode

text \<open>The members of a new \<open>PaimonCatalog\<close>: an empty schema set that is loaded on first use.\<close>

definition new_catalog :: "string \<Rightarrow> (string \<times> Value) list \<Rightarrow> AccessMode \<Rightarrow> ('w, 'm, 'z) sys_scheme \<Rightarrow> ('w, 'm) catalog" where
  "new_catalog path attach_options access_mode s =
     \<lparr>sys_world = sys_world s, sys_trace = sys_trace s, cat_path = path, cat_access_mode = access_mode,
      cat_attached_options = attach_options, cat_schemas = \<lparr>sset_inited = False, sset_entries = []\<rparr>,
      cat_heap = (\<lambda>_. new_schema_entry []), cat_next = 0\<rparr>"

definition PaimonCatalog :: "('w, 'm, 'd) env \<Rightarrow> ('w, 'p, 's) scan_api \<Rightarrow> string \<Rightarrow> (string \<times> Value) list \<Rightarrow> AccessMode \<Rightarrow>
    ('w, 'm, 'z, ('w, 'm) catalog) sysP" where
  "PaimonCatalog E S path attach_options access_mode =
     bindP (CreatePaimonCatalog E S path attach_options) (\<lambda>_.
     getP (new_catalog path attach_options access_mode))"

definition Attach :: "('w, 'm, 'd) env \<Rightarrow> ('w, 'p, 's) scan_api \<Rightarrow> AttachInfo \<Rightarrow>
    (('w, 'm, 'z) attaching_scheme, ('w, 'm) catalog) proc" where
  "Attach E S info =
     bindP (getP (\<lambda>s. Attach_access_mode E (ai_path info) (opt_access_mode s))) (\<lambda>mode.
     bindP (modifyP (\<lambda>s. s\<lparr>opt_access_mode := mode\<rparr>)) (\<lambda>_.
     bindP (if mode = READ_ONLY then modifyP (db_read_only_update (\<lambda>_. True)) else retP ()) (\<lambda>_.
     PaimonCatalog E S (ai_path info) (ai_options info) mode)))"

definition CreateTransactionManager :: PaimonTransactionManager where
  "CreateTransactionManager = \<lparr>tm_transactions = {}\<rparr>"

section \<open>The rest of the catalog\<close>

definition Initialize :: "bool \<Rightarrow> ('w, 'm, 'z, unit) catP" where
  "Initialize load_builtin = retP ()"

definition GetCatalogType :: string where
  "GetCatalogType = ''paimon''"

text \<open>The callback is called with each schema; here the schemas are returned.\<close>

definition ScanSchemas :: "('w, 'm, 'd) env \<Rightarrow> ('w, 'm, 'z, nat list) catP" where
  "ScanSchemas E = SchemaSet_Scan E"

definition PlanDelete :: "('w, 'm, 'z, unit) catP" where
  "PlanDelete = throwP (NotImplementedException ''PlanDelete not supported yet'')"

definition PlanUpdate :: "('w, 'm, 'z, unit) catP" where
  "PlanUpdate = throwP (NotImplementedException ''PlanUpdate not supported yet'')"

definition GetDatabaseSize :: "('w, 'm, 'z, unit) catP" where
  "GetDatabaseSize = throwP (NotImplementedException ''GetDatabaseSize not supported yet'')"

definition SupportsTimeTravel :: bool where
  "SupportsTimeTravel = True"

definition InMemory :: bool where
  "InMemory = False"

definition GetDBPath :: "('w, 'm, 'z, string) catP" where
  "GetDBPath = getP cat_path"

definition GetSchemas :: "('w, 'm, 'z, PaimonSchemaSet) catP" where
  "GetSchemas = getP cat_schemas"

definition GetAttachOptions :: "('w, 'm, 'z, (string \<times> Value) list) catP" where
  "GetAttachOptions = getP cat_attached_options"

definition GetAccessMode :: "('w, 'm, 'z, AccessMode) catP" where
  "GetAccessMode = getP cat_access_mode"

definition GetPath :: "('w, 'm, 'z, string) catP" where
  "GetPath = getP cat_path"

section \<open>The rest of a schema entry\<close>

definition SchemaEntry_ScanWithoutContext :: "nat \<Rightarrow> CatalogType \<Rightarrow> ('w, 'm, 'z, PaimonTableEntry list) catP" where
  "SchemaEntry_ScanWithoutContext p t = throwP (NotImplementedException ''Scan without ClientContext not supported yet'')"

definition SchemaEntry_CreateIndex :: "nat \<Rightarrow> ('w, 'm, 'z, PaimonTableEntry option) catP" where
  "SchemaEntry_CreateIndex p = throwP (NotImplementedException ''CreateIndex not supported yet'')"

definition SchemaEntry_CreateFunction :: "nat \<Rightarrow> ('w, 'm, 'z, PaimonTableEntry option) catP" where
  "SchemaEntry_CreateFunction p = throwP (NotImplementedException ''CreateFunction not supported yet'')"

definition SchemaEntry_CreateView :: "nat \<Rightarrow> ('w, 'm, 'z, PaimonTableEntry option) catP" where
  "SchemaEntry_CreateView p = throwP (NotImplementedException ''CreateView not supported yet'')"

definition SchemaEntry_CreateSequence :: "nat \<Rightarrow> ('w, 'm, 'z, PaimonTableEntry option) catP" where
  "SchemaEntry_CreateSequence p = throwP (NotImplementedException ''CreateSequence not supported yet'')"

definition SchemaEntry_CreateTableFunction :: "nat \<Rightarrow> ('w, 'm, 'z, PaimonTableEntry option) catP" where
  "SchemaEntry_CreateTableFunction p = throwP (NotImplementedException ''CreateTableFunction not supported yet'')"

definition SchemaEntry_CreateCopyFunction :: "nat \<Rightarrow> ('w, 'm, 'z, PaimonTableEntry option) catP" where
  "SchemaEntry_CreateCopyFunction p = throwP (NotImplementedException ''CreateCopyFunction not supported yet'')"

definition SchemaEntry_CreatePragmaFunction :: "nat \<Rightarrow> ('w, 'm, 'z, PaimonTableEntry option) catP" where
  "SchemaEntry_CreatePragmaFunction p = throwP (NotImplementedException ''CreatePragmaFunction not supported yet'')"

definition SchemaEntry_CreateCollation :: "nat \<Rightarrow> ('w, 'm, 'z, PaimonTableEntry option) catP" where
  "SchemaEntry_CreateCollation p = throwP (NotImplementedException ''CreateCollation not supported yet'')"

definition SchemaEntry_CreateType :: "nat \<Rightarrow> ('w, 'm, 'z, PaimonTableEntry option) catP" where
  "SchemaEntry_CreateType p = throwP (NotImplementedException ''CreateType not supported yet'')"

definition SchemaEntry_Alter :: "nat \<Rightarrow> ('w, 'm, 'z, unit) catP" where
  "SchemaEntry_Alter p = throwP (NotImplementedException ''Alter not supported yet'')"

text \<open>\<open>PaimonTableEntry::GetStorageInfo\<close>: a default \<open>TableStorageInfo\<close>, with no cardinality and no indexes.\<close>

record TableStorageInfo =
  tsi_cardinality :: "idx_t option"
  tsi_index_info :: "string list"

definition GetStorageInfo :: TableStorageInfo where
  "GetStorageInfo = \<lparr>tsi_cardinality = None, tsi_index_info = []\<rparr>"

section \<open>Any use of an attached catalog\<close>

datatype schema_method = ScanWithoutContext CatalogType | CreateIndex | CreateFunction | CreateView | CreateSequence
  | CreateTableFunction | CreateCopyFunction | CreatePragmaFunction | CreateCollation | CreateType | Alter

definition run_schema_method :: "nat \<Rightarrow> schema_method \<Rightarrow> ('w, 'm, 'z, unit) catP" where
  "run_schema_method p op = (case op of
     ScanWithoutContext t \<Rightarrow> voidP (SchemaEntry_ScanWithoutContext p t) | CreateIndex \<Rightarrow> voidP (SchemaEntry_CreateIndex p)
   | CreateFunction \<Rightarrow> voidP (SchemaEntry_CreateFunction p) | CreateView \<Rightarrow> voidP (SchemaEntry_CreateView p)
   | CreateSequence \<Rightarrow> voidP (SchemaEntry_CreateSequence p) | CreateTableFunction \<Rightarrow> voidP (SchemaEntry_CreateTableFunction p)
   | CreateCopyFunction \<Rightarrow> voidP (SchemaEntry_CreateCopyFunction p)
   | CreatePragmaFunction \<Rightarrow> voidP (SchemaEntry_CreatePragmaFunction p)
   | CreateCollation \<Rightarrow> voidP (SchemaEntry_CreateCollation p) | CreateType \<Rightarrow> voidP (SchemaEntry_CreateType p)
   | Alter \<Rightarrow> SchemaEntry_Alter p)"

datatype plan_op = PlanInsertOp nat string "LogicalType list option" | PlanCreateTableAsOp nat CreateTableInfo "LogicalType list"
  | PlanDeleteOp | PlanUpdateOp

definition run_plan :: "('w, 'm, 'd) env \<Rightarrow> plan_op \<Rightarrow> ('w, 'm, 'z, unit) catP" where
  "run_plan E op = (case op of
     PlanInsertOp p n plan \<Rightarrow> voidP (PlanInsert E p n plan) | PlanCreateTableAsOp p base plan \<Rightarrow> voidP (PlanCreateTableAs E p base plan)
   | PlanDeleteOp \<Rightarrow> PlanDelete | PlanUpdateOp \<Rightarrow> PlanUpdate)"

datatype attached_op = CatalogOp catalog_op | PlanOp plan_op | SchemaOp nat schema_method | InitializeOp bool | GetDatabaseSizeOp
  | GetScanFunctionOp nat string "AtClause option" | TargetIdentityOp nat string | TargetDefinitionOp nat string

definition run_attached :: "('w, 'm, 'd) env \<Rightarrow> ('w, 'p, 's) scan_api \<Rightarrow> table_api \<Rightarrow> attached_op \<Rightarrow> ('w, 'm, 'z, unit) catP" where
  "run_attached E S A op = (case op of
     CatalogOp op \<Rightarrow> run_catalog E op | PlanOp op \<Rightarrow> run_plan E op | SchemaOp p op \<Rightarrow> run_schema_method p op
   | InitializeOp b \<Rightarrow> Initialize b | GetDatabaseSizeOp \<Rightarrow> GetDatabaseSize
   | GetScanFunctionOp p n at \<Rightarrow> voidP (GetScanFunction E S A p n at)
   | TargetIdentityOp p n \<Rightarrow> voidP (GetLogicalWriteTargetIdentity E p n)
   | TargetDefinitionOp p n \<Rightarrow> voidP (GetLogicalWriteTargetDefinition E p n))"

text \<open>A method of a schema entry is called on an entry that exists.\<close>

definition op_entry :: "attached_op \<Rightarrow> nat option" where
  "op_entry op = (case op of CatalogOp op \<Rightarrow> op_schema op | _ \<Rightarrow> None)"

inductive attached_run :: "('w, 'm, 'd) env \<Rightarrow> ('w, 'p, 's) scan_api \<Rightarrow> table_api \<Rightarrow> ('w, 'm, 'z) catalog_scheme \<Rightarrow>
    (attached_op \<times> (error + unit)) list \<Rightarrow> ('w, 'm, 'z) catalog_scheme \<Rightarrow> bool" for E S A c where
  att_start: "attached_run E S A c [] c"
| att_step: "attached_run E S A c log s \<Longrightarrow> (\<forall>p. op_entry op = Some p \<longrightarrow> p < cat_next s) \<Longrightarrow>
    run_attached E S A op s = (r, t) \<Longrightarrow> attached_run E S A c (log @ [(op, r)]) t"

end
