(* ===== verification/Attach_Props.thy ===== *)
theory Attach_Props
  imports Paimon_Attach Entry_Props Catalog_Props Plan_Correct
begin

text \<open>
  What attaching guarantees, for any use of the catalog afterwards: it keeps the path, the options and the access
  mode it was attached with, its sets are well-formed from the start, and a read-only one plans no write.
\<close>

section \<open>Operations keep what the catalog was attached with\<close>

definition same_settings :: "('w, 'm, 'z) catalog_scheme \<Rightarrow> ('w, 'm, 'z) catalog_scheme \<Rightarrow> bool" where
  "same_settings s t \<longleftrightarrow> cat_path t = cat_path s \<and> cat_attached_options t = cat_attached_options s \<and>
     cat_access_mode t = cat_access_mode s"

interpretation st: state_preorder "same_settings :: ('w, 'm, 'z) catalog_scheme \<Rightarrow> _"
  by unfold_locales (auto simp: same_settings_def)

context state_preorder begin

lemma moves_record_event: "moves R (record_event ev)"
  by (simp add: moves_def record_event_def trace)

lemma moves_prod: "(\<And>a b. moves R (f a b)) \<Longrightarrow> moves R (case x of (a, b) \<Rightarrow> f a b)"
  by (cases x) simp

lemma moves_voidP: "moves R m \<Longrightarrow> moves R (voidP m)"
  unfolding voidP_def by (intro moves_bindP moves_pure)

lemma moves_checkP: "moves R (checkP c e)"
  unfolding checkP_def by (intro moves_if moves_pure)

lemma moves_InitializeBind: "moves R (InitializePaimonDistributedScanBind E bind)"
  using world [of s "sys_trace s" for s] by (simp add: moves_def InitializePaimonDistributedScanBind_def same split: prod.split)

lemmas moves_more = moves_intros moves_record_event moves_prod moves_voidP moves_checkP moves_InitializeBind

lemma moves_PaimonScanBind: "moves R (PaimonScanBind E S inputs opts)"
  unfolding PaimonScanBind_def CreatePaimonCatalog_def Let_def by (intro moves_more)

lemma moves_status_or_throw: "moves R (status_or_throw r)"
  unfolding status_or_throw_def by (intro moves_more)

end

lemma settings_set_tables: "moves same_settings (set_tables p f)"
  by (intro st.moves_modifyP) (simp add: same_settings_def)

lemma settings_BuildEntry: "moves same_settings (BuildEntry E p n)"
  unfolding BuildEntry_def by (intro st.moves_more settings_set_tables)

lemma settings_tables:
  "moves same_settings (build_all E p ns)" "moves same_settings (SchemaEntry_Scan E p ty)"
  "moves same_settings (SchemaEntry_LookupEntry E p ty n)" "moves same_settings (SchemaEntry_CreateTable E p base)"
  "moves same_settings (SchemaEntry_DropEntry E p info)"
proof -
  show b: "moves same_settings (build_all E p ns)" for ns
    by (induction ns) (simp_all only: build_all.simps st.moves_pure st.moves_bindP settings_BuildEntry)
  show "moves same_settings (SchemaEntry_Scan E p ty)"
    unfolding SchemaEntry_Scan_def TableSet_Scan_def TableSet_LoadEntries_def by (intro st.moves_more b settings_set_tables)
  show "moves same_settings (SchemaEntry_LookupEntry E p ty n)" "moves same_settings (SchemaEntry_CreateTable E p base)"
    "moves same_settings (SchemaEntry_DropEntry E p info)"
    unfolding SchemaEntry_LookupEntry_def SchemaEntry_CreateTable_def SchemaEntry_DropEntry_def TableSet_GetEntry_def RefreshEntry_def
      TableSet_DropEntry_def Let_def
    by (intro st.moves_more st.moves_status_or_throw settings_set_tables settings_BuildEntry)+
qed

lemma settings_schemas:
  "moves same_settings (emplace_schema E n)" "moves same_settings (emplace_schemas E ns)" "moves same_settings (SchemaSet_LoadEntries E)"
  "moves same_settings (SchemaSet_Scan E)" "moves same_settings (LookupSchema E n f)" "moves same_settings (CreateSchema E n c)"
  "moves same_settings (DropSchema E info)"
proof -
  show one: "moves same_settings (emplace_schema E n)" for n
    unfolding emplace_schema_def by (intro st.moves_modifyP) (simp add: same_settings_def)
  show all: "moves same_settings (emplace_schemas E ns)" for ns
    by (induction ns) (simp_all only: emplace_schemas.simps st.moves_pure st.moves_bindP one)
  have mod: "moves same_settings (modifyP (cat_schemas_update f))" for f :: "PaimonSchemaSet \<Rightarrow> PaimonSchemaSet"
    by (intro st.moves_modifyP) (simp add: same_settings_def)
  show load: "moves same_settings (SchemaSet_LoadEntries E)"
    unfolding SchemaSet_LoadEntries_def by (intro st.moves_more all mod)
  show "moves same_settings (SchemaSet_Scan E)"
    unfolding SchemaSet_Scan_def by (intro st.moves_more load)
  show "moves same_settings (LookupSchema E n f)" "moves same_settings (CreateSchema E n c)" "moves same_settings (DropSchema E info)"
    unfolding LookupSchema_def CreateSchema_def DropSchema_def SchemaSet_GetEntry_def SchemaSet_CreateEntry_def SchemaSet_DropEntry_def
    by (intro st.moves_more st.moves_status_or_throw load one mod)+
qed

lemma settings_run_catalog: "moves same_settings (run_catalog E op)"
  by (cases op) (simp_all add: run_catalog_def st.moves_voidP settings_tables settings_schemas)

section \<open>Operations outside the caches leave them alone\<close>

text \<open>Planning, binding and the methods that throw read the catalog and call the API: they obey any preorder on states.\<close>

definition outside :: "('w, 'm, 'z) catalog_scheme \<Rightarrow> ('w, 'm, 'z) catalog_scheme \<Rightarrow> bool" where
  "outside s t \<longleftrightarrow> (\<exists>w tr. t = s\<lparr>sys_world := w, sys_trace := tr\<rparr>)"

interpretation ou: state_preorder "outside :: ('w, 'm, 'z) catalog_scheme \<Rightarrow> _"
proof
  fix s t u :: "('w, 'm, 'z) catalog_scheme" and w :: 'w and tr :: "'m event list"
  have "s = s\<lparr>sys_world := sys_world s, sys_trace := sys_trace s\<rparr>" by simp
  then show "outside s s" unfolding outside_def by blast
  show "outside s t \<Longrightarrow> outside t u \<Longrightarrow> outside s u" by (force simp: outside_def)
  show "outside s (s\<lparr>sys_world := w, sys_trace := tr\<rparr>)" by (auto simp: outside_def)
qed

lemma outside_ops: "moves outside (run_plan E pop)" "moves outside (run_schema_method p m)" "moves outside (Initialize b)"
  "moves outside GetDatabaseSize" "moves outside (GetScanFunction E S A p n at)" "moves outside (GetLogicalWriteTargetIdentity E p n)"
  "moves outside (GetLogicalWriteTargetDefinition E p n)"
proof -
  show "moves outside (run_plan E pop)"
    by (cases pop) (auto simp: run_plan_def PlanInsert_def PlanCreateTableAs_def PlanDelete_def PlanUpdate_def Let_def intro!: ou.moves_more)
  show "moves outside (run_schema_method p m)"
    by (cases m) (simp_all add: run_schema_method_def ou.moves_voidP ou.moves_pure SchemaEntry_ScanWithoutContext_def SchemaEntry_CreateIndex_def
        SchemaEntry_CreateFunction_def SchemaEntry_CreateView_def SchemaEntry_CreateSequence_def SchemaEntry_CreateTableFunction_def
        SchemaEntry_CreateCopyFunction_def SchemaEntry_CreatePragmaFunction_def SchemaEntry_CreateCollation_def SchemaEntry_CreateType_def
        SchemaEntry_Alter_def)
  show "moves outside (Initialize b)" "moves outside GetDatabaseSize"
    by (simp_all add: Initialize_def GetDatabaseSize_def ou.moves_pure)
  show "moves outside (GetScanFunction E S A p n at)" "moves outside (GetLogicalWriteTargetIdentity E p n)"
    "moves outside (GetLogicalWriteTargetDefinition E p n)"
    unfolding GetScanFunction_def GetLogicalWriteTargetIdentity_def GetLogicalWriteTargetDefinition_def
    by (intro ou.moves_more ou.moves_PaimonScanBind)+
qed

lemma outside_run_attached: "\<nexists>cop. op = CatalogOp cop \<Longrightarrow> moves outside (run_attached E S A op)"
  by (cases op) (simp_all add: run_attached_def ou.moves_voidP outside_ops)

lemma run_attached_step:
  assumes "run_attached E S A op s = (r, t)" "\<forall>p. op_entry op = Some p \<longrightarrow> p < cat_next s"
  shows "same_settings s t \<and> grows E s t"
proof (cases "\<exists>cop. op = CatalogOp cop")
  case True
  then obtain cop where cop: "op = CatalogOp cop" by blast
  then have run: "run_catalog E cop s = (r, t)" using assms(1) by (simp add: run_attached_def)
  show ?thesis
    using grows_step [OF _ run] movesD [OF settings_run_catalog run] assms(2) cop by (simp add: op_entry_def)
next
  case False
  then have "outside s t" using movesD [OF outside_run_attached assms(1)] by blast
  then show ?thesis using st.world gr.world by (auto simp: outside_def)
qed

lemma attached_run_invariant:
  assumes "attached_run E S A c log u"
  shows "same_settings c u \<and> grows E c u"
  using assms
  by (induction rule: attached_run.induct) (auto simp: st.same gr.same dest!: run_attached_step intro: st.step gr.step)

section \<open>What attaching sets up\<close>

lemma PaimonCatalog_ok:
  assumes "PaimonCatalog E S path opts mode s = (Inr c, t)"
  obtains m w where "GetPaimonOptions (StringUtil E) (OptionKeys E) (Context E) path opts = Inr m"
    "t = s\<lparr>sys_world := w, sys_trace := EvRead ''Catalog::Create'' # sys_trace s\<rparr>" "c = new_catalog path opts mode t"
  using assms
  by (auto simp: PaimonCatalog_def CreatePaimonCatalog_def call_io_def call_def value_or_io_def elim!: bindPE split: prod.splits sum.splits)

lemma Attach_ok:
  fixes s t :: "('w, 'm, 'z) attaching_scheme"
  assumes "Attach E S info s = (Inr c, t)"
  shows "cat_path c = ai_path info" "cat_attached_options c = ai_options info" "cat_access_mode c = opt_access_mode t" "catalog_ok E c"
    "opt_access_mode t = Attach_access_mode E (ai_path info) (opt_access_mode s)"
    "db_read_only t \<longleftrightarrow> db_read_only s \<or> opt_access_mode t = READ_ONLY"
    "\<exists>m. GetPaimonOptions (StringUtil E) (OptionKeys E) (Context E) (ai_path info) (ai_options info) = Inr m"
proof -
  define mode where "mode = Attach_access_mode E (ai_path info) (opt_access_mode s)"
  define v where "v = s\<lparr>opt_access_mode := mode, db_read_only := db_read_only s \<or> mode = READ_ONLY\<rparr>"
  have "snd ((if mode = READ_ONLY then modifyP (db_read_only_update (\<lambda>_. True)) else retP ()) (s\<lparr>opt_access_mode := mode\<rparr>)) = v"
    by (simp add: v_def)
  then have run: "PaimonCatalog E S (ai_path info) (ai_options info) mode v = (Inr c, t)"
    using assms by (auto simp: Attach_def mode_def split: if_splits)
  then obtain m w where m: "GetPaimonOptions (StringUtil E) (OptionKeys E) (Context E) (ai_path info) (ai_options info) = Inr m"
    and t: "t = v\<lparr>sys_world := w, sys_trace := EvRead ''Catalog::Create'' # sys_trace v\<rparr>"
    and c: "c = new_catalog (ai_path info) (ai_options info) mode t"
    by (rule PaimonCatalog_ok)
  show "\<exists>m. GetPaimonOptions (StringUtil E) (OptionKeys E) (Context E) (ai_path info) (ai_options info) = Inr m"
    using m by blast
  show "cat_path c = ai_path info" "cat_attached_options c = ai_options info" "cat_access_mode c = opt_access_mode t" "catalog_ok E c"
    by (simp_all add: c new_catalog_def t v_def catalog_ok_def ci_wf_def)
  show "opt_access_mode t = Attach_access_mode E (ai_path info) (opt_access_mode s)"
    "db_read_only t \<longleftrightarrow> db_read_only s \<or> opt_access_mode t = READ_ONLY"
    by (auto simp: t v_def mode_def)
qed

text \<open>
  C22. Every catalog the extension attaches is sound however it is used: after any sequence of its methods and those of its
  schemas and tables, whatever they return, it has the path and options it was attached with, for which an option map
  exists, and the access mode that attaching decided; and its schema and table sets are well-formed.
\<close>

theorem attached_catalog_sound:
  assumes "Attach E S info s = (Inr c, t)" and "attached_run E S A c log u" and "ci_laws E"
  shows "cat_path u = ai_path info \<and> cat_attached_options u = ai_options info \<and>
    cat_access_mode u = Attach_access_mode E (ai_path info) (opt_access_mode s) \<and>
    (\<exists>m. GetPaimonOptions (StringUtil E) (OptionKeys E) (Context E) (cat_path u) (cat_attached_options u) = Inr m) \<and>
    catalog_ok E u"
proof -
  have "same_settings c u" "grows E c u" using attached_run_invariant [OF assms(2)] by simp_all
  then show ?thesis
    using Attach_ok [OF assms(1)] assms(3) by (simp add: same_settings_def grows_def)
qed

definition demo_attaching :: "AccessMode \<Rightarrow> (nat, nat) attaching" where
  "demo_attaching mode = \<lparr>sys_world = 0, sys_trace = [], db_read_only = False, opt_access_mode = mode\<rparr>"

lemma demo_Attach:
  "\<exists>c t. Attach demo_env tiny_scan_api \<lparr>ai_path = ''/data'', ai_options = []\<rparr> (demo_attaching READ_WRITE) = (Inr c, t)"
  "\<exists>c t. Attach demo_env tiny_scan_api \<lparr>ai_path = ''s3://b'', ai_options = []\<rparr> (demo_attaching READ_WRITE) = (Inr c, t)"
  by (simp_all add: Attach_def demo_attaching_def Attach_access_mode_def is_s3_path_def is_oss_path_def demo_string_util_def
      PaimonCatalog_def CreatePaimonCatalog_def GetPaimonOptions_def metastore_options_def format_option_def secret_options_def
      demo_ctx_def snapshot_options_def tiny_scan_api_def call_io_def call_def value_or_io_def demo_keys_def bindP_def)

theorem attached_catalog_sound_witness:
  "\<exists>c t r q u. Attach demo_env tiny_scan_api \<lparr>ai_path = ''/data'', ai_options = []\<rparr> (demo_attaching READ_WRITE) = (Inr c, t) \<and>
    attached_run demo_env tiny_scan_api demo_table_api c [(CatalogOp CatScanSchemas, r), (PlanOp (PlanInsertOp 0 ''t'' None), q)] u \<and>
    cat_path u = ''/data'' \<and> cat_access_mode u = READ_WRITE \<and> catalog_ok demo_env u"
proof -
  obtain c :: "(nat, nat) catalog" and t
    where a: "Attach demo_env tiny_scan_api \<lparr>ai_path = ''/data'', ai_options = []\<rparr> (demo_attaching READ_WRITE) = (Inr c, t)"
    using demo_Attach(1) by blast
  obtain r s where s: "run_attached demo_env tiny_scan_api demo_table_api (CatalogOp CatScanSchemas) c = (r, s)" by fastforce
  obtain q u where u: "run_attached demo_env tiny_scan_api demo_table_api (PlanOp (PlanInsertOp 0 ''t'' None)) s = (q, u)" by fastforce
  have run: "attached_run demo_env tiny_scan_api demo_table_api c
      (([] @ [(CatalogOp CatScanSchemas, r)]) @ [(PlanOp (PlanInsertOp 0 ''t'' None), q)]) u"
    using s u by (intro att_step [OF att_step [OF att_start]]) (auto simp: op_entry_def op_schema_def)
  have "Attach_access_mode demo_env ''/data'' READ_WRITE = READ_WRITE"
    by (simp add: Attach_access_mode_def is_s3_path_def is_oss_path_def demo_string_util_def)
  then show ?thesis
    using attached_catalog_sound [OF a run demo_ci_laws] a run by (auto simp: demo_attaching_def)
qed

section \<open>Read-only catalogs\<close>

definition plan_refusal :: "plan_op \<Rightarrow> error" where
  "plan_refusal op = (case op of
     PlanDeleteOp \<Rightarrow> NotImplementedException ''PlanDelete not supported yet''
   | PlanUpdateOp \<Rightarrow> NotImplementedException ''PlanUpdate not supported yet''
   | _ \<Rightarrow> PermissionException ''read-only Paimon catalog'')"

lemma read_only_refuses: "cat_access_mode u = READ_ONLY \<Longrightarrow> run_plan E op u = (Inl (plan_refusal op), u)"
  by (cases op) (simp_all add: run_plan_def plan_refusal_def PlanInsert_def PlanCreateTableAs_def PlanDelete_def PlanUpdate_def
      voidP_def)

text \<open>Nothing a run logged for a plan is a success when the mode is read-only throughout.\<close>

lemma read_only_log:
  assumes "attached_run E S A c log u" "cat_access_mode c = READ_ONLY"
  shows "\<forall>(op, r) \<in> set log. \<forall>p. op = PlanOp p \<longrightarrow> r = Inl (plan_refusal p)"
  using assms(1)
proof (induction rule: attached_run.induct)
  case (att_step log s op r t)
  have "cat_access_mode s = READ_ONLY"
    using attached_run_invariant [OF att_step.hyps(1)] assms(2) by (simp add: same_settings_def)
  then have "op = PlanOp p \<Longrightarrow> r = Inl (plan_refusal p)" for p
    using att_step.hyps(3) read_only_refuses [of s E p] by (simp add: run_attached_def)
  with att_step.IH show ?case by auto
qed simp

text \<open>
  C21. A warehouse on an object store, or one attached read-only, cannot be written: attaching marks the database read-only,
  which is what DuckDB asks before it changes a schema, and the catalog stays read-only under any use; every attempt to
  plan an INSERT, a CREATE TABLE AS, a DELETE or an UPDATE was refused, and would be, without touching the catalog or
  the warehouse.
\<close>

theorem read_only_catalog_unwritable:
  assumes "Attach E S info s = (Inr c, t)" and "attached_run E S A c log u"
    and "is_s3_path (StringUtil E) (ai_path info) \<or> is_oss_path (StringUtil E) (ai_path info) \<or> opt_access_mode s = READ_ONLY"
  shows "db_read_only t \<and> cat_access_mode u = READ_ONLY \<and>
    (\<forall>(op, r) \<in> set log. \<forall>p. op = PlanOp p \<longrightarrow> r = Inl (plan_refusal p)) \<and>
    (\<forall>p. run_plan E p u = (Inl (plan_refusal p), u))"
proof -
  note a = Attach_ok [OF assms(1)]
  have mode: "opt_access_mode t = READ_ONLY" using a(5) assms(3) by (auto simp: Attach_access_mode_def)
  then have c: "cat_access_mode c = READ_ONLY" using a(3) by simp
  then have u: "cat_access_mode u = READ_ONLY"
    using attached_run_invariant [OF assms(2)] by (simp add: same_settings_def)
  show ?thesis
    using a(6) mode u read_only_log [OF assms(2) c] read_only_refuses [OF u] by blast
qed

theorem read_only_catalog_unwritable_witness:
  "\<exists>c t u. Attach demo_env tiny_scan_api \<lparr>ai_path = ''s3://b'', ai_options = []\<rparr> (demo_attaching READ_WRITE) = (Inr c, t) \<and>
    attached_run demo_env tiny_scan_api demo_table_api c
      [(PlanOp (PlanInsertOp 0 ''t'' None), Inl (PermissionException ''read-only Paimon catalog''))] u \<and>
    db_read_only t \<and> cat_access_mode u = READ_ONLY \<and>
    run_plan demo_env (PlanCreateTableAsOp 0 demo_base []) u = (Inl (PermissionException ''read-only Paimon catalog''), u)"
proof -
  obtain c :: "(nat, nat) catalog" and t
    where a: "Attach demo_env tiny_scan_api \<lparr>ai_path = ''s3://b'', ai_options = []\<rparr> (demo_attaching READ_WRITE) = (Inr c, t)"
    using demo_Attach(2) by blast
  obtain r u where u: "run_attached demo_env tiny_scan_api demo_table_api (PlanOp (PlanInsertOp 0 ''t'' None)) c = (r, u)" by fastforce
  have run: "attached_run demo_env tiny_scan_api demo_table_api c ([] @ [(PlanOp (PlanInsertOp 0 ''t'' None), r)]) u"
    using u by (intro att_step [OF att_start]) (auto simp: op_entry_def)
  have "is_s3_path (StringUtil demo_env) (ai_path \<lparr>ai_path = ''s3://b'', ai_options = []\<rparr>)"
    by (simp add: is_s3_path_def demo_string_util_def)
  note w = read_only_catalog_unwritable [OF a run disjI1 [OF this]]
  then have "r = Inl (plan_refusal (PlanInsertOp 0 ''t'' None))" by simp
  then show ?thesis
    using w a run by (auto simp: plan_refusal_def)
qed

end
