(* ===== verification/Paimon_Registration.thy ===== *)
theory Paimon_Registration
  imports Paimon_Attach Dist_Scan
begin

text \<open>
  What the extension registers with DuckDB and Vane when it is loaded: \<open>LoadInternal\<close> of \<^verbatim>\<open>src/src/paimon_extension.cpp\<close>,
  the table functions of \<^verbatim>\<open>paimon_functions.cpp\<close>, \<^verbatim>\<open>paimon_scan.cpp\<close> and \<^verbatim>\<open>paimon_snapshots.cpp\<close> with the distributed
  callbacks of \<^verbatim>\<open>paimon_distributed_scan.cpp\<close>, and the write operators of \<^verbatim>\<open>paimon_distributed_insert.cpp\<close>.

  A registration is data: names, types, versions, and callbacks. The callbacks of secrets, writes and the storage extension are
  the model's own definitions; those of table functions, whose types differ, are the names of the code's functions. The
  \<open>ExtensionLoader\<close> is the record of what was handed to it, in order.
\<close>

section \<open>Table functions\<close>

datatype table_callback = cb_PaimonScan | cb_PaimonScanBind | cb_PaimonScanInitGlobal | cb_PaimonScanInitLocal
  | cb_PaimonPushdownFilter | cb_PaimonGetPartitionStats | cb_PaimonDistributedScanSerialize | cb_PaimonDistributedScanDeserialize
  | cb_PaimonPlanDistributedScanSplits | cb_PaimonCreateDistributedWorkerBind | cb_PaimonApplyDistributedScanSplits
  | cb_PaimonSnapshotsExecute | cb_PaimonSnapshotsBind | cb_PaimonSnapshotsInitGlobal | cb_Serialize | cb_Deserialize

datatype TableFunctionDistributedBindDataMode = BIND_DATA_REQUIRED | BIND_DATA_OPTIONAL

record TableFunctionDistributedScanCallbacks =
  sc_protocol_version :: "32 word"
  sc_split_codec :: CodecId
  sc_bind_data_mode :: TableFunctionDistributedBindDataMode
  sc_plan_splits :: table_callback
  sc_create_worker_bind :: table_callback
  sc_apply_splits :: table_callback

text \<open>\<open>MakeDistributedSingletonSourceCallbacks()\<close> is Vane's: a source that runs on one worker only.\<close>

datatype distributed_source = Splits TableFunctionDistributedScanCallbacks | SingletonSource

record TableFunction =
  tf_arguments :: "LogicalType list"
  tf_function :: table_callback
  tf_bind :: table_callback
  tf_init_global :: table_callback
  tf_init_local :: "table_callback option"
  tf_named_parameters :: "(string \<times> LogicalType) list"
  tf_projection_pushdown :: bool
  tf_pushdown_complex_filter :: "table_callback option"
  tf_get_partition_stats :: "table_callback option"
  tf_serialize :: "table_callback option"
  tf_deserialize :: "table_callback option"
  tf_distributed :: "distributed_source option"

record TableFunctionSet =
  fs_name :: string
  fs_functions :: "TableFunction list"

text \<open>DuckDB's constructor, with its defaults.\<close>

definition new_table_function :: "LogicalType list \<Rightarrow> table_callback \<Rightarrow> table_callback \<Rightarrow> table_callback \<Rightarrow> TableFunction" where
  "new_table_function arguments function bind init_global =
     \<lparr>tf_arguments = arguments, tf_function = function, tf_bind = bind, tf_init_global = init_global, tf_init_local = None,
      tf_named_parameters = [], tf_projection_pushdown = False, tf_pushdown_complex_filter = None, tf_get_partition_stats = None,
      tf_serialize = None, tf_deserialize = None, tf_distributed = None\<rparr>"

text \<open>\<open>fun.named_parameters[name] = type\<close>; the names of one function are different.\<close>

definition add_named_parameter :: "string \<Rightarrow> LogicalType \<Rightarrow> TableFunction \<Rightarrow> TableFunction" where
  "add_named_parameter name ty f = f\<lparr>tf_named_parameters := tf_named_parameters f @ [(name, ty)]\<rparr>"

definition BOOLEAN :: LogicalType where
  "BOOLEAN = \<lparr>lt_id = LT_BOOLEAN, lt_width = 0, lt_scale = 0, lt_internal = PT_OTHER 1\<rparr>"

definition PAIMON_DISTRIBUTED_SCAN_SPLIT_CODEC :: string where
  "PAIMON_DISTRIBUTED_SCAN_SPLIT_CODEC = ''paimon.scan-split''"

definition ConfigurePaimonDistributedScan :: "TableFunction \<Rightarrow> TableFunction" where
  "ConfigurePaimonDistributedScan function = function
     \<lparr>tf_serialize := Some cb_PaimonDistributedScanSerialize, tf_deserialize := Some cb_PaimonDistributedScanDeserialize,
      tf_distributed := Some (Splits \<lparr>sc_protocol_version = PAIMON_DISTRIBUTED_SCAN_PROTOCOL_VERSION,
        sc_split_codec = \<lparr>codec_name = PAIMON_DISTRIBUTED_SCAN_SPLIT_CODEC, codec_version = PAIMON_DISTRIBUTED_SCAN_PROTOCOL_VERSION\<rparr>,
        sc_bind_data_mode = BIND_DATA_REQUIRED, sc_plan_splits = cb_PaimonPlanDistributedScanSplits,
        sc_create_worker_bind = cb_PaimonCreateDistributedWorkerBind, sc_apply_splits = cb_PaimonApplyDistributedScanSplits\<rparr>)\<rparr>"

text \<open>The code writes this block once for each of the two signatures.\<close>

definition paimon_scan_function :: "LogicalType list \<Rightarrow> TableFunction" where
  "paimon_scan_function arguments =
     (let f = new_table_function arguments cb_PaimonScan cb_PaimonScanBind cb_PaimonScanInitGlobal;
          f = add_named_parameter ''manifest_format'' VARCHAR f;
          f = add_named_parameter ''file_format'' VARCHAR f;
          f = add_named_parameter ''snapshot_from_id'' BIGINT f;
          f = add_named_parameter ''snapshot_from_timestamp'' TIMESTAMP f;
          f = add_named_parameter ''debug_expected_splits'' BIGINT f
      in ConfigurePaimonDistributedScan (f\<lparr>tf_init_local := Some cb_PaimonScanInitLocal, tf_projection_pushdown := True,
           tf_pushdown_complex_filter := Some cb_PaimonPushdownFilter, tf_get_partition_stats := Some cb_PaimonGetPartitionStats\<rparr>))"

definition GetPaimonScanFunction :: TableFunctionSet where
  "GetPaimonScanFunction = \<lparr>fs_name = ''paimon_scan'',
     fs_functions = [paimon_scan_function [VARCHAR, VARCHAR, VARCHAR], paimon_scan_function [VARCHAR]]\<rparr>"

definition ConfigureSnapshotsFunction :: "TableFunction \<Rightarrow> TableFunction" where
  "ConfigureSnapshotsFunction function =
     (add_named_parameter ''manifest_format'' VARCHAR function)
       \<lparr>tf_serialize := Some cb_Serialize, tf_deserialize := Some cb_Deserialize, tf_distributed := Some SingletonSource\<rparr>"

definition GetPaimonSnapshotsFunction :: TableFunctionSet where
  "GetPaimonSnapshotsFunction = \<lparr>fs_name = ''paimon_snapshots'', fs_functions =
     [ConfigureSnapshotsFunction (new_table_function [VARCHAR, VARCHAR, VARCHAR] cb_PaimonSnapshotsExecute cb_PaimonSnapshotsBind
        cb_PaimonSnapshotsInitGlobal),
      ConfigureSnapshotsFunction (new_table_function [VARCHAR] cb_PaimonSnapshotsExecute cb_PaimonSnapshotsBind
        cb_PaimonSnapshotsInitGlobal)]\<rparr>"

definition GetTableFunctions :: "TableFunctionSet list" where
  "GetTableFunctions = [GetPaimonScanFunction, GetPaimonSnapshotsFunction]"

section \<open>Write operators\<close>

record ('w, 'm, 'd) DistributedExtensionWriteCallbacks =
  wc_initialize_global :: "('w, 'm, 'd) env \<Rightarrow> DistributedExtensionWriteInfo \<Rightarrow> DistributedWriteTaskContext \<Rightarrow>
    'm PaimonDistributedInsertGlobalState res"
  wc_initialize_local :: "('w, 'm, 'd) env \<Rightarrow> DistributedWriteTaskContext \<Rightarrow> nat \<Rightarrow> ('w, 'm, unit) workerP"
  wc_sink :: "('w, 'm, 'd) env \<Rightarrow> DistributedWriteTaskContext \<Rightarrow> nat \<Rightarrow> DataChunk \<Rightarrow> ('w, 'm, unit) workerP"
  wc_combine :: "('w, 'm, 'd) env \<Rightarrow> DistributedWriteTaskContext \<Rightarrow> nat \<Rightarrow> ('w, 'm, unit) workerP"
  wc_finalize :: "('w, 'm, 'd) env \<Rightarrow> DistributedWriteTaskContext \<Rightarrow> ('w, 'm, DistributedWriteFragment list) workerP"

record ('w, 'm, 'd) DistributedWriteOperatorExtension =
  wo_name :: string
  wo_protocol_version :: "32 word"
  wo_mode :: DistributedWriteMode
  wo_fragment_codec :: CodecId
  wo_callbacks :: "('w, 'm, 'd) DistributedExtensionWriteCallbacks"

definition PaimonDistributedInsertCallbacks :: "('w, 'm, 'd) DistributedExtensionWriteCallbacks" where
  "PaimonDistributedInsertCallbacks =
     \<lparr>wc_initialize_global = PaimonDistributedInsertInitializeGlobal, wc_initialize_local = PaimonDistributedInsertInitializeLocal,
      wc_sink = PaimonDistributedInsertSink, wc_combine = PaimonDistributedInsertCombine, wc_finalize = PaimonDistributedInsertFinalize\<rparr>"

definition write_operator :: "string \<Rightarrow> ('w, 'm, 'd) DistributedWriteOperatorExtension" where
  "write_operator operator_name =
     \<lparr>wo_name = operator_name, wo_protocol_version = PAIMON_DISTRIBUTED_WRITE_PROTOCOL_VERSION, wo_mode = CALLBACK_SINK,
      wo_fragment_codec = \<lparr>codec_name = PAIMON_DISTRIBUTED_WRITE_FRAGMENT_CODEC,
        codec_version = PAIMON_DISTRIBUTED_WRITE_PROTOCOL_VERSION\<rparr>,
      wo_callbacks = PaimonDistributedInsertCallbacks\<rparr>"

definition RegisterPaimonDistributedWrites :: "('w, 'm, 'd) DistributedWriteOperatorExtension list" where
  "RegisterPaimonDistributedWrites =
     map write_operator [PAIMON_DISTRIBUTED_INSERT_OPERATOR, PAIMON_DISTRIBUTED_CTAS_OPERATOR]"

section \<open>Secrets and the storage extension\<close>

record SecretType =
  sy_name :: string
  sy_default_provider :: string
  sy_extension :: string

record CreateSecretFunction =
  sf_secret_type :: string
  sf_provider :: string
  sf_function :: "CreateSecretInput \<Rightarrow> string list \<times> KeyValueSecret \<times> string list"
  sf_named_parameters :: "(string \<times> LogicalType) list"

definition paimon_secret_type :: SecretType where
  "paimon_secret_type = \<lparr>sy_name = ''paimon'', sy_default_provider = ''config'', sy_extension = ''paimon''\<rparr>"

definition secret_fun :: CreateSecretFunction where
  "secret_fun = \<lparr>sf_secret_type = ''paimon'', sf_provider = ''config'', sf_function = CreatePaimonSecretFromConfig,
     sf_named_parameters = [(''endpoint'', VARCHAR), (''key_id'', VARCHAR), (''secret'', VARCHAR), (''session_token'', VARCHAR),
       (''region'', VARCHAR), (''path_style_access'', BOOLEAN)]\<rparr>"

definition credential_chain_fun :: CreateSecretFunction where
  "credential_chain_fun = \<lparr>sf_secret_type = ''paimon'', sf_provider = ''credential_chain'', sf_function = CreatePaimonSecretFromConfig,
     sf_named_parameters = [(''endpoint'', VARCHAR), (''region'', VARCHAR), (''profile'', VARCHAR), (''path_style_access'', BOOLEAN)]\<rparr>"

record ('w, 'm, 'd, 'p, 's) StorageExtension =
  se_attach :: "('w, 'm, 'd) env \<Rightarrow> ('w, 'p, 's) scan_api \<Rightarrow> AttachInfo \<Rightarrow> (('w, 'm) attaching, ('w, 'm) catalog) proc"
  se_create_transaction_manager :: PaimonTransactionManager

definition PaimonStorageExtension :: "('w, 'm, 'd, 'p, 's) StorageExtension" where
  "PaimonStorageExtension = \<lparr>se_attach = Attach, se_create_transaction_manager = CreateTransactionManager\<rparr>"

section \<open>Loading\<close>

record ('w, 'm, 'd, 'p, 's) ExtensionLoader =
  ld_secret_types :: "SecretType list"
  ld_secret_functions :: "CreateSecretFunction list"
  ld_table_functions :: "TableFunctionSet list"
  ld_write_operators :: "('w, 'm, 'd) DistributedWriteOperatorExtension list"
  ld_storage_extensions :: "(string \<times> ('w, 'm, 'd, 'p, 's) StorageExtension) list"

definition LoadInternal :: "('w, 'm, 'd, 'p, 's) ExtensionLoader \<Rightarrow> ('w, 'm, 'd, 'p, 's) ExtensionLoader" where
  "LoadInternal loader =
     (let loader = loader\<lparr>ld_secret_types := ld_secret_types loader @ [paimon_secret_type]\<rparr>;
          loader = loader\<lparr>ld_secret_functions := ld_secret_functions loader @ [secret_fun]\<rparr>;
          loader = loader\<lparr>ld_secret_functions := ld_secret_functions loader @ [credential_chain_fun]\<rparr>;
          loader = loader\<lparr>ld_table_functions := ld_table_functions loader @ GetTableFunctions\<rparr>;
          loader = loader\<lparr>ld_write_operators := ld_write_operators loader @ RegisterPaimonDistributedWrites\<rparr>
      in loader\<lparr>ld_storage_extensions := ld_storage_extensions loader @ [(''paimon'', PaimonStorageExtension)]\<rparr>)"

definition Load :: "('w, 'm, 'd, 'p, 's) ExtensionLoader \<Rightarrow> ('w, 'm, 'd, 'p, 's) ExtensionLoader" where
  "Load loader = LoadInternal loader"

definition Name :: string where
  "Name = ''paimon''"

definition empty_loader :: "('w, 'm, 'd, 'p, 's) ExtensionLoader" where
  "empty_loader = \<lparr>ld_secret_types = [], ld_secret_functions = [], ld_table_functions = [], ld_write_operators = [],
     ld_storage_extensions = []\<rparr>"

text \<open>The registrations of a process that loaded the extension.\<close>

abbreviation loaded :: "('w, 'm, 'd, 'p, 's) ExtensionLoader" where
  "loaded \<equiv> Load empty_loader"

lemma loaded_registrations [simp]:
  "ld_secret_functions loaded = [secret_fun, credential_chain_fun]" "ld_table_functions loaded = GetTableFunctions"
  "ld_write_operators loaded = RegisterPaimonDistributedWrites" "ld_storage_extensions loaded = [(''paimon'', PaimonStorageExtension)]"
  "ld_secret_types loaded = [paimon_secret_type]"
  by (simp_all add: Load_def LoadInternal_def empty_loader_def Let_def)

end
