(* ===== verification/Registration_Props.thy ===== *)
theory Registration_Props
  imports Paimon_Registration Plan_Correct Entry_Props
begin

text \<open>
  What is registered fits what uses it: the runtime that resolves a coordinator's plan in the registry finds the contract
  and the callbacks that accept the plan, the secrets that can be created are the ones object stores need, and the
  parameters of an AT clause have the types \<open>paimon_scan\<close> declares.
\<close>

section \<open>Write operators\<close>

definition find_operator :: "('w, 'm, 'd, 'p, 's) ExtensionLoader \<Rightarrow> string \<Rightarrow> ('w, 'm, 'd) DistributedWriteOperatorExtension option" where
  "find_operator loader name = find (\<lambda>x. wo_name x = name) (ld_write_operators loader)"

text \<open>The info of a plan whose operator is registered as \<open>x\<close>.\<close>

definition registered_info :: "('w, 'm, 'd) DistributedWriteOperatorExtension \<Rightarrow> DistributedExtensionWritePlan \<Rightarrow>
    DistributedExtensionWriteInfo" where
  "registered_info x plan = \<lparr>wi_mode = wo_mode x, wi_capability = \<lparr>cap_extension_name = wp_extension_name plan,
       cap_name = wo_name x, cap_protocol_version = wo_protocol_version x\<rparr>,
     wi_fragment_codec = wo_fragment_codec x, wi_worker_bind_data = wp_worker_bind_data plan\<rparr>"

text \<open>Vane resolves a plan in the registry, and the name of an info is that of its capability.\<close>

definition registry_laws :: "('w, 'm, 'd) env \<Rightarrow> ('w, 'm, 'd, 'p, 's) ExtensionLoader \<Rightarrow> bool" where
  "registry_laws E loader \<longleftrightarrow>
     (\<forall>plan x. find_operator loader (wp_operator_name plan) = Some x \<longrightarrow> ResolveWriteInfo E plan = Inr (registered_info x plan)) \<and>
     (\<forall>info. WriteInfoName E info = cap_name (wi_capability info))"

lemma find_operator_loaded:
  "WriteOperatorName kind = Inr name \<Longrightarrow> find_operator loaded name = Some (write_operator name)"
  by (cases kind) (auto simp: find_operator_def RegisterPaimonDistributedWrites_def WriteOperatorName_def write_operator_def
      PAIMON_DISTRIBUTED_INSERT_OPERATOR_def PAIMON_DISTRIBUTED_CTAS_OPERATOR_def)

lemma ValidateTransport_part_keys:
  assumes "ValidateTransport E tp = Inr ()"
  shows "\<exists>is. part_col_indexes (tp_input_names tp) (tp_part_keys tp) = Inr is"
  using ValidateTransport_facts [OF assms] by (simp add: part_col_indexes_Inr valid_part_keys_iff)

text \<open>
  C20. A distributed write finds its callbacks: when the coordinator hands out a plan for an INSERT or a CTAS and the runtime
  resolves it in the registry of a process that loaded the extension, the operator is registered, the resolved info
  passes the coordinator's own check, and the registered \<open>initialize_global\<close> accepts it for every valid task unless the
  options of the target cannot be built; the state it makes holds exactly the coordinator's target.
\<close>

theorem registered_write_accepted:
  fixes E :: "('w, 'm, 'd) env"
  assumes "serde_laws E" and "registry_laws E loader" and "loader = loaded"
    and "GetExtensionWriteTaskProvider E s = (Inr (), t)"
    and "\<not> ins_target_initialized (co_insert s)" and "\<not> ins_worker_plan_selected (co_insert s)"
    and "transport_typed (coordinator_transport (expected_kind (co_insert t)) (co_insert t))"
  shows "\<exists>x info. find_operator loader (wp_operator_name (ins_write_plan (co_insert t))) = Some x \<and>
    ResolveWriteInfo E (ins_write_plan (co_insert t)) = Inr info \<and>
    ValidateResolvedInfo info (coordinator_transport (expected_kind (co_insert t)) (co_insert t)) = Inr () \<and>
    (\<forall>task. is_ok (wc_initialize_global (wo_callbacks x) E info task) \<longleftrightarrow> is_ok (TaskValidate E task) \<and>
       is_ok (BuildRuntimeOptions E (coordinator_transport (expected_kind (co_insert t)) (co_insert t)) (Some task))) \<and>
    (\<forall>task g. wc_initialize_global (wo_callbacks x) E info task = Inr g \<longrightarrow>
       g_transport g = coordinator_transport (expected_kind (co_insert t)) (co_insert t))"
proof -
  let ?plan = "ins_write_plan (co_insert t)" and ?tp = "coordinator_transport (expected_kind (co_insert t)) (co_insert t)"
  note p = Provider_published [OF assms(4-6)]
  let ?x = "write_operator (wp_operator_name ?plan) :: ('w, 'm, 'd) DistributedWriteOperatorExtension"
  let ?info = "registered_info ?x ?plan"
  have x: "find_operator loader (wp_operator_name ?plan) = Some ?x"
    using find_operator_loaded [OF p(2)] assms(3) by simp
  then have info: "ResolveWriteInfo E ?plan = Inr ?info"
    using assms(2) unfolding registry_laws_def by blast
  have name: "WriteInfoName E ?info = wp_operator_name ?plan"
    using assms(2) by (simp add: registry_laws_def registered_info_def write_operator_def)
  have kind: "WriteOperatorName (tp_write_kind ?tp) = Inr (wp_operator_name ?plan)"
    using p(2) by (simp add: coordinator_transport_def)
  have "ValidateTransport E ?tp = Inr ()"
    using p(3) by (auto simp: SerializeTransport_def res_bind_Inr)
  then obtain idxs where idxs: "part_col_indexes (tp_input_names ?tp) (tp_part_keys ?tp) = Inr idxs"
    using ValidateTransport_part_keys by blast
  have "DeserializeTransport E (wi_worker_bind_data ?info) = Inr ?tp"
    using DeserializeTransport_Serialize(2) [OF assms(1,7) p(3)] by (simp add: registered_info_def)
  then have init: "wc_initialize_global (wo_callbacks ?x) E ?info task =
      res_bind (TaskValidate E task) (\<lambda>_. res_bind (BuildRuntimeOptions E ?tp (Some task)) (\<lambda>opts.
        Inr \<lparr>g_transport = ?tp, g_options = opts, g_query_id = tk_query_id task, g_task_attempt_id = tk_task_attempt_id task,
          g_writer_commit_user = WorkerCommitUser E ?tp task, g_next_write_id = 0, g_messages = [], g_row_count = 0,
          g_part_col_idxs = idxs, g_finalized = False\<rparr>))" for task
    using name kind idxs by (simp add: write_operator_def PaimonDistributedInsertCallbacks_def
        PaimonDistributedInsertInitializeGlobal_def registered_info_def)
  have "ValidateResolvedInfo ?info ?tp = Inr ()"
    using kind p(1) by (simp add: ValidateResolvedInfo_def registered_info_def write_operator_def)
  moreover have "is_ok (wc_initialize_global (wo_callbacks ?x) E ?info task) \<longleftrightarrow> is_ok (TaskValidate E task) \<and>
      is_ok (BuildRuntimeOptions E ?tp (Some task))" for task
    unfolding init by (cases "TaskValidate E task"; cases "BuildRuntimeOptions E ?tp (Some task)") simp_all
  moreover have "g_transport g = ?tp" if "wc_initialize_global (wo_callbacks ?x) E ?info task = Inr g" for task g
    using that unfolding init by (auto simp: res_bind_Inr)
  ultimately show ?thesis
    using x info by blast
qed

lemma demo_registry: "registry_laws demo_env loaded"
  by (auto simp: registry_laws_def find_operator_def RegisterPaimonDistributedWrites_def registered_info_def write_operator_def
      PAIMON_DISTRIBUTED_WRITE_FRAGMENT_CODEC_def PAIMON_DISTRIBUTED_WRITE_PROTOCOL_VERSION_def split: if_splits)

theorem registered_write_accepted_witness:
  "\<exists>x info. find_operator loaded ''insert'' = Some x \<and> ResolveWriteInfo demo_env (ins_write_plan demo_insert) = Inr info \<and>
    ValidateResolvedInfo info demo_transport = Inr () \<and>
    is_ok (wc_initialize_global (wo_callbacks x) demo_env info demo_task)"
proof -
  have i: "co_insert demo_planned = demo_insert" "expected_kind demo_insert = WK_INSERT"
    "wp_operator_name (ins_write_plan demo_insert) = ''insert''"
    using demo_provider by (simp_all add: expected_kind_def demo_insert_def new_insert_def)
  have p: "GetExtensionWriteTaskProvider demo_env demo_coord = (Inr (), demo_planned)"
    using demo_provider by (simp add: demo_planned_def prod_eq_iff)
  have "\<not> ins_target_initialized (co_insert demo_coord)" "\<not> ins_worker_plan_selected (co_insert demo_coord)"
    by (simp_all add: demo_coord_def new_insert_def)
  note w = registered_write_accepted [OF demo_serde_laws demo_registry refl p this]
  have "is_ok (BuildRuntimeOptions demo_env demo_transport (Some demo_task))"
    by (simp add: BuildRuntimeOptions_def GetPaimonOptions_def metastore_options_def format_option_def
        secret_options_def snapshot_options_def Let_def demo_ctx_def)
  then show ?thesis
    using w i demo_transport_ok(2) demo_transport_eq by auto
qed

section \<open>Secrets\<close>

text \<open>
  DuckDB's CREATE SECRET calls the function registered for the provider with the options the user wrote, all of them
  among its named parameters.
\<close>

definition secret_input_for :: "CreateSecretFunction \<Rightarrow> CreateSecretInput \<Rightarrow> bool" where
  "secret_input_for f input \<longleftrightarrow> csi_provider input = sf_provider f \<and>
     (\<forall>k. csi_options input k \<noteq> None \<longrightarrow> k \<in> fst ` set (sf_named_parameters f))"

definition nonempty_option :: "CreateSecretInput \<Rightarrow> string \<Rightarrow> bool" where
  "nonempty_option input k \<longleftrightarrow> (\<exists>v. csi_options input k = Some v \<and> val_to_string v \<noteq> [])"

lemma registered_secret:
  assumes "f \<in> set (ld_secret_functions loaded)" "secret_input_for f input" "sf_function f input = (scope, kv, redacted)"
  shows "sec_try_get kv = csi_options input" "sec_provider kv = sf_provider f" "redacted = redact_keys"
    "sf_provider f = ''credential_chain'' \<Longrightarrow> csi_options input ''key_id'' = None"
proof -
  have f: "f = secret_fun \<or> f = credential_chain_fun" using assms(1) by simp
  have "csi_options input k = None" if "k \<notin> set secret_keys" for k
    using f assms(2) that by (auto simp: secret_input_for_def secret_fun_def credential_chain_fun_def secret_keys_def)
  then have "(\<lambda>k. if k \<in> set secret_keys then csi_options input k else None) = csi_options input" by auto
  moreover have "sf_function f = CreatePaimonSecretFromConfig"
    using f by (auto simp: secret_fun_def credential_chain_fun_def)
  ultimately show "sec_try_get kv = csi_options input" "sec_provider kv = sf_provider f" "redacted = redact_keys"
    using assms(2,3) by (auto simp: CreatePaimonSecretFromConfig_def secret_input_for_def)
  show "sf_provider f = ''credential_chain'' \<Longrightarrow> csi_options input ''key_id'' = None"
    using f assms(2) by (force simp: secret_input_for_def secret_fun_def credential_chain_fun_def)
qed

lemma AddRequired_ok: "is_ok (AddRequiredSecretOption kv k key m) \<longleftrightarrow> (\<exists>v. sec_try_get kv k = Some v \<and> val_to_string v \<noteq> [])"
  by (auto simp: AddRequiredSecretOption_def split: option.split)

lemma AddRequired_bind_ok: "is_ok (res_bind (AddRequiredSecretOption kv k key m) f) \<longleftrightarrow>
    (\<exists>v. sec_try_get kv k = Some v \<and> val_to_string v \<noteq> [] \<and> is_ok (f (map_put key (val_to_string v) m)))"
  by (auto simp: AddRequiredSecretOption_def split: option.split)

lemma oss_secret_ok:
  assumes "ctx_secret ctx path = Some kv" "is_oss_path su path" "\<not> is_s3_path su path"
  shows "is_ok (secret_options su ctx path m) \<longleftrightarrow> sec_provider kv \<noteq> ''credential_chain'' \<and> oss_bucket path \<noteq> [] \<and>
    (\<forall>k \<in> {''key_id'', ''secret'', ''endpoint''}. \<exists>v. sec_try_get kv k = Some v \<and> val_to_string v \<noteq> [])"
  using assms by (auto simp: secret_options_def Let_def AddRequired_bind_ok AddRequired_ok)

text \<open>An S3 secret: each option the secret has is passed on under its name for Paimon.\<close>

definition s3_option_names :: "(string \<times> string) list" where
  "s3_option_names = [(''key_id'', ''s3.access-key''), (''secret'', ''s3.secret-key''), (''endpoint'', ''s3.endpoint''),
     (''session_token'', ''s3.session.token''), (''profile'', ''s3.profile''), (''region'', ''s3.region''),
     (''path_style_access'', ''s3.path-style-access'')]"

lemma AddOptionals_get:
  assumes "distinct (map snd ps)" "(sk, key) \<in> set ps"
  shows "map_of (fold (\<lambda>(sk, key). AddOptionalSecretOption kv sk key) ps m) key =
    (case sec_try_get kv sk of Some v \<Rightarrow> Some (val_to_string v) | None \<Rightarrow> map_of m key)"
  using assms
proof (induction ps arbitrary: m)
  case (Cons p ps)
  show ?case
  proof (cases "(sk, key) \<in> set ps")
    case True
    then have "key \<in> snd ` set ps" by force
    moreover have "snd p \<notin> snd ` set ps" using Cons.prems(1) by simp
    ultimately have "key \<noteq> snd p" by blast
    then show ?thesis using Cons True by (cases p) (simp add: AddOptional_keys split: option.split)
  next
    case False
    then have "p = (sk, key)" using Cons.prems(2) by auto
    moreover from this have "key \<notin> snd ` set ps" using Cons.prems(1) by auto
    ultimately show ?thesis by (simp add: AddOptionals_keys) (simp add: AddOptionalSecretOption_def split: option.split)
  qed
qed simp

text \<open>
  C27. The secrets that can be created are the ones object stores need. Every option the user may write for a registered
  provider reaches the secret, and those that are credentials are redacted. With such a secret the options of an OSS path
  can be built exactly when the provider is \<open>config\<close>, the path names a bucket, and key, secret and endpoint are not empty; those
  of an S3 path always can, and pass on every option of the secret.
\<close>

theorem registered_secrets_serve_stores:
  assumes "f \<in> set (ld_secret_functions loader)" and "loader = loaded" and "secret_input_for f input"
    and "sf_function f input = (scope, kv, redacted)" and "ctx_secret ctx path = Some kv"
  shows "sec_try_get kv = csi_options input \<and> {''key_id'', ''secret'', ''session_token''} \<subseteq> set redacted \<and>
    (is_oss_path su path \<and> \<not> is_s3_path su path \<longrightarrow>
       (is_ok (secret_options su ctx path m) \<longleftrightarrow> sf_provider f = ''config'' \<and> oss_bucket path \<noteq> [] \<and>
         nonempty_option input ''key_id'' \<and> nonempty_option input ''secret'' \<and> nonempty_option input ''endpoint'')) \<and>
    (is_s3_path su path \<and> \<not> is_oss_path su path \<longrightarrow>
       (\<exists>m'. secret_options su ctx path m = Inr m' \<and> (\<forall>(k, name) \<in> set s3_option_names.
          map_of m' name = (case csi_options input k of Some v \<Rightarrow> Some (val_to_string v) | None \<Rightarrow> map_of m name))))"
proof -
  note r = registered_secret [OF assms(1) [unfolded assms(2)] assms(3,4)]
  have provider: "sf_provider f = ''config'' \<longleftrightarrow> sf_provider f \<noteq> ''credential_chain''"
    using assms(1,2) by (auto simp: secret_fun_def credential_chain_fun_def)
  have "is_ok (secret_options su ctx path m) \<longleftrightarrow> sf_provider f = ''config'' \<and> oss_bucket path \<noteq> [] \<and>
      nonempty_option input ''key_id'' \<and> nonempty_option input ''secret'' \<and> nonempty_option input ''endpoint''"
    if "is_oss_path su path" "\<not> is_s3_path su path"
    using oss_secret_ok [OF assms(5) that] r(1,2) provider by (auto simp: nonempty_option_def)
  moreover have "\<exists>m'. secret_options su ctx path m = Inr m' \<and> (\<forall>(k, name) \<in> set s3_option_names.
      map_of m' name = (case csi_options input k of Some v \<Rightarrow> Some (val_to_string v) | None \<Rightarrow> map_of m name))"
    if "is_s3_path su path" "\<not> is_oss_path su path"
  proof -
    have "secret_options su ctx path m = Inr (fold (\<lambda>(sk, key). AddOptionalSecretOption kv sk key) s3_option_names m)"
      using assms(5) that by (simp add: secret_options_def s3_option_names_def)
    moreover have "distinct (map snd s3_option_names)" by (simp add: s3_option_names_def)
    ultimately show ?thesis
      using AddOptionals_get [of s3_option_names _ _ kv m] r(1) by auto
  qed
  ultimately show ?thesis
    using r(1,3) by (simp add: redact_keys_def)
qed

definition demo_secret_input :: CreateSecretInput where
  "demo_secret_input = \<lparr>csi_scope = [], csi_provider = ''config'', csi_options = [''key_id'' \<mapsto> Value_string ''id'',
     ''secret'' \<mapsto> Value_string ''pw'', ''endpoint'' \<mapsto> Value_string ''host'']\<rparr>"

definition demo_secret_ctx :: client_ctx where
  "demo_secret_ctx = demo_ctx\<lparr>ctx_secret := (\<lambda>_. Some (fst (snd (CreatePaimonSecretFromConfig demo_secret_input))))\<rparr>"

theorem registered_secrets_serve_stores_witness:
  "is_ok (secret_options demo_string_util demo_secret_ctx ''oss://b/w'' []) \<and>
   \<not> is_ok (secret_options demo_string_util demo_secret_ctx ''oss:///w'' [])"
proof -
  have f: "secret_fun \<in> set (ld_secret_functions loaded)" by simp
  have input: "secret_input_for secret_fun demo_secret_input"
    by (simp add: secret_input_for_def secret_fun_def demo_secret_input_def)
  have call: "sf_function secret_fun demo_secret_input = (fst (CreatePaimonSecretFromConfig demo_secret_input),
      fst (snd (CreatePaimonSecretFromConfig demo_secret_input)), snd (snd (CreatePaimonSecretFromConfig demo_secret_input)))"
    by (simp add: secret_fun_def)
  have ctx: "ctx_secret demo_secret_ctx path = Some (fst (snd (CreatePaimonSecretFromConfig demo_secret_input)))" for path
    by (simp add: demo_secret_ctx_def)
  have "nonempty_option demo_secret_input ''key_id''" "nonempty_option demo_secret_input ''secret''"
    "nonempty_option demo_secret_input ''endpoint''" "sf_provider secret_fun = ''config''"
    by (simp_all add: nonempty_option_def demo_secret_input_def Value_string_def secret_fun_def)
  moreover have "is_oss_path demo_string_util ''oss://b/w''" "\<not> is_s3_path demo_string_util ''oss://b/w''"
    "is_oss_path demo_string_util ''oss:///w''" "\<not> is_s3_path demo_string_util ''oss:///w''"
    "oss_bucket ''oss://b/w'' = ''b''" "oss_bucket ''oss:///w'' = []"
    by (simp_all add: is_oss_path_def is_s3_path_def demo_string_util_def oss_bucket_def)
  ultimately show ?thesis
    using registered_secrets_serve_stores [OF f refl input call ctx, of demo_string_util "''oss://b/w''" "[]"]
      registered_secrets_serve_stores [OF f refl input call ctx, of demo_string_util "''oss:///w''" "[]"] by simp
qed

section \<open>Parameters of \<open>paimon_scan\<close>\<close>

text \<open>
  The scan of an attached table looks \<open>paimon_scan\<close> up by its three VARCHAR arguments and finds the first signature; what an AT
  clause passes to it is one of its named parameters, cast to the type declared for it.
\<close>

definition find_function :: "LogicalType list \<Rightarrow> TableFunctionSet \<Rightarrow> TableFunction option" where
  "find_function arguments fs = find (\<lambda>f. tf_arguments f = arguments) (fs_functions fs)"

lemma at_parameters_declared:
  assumes "at_parameters E A (Some at) params = Inr params'"
  obtains f key ty v where "GetPaimonScanFunction \<in> set (ld_table_functions loaded)"
    "find_function [VARCHAR, VARCHAR, VARCHAR] GetPaimonScanFunction = Some f" "tf_bind f = cb_PaimonScanBind"
    "map_of (tf_named_parameters f) key = Some ty" "CastAs A (at_value at) ty = Inr v" "params' = ci_put E key v params"
proof -
  let ?f = "paimon_scan_function [VARCHAR, VARCHAR, VARCHAR]"
  have f: "find_function [VARCHAR, VARCHAR, VARCHAR] GetPaimonScanFunction = Some ?f" "tf_bind ?f = cb_PaimonScanBind"
    "map_of (tf_named_parameters ?f) ''snapshot_from_id'' = Some BIGINT"
    "map_of (tf_named_parameters ?f) ''snapshot_from_timestamp'' = Some TIMESTAMP"
    by (simp_all add: find_function_def GetPaimonScanFunction_def paimon_scan_function_def new_table_function_def add_named_parameter_def
        ConfigurePaimonDistributedScan_def)
  have set: "GetPaimonScanFunction \<in> set (ld_table_functions loaded)" by (simp add: GetTableFunctions_def)
  consider v where "CastAs A (at_value at) BIGINT = Inr v" "params' = ci_put E ''snapshot_from_id'' v params"
    | v where "CastAs A (at_value at) TIMESTAMP = Inr v" "params' = ci_put E ''snapshot_from_timestamp'' v params"
    using assms by (auto simp: at_parameters_def Let_def res_bind_Inr split: if_splits)
  then show thesis
    by cases (use that [OF set f(1,2)] f(3,4) in blast)+
qed

end
