(* ===== verification/Paimon_Plain.thy ===== *)
theory Paimon_Plain
  imports Dist_Scan_Props Paimon_Snapshots
begin

text \<open>
  The build without \<^verbatim>\<open>PAIMON_VANE_DISTRIBUTED\<close>: the scan of \<^verbatim>\<open>src/src/paimon_storage/paimon_scan.cpp\<close> with the code of its \<open>#else\<close>
  branches and without that of its \<open>#ifdef\<close> branches, and the proof that it is the coordinator's scan of the other build.
  (The inserts and the catalog differ between the builds in what is left out only: the lock and the distributed operator.)

  In this build the bind data has no member \<open>distributed\<close> and the global state no \<open>distributed_worker\<close>: no definition
  here reads the first, and the second is left False. \<open>NextSplit\<close> and \<open>NextBatch\<close> are the same code in both builds.
\<close>

section \<open>The scan of the plain build\<close>

definition PaimonScanBind_plain :: "('w, 'm, 'd) env \<Rightarrow> ('w, 'p, 's) scan_api \<Rightarrow> Value list \<Rightarrow>
    (string \<times> Value) list \<Rightarrow> ('w, 'm, 'z, ('p, 's) PaimonScanBindData \<times> LogicalType list \<times> string list) sysP" where
  "PaimonScanBind_plain E S inputs scan_options =
     bindP (liftP (Parse (EndsWith S) (DB_SUFFIX S) inputs)) (\<lambda>path.
     bindP (liftP (expected_splits_option scan_options)) (\<lambda>expected.
     bindP (liftP (GetPaimonOptions (StringUtil E) (OptionKeys E) (Context E) (warehouse path) scan_options)) (\<lambda>opts.
     bindP (CreatePaimonCatalog E S (warehouse path) scan_options) (\<lambda>_.
     let ident = \<lparr>id_database = dbname path, id_table = tablename path\<rparr> in
     bindP (call_io (EvRead ''GetTableLocation'') (GetTableLocation E ident)) (\<lambda>location.
     bindP (call_io (EvRead ''LoadTableSchema'') (LoadTableSchema E ident)) (\<lambda>table_schema.
     case table_schema of
       None \<Rightarrow> throwP (IOException ''Paimon table schema is empty'')
     | Some ts \<Rightarrow>
     bindP (value_or_io (ts_GetJsonSchema ts)) (\<lambda>json.
     bindP (value_or_io (ts_GetArrowSchema ts)) (\<lambda>arrow_schema.
     case arrow_schema of
       None \<Rightarrow> throwP (IOException ''Paimon Arrow schema is empty'')
     | Some arrow \<Rightarrow>
     bindP (liftP (PopulateArrowTableSchema E arrow)) (\<lambda>arrow_table.
     bindP (record_event (EvRead ''schema release'')) (\<lambda>_.
     retP (empty_bind\<lparr>bd_path := path, bd_table_data_path := location, bd_paimon_options := opts,
         bd_debug_expected_splits := expected,
         bd_part_keys := (case ts_data ts of None \<Rightarrow> [] | Some data_schema \<Rightarrow> dsc_PartitionKeys data_schema),
         bd_table_schema_json := json, bd_arrow_table := arrow_table\<rparr>,
       arrow_types arrow_table, arrow_names arrow_table)))))))))))"

definition CreatePaimonScanSplits_plain :: "('w, 'p, 's) scan_api \<Rightarrow> ('p, 's) PaimonScanBindData \<Rightarrow>
    ('w, 'm, 'z, 's option list) sysP" where
  "CreatePaimonScanSplits_plain S bind =
     (let context = \<lparr>sx_path = bd_table_data_path bind, sx_options = bd_paimon_options bind, sx_predicate = bd_predicates bind,
            sx_partition_filter = (if bd_part_filters bind = [] then None else Some (bd_part_filters bind))\<rparr>
      in bindP (call_io (EvRead ''scan context'') (ScanContext_Finish S context)) (\<lambda>_.
         bindP (call_io (EvRead ''TableScan::Create'') (TableScan_Create S context)) (\<lambda>_.
         bindP (call_io (EvRead ''CreatePlan'') (CreatePlan S context)) (\<lambda>plan.
         case plan of None \<Rightarrow> throwP (UndefinedBehaviour ''null plan'') | Some p \<Rightarrow> retP (pl_Splits p)))))"

definition PaimonScanInitGlobal_plain :: "('w, 'p, 's) scan_api \<Rightarrow> ('p, 's) PaimonScanBindData \<Rightarrow> idx_t list \<Rightarrow>
    ('w, 'm, 'z, ('p, 's) PaimonScanGlobalState) sysP" where
  "PaimonScanInitGlobal_plain S bind column_ids =
     bindP (liftP (picked_predicate S bind column_ids)) (\<lambda>predicate.
     bindP (CreatePaimonScanSplits_plain S bind) (\<lambda>splits.
     bindP (checkP (case bd_debug_expected_splits bind of
           None \<Rightarrow> False | Some n \<Rightarrow> length splits \<noteq> unat n) (InvalidInputException ''split count'')) (\<lambda>_.
     retP \<lparr>gs_splits = splits, gs_split_index = 0, gs_path = bd_table_data_path bind, gs_arrow_table = bd_arrow_table bind,
       gs_predicates = predicate, gs_distributed_worker = False\<rparr>)))"

definition PaimonScanInitLocal_plain :: "('w, 'p, 's) scan_api \<Rightarrow> ('p, 's) PaimonScanBindData \<Rightarrow> idx_t list \<Rightarrow> nat \<Rightarrow>
    ('w, 'm, 'p, 's, unit) scanP" where
  "PaimonScanInitLocal_plain S bind column_ids i =
     bindP (liftP (read_columns S (length (arrow_types (bd_arrow_table bind))) column_ids)) (\<lambda>cols.
     bindP (set_scan_local i (\<lambda>_. new_local cols)) (\<lambda>_.
     bindP (NextSplit S bind i) (\<lambda>_. retP ())))"

definition emit_batch_plain :: "('w, 'p, 's) scan_api \<Rightarrow> nat \<Rightarrow> nat \<Rightarrow> ArrowBatch \<Rightarrow> ('w, 'm, 'p, 's, OutputChunk) scanP" where
  "emit_batch_plain S i columns b =
     bindP (getP (\<lambda>s. (sn_global s, sn_locals s i))) (\<lambda>(g, l).
     bindP (if ab_schema b = None then retP () else record_event (EvRead ''schema release'')) (\<lambda>_.
     case ab_array b of
       None \<Rightarrow> throwP (UndefinedBehaviour ''null Arrow array'')
     | Some a \<Rightarrow>
         bindP (set_scan_local i (\<lambda>l. l\<lparr>ls_chunk := True\<rparr>)) (\<lambda>_.
         if aa_length a < 0 then throwP (InternalException ''NumericCast'')
         else let rows = min (STANDARD_VECTOR_SIZE S) (nat (aa_length a)) in
           bindP (liftP (convert_columns S a (arrow_types (gs_arrow_table g))
             (\<lambda>k. if k < length (ls_read_column_ids l) then Some (ls_read_column_ids l ! k) else None) rows [0..<columns])) (\<lambda>cols.
           retP \<lparr>oc_cardinality = rows, oc_columns = cols\<rparr>))))"

definition PaimonScan_plain :: "('w, 'p, 's) scan_api \<Rightarrow> ('p, 's) PaimonScanBindData \<Rightarrow> nat \<Rightarrow> nat \<Rightarrow>
    ('w, 'm, 'p, 's, OutputChunk) scanP" where
  "PaimonScan_plain S bind columns i =
     bindP (getP (\<lambda>s. length (gs_splits (sn_global s)))) (\<lambda>n.
     bindP (NextBatch S bind i (n + 2)) (\<lambda>batch.
     case batch of
       None \<Rightarrow> retP \<lparr>oc_cardinality = 0, oc_columns = []\<rparr>
     | Some b \<Rightarrow> emit_batch_plain S i columns b))"

definition PaimonGetPartitionStats_plain :: "('w, 'p, 's) scan_api \<Rightarrow> ('p, 's) PaimonScanBindData \<Rightarrow>
    ('w, 'm, 'z, idx_t option) sysP" where
  "PaimonGetPartitionStats_plain S bind =
     (if bd_predicates bind \<noteq> None \<or> bd_part_filters bind \<noteq> [] then retP None
      else (\<lambda>s. case CreatePaimonScanSplits_plain S bind s of
         (Inl (UndefinedBehaviour m), t) \<Rightarrow> (Inl (UndefinedBehaviour m), t)
       | (Inl e, t) \<Rightarrow> (Inr None, t)
       | (Inr splits, t) \<Rightarrow>
           bindP (call (EvRead ''read context'') (ReadContext_Finish S (count_context bind))) (\<lambda>r.
           case r of Inl _ \<Rightarrow> retP None | Inr _ \<Rightarrow>
           bindP (call (EvRead ''TableRead::Create'') (TableRead_Create S (count_context bind))) (\<lambda>r.
           case r of Inl _ \<Rightarrow> retP None | Inr _ \<Rightarrow>
           bindP (call (EvRead ''CreateCountReader'') (CreateCountReader S (count_context bind) splits)) (\<lambda>r.
           case r of Inl _ \<Rightarrow> retP None | Inr h \<Rightarrow>
           bindP (call (EvRead ''CountRows'') (CountRows S h)) (\<lambda>r.
           case r of Inl _ \<Rightarrow> retP None | Inr n \<Rightarrow> retP (if n < 0 then None else Some (word_of_int n)))))) t))"

section \<open>It is the coordinator's scan\<close>

lemma splits_plain: "CreatePaimonScanSplits S (b\<lparr>bd_distributed := d\<rparr>) = CreatePaimonScanSplits_plain S b"
  by (rule ext) (simp add: CreatePaimonScanSplits_def CreatePaimonScanPlan_def CreatePaimonScanSplits_plain_def scan_context_def
      Let_def bindP_def split: sum.splits prod.splits)

lemma read_context_plain: "read_context (b\<lparr>bd_distributed := d\<rparr>) g l = read_context b g l"
  by (simp add: read_context_def)

lemma NextSplit_plain: "NextSplit S (b\<lparr>bd_distributed := d\<rparr>) i = NextSplit S b i"
  by (simp only: NextSplit_def read_context_plain)

lemma NextBatch_plain: "NextBatch S (b\<lparr>bd_distributed := d\<rparr>) i fuel = NextBatch S b i fuel"
  by (induction fuel) (simp_all only: NextBatch.simps NextSplit_plain)

lemma picked_plain: "picked_predicate S (b\<lparr>bd_distributed := d\<rparr>) cols = picked_predicate S b cols"
  by (simp add: picked_predicate_def split: option.split)

lemma count_context_plain: "count_context (b\<lparr>bd_distributed := d\<rparr>) = count_context b"
  by (simp add: count_context_def)

lemma InitGlobal_plain:
  "ds_phase d = COORDINATOR \<Longrightarrow> PaimonScanInitGlobal S (b\<lparr>bd_distributed := d\<rparr>) = PaimonScanInitGlobal_plain S b"
  by (rule ext) (simp add: PaimonScanInitGlobal_def PaimonScanInitGlobal_plain_def picked_plain splits_plain)

lemma InitLocal_plain:
  "ds_phase d = COORDINATOR \<Longrightarrow> PaimonScanInitLocal S (b\<lparr>bd_distributed := d\<rparr>) = PaimonScanInitLocal_plain S b"
  by (intro ext) (simp add: PaimonScanInitLocal_def PaimonScanInitLocal_plain_def column_count_def NextSplit_plain)

lemma emit_batch_eq: "\<not> gs_distributed_worker (sn_global s) \<Longrightarrow> emit_batch E S i columns b s = emit_batch_plain S i columns b s"
  by (simp add: emit_batch_def emit_batch_plain_def)

abbreviation worker :: "('w, 'm, 'p, 's) scan \<Rightarrow> bool" where
  "worker s \<equiv> gs_distributed_worker (sn_global s)"

lemma keeps_worker_split: "keeps worker (NextSplit S b i)"
  unfolding NextSplit_def case_prod_beta by (intro keeps_intros) auto

lemma keeps_worker_batch: "keeps worker (NextBatch S b i fuel)"
proof (induction fuel)
  case (Suc fuel)
  then show ?case
    unfolding NextBatch.simps ReleaseCurrentBatch_def by (intro keeps_intros keeps_worker_split) auto
qed (simp only: NextBatch.simps keeps_simple)

lemma PaimonScan_plain_eq:
  assumes "\<not> worker s"
  shows "PaimonScan E S (b\<lparr>bd_distributed := d\<rparr>) columns i s = PaimonScan_plain S b columns i s"
proof -
  let ?n = "length (gs_splits (sn_global s)) + 2"
  obtain r t where run: "NextBatch S b i ?n s = (r, t)" by fastforce
  then have "\<not> worker t" using keepsD [OF keeps_worker_batch run] assms by simp
  then show ?thesis
    using run by (cases r) (auto simp: PaimonScan_def PaimonScan_plain_def NextBatch_plain bindP_def emit_batch_eq
        simp del: NextBatch.simps split: option.split)
qed

lemma Stats_plain:
  assumes "ds_phase d = COORDINATOR"
  shows "PaimonGetPartitionStats S (b\<lparr>bd_distributed := d\<rparr>) = PaimonGetPartitionStats_plain S b"
  unfolding PaimonGetPartitionStats_def PaimonGetPartitionStats_plain_def splits_plain count_context_plain using assms by simp

text \<open>
  \<open>mirrors Q m n\<close>: \<open>m\<close> throws what \<open>n\<close> throws, and returns a result that \<open>Q\<close> relates to that of \<open>n\<close>, with the same trace
  and a world that may differ (\<open>m\<close> draws an identifier and \<open>n\<close> does not).
\<close>

fun mirrored :: "('a \<Rightarrow> 'b \<Rightarrow> bool) \<Rightarrow> (error + 'a) \<times> ('w, 'm, 'z) sys_scheme \<Rightarrow> (error + 'b) \<times> ('w, 'm, 'z) sys_scheme \<Rightarrow> bool" where
  "mirrored Q (Inr y, u) (Inr x, t) \<longleftrightarrow> Q y x \<and> (\<exists>w. u = t\<lparr>sys_world := w\<rparr>)"
| "mirrored Q (Inl e', u) (Inl e, t) \<longleftrightarrow> e' = e \<and> u = t"
| "mirrored Q _ _ \<longleftrightarrow> False"

definition mirrors :: "('a \<Rightarrow> 'b \<Rightarrow> bool) \<Rightarrow> (('w, 'm, 'z) sys_scheme, 'a) proc \<Rightarrow> (('w, 'm, 'z) sys_scheme, 'b) proc \<Rightarrow> bool" where
  "mirrors Q m n \<longleftrightarrow> (\<forall>s. mirrored Q (m s) (n s))"

lemma mirrors_bindP: "(\<And>x. mirrors Q (f x) (g x)) \<Longrightarrow> mirrors Q (bindP m f) (bindP m g)"
  by (auto simp: mirrors_def bindP_def split: prod.splits sum.splits)

lemma mirrors_throwP: "mirrors Q (throwP e) (throwP e)"
  by (simp add: mirrors_def)

lemma mirrors_option: "mirrors Q m n \<Longrightarrow> (\<And>x. mirrors Q (f x) (g x)) \<Longrightarrow>
    mirrors Q (case q of None \<Rightarrow> m | Some x \<Rightarrow> f x) (case q of None \<Rightarrow> n | Some x \<Rightarrow> g x)"
  by (cases q) simp_all

definition coordinator_copy :: "('p, 's) PaimonScanBindData \<times> 'a \<Rightarrow> ('p, 's) PaimonScanBindData \<times> 'a \<Rightarrow> bool" where
  "coordinator_copy x y \<longleftrightarrow> snd x = snd y \<and> (\<exists>d. ds_phase d = COORDINATOR \<and> fst x = (fst y)\<lparr>bd_distributed := d\<rparr>)"

lemma mirrors_identify:
  fixes E :: "('w, 'm, 'd) env"
  assumes "ds_phase (bd_distributed b) = COORDINATOR" "ds_split_set_id (bd_distributed b) = []"
    "b = c\<lparr>bd_distributed := bd_distributed b\<rparr>"
  shows "mirrors coordinator_copy
    (bindP (InitializePaimonDistributedScanBind E b) (\<lambda>b. bindP (record_event ev) (\<lambda>_. retP (b, x))))
    (bindP (record_event ev) (\<lambda>_. retP (c, x)))"
proof -
  have "coordinator_copy (b\<lparr>bd_distributed := bd_distributed b\<lparr>ds_split_set_id := u\<rparr>\<rparr>, x) (c, x)" for u
    unfolding coordinator_copy_def
    by (simp, rule exI [of _ "bd_distributed b\<lparr>ds_split_set_id := u\<rparr>"]) (subst assms(3), simp add: assms(1))
  moreover have "\<exists>w'. s\<lparr>sys_world := w, sys_trace := ev # sys_trace s\<rparr> = s\<lparr>sys_trace := ev # sys_trace s, sys_world := w'\<rparr>"
    for s :: "('w, 'm, 'z) sys_scheme" and w
    by (rule exI [of _ w]) simp
  ultimately show ?thesis
    using assms(2) by (simp add: mirrors_def InitializePaimonDistributedScanBind_def bindP_def split: prod.split) blast
qed

lemma PaimonScanBind_plain_mirrors:
  "mirrors coordinator_copy (PaimonScanBind E S inputs opts) (PaimonScanBind_plain E S inputs opts)"
  unfolding PaimonScanBind_def PaimonScanBind_plain_def Let_def
  by (intro mirrors_bindP mirrors_throwP mirrors_option mirrors_identify)
    (simp_all add: schema_bind_def empty_bind_def initial_scan_state_def split: option.split)

text \<open>Every step of a scan in one process, with bind data \<open>c\<close> in one build and \<open>b\<close> in the other.\<close>

definition same_scan :: "('w, 'm, 'd) env \<Rightarrow> ('w, 'p, 's) scan_api \<Rightarrow> ('p, 's) PaimonScanBindData \<Rightarrow> ('p, 's) PaimonScanBindData \<Rightarrow> bool" where
  "same_scan E S c b \<longleftrightarrow>
     (\<forall>cols u. PaimonScanInitGlobal S c cols (u :: ('w, 'm) sys) = PaimonScanInitGlobal_plain S b cols u) \<and>
     (\<forall>cols i u. PaimonScanInitLocal S c cols i (u :: ('w, 'm, 'p, 's) scan) = PaimonScanInitLocal_plain S b cols i u) \<and>
     (\<forall>columns i u. \<not> gs_distributed_worker (sn_global (u :: ('w, 'm, 'p, 's) scan)) \<longrightarrow>
        PaimonScan E S c columns i u = PaimonScan_plain S b columns i u) \<and>
     (\<forall>u. PaimonGetPartitionStats S c (u :: ('w, 'm) sys) = PaimonGetPartitionStats_plain S b u)"

lemma same_scanI: "ds_phase d = COORDINATOR \<Longrightarrow> same_scan E S (b\<lparr>bd_distributed := d\<rparr>) b"
  by (simp add: same_scan_def InitGlobal_plain InitLocal_plain Stats_plain PaimonScan_plain_eq)

text \<open>
  C25. A scan is the same in both builds: without \<^verbatim>\<open>PAIMON_VANE_DISTRIBUTED\<close> a bind throws what the coordinator's bind throws, and
  otherwise returns the same bind data but for the member \<open>distributed\<close>, in whose phase every step of a scan in this
  process, whatever filters were pushed into the bind in between, is the plain build's: the global state, the local
  states, every batch of every thread, and the statistics.
\<close>

theorem plain_build_same_scan:
  assumes "PaimonScanBind_plain E S inputs opts s = (r, t)"
  shows "case r of
      Inl e \<Rightarrow> PaimonScanBind E S inputs opts s = (Inl e, t)
    | Inr (b, types, names) \<Rightarrow> \<exists>d w. PaimonScanBind E S inputs opts s = (Inr (b\<lparr>bd_distributed := d\<rparr>, types, names), t\<lparr>sys_world := w\<rparr>) \<and>
       (\<forall>p pf. same_scan E S (b\<lparr>bd_predicates := p, bd_part_filters := pf, bd_distributed := d\<rparr>)
          (b\<lparr>bd_predicates := p, bd_part_filters := pf\<rparr>))"
proof (cases r)
  case (Inl e)
  then show ?thesis
    using spec [OF PaimonScanBind_plain_mirrors [unfolded mirrors_def, of E S inputs opts], of s] assms
    by (cases "PaimonScanBind E S inputs opts s"; cases "fst (PaimonScanBind E S inputs opts s)") auto
next
  case (Inr x)
  obtain b types names where x: "x = (b, types, names)" by (cases x)
  obtain y u where run: "PaimonScanBind E S inputs opts s = (y, u)" by fastforce
  then obtain c w where c: "y = Inr c" "u = t\<lparr>sys_world := w\<rparr>" "coordinator_copy c (b, types, names)"
    using spec [OF PaimonScanBind_plain_mirrors [unfolded mirrors_def, of E S inputs opts], of s] assms Inr x by (cases y) auto
  then obtain d where d: "ds_phase d = COORDINATOR" "c = (b\<lparr>bd_distributed := d\<rparr>, types, names)"
    by (cases c) (auto simp: coordinator_copy_def)
  have "same_scan E S (b\<lparr>bd_predicates := p, bd_part_filters := pf, bd_distributed := d\<rparr>)
      (b\<lparr>bd_predicates := p, bd_part_filters := pf\<rparr>)" for p pf
    using same_scanI [OF d(1)] .
  then show ?thesis
    using run c(1,2) d(2) by (auto simp: Inr x)
qed

definition plain_sys :: "(nat, nat) sys" where
  "plain_sys = \<lparr>sys_world = 0, sys_trace = []\<rparr>"

definition plain_inputs :: "Value list" where
  "plain_inputs = [Value_string ''/data'', Value_string ''db'', Value_string ''t'']"

lemma demo_bind_plain: "\<exists>b types names t. PaimonScanBind_plain demo_env tiny_scan_api plain_inputs [] plain_sys = (Inr (b, types, names), t)"
proof -
  have opts: "GetPaimonOptions demo_string_util demo_keys demo_ctx ''/data'' [] =
      Inr (map_emplace ''batch'' (to_string 8) (map_put ''fs'' ''local'' []))"
    by (simp add: GetPaimonOptions_def metastore_options_def demo_string_util_def format_option_def secret_options_def demo_ctx_def
        snapshot_options_def demo_keys_def file_system_option_def is_oss_path_def is_s3_path_def)
  show ?thesis
    by (simp add: PaimonScanBind_plain_def plain_inputs_def Parse_def Value_string_def blank_value_def expected_splits_option_def
        CreatePaimonCatalog_def opts tiny_scan_api_def call_io_def call_def value_or_io_def demo_ok_def demo_schema_def Let_def bindP_def plain_sys_def)
qed

theorem plain_build_same_scan_witness:
  "\<exists>b types names d t w. PaimonScanBind_plain demo_env tiny_scan_api plain_inputs [] plain_sys = (Inr (b, types, names), t) \<and>
    PaimonScanBind demo_env tiny_scan_api plain_inputs [] plain_sys = (Inr (b\<lparr>bd_distributed := d\<rparr>, types, names), t\<lparr>sys_world := w\<rparr>) \<and>
    same_scan demo_env tiny_scan_api (b\<lparr>bd_predicates := Some 3, bd_part_filters := [], bd_distributed := d\<rparr>)
      (b\<lparr>bd_predicates := Some 3, bd_part_filters := []\<rparr>)"
proof -
  obtain b types names t where run: "PaimonScanBind_plain demo_env tiny_scan_api plain_inputs [] plain_sys = (Inr (b, types, names), t)"
    using demo_bind_plain by blast
  show ?thesis
    using plain_build_same_scan [OF run] run by fastforce
qed

end
