(* ===== verification/Spec2Isabelle.thy ===== *)
theory Spec2Isabelle
  imports Query_Demo Plan_Correct Dist_Scan_Props Native_Props Catalog_Props Snapshots_Props Entry_Props
    Attach_Props Registration_Props Paimon_Plain
begin

text \<open>
  \<^bold>\<open>duckdb-paimon\<close>: a DuckDB extension that attaches an Apache Paimon warehouse as a catalog, scans its tables, inserts
  into them, and, in builds with \<^verbatim>\<open>PAIMON_VANE_DISTRIBUTED\<close>, does both as distributed plans. This development
  models the extension's own code under \<^verbatim>\<open>src/src/\<close> with \<^verbatim>\<open>PAIMON_VANE_DISTRIBUTED\<close> defined, and the scan also without it.

  \<^bold>\<open>The parts and how they interact.\<close> Loading the extension registers its table functions, secrets, write operators and storage
  with DuckDB and Vane. A user attaches a warehouse: the options become a map for the Paimon library
  (\<^verbatim>\<open>GetPaimonOptions\<close>) and a catalog whose schema and table sets are caches of the warehouse. A query on a table goes
  through the table entry (\<^verbatim>\<open>GetScanFunction\<close>), or a call of \<^verbatim>\<open>paimon_scan\<close>, to a bind; the optimizer offers the
  filters, some of which become Paimon predicates and partition filters; execution plans splits once and threads
  take splits from a shared counter. An INSERT becomes \<^verbatim>\<open>PhysicalPaimonInsert\<close>, which runs either in this process (one
  writer per thread, one commit) or as a distributed write: the coordinator describes the target in a bind, workers
  write under it and return commit messages in fragments, and the coordinator commits them once or has them aborted.
  A distributed scan sends a bind and split envelopes to workers the same way.

  \<^bold>\<open>Theories and sources\<close> (files under \<^verbatim>\<open>src/src/paimon_storage/\<close> unless said otherwise):

  \<^item> \<open>Paimon_Prelude\<close>: results \<open>error + 'a\<close>, state-passing procedures (\<open>bindP\<close>, \<open>liftP\<close>, \<open>rethrowP\<close>), the rules \<open>keeps\<close>
    for what a procedure leaves alone, ordered maps (\<open>std::map\<close>, locale \<open>ordered_map\<close>), the locale \<open>wire_format\<close> of an encoder
    and its decoder, \<open>std::to_string\<close>.
  \<^item> \<open>Paimon_Types\<close>: \<^verbatim>\<open>paimon_type_utils.cpp\<close>, DuckDB types and values to Paimon's, timestamps and decimals at their width;
    \<open>Paimon_Values\<close>: the SQL values that DuckDB constants and Paimon literals denote, one constructor per type, on which the conversion is exact.
  \<^item> \<open>Paimon_Bind\<close>: \<^verbatim>\<open>paimon_functions.cpp\<close> (\<^verbatim>\<open>PaimonTablePath::Parse\<close>) and the bind data of \<^verbatim>\<open>include/paimon_scan.hpp\<close>.
  \<^item> \<open>Paimon_Options\<close>: \<^verbatim>\<open>PaimonCatalog::GetPaimonOptions\<close> and its helpers in \<^verbatim>\<open>paimon_catalog.cpp\<close>.
  \<^item> \<open>Paimon_Api\<close>, \<open>Env_Instance\<close>: the parameters (below), the trace of API calls, the rules \<open>emits\<close> for what a
    procedure adds to it; an instance of the parameters on which every law holds.
  \<^item> \<open>Trace_Lock\<close>: the discipline of the catalog mutex as a monitor over the trace.
  \<^item> \<open>Paimon_Pushdown\<close>, \<open>Pushdown_Correct\<close>: the filter pushdown of \<^verbatim>\<open>paimon_scan.cpp\<close>, and its meaning against SQL's;
    \<open>Pushdown_Demo\<close>: a table with columns of two types and a builder whose predicates are read as SQL reads them.
  \<^item> \<open>Paimon_Scan\<close>, \<open>Scan_Correct\<close>: bind, planning, \<^verbatim>\<open>PaimonScan\<close> and statistics in \<^verbatim>\<open>paimon_scan.cpp\<close>; a scan is a
    sequence of calls of threads on a shared global state. \<open>Query_Correct\<close>, \<open>Query_Demo\<close>: a query from its filters to its rows.
  \<^item> \<open>Dist_Scan\<close>, \<open>Dist_Scan_Correct\<close>, \<open>Dist_Scan_Props\<close>: \<^verbatim>\<open>paimon_distributed_scan.cpp\<close>.
  \<^item> \<open>Paimon_Catalog\<close>, \<open>Catalog_Correct\<close>, \<open>Catalog_Props\<close>: \<^verbatim>\<open>paimon_table_set.cpp\<close>, \<^verbatim>\<open>paimon_schema_entry.cpp\<close>,
    \<^verbatim>\<open>paimon_schema_set.cpp\<close> and the catalog operations of \<^verbatim>\<open>paimon_catalog.cpp\<close>. Schema entries are addresses in a heap.
  \<^item> \<open>Dist_Transport\<close>: the wire formats, identities and validation of \<^verbatim>\<open>paimon_distributed_insert.cpp\<close>; \<open>Dist_Worker\<close>: its worker
    callbacks; \<open>Dist_Coordinator\<close>: \<^verbatim>\<open>PhysicalPaimonInsert\<close> as a distributed write. \<open>Commit_Decode\<close>, \<open>Coordinator_Correct\<close>,
    \<open>Write_Correct\<close>, \<open>Write_Demo\<close> and \<open>Plan_Correct\<close> hold the proofs and a complete run.
  \<^item> \<open>Native_Insert\<close>, \<open>Native_Correct\<close>, \<open>Native_Props\<close>: \<^verbatim>\<open>paimon_insert.cpp\<close>, the insert inside one process, with its own loops
    over columns, keys and groups, proved equal to the worker's. A \<open>Combine\<close> call is one step of a run.
  \<^item> \<open>Paimon_Snapshots\<close>, \<open>Snapshots_Props\<close>: \<^verbatim>\<open>paimon_snapshots.cpp\<close>.
  \<^item> \<open>Paimon_Table_Entry\<close>, \<open>Entry_Props\<close>: \<^verbatim>\<open>paimon_table_entry.cpp\<close>, \<^verbatim>\<open>paimon_transaction_manager.cpp\<close> and the construction of secrets
    in \<^verbatim>\<open>paimon_extension.cpp\<close> (beside it in \<^verbatim>\<open>src/src/\<close>).
  \<^item> \<open>Paimon_Attach\<close>, \<open>Attach_Props\<close>: \<^verbatim>\<open>PaimonCatalog::Attach\<close>, constructors and accessors (\<^verbatim>\<open>include/paimon_catalog.hpp\<close>), the methods
    that only throw, and any sequence of the methods of a catalog, its schemas and tables.
  \<^item> \<open>Paimon_Registration\<close>, \<open>Registration_Props\<close>: \<^verbatim>\<open>LoadInternal\<close> of \<^verbatim>\<open>paimon_extension.cpp\<close> and what it registers from
    \<^verbatim>\<open>paimon_functions.cpp\<close>, \<^verbatim>\<open>paimon_scan.cpp\<close>, \<^verbatim>\<open>paimon_snapshots.cpp\<close> and the distributed files, as data.
  \<^item> \<open>Paimon_Plain\<close>: the scan of the build without \<^verbatim>\<open>PAIMON_VANE_DISTRIBUTED\<close>, and its equivalence with the coordinator's.

  \<^bold>\<open>State and operations.\<close> Each operation of the code is one definition with the code's name (a suffix or prefix where a name
  is taken): a procedure on a record of the state it shares, with its guards and throws in the code's order. \<open>sys\<close> is the state
  of the world outside and the trace; \<open>catalog\<close> extends it by the caches, \<open>coord\<close> by the coordinator's insert, \<open>native\<close> and \<open>worker\<close>
  by their sink states, \<open>scan\<close> by the states of a scan. Interleavings of threads are lists of operations
  with inductive runs (\<open>worker_reach\<close>, \<open>native_run\<close>, \<open>catalog_reach\<close>, \<open>attached_run\<close> and their kin); failures leave the state as the code
  leaves it. Undefined behaviour of C++ (a null dereference, signed overflow) is an error of its own.

  \<^bold>\<open>Parameters.\<close> The Paimon library, DuckDB and the Vane runtime are not in the repository. They are the records \<open>env\<close>,
  \<open>scan_api\<close>, \<open>predicate_builder\<close>, \<open>snapshots_api\<close> and \<open>table_api\<close>: one field per function called, over a world of
  arbitrary type. Properties that rely on documented behaviour name it: \<open>serde_laws\<close> (a property read back is the one written),
  \<open>codec_laws\<close> and \<open>split_codec_laws\<close> (Paimon's serialisation of messages and splits), \<open>split_laws\<close> (\<open>StringUtil::Split\<close>),
  \<open>vane_laws\<close> (task results), \<open>reader_laws\<close> (a reader returns the batches of its split
  under its read context in order, then the end), \<open>predicate_laws\<close> and \<open>flip_laws\<close> (a built predicate means its SQL operator on the
  values of its column), \<open>partition_laws\<close> (a partition value prints as the constant it equals), \<open>ci_laws\<close> (equality
  up to case is an equivalence), \<open>option_key_laws\<close> (Paimon's option names are distinct), 
  \<open>plan_laws\<close> and \<open>read_laws\<close> (a plan or a reader skips only rows its context does not admit), \<open>pick_laws\<close> (a predicate picked
  for projected columns holds on the projection of a row the original holds on), \<open>registry_laws\<close> (a plan is resolved in the
  registry), \<open>secret_input_for\<close> (CREATE SECRET takes the named parameters only). \<open>demo_env\<close>, \<open>tiny_scan_api\<close> and
  their kin are instances on which the laws are proved and the witnesses are computed.

  \<^bold>\<open>What is shown.\<close>
  \<^item> Distributed writes: a finalization commits exactly the messages of the workers' runs, once, and returns their rows; no sequence
    of calls commits twice; failures abort what was decoded; the target is read again before a commit; the mutex is used correctly; a
    worker's messages are published or aborted, never both; its rows and partitions are those of its chunks; binds and envelopes
    survive their wire formats; CTAS definitions do not change between planning and preparation.
  \<^item> Native inserts: one commit of all prepared messages, the right row count, the same batches as a worker's.
  \<^item> Scans: every batch is delivered once however threads interleave, and every call ends; the same across workers; assignments are
    all or nothing; only portable options leave the process; estimates are exact.
  \<^item> Queries: the delivered rows that satisfy the filters are those of the table that do, with their multiplicity, also where
    the predicate is remapped to projected columns.
  \<^item> Pushdown keeps every row that SQL keeps, for filters that compare columns with constants of their types and outside a NOT over
    a conversion that is not exact. A NOT over a partly converted conjunction is shown to lose rows, and a NULL that the loop
    over an IN or NOT IN list reaches to fail the planning.
  \<^item> Catalog: the sets stay well-formed under any operations, and a table set refines a map on names up to case; an AT clause selects
    its snapshot; the option map is complete and valid.
  \<^item> Attaching: a catalog keeps its settings and its sets are well-formed from the start; a read-only or remote one plans no write.
  \<^item> Loading: a distributed plan finds registered callbacks that accept it; the secrets that can be created serve their stores.
  \<^item> The scan is the same in both builds.
  \<^item> Snapshots: typed rows, a bind that survives transport, paging that ends with all rows.
  \<^item> Types and paths: exact timestamps, identifiers in range, paths parsed back.

  \<^bold>\<open>Interfaces.\<close> The locales \<open>ordered_map\<close>, \<open>wire_format\<close>, \<open>ci_map\<close> and \<open>state_preorder\<close> are contracts between components, each
  interpreted on the model's own definitions: the ordered maps; the insert transport, the commit envelope and the split envelope; the
  maps of table and schema sets; and the relations \<open>within\<close>, \<open>grows\<close>, \<open>extends\<close>, \<open>same_settings\<close> and \<open>outside\<close> that operations obey.

  \<^bold>\<open>Bounds and fuel.\<close> \<open>PaimonScan\<close>'s loop has fuel, two more than there are splits, and is proved never to run out whatever the
  API returns (each iteration but the last takes a split); \<open>snapshot_pages\<close>, the caller's loop, is proved to need at most one call more than there are rows. All other loops are
  structural or have a termination proof. Counters are words of their width, so \<open>fetch_add\<close> and row counts wrap as in the code.

  \<^bold>\<open>Annotations.\<close> The trace holds the API calls of the code; \<open>EvPrepared\<close>, \<open>EvAbortRequest\<close> and \<open>EvPublish\<close> mark the points where messages
  come from a writer, are handed to an abort and leave in a fragment, and \<open>EvLock\<close> and \<open>EvUnlock\<close> the scope of a lock guard.

  \<^bold>\<open>Not modelled.\<close> The contents of Arrow conversions (parameters), memory exhaustion, the interleaving inside one operation of a set (its
  \<open>entry_lock\<close> makes it one step), what DuckDB and Vane do with a registration beyond the named laws, operator plumbing (names, types,
  pipelines), forward declarations, and the repository's tests, scripts, build files and documentation. Of the build without
  \<^verbatim>\<open>PAIMON_VANE_DISTRIBUTED\<close> only the scan is written out: elsewhere it lacks the lock, the registrations and the operator of the other.
\<close>

end
